(* ===== verification/Js_Prelude.thy ===== *)
theory Js_Prelude
  imports Complex_Main "HOL-Library.Multiset"
begin

text \<open>
  Shared vocabulary of the development: JavaScript strings (lists of UTF-16 code units), the
  \<open>String.prototype\<close> operations the sources use, decimal printing and reading of naturals, the
  insertion-ordered \<open>Set\<close> and object stores, and the stable array sort.  Each operation comes with
  the equations the component theories rewrite with; they are collected in \<open>js_str\<close>
  (strings) and \<open>js_store\<close> (keyed stores).
\<close>

named_theorems js_str \<open>string operations\<close>
named_theorems js_store \<open>keyed stores\<close>

section \<open>Strings\<close>

text \<open>A JavaScript string is a sequence of UTF-16 code units; \<open>js\<close> turns an ASCII literal into one.\<close>

type_synonym jschar = nat
type_synonym jsstr = "jschar list"

definition js :: "string \<Rightarrow> jsstr" where
  "js s = map of_char s"

lemma js_Nil [simp]: "js [] = []"
  by (simp add: js_def)

lemma js_Cons: "js (c # s) = of_char c # js s"
  by (simp add: js_def)

lemma js_append: "js (s @ t) = js s @ js t"
  by (simp add: js_def)

lemma js_inj [simp]: "js s = js t \<longleftrightarrow> s = t"
  unfolding js_def by (rule inj_map_eq_map) (simp add: inj_def)

lemma js_eq_Nil [simp]: "js s = [] \<longleftrightarrow> s = []" "[] = js s \<longleftrightarrow> s = []"
  by (auto simp: js_def)

text \<open>The code points that \<open>trim\<close> removes: WhiteSpace and LineTerminator of ECMA-262.\<close>

definition is_ws :: "jschar \<Rightarrow> bool" where
  "is_ws c \<longleftrightarrow> c \<in> {9, 10, 11, 12, 13, 32, 160, 5760, 8232, 8233, 8239, 8287, 12288, 65279} \<or>
     (8192 \<le> c \<and> c \<le> 8202)"

text \<open>For evaluation: comparisons on binary integers instead of successor naturals.\<close>

lemma is_ws_code [code]:
  "is_ws c \<longleftrightarrow> (let i = int c in
     9 \<le> i \<and> i \<le> 13 \<or> i = 32 \<or> i = 160 \<or> i = 5760 \<or> i = 8232 \<or> i = 8233 \<or> i = 8239 \<or> i = 8287 \<or>
     i = 12288 \<or> i = 65279 \<or> 8192 \<le> i \<and> i \<le> 8202)"
  by (auto simp: is_ws_def Let_def)

definition trim_start :: "jsstr \<Rightarrow> jsstr" where
  "trim_start = dropWhile is_ws"

definition trim_end :: "jsstr \<Rightarrow> jsstr" where
  "trim_end s = rev (dropWhile is_ws (rev s))"

definition trim :: "jsstr \<Rightarrow> jsstr" where
  "trim s = trim_end (trim_start s)"

definition is_digit :: "jschar \<Rightarrow> bool" where
  "is_digit c \<longleftrightarrow> 48 \<le> c \<and> c \<le> 57"

text \<open>\<open>s.split(c)\<close> for a one-unit separator, \<open>arr.join(sep)\<close>, \<open>includes\<close>, \<open>startsWith\<close>.\<close>

fun split_on :: "jschar \<Rightarrow> jsstr \<Rightarrow> jsstr list" where
  "split_on c [] = [[]]"
| "split_on c (x # xs) =
     (if x = c then [] # split_on c xs
      else (case split_on c xs of [] \<Rightarrow> [[x]] | s # ss \<Rightarrow> (x # s) # ss))"

fun join :: "jsstr \<Rightarrow> jsstr list \<Rightarrow> jsstr" where
  "join sep [] = []"
| "join sep [s] = s"
| "join sep (s # t # ss) = s @ sep @ join sep (t # ss)"

definition starts_with :: "jsstr \<Rightarrow> jsstr \<Rightarrow> bool" where
  "starts_with s p \<longleftrightarrow> take (length p) s = p"

definition ends_with :: "jsstr \<Rightarrow> jsstr \<Rightarrow> bool" where
  "ends_with s p \<longleftrightarrow> starts_with (rev s) (rev p)"

fun str_includes :: "jsstr \<Rightarrow> jsstr \<Rightarrow> bool" where
  "str_includes [] sub = (sub = [])"
| "str_includes (c # s) sub = (starts_with (c # s) sub \<or> str_includes s sub)"

text \<open>Decimal printing and reading of naturals.\<close>

fun nat_str :: "nat \<Rightarrow> jsstr" where
  "nat_str n = (if n < 10 then [48 + n] else nat_str (n div 10) @ [48 + n mod 10])"

declare nat_str.simps [simp del]

definition digits_val :: "jsstr \<Rightarrow> nat" where
  "digits_val s = foldl (\<lambda>a c. 10 * a + (c - 48)) 0 s"

subsection \<open>Trimming\<close>

lemma is_ws_not_digit: "is_digit c \<Longrightarrow> \<not> is_ws c"
  by (auto simp: is_digit_def is_ws_def)

lemma trim_start_hd: "trim_start s = [] \<or> \<not> is_ws (hd (trim_start s))"
  using hd_dropWhile [of is_ws s] by (auto simp: trim_start_def)

lemma trim_end_last: "trim_end s = [] \<or> \<not> is_ws (last (trim_end s))"
  using hd_dropWhile [of is_ws "rev s"] by (auto simp: trim_end_def last_rev)

lemma trim_start_id [js_str]: "s = [] \<or> \<not> is_ws (hd s) \<Longrightarrow> trim_start s = s"
  by (cases s) (auto simp: trim_start_def)

lemma trim_end_id [js_str]: "s = [] \<or> \<not> is_ws (last s) \<Longrightarrow> trim_end s = s"
  by (cases s rule: rev_cases) (auto simp: trim_end_def)

lemma trim_end_prefix: "\<exists>t. s = trim_end s @ t"
proof -
  have "rev s = takeWhile is_ws (rev s) @ dropWhile is_ws (rev s)" by simp
  then have "s = rev (dropWhile is_ws (rev s)) @ rev (takeWhile is_ws (rev s))"
    by (metis rev_append rev_rev_ident)
  then show ?thesis unfolding trim_end_def by blast
qed

lemma trim_hd: "trim s = [] \<or> \<not> is_ws (hd (trim s))"
proof -
  obtain t where "trim_start s = trim s @ t"
    unfolding trim_def using trim_end_prefix by blast
  with trim_start_hd [of s] show ?thesis by (cases "trim s") auto
qed

lemma trim_last: "trim s = [] \<or> \<not> is_ws (last (trim s))"
  unfolding trim_def by (rule trim_end_last)

lemma trim_id [js_str]: "\<lbrakk>s = [] \<or> \<not> is_ws (hd s); s = [] \<or> \<not> is_ws (last s)\<rbrakk> \<Longrightarrow> trim s = s"
  by (simp add: trim_def trim_start_id trim_end_id)

lemma trim_trim [simp]: "trim (trim s) = trim s"
  by (rule trim_id [OF trim_hd trim_last])

lemma trim_Nil [simp]: "trim [] = []"
  by (simp add: trim_def trim_start_def trim_end_def)

lemma trim_no_ws: "(\<forall>c \<in> set s. \<not> is_ws c) \<Longrightarrow> trim s = s"
  by (intro trim_id) (auto simp: hd_in_set last_in_set)

lemma set_trim_subset: "set (trim s) \<subseteq> set s"
  by (auto simp: trim_def trim_end_def trim_start_def dest!: set_dropWhileD)

subsection \<open>Splitting and joining\<close>

lemma split_on_not_Nil [simp]: "split_on c s \<noteq> []"
  by (induction s) (auto split: list.splits)

lemma split_on_no_sep [js_str]: "c \<notin> set s \<Longrightarrow> split_on c s = [s]"
  by (induction s) auto

lemma split_on_append_sep [js_str]: "c \<notin> set s \<Longrightarrow> split_on c (s @ c # t) = s # split_on c t"
  by (induction s) auto

lemma split_on_elems: "t \<in> set (split_on c s) \<Longrightarrow> c \<notin> set t \<and> set t \<subseteq> set s"
proof (induction s arbitrary: t)
  case Nil
  then show ?case by simp
next
  case (Cons x xs)
  then show ?case
    by (fastforce split: if_splits list.splits)
qed

lemma join_split [simp]: "join [c] (split_on c s) = s"
proof (induction s)
  case Nil
  show ?case by simp
next
  case (Cons x xs)
  obtain t ts where st: "split_on c xs = t # ts" by (meson list.exhaust split_on_not_Nil)
  show ?case
    by (cases ts) (use Cons st in auto)
qed

text \<open>Splitting undoes joining when no piece holds the separator: the list round trip.\<close>

lemma split_join [js_str]:
  "\<lbrakk>ss \<noteq> []; \<forall>s \<in> set ss. c \<notin> set s\<rbrakk> \<Longrightarrow> split_on c (join [c] ss) = ss"
  by (induction "[c]" ss rule: join.induct) (auto simp: split_on_no_sep split_on_append_sep)

lemma set_join: "set (join sep ss) \<subseteq> (\<Union>s \<in> set ss. set s) \<union> set sep"
  by (induction sep ss rule: join.induct) auto

subsection \<open>Decimal numerals\<close>

lemma digits_val_Nil [simp]: "digits_val [] = 0"
  by (simp add: digits_val_def)

lemma digits_val_snoc [simp]: "digits_val (s @ [c]) = 10 * digits_val s + (c - 48)"
  by (simp add: digits_val_def)

lemma nat_str_digits: "\<forall>c \<in> set (nat_str n). is_digit c"
proof (induction n rule: nat_str.induct)
  case (1 n)
  then show ?case by (subst nat_str.simps) (auto simp: is_digit_def)
qed

lemma nat_str_not_Nil [simp]: "nat_str n \<noteq> []"
  by (subst nat_str.simps) simp

lemma digits_val_nat_str [simp]: "digits_val (nat_str n) = n"
proof (induction n rule: nat_str.induct)
  case (1 n)
  show ?case
  proof (cases "n < 10")
    case True
    then show ?thesis by (subst nat_str.simps) (simp add: digits_val_def)
  next
    case False
    then have "digits_val (nat_str n) = 10 * digits_val (nat_str (n div 10)) + n mod 10"
      by (subst nat_str.simps) simp
    with 1 False show ?thesis by simp
  qed
qed

lemma nat_str_trim [simp]: "trim (nat_str n) = nat_str n"
  by (intro trim_no_ws ballI) (use nat_str_digits is_ws_not_digit in blast)

section \<open>Insertion-ordered collections\<close>

text \<open>\<open>Array.from(new Set(xs))\<close>: the first occurrence of every element, in order.\<close>

fun nub_acc :: "'a list \<Rightarrow> 'a list \<Rightarrow> 'a list" where
  "nub_acc seen [] = []"
| "nub_acc seen (x # xs) = (if x \<in> set seen then nub_acc seen xs else x # nub_acc (x # seen) xs)"

definition nub :: "'a list \<Rightarrow> 'a list" where
  "nub xs = nub_acc [] xs"

lemma set_nub_acc: "set (nub_acc seen xs) = set xs - set seen"
  by (induction seen xs rule: nub_acc.induct) auto

lemma distinct_nub_acc: "distinct (nub_acc seen xs)"
  by (induction seen xs rule: nub_acc.induct) (auto simp: set_nub_acc)

lemma set_nub [simp]: "set (nub xs) = set xs"
  by (simp add: nub_def set_nub_acc)

lemma distinct_nub [simp]: "distinct (nub xs)"
  by (simp add: nub_def distinct_nub_acc)

lemma nub_acc_distinct: "\<lbrakk>distinct xs; set xs \<inter> set seen = {}\<rbrakk> \<Longrightarrow> nub_acc seen xs = xs"
  by (induction seen xs rule: nub_acc.induct) auto

lemma nub_distinct [simp]: "distinct xs \<Longrightarrow> nub xs = xs"
  by (simp add: nub_def nub_acc_distinct)

text \<open>
  A keyed store: an object used as a dictionary, a \<open>Map\<close> or \<open>localStorage\<close>.  Its entries keep
  the order of their first insertion; overwriting a key keeps its place.
\<close>

type_synonym ('k, 'v) store = "('k \<times> 'v) list"

definition get :: "('k, 'v) store \<Rightarrow> 'k \<Rightarrow> 'v option" where
  "get m k = map_of m k"

fun put :: "'k \<Rightarrow> 'v \<Rightarrow> ('k, 'v) store \<Rightarrow> ('k, 'v) store" where
  "put k v [] = [(k, v)]"
| "put k v ((k', v') # m) = (if k = k' then (k, v) # m else (k', v') # put k v m)"

definition del :: "'k \<Rightarrow> ('k, 'v) store \<Rightarrow> ('k, 'v) store" where
  "del k m = filter (\<lambda>(k', _). k' \<noteq> k) m"

definition keys :: "('k, 'v) store \<Rightarrow> 'k list" where
  "keys m = map fst m"

definition wf_store :: "('k, 'v) store \<Rightarrow> bool" where
  "wf_store m \<longleftrightarrow> distinct (keys m)"

lemma get_put [js_store]: "get (put k v m) k' = (if k' = k then Some v else get m k')"
  by (induction k v m rule: put.induct) (auto simp: get_def)

lemma get_del [js_store]: "get (del k m) k' = (if k' = k then None else get m k')"
  by (induction m) (auto simp: get_def del_def)

lemma get_Nil [simp]: "get [] k = None"
  by (simp add: get_def)

lemma set_keys_put [js_store]: "set (keys (put k v m)) = insert k (set (keys m))"
  by (induction k v m rule: put.induct) (auto simp: keys_def)

lemma set_keys_del [js_store]: "set (keys (del k m)) = set (keys m) - {k}"
  by (induction m) (auto simp: keys_def del_def)

lemma get_None_iff: "get m k = None \<longleftrightarrow> k \<notin> set (keys m)"
  by (simp add: get_def keys_def map_of_eq_None_iff)

lemma wf_store_Nil [simp]: "wf_store []"
  by (simp add: wf_store_def keys_def)

lemma wf_store_put [js_store]: "wf_store m \<Longrightarrow> wf_store (put k v m)"
proof (induction k v m rule: put.induct)
  case (1 k v)
  show ?case by (simp add: wf_store_def keys_def)
next
  case (2 k v k' v' m)
  then show ?case
    using set_keys_put [of k v m] by (auto simp: wf_store_def keys_def)
qed

lemma wf_store_del [js_store]: "wf_store m \<Longrightarrow> wf_store (del k m)"
  unfolding wf_store_def keys_def del_def by (rule distinct_map_filter)

text \<open>
  The interface every user of a dictionary relies on; the components that keep one (in-flight
  requests, option maps, toggles) prove their lemmas against it.
\<close>

locale dictionary =
  fixes lookup :: "'m \<Rightarrow> 'k \<Rightarrow> 'v option"
    and insert_at :: "'k \<Rightarrow> 'v \<Rightarrow> 'm \<Rightarrow> 'm"
    and remove :: "'k \<Rightarrow> 'm \<Rightarrow> 'm"
    and valid :: "'m \<Rightarrow> bool"
  assumes lookup_insert: "lookup (insert_at k v m) k' = (if k' = k then Some v else lookup m k')"
    and lookup_remove: "lookup (remove k m) k' = (if k' = k then None else lookup m k')"
    and valid_insert: "valid m \<Longrightarrow> valid (insert_at k v m)"
    and valid_remove: "valid m \<Longrightarrow> valid (remove k m)"
begin

lemma insert_commute_lookup:
  "k \<noteq> k' \<Longrightarrow> lookup (insert_at k v (insert_at k' v' m)) = lookup (insert_at k' v' (insert_at k v m))"
  by (rule ext) (simp add: lookup_insert)

lemma insert_shadow_lookup: "lookup (insert_at k v (insert_at k v' m)) = lookup (insert_at k v m)"
  by (rule ext) (simp add: lookup_insert)

lemma fold_insert_other:
  "k' \<notin> set ks \<Longrightarrow> lookup (fold (\<lambda>k. insert_at k (f k)) ks m) k' = lookup m k'"
  by (induction ks arbitrary: m) (auto simp: lookup_insert)

lemma fold_insert_mem:
  "k' \<in> set ks \<Longrightarrow> lookup (fold (\<lambda>k. insert_at k (f k)) ks m) k' = Some (f k')"
proof (induction ks arbitrary: m)
  case Nil
  then show ?case by simp
next
  case (Cons k ks)
  then show ?case
    by (cases "k' \<in> set ks") (auto simp: fold_insert_other lookup_insert)
qed

lemma fold_insert_valid: "valid m \<Longrightarrow> valid (fold (\<lambda>k. insert_at k (f k)) ks m)"
  by (induction ks arbitrary: m) (auto simp: valid_insert)

end

interpretation store: dictionary get put del wf_store
  by unfold_locales (auto simp: js_store)

lemma fold_put:
  assumes "wf_store acc"
  shows "wf_store (fold (\<lambda>x. put (f x) (g x)) xs acc)"
    "set (keys (fold (\<lambda>x. put (f x) (g x)) xs acc)) = set (keys acc) \<union> f ` set xs"
  using assms by (induction xs arbitrary: acc) (auto simp: js_store)

section \<open>Slices\<close>

text \<open>\<open>xs.slice(a, b)\<close>: negative positions count from the end, and both are clamped.\<close>

definition slice_pos :: "nat \<Rightarrow> int \<Rightarrow> nat" where
  "slice_pos n i = (if i < 0 then nat (int n + i) else min (nat i) n)"

definition js_slice :: "'a list \<Rightarrow> int \<Rightarrow> int \<Rightarrow> 'a list" where
  "js_slice xs a b =
     (let i = slice_pos (length xs) a; j = slice_pos (length xs) b in take (j - i) (drop i xs))"

lemma set_js_slice: "set (js_slice xs a b) \<subseteq> set xs"
  unfolding js_slice_def Let_def by (meson dual_order.trans set_drop_subset set_take_subset)

lemma length_js_slice_page: "0 \<le> a \<Longrightarrow> length (js_slice xs a (a + int k)) \<le> k"
  by (simp add: js_slice_def slice_pos_def Let_def nat_add_distrib)

section \<open>The stable array sort\<close>

text \<open>
  \<open>arr.sort(cmp)\<close> for a consistent comparator: the stable sort.  Elements that compare equal keep
  their order, so each element is inserted behind the ones that are not greater.
\<close>

fun js_insert :: "('a \<Rightarrow> 'a \<Rightarrow> int) \<Rightarrow> 'a \<Rightarrow> 'a list \<Rightarrow> 'a list" where
  "js_insert cmp x [] = [x]"
| "js_insert cmp x (y # ys) = (if cmp x y < 0 then x # y # ys else y # js_insert cmp x ys)"

definition js_sort :: "('a \<Rightarrow> 'a \<Rightarrow> int) \<Rightarrow> 'a list \<Rightarrow> 'a list" where
  "js_sort cmp xs = fold (js_insert cmp) xs []"

lemma mset_js_insert: "mset (js_insert cmp x xs) = {#x#} + mset xs"
  by (induction xs) auto

lemma mset_fold_js_insert: "mset (fold (js_insert cmp) xs ys) = mset xs + mset ys"
  by (induction xs arbitrary: ys) (auto simp: mset_js_insert)

lemma mset_js_sort [simp]: "mset (js_sort cmp xs) = mset xs"
  by (simp add: js_sort_def mset_fold_js_insert)

lemma set_js_sort [simp]: "set (js_sort cmp xs) = set xs"
  by (metis mset_js_sort set_mset_mset)

lemma set_js_insert: "set (js_insert cmp x xs) = insert x (set xs)"
  by (induction xs) auto

lemma length_js_sort [simp]: "length (js_sort cmp xs) = length xs"
  by (metis mset_js_sort size_mset)

lemma distinct_js_sort [simp]: "distinct (js_sort cmp xs) = distinct xs"
  by (metis mset_eq_imp_distinct_iff mset_js_sort)

text \<open>What \<open>sort\<close> asks of its comparator, and what it then promises.\<close>

locale comparator =
  fixes cmp :: "'a \<Rightarrow> 'a \<Rightarrow> int"
  assumes cmp_antisym: "cmp x y < 0 \<Longrightarrow> 0 < cmp y x"
    and cmp_total: "0 \<le> cmp x y \<Longrightarrow> cmp y x \<le> 0"
    and cmp_trans: "\<lbrakk>cmp x y \<le> 0; cmp y z \<le> 0\<rbrakk> \<Longrightarrow> cmp x z \<le> 0"
begin

lemma js_insert_sorted:
  "sorted_wrt (\<lambda>x y. cmp x y \<le> 0) ys \<Longrightarrow> sorted_wrt (\<lambda>x y. cmp x y \<le> 0) (js_insert cmp x ys)"
proof (induction ys)
  case Nil
  show ?case by simp
next
  case (Cons y ys)
  show ?case
  proof (cases "cmp x y < 0")
    case True
    with Cons.prems show ?thesis by (auto intro: cmp_trans [of x y])
  next
    case False
    then have "cmp y x \<le> 0" using cmp_total by simp
    with False Cons show ?thesis by (auto simp: set_js_insert)
  qed
qed

lemma fold_js_insert_sorted:
  "sorted_wrt (\<lambda>x y. cmp x y \<le> 0) ys \<Longrightarrow>
   sorted_wrt (\<lambda>x y. cmp x y \<le> 0) (fold (js_insert cmp) xs ys)"
  by (induction xs arbitrary: ys) (auto simp: js_insert_sorted)

lemma js_sort_sorted: "sorted_wrt (\<lambda>x y. cmp x y \<le> 0) (js_sort cmp xs)"
  unfolding js_sort_def by (rule fold_js_insert_sorted) simp

end

text \<open>Strings in the order of their code units, the order \<open>sort()\<close> uses without a comparator.\<close>

fun str_less :: "jsstr \<Rightarrow> jsstr \<Rightarrow> bool" where
  "str_less s [] = False"
| "str_less [] (d # t) = True"
| "str_less (c # s) (d # t) = (c < d \<or> c = d \<and> str_less s t)"

definition str_cmp :: "jsstr \<Rightarrow> jsstr \<Rightarrow> int" where
  "str_cmp s t = (if str_less s t then - 1 else if s = t then 0 else 1)"

lemma str_less_asym: "str_less s t \<Longrightarrow> \<not> str_less t s"
  by (induction s t rule: str_less.induct) auto

lemma str_less_trans: "str_less s t \<Longrightarrow> str_less t u \<Longrightarrow> str_less s u"
proof (induction s t arbitrary: u rule: str_less.induct)
  case (2 d t)
  then show ?case by (cases u) auto
next
  case (3 c s d t)
  then show ?case by (cases u) auto
qed simp

lemma str_less_linear: "str_less s t \<or> s = t \<or> str_less t s"
proof (induction s t rule: str_less.induct)
  case (1 s)
  then show ?case by (cases s) auto
qed auto

interpretation str_order: comparator str_cmp
proof
  fix s t u
  show "str_cmp s t < 0 \<Longrightarrow> 0 < str_cmp t s"
    using str_less_asym [of s t] str_less_asym [of s s] by (auto simp: str_cmp_def split: if_splits)
  show "0 \<le> str_cmp s t \<Longrightarrow> str_cmp t s \<le> 0"
    using str_less_linear [of s t] by (auto simp: str_cmp_def split: if_splits)
  show "\<lbrakk>str_cmp s t \<le> 0; str_cmp t u \<le> 0\<rbrakk> \<Longrightarrow> str_cmp s u \<le> 0"
    using str_less_trans [of s t u] by (auto simp: str_cmp_def split: if_splits)
qed

end
