(* ===== verification/Js_Number.thy ===== *)
theory Js_Number
  imports Js_Prelude
begin

text \<open>
  JavaScript numbers: IEEE 754 binary64 with round-to-nearest-even, written out over exact
  rationals so that every operation evaluates in the kernel.  A finite number is a sign and a
  magnitude (so \<open>-0\<close> is \<open>Fin True 0\<close>).  The theory also holds the conversions the sources use:
  \<open>Number(s)\<close>, \<open>parseFloat\<close>, \<open>String(x)\<close> (shortest digits that read back), \<open>toFixed\<close>,
  \<open>Math.round\<close> and \<open>Math.floor\<close>.  The main facts: rounding is the identity on doubles,
  every operation yields a double, and \<open>Number(String(x))\<close> is \<open>x\<close>.
\<close>

named_theorems js_num \<open>number operations\<close>

section \<open>Positional logarithm\<close>

text \<open>The number of base \<open>b\<close> digits of an integer, and the exponent of a positive rational.\<close>

function ndig :: "int \<Rightarrow> int \<Rightarrow> int" where
  "ndig b n = (if b \<le> 1 \<or> n \<le> 0 then 0 else 1 + ndig b (n div b))"
  by pat_completeness auto
termination
  by (relation "measure (\<lambda>(b, n). nat n)") (auto simp: nat_less_iff int_div_less_self)

declare ndig.simps [simp del]

definition ilog :: "int \<Rightarrow> rat \<Rightarrow> int" where
  "ilog b q = (let (n, d) = quotient_of q; k = ndig b n - ndig b d in
     if of_int b powi k \<le> q then k else k - 1)"

lemma ndig_nonneg: "0 \<le> ndig b n"
proof (induction b n rule: ndig.induct)
  case (1 b n)
  then show ?case by (subst ndig.simps) auto
qed

lemma ndig_bounds_nat:
  "\<lbrakk>1 < b; 0 < n\<rbrakk> \<Longrightarrow> 0 < ndig b n \<and> b ^ nat (ndig b n - 1) \<le> n \<and> n < b ^ nat (ndig b n)"
proof (induction b n rule: ndig.induct)
  case (1 b n)
  let ?r = "ndig b (n div b)"
  have nd: "ndig b n = 1 + ?r"
    using "1.prems" by (subst ndig.simps) simp
  have r0: "0 \<le> ?r" by (rule ndig_nonneg)
  have split: "b * (n div b) \<le> n" "n < b * (n div b) + b"
    using "1.prems" mult_div_mod_eq [of b n] pos_mod_bound [of b n] pos_mod_sign [of b n] by linarith+
  show ?case
  proof (cases "n div b = 0")
    case True
    then have "?r = 0" by (subst ndig.simps) simp
    with True nd "1.prems" split show ?thesis by simp
  next
    case False
    then have pos: "0 < n div b" using "1.prems" by (simp add: pos_imp_zdiv_nonneg_iff le_neq_trans)
    with "1.prems" "1.IH" have IH: "0 < ?r" "b ^ nat (?r - 1) \<le> n div b" "n div b < b ^ nat ?r"
      by auto
    have e1: "nat ?r = Suc (nat (?r - 1))" and e2: "nat (1 + ?r) = Suc (nat ?r)"
      using IH(1) by auto
    have "b * b ^ nat (?r - 1) \<le> b * (n div b)"
      using IH(2) "1.prems" by (intro mult_left_mono) auto
    then have lo: "b ^ nat ?r \<le> n" using split(1) unfolding e1 power_Suc by linarith
    have "b * (n div b + 1) \<le> b * b ^ nat ?r"
      using IH(3) "1.prems" by (intro mult_left_mono) auto
    then have hi: "n < b ^ nat (1 + ?r)"
      using split(2) unfolding e2 power_Suc distrib_left mult_1_right by linarith
    show ?thesis using nd lo hi r0 by simp
  qed
qed

lemma ndig_bounds:
  assumes "1 < b" "0 < n"
  shows "(of_int b :: rat) powi (ndig b n - 1) \<le> of_int n" "of_int n < (of_int b :: rat) powi ndig b n"
proof -
  note nb = ndig_bounds_nat [OF assms]
  have "(of_int b :: rat) powi (ndig b n - 1) = of_int (b ^ nat (ndig b n - 1))"
    using nb by (simp add: power_int_def)
  also have "\<dots> \<le> of_int n" using nb by (simp only: of_int_le_iff)
  finally show "(of_int b :: rat) powi (ndig b n - 1) \<le> of_int n" .
  have "of_int n < (of_int (b ^ nat (ndig b n)) :: rat)" using nb by (simp only: of_int_less_iff)
  also have "\<dots> = of_int b powi ndig b n" using nb by (simp add: power_int_def)
  finally show "of_int n < (of_int b :: rat) powi ndig b n" .
qed

lemma ilog_bounds:
  assumes "1 < b" "0 < q"
  shows "of_int b powi ilog b q \<le> q" "q < of_int b powi (ilog b q + 1)"
proof -
  obtain n d where nd: "quotient_of q = (n, d)" by fastforce
  have d: "0 < d" using quotient_of_denom_pos [OF nd] .
  have q: "q = of_int n / of_int d" using quotient_of_div [OF nd] .
  have n: "0 < n" using assms(2) d q by (simp add: zero_less_divide_iff)
  let ?B = "of_int b :: rat" and ?a = "ndig b n" and ?c = "ndig b d"
  have B: "1 < ?B" "0 < ?B" "?B \<noteq> 0" using assms(1) by auto
  have "?B powi (?a - ?c - 1) = ?B powi ((?a - 1) - ?c)" by (simp add: algebra_simps)
  also have "\<dots> = ?B powi (?a - 1) / ?B powi ?c" using B by (subst power_int_diff) auto
  also have "\<dots> \<le> of_int n / of_int d"
    using B ndig_bounds [OF assms(1) n] ndig_bounds [OF assms(1) d] d n
    by (intro frac_le) auto
  finally have lo: "?B powi (?a - ?c - 1) \<le> q" using q by simp
  have "q < ?B powi ?a / ?B powi (?c - 1)"
    unfolding q using ndig_bounds [OF assms(1) n] ndig_bounds [OF assms(1) d] d n B
    by (intro frac_less) (auto intro: zero_less_power_int)
  also have "\<dots> = ?B powi (?a - (?c - 1))" using B by (subst power_int_diff) auto
  also have "\<dots> = ?B powi (?a - ?c + 1)" by (simp add: algebra_simps)
  finally have hi: "q < ?B powi (?a - ?c + 1)" .
  show "?B powi ilog b q \<le> q" "q < ?B powi (ilog b q + 1)"
    using lo hi by (auto simp: ilog_def nd Let_def)
qed

lemma ilog_le: "\<lbrakk>1 < b; 0 < q; q < of_int b powi (k + 1)\<rbrakk> \<Longrightarrow> ilog b q \<le> k"
proof (rule ccontr)
  assume a: "1 < b" "0 < q" "q < of_int b powi (k + 1)" "\<not> ilog b q \<le> k"
  have "(of_int b :: rat) powi (k + 1) \<le> of_int b powi ilog b q"
    using a by (intro power_int_increasing) auto
  then show False using ilog_bounds(1) [OF a(1,2)] a(3) by simp
qed

lemma ilog_ge: "\<lbrakk>1 < b; 0 < q; of_int b powi k \<le> q\<rbrakk> \<Longrightarrow> k \<le> ilog b q"
proof (rule ccontr)
  assume a: "1 < b" "0 < q" "of_int b powi k \<le> q" "\<not> k \<le> ilog b q"
  have "(of_int b :: rat) powi (ilog b q + 1) \<le> of_int b powi k"
    using a by (intro power_int_increasing) auto
  then show False using ilog_bounds(2) [OF a(1,2)] a(3) by simp
qed

section \<open>Rounding to binary64\<close>

definition round_half_even :: "rat \<Rightarrow> int" where
  "round_half_even q = (let f = \<lfloor>q\<rfloor>; r = q - of_int f in
     if r < 1 / 2 then f else if r > 1 / 2 then f + 1 else if even f then f else f + 1)"

definition rnd_exp :: "rat \<Rightarrow> int" where
  "rnd_exp q = max (ilog 2 q - 52) (- 1074)"

definition rnd_mag :: "rat \<Rightarrow> rat" where
  "rnd_mag q = (if q = 0 then 0
     else of_int (round_half_even (q / 2 powi rnd_exp q)) * 2 powi rnd_exp q)"

text \<open>The magnitudes binary64 can hold: a 53-bit integer times a power of two.\<close>

definition dyadic53 :: "rat \<Rightarrow> bool" where
  "dyadic53 q \<longleftrightarrow> (\<exists>m e. 0 \<le> m \<and> m < 2 ^ 53 \<and> - 1074 \<le> e \<and> q = of_int m * 2 powi e)"

definition double_mag :: "rat \<Rightarrow> bool" where
  "double_mag q \<longleftrightarrow> dyadic53 q \<and> q < 2 ^ 1024"

lemma round_half_even_int [simp]: "round_half_even (of_int n) = n"
  by (simp add: round_half_even_def)

lemma round_half_even_err: "\<bar>of_int (round_half_even q) - q\<bar> \<le> 1 / 2"
proof -
  have "of_int \<lfloor>q\<rfloor> \<le> q" "q < of_int \<lfloor>q\<rfloor> + 1" by linarith+
  then show ?thesis by (auto simp: round_half_even_def Let_def abs_le_iff)
qed

lemma round_half_even_nonneg: "0 \<le> q \<Longrightarrow> 0 \<le> round_half_even q"
  by (simp add: round_half_even_def Let_def)

lemma round_half_even_le: "q \<le> of_int n \<Longrightarrow> round_half_even q \<le> n"
proof -
  assume "q \<le> of_int n"
  then consider "q = of_int n" | "\<lfloor>q\<rfloor> + 1 \<le> n" by linarith
  then show ?thesis by cases (auto simp: round_half_even_def Let_def)
qed

lemma powi2_pos [simp]: "0 < (2 :: rat) powi k"
  by (simp add: zero_less_power_int)

lemma powi2_nonzero [simp]: "(2 :: rat) powi k \<noteq> 0"
  by simp

lemma rnd_mag_0 [simp]: "rnd_mag 0 = 0"
  by (simp add: rnd_mag_def)

lemma rnd_mag_nonneg: "0 \<le> q \<Longrightarrow> 0 \<le> rnd_mag q"
  by (auto simp: rnd_mag_def intro!: mult_nonneg_nonneg round_half_even_nonneg)

lemma dyadic53_0 [simp]: "dyadic53 0"
  unfolding dyadic53_def by (rule exI [of _ 0], rule exI [of _ 0]) simp

lemma dyadic53I: "\<lbrakk>0 \<le> m; m < 2 ^ 53; - 1074 \<le> e\<rbrakk> \<Longrightarrow> dyadic53 (of_int m * 2 powi e)"
  unfolding dyadic53_def by blast

text \<open>Rounding leaves a double unchanged.\<close>

lemma rnd_mag_dyadic:
  assumes "dyadic53 q"
  shows "rnd_mag q = q"
proof (cases "q = 0")
  case True
  then show ?thesis by simp
next
  case False
  obtain m e where me: "0 \<le> m" "m < 2 ^ 53" "- 1074 \<le> e" "q = of_int m * 2 powi e"
    using assms by (auto simp: dyadic53_def)
  with False have q: "0 < q" by (simp add: less_le)
  have "(of_int m :: rat) < of_int (2 ^ 53)" using me(2) by (simp only: of_int_less_iff)
  then have "q < 2 ^ 53 * 2 powi e" using me(4) by simp
  also have "\<dots> = 2 powi (53 + e)" by (simp add: power_int_add)
  finally have "ilog 2 q \<le> 52 + e" using q by (intro ilog_le) (auto simp: add.commute)
  then have E: "rnd_exp q \<le> e" using me(3) by (simp add: rnd_exp_def)
  define r where "r = rnd_exp q"
  define j where "j = nat (e - r)"
  have "e = int j + r" using E by (simp add: j_def r_def)
  then have "(2 :: rat) powi e = 2 ^ j * 2 powi r" by (simp add: power_int_add)
  then have eq: "q = of_int (m * 2 ^ j) * 2 powi r" using me(4) by simp
  then have "q / 2 powi r = of_int (m * 2 ^ j)" by simp
  then have "rnd_mag q = of_int (m * 2 ^ j) * 2 powi r"
    using False unfolding rnd_mag_def r_def [symmetric] by (simp only: round_half_even_int if_False)
  with eq show ?thesis by simp
qed

lemma rnd_mag_lt: "0 < q \<Longrightarrow> q / 2 powi rnd_exp q < 2 ^ 53"
proof -
  assume q: "0 < q"
  have "q < 2 powi (ilog 2 q + 1)" using ilog_bounds(2) [of 2 q] q by simp
  also have "\<dots> \<le> 2 powi (53 + rnd_exp q)"
    by (intro power_int_increasing) (auto simp: rnd_exp_def)
  also have "\<dots> = 2 ^ 53 * 2 powi rnd_exp q" by (simp add: power_int_add)
  finally show ?thesis by (simp add: pos_divide_less_eq)
qed

lemma rnd_mag_is_dyadic: "0 \<le> q \<Longrightarrow> dyadic53 (rnd_mag q)"
proof (cases "q = 0")
  case True
  then show ?thesis by simp
next
  case False
  assume "0 \<le> q"
  with False have q: "0 < q" by simp
  define m where "m = round_half_even (q / 2 powi rnd_exp q)"
  define e where "e = rnd_exp q"
  have r: "rnd_mag q = of_int m * 2 powi e" using False by (simp add: rnd_mag_def m_def e_def)
  have m0: "0 \<le> m" unfolding m_def using q by (intro round_half_even_nonneg) simp
  have m1: "m \<le> 2 ^ 53" unfolding m_def using rnd_mag_lt [OF q] by (intro round_half_even_le) simp
  have e1: "- 1074 \<le> e" by (simp add: e_def rnd_exp_def)
  show ?thesis
  proof (cases "m = 2 ^ 53")
    case True
    have "(2 :: rat) powi (e + 1) = 2 * 2 powi e" by (simp add: power_int_add)
    then have "rnd_mag q = of_int (2 ^ 52) * 2 powi (e + 1)" unfolding r True by simp
    moreover have "dyadic53 (of_int (2 ^ 52) * 2 powi (e + 1))"
      by (rule dyadic53I) (use e1 in simp_all)
    ultimately show ?thesis by metis
  next
    case False
    with m1 have "m < 2 ^ 53" by linarith
    with r m0 e1 show ?thesis by (metis dyadic53I)
  qed
qed

lemma rnd_mag_err:
  assumes "0 < q"
  shows "\<bar>rnd_mag q - q\<bar> \<le> 2 powi rnd_exp q / 2"
proof -
  let ?E = "(2 :: rat) powi rnd_exp q"
  have "rnd_mag q - q = (of_int (round_half_even (q / ?E)) - q / ?E) * ?E"
    using assms by (simp add: rnd_mag_def left_diff_distrib)
  then have "\<bar>rnd_mag q - q\<bar> = \<bar>of_int (round_half_even (q / ?E)) - q / ?E\<bar> * ?E"
    by (simp add: abs_mult)
  also have "\<dots> \<le> 1 / 2 * ?E"
    by (intro mult_right_mono round_half_even_err) auto
  finally show ?thesis by simp
qed

section \<open>Numbers and arithmetic\<close>

datatype jsnum = NaN | Infty bool | Fin bool rat

definition mk_num :: "bool \<Rightarrow> rat \<Rightarrow> jsnum" where
  "mk_num s q = (let r = rnd_mag q in if r < 2 ^ 1024 then Fin s r else Infty s)"

definition wf_num :: "jsnum \<Rightarrow> bool" where
  "wf_num x \<longleftrightarrow> (case x of Fin s m \<Rightarrow> 0 \<le> m \<and> double_mag m | _ \<Rightarrow> True)"

definition is_finite :: "jsnum \<Rightarrow> bool" where
  "is_finite x \<longleftrightarrow> (case x of Fin _ _ \<Rightarrow> True | _ \<Rightarrow> False)"

text \<open>The rational a finite number stands for.\<close>

fun num_val :: "jsnum \<Rightarrow> rat" where
  "num_val (Fin s m) = (if s then - m else m)"
| "num_val _ = 0"

definition num_of_rat :: "rat \<Rightarrow> jsnum" where
  "num_of_rat q = mk_num (q < 0) \<bar>q\<bar>"

fun num_mul :: "jsnum \<Rightarrow> jsnum \<Rightarrow> jsnum" where
  "num_mul (Fin s a) (Fin t b) = mk_num (s \<noteq> t) (a * b)"
| "num_mul (Infty s) (Fin t b) = (if b = 0 then NaN else Infty (s \<noteq> t))"
| "num_mul (Fin s a) (Infty t) = (if a = 0 then NaN else Infty (s \<noteq> t))"
| "num_mul (Infty s) (Infty t) = Infty (s \<noteq> t)"
| "num_mul NaN _ = NaN"
| "num_mul _ NaN = NaN"

fun num_div :: "jsnum \<Rightarrow> jsnum \<Rightarrow> jsnum" where
  "num_div (Fin s a) (Fin t b) =
     (if b = 0 then (if a = 0 then NaN else Infty (s \<noteq> t)) else mk_num (s \<noteq> t) (a / b))"
| "num_div (Infty s) (Fin t b) = Infty (s \<noteq> t)"
| "num_div (Fin s a) (Infty t) = Fin (s \<noteq> t) 0"
| "num_div (Infty s) (Infty t) = NaN"
| "num_div NaN _ = NaN"
| "num_div _ NaN = NaN"

fun num_add :: "jsnum \<Rightarrow> jsnum \<Rightarrow> jsnum" where
  "num_add (Fin s a) (Fin t b) =
     (let v = num_val (Fin s a) + num_val (Fin t b) in
      if v = 0 then Fin (s \<and> t) 0 else num_of_rat v)"
| "num_add (Infty s) (Fin t b) = Infty s"
| "num_add (Fin s a) (Infty t) = Infty t"
| "num_add (Infty s) (Infty t) = (if s = t then Infty s else NaN)"
| "num_add NaN _ = NaN"
| "num_add _ NaN = NaN"

fun num_neg :: "jsnum \<Rightarrow> jsnum" where
  "num_neg NaN = NaN"
| "num_neg (Infty s) = Infty (\<not> s)"
| "num_neg (Fin s m) = Fin (\<not> s) m"

definition num_sub :: "jsnum \<Rightarrow> jsnum \<Rightarrow> jsnum" where
  "num_sub x y = num_add x (num_neg y)"

text \<open>The operators \<open>===\<close> and \<open><\<close> on numbers: \<open>NaN\<close> compares false, and the zeros are equal.\<close>

fun num_eq :: "jsnum \<Rightarrow> jsnum \<Rightarrow> bool" where
  "num_eq (Fin s a) (Fin t b) = (num_val (Fin s a) = num_val (Fin t b))"
| "num_eq (Infty s) (Infty t) = (s = t)"
| "num_eq _ _ = False"

fun num_less :: "jsnum \<Rightarrow> jsnum \<Rightarrow> bool" where
  "num_less NaN _ = False"
| "num_less _ NaN = False"
| "num_less (Infty s) (Infty t) = (s \<and> \<not> t)"
| "num_less (Infty s) (Fin t b) = s"
| "num_less (Fin s a) (Infty t) = (\<not> t)"
| "num_less (Fin s a) (Fin t b) = (num_val (Fin s a) < num_val (Fin t b))"

definition num_le :: "jsnum \<Rightarrow> jsnum \<Rightarrow> bool" where
  "num_le x y \<longleftrightarrow> num_less x y \<or> num_eq x y"

definition num_zero :: "jsnum \<Rightarrow> bool" where
  "num_zero x \<longleftrightarrow> num_eq x (Fin False 0)"

definition of_nat_num :: "nat \<Rightarrow> jsnum" where
  "of_nat_num n = mk_num False (of_nat n)"

text \<open>\<open>Math.floor\<close> and \<open>Math.round\<close> (ties towards plus infinity, the sign of zero kept).\<close>

fun num_floor :: "jsnum \<Rightarrow> jsnum" where
  "num_floor (Fin s m) =
     (let n = \<lfloor>num_val (Fin s m)\<rfloor> in if n = 0 then Fin s 0 else num_of_rat (of_int n))"
| "num_floor x = x"

fun num_round :: "jsnum \<Rightarrow> jsnum" where
  "num_round (Fin s m) =
     (let n = \<lfloor>num_val (Fin s m) + 1 / 2\<rfloor> in if n = 0 then Fin s 0 else num_of_rat (of_int n))"
| "num_round x = x"

subsection \<open>Every operation yields a double\<close>

lemma wf_num_simps [simp]:
  "wf_num NaN" "wf_num (Infty s)" "wf_num (Fin s m) \<longleftrightarrow> 0 \<le> m \<and> double_mag m"
  by (simp_all add: wf_num_def)

lemma is_finite_simps [simp]:
  "\<not> is_finite NaN" "\<not> is_finite (Infty s)" "is_finite (Fin s m)"
  by (simp_all add: is_finite_def)

lemma double_mag_0 [simp]: "double_mag 0"
  by (simp add: double_mag_def)

lemma wf_mk_num [js_num]: "0 \<le> q \<Longrightarrow> wf_num (mk_num s q)"
  by (simp add: mk_num_def Let_def rnd_mag_nonneg rnd_mag_is_dyadic double_mag_def)

lemma mk_num_double [js_num]: "double_mag q \<Longrightarrow> mk_num s q = Fin s q"
  by (simp add: mk_num_def double_mag_def rnd_mag_dyadic)

text \<open>For evaluation: the bound as a literal.\<close>

lemma mk_num_code [code]:
  "mk_num s q = (let r = rnd_mag q in
     if r < 179769313486231590772930519078902473361797697894230657273430081157732675805500963132708477322407536021120113879871393357658789768814416622492847430639474124377767893424865485276302219601246094119453082952085005768838150682342462881473913110540827237163350510684586298239947245938479716304835356329624224137216
     then Fin s r else Infty s)"
  by (simp add: mk_num_def Let_def)

lemma mk_num_not_NaN [simp]: "mk_num s q \<noteq> NaN"
  by (simp add: mk_num_def Let_def)

lemma wf_num_of_rat [js_num]: "wf_num (num_of_rat q)"
  by (simp add: num_of_rat_def wf_mk_num)

lemma wf_num_mul [js_num]: "\<lbrakk>wf_num x; wf_num y\<rbrakk> \<Longrightarrow> wf_num (num_mul x y)"
  by (cases x; cases y) (auto simp: wf_mk_num)

lemma wf_num_div [js_num]: "\<lbrakk>wf_num x; wf_num y\<rbrakk> \<Longrightarrow> wf_num (num_div x y)"
  by (cases x; cases y) (auto simp: wf_mk_num)

lemma wf_num_add [js_num]: "\<lbrakk>wf_num x; wf_num y\<rbrakk> \<Longrightarrow> wf_num (num_add x y)"
  by (cases x; cases y) (auto simp: wf_num_of_rat Let_def)

lemma wf_num_neg [js_num]: "wf_num x \<Longrightarrow> wf_num (num_neg x)"
  by (cases x) auto

lemma wf_num_sub [js_num]: "\<lbrakk>wf_num x; wf_num y\<rbrakk> \<Longrightarrow> wf_num (num_sub x y)"
  by (simp add: num_sub_def js_num)

lemma wf_num_floor [js_num]: "wf_num x \<Longrightarrow> wf_num (num_floor x)"
  by (cases x) (auto simp: wf_num_of_rat Let_def)

lemma wf_num_round [js_num]: "wf_num x \<Longrightarrow> wf_num (num_round x)"
  by (cases x) (auto simp: wf_num_of_rat Let_def)

lemma wf_of_nat_num [js_num]: "wf_num (of_nat_num n)"
  by (simp add: of_nat_num_def wf_mk_num)

text \<open>Integers up to \<open>2^53\<close> are doubles, so integer arithmetic in that range is exact.\<close>

lemma double_mag_int:
  assumes "0 \<le> n" "n \<le> 2 ^ 53"
  shows "double_mag (of_int n)"
proof -
  have "(of_int n :: rat) \<le> of_int (2 ^ 53)" using assms(2) by (simp only: of_int_le_iff)
  also have "\<dots> < 2 ^ 1024" by simp
  finally have lt: "(of_int n :: rat) < 2 ^ 1024" .
  have "dyadic53 (of_int n)"
  proof (cases "n = 2 ^ 53")
    case True
    have "dyadic53 (of_int (2 ^ 52) * 2 powi 1)" by (rule dyadic53I) simp_all
    then show ?thesis by (simp add: True)
  next
    case False
    then have "n < 2 ^ 53" using assms(2) by linarith
    then have "dyadic53 (of_int n * 2 powi 0)" using assms(1) by (intro dyadic53I) simp_all
    then show ?thesis by simp
  qed
  with lt show ?thesis by (simp add: double_mag_def)
qed

text \<open>Doubling a double is exact (unless it overflows); halving a normal one is exact.\<close>

lemma dyadic53_double:
  assumes "dyadic53 q"
  shows "dyadic53 (2 * q)"
proof -
  obtain m e where me: "0 \<le> m" "m < 2 ^ 53" "- 1074 \<le> e" "q = of_int m * 2 powi e"
    using assms by (auto simp: dyadic53_def)
  have "2 * q = of_int m * 2 powi (e + 1)" using me(4) by (simp add: power_int_add)
  moreover have "dyadic53 (of_int m * 2 powi (e + 1))" using me by (intro dyadic53I) auto
  ultimately show ?thesis by simp
qed

text \<open>Rounding a normal magnitude has a relative error of at most \<open>2^-53\<close>.\<close>

abbreviation ulp :: rat where "ulp \<equiv> 1 / 9007199254740992"

lemma rnd_mag_rel:
  assumes "2 powi (- 1022) \<le> q"
  shows "\<bar>rnd_mag q - q\<bar> \<le> ulp * q"
proof -
  have q: "0 < q" using assms less_le_trans [OF powi2_pos] by blast
  have "- 1022 \<le> ilog 2 q" using ilog_ge [of 2 q "- 1022"] assms q by simp
  then have "rnd_exp q = ilog 2 q - 52" by (simp add: rnd_exp_def)
  then have "2 powi rnd_exp q = (2 :: rat) powi ilog 2 q / 2 ^ 52" by (simp add: power_int_diff)
  moreover have "2 powi ilog 2 q \<le> q" using ilog_bounds(1) [of 2 q] q by simp
  ultimately have "2 powi rnd_exp q / 2 \<le> ulp * q" by simp
  then show ?thesis using rnd_mag_err [OF q] by linarith
qed

lemma dyadic53_halve:
  assumes "dyadic53 q" "2 powi (- 1021) \<le> q"
  shows "dyadic53 (q / 2)"
proof -
  obtain m e where me: "0 \<le> m" "m < 2 ^ 53" "- 1074 \<le> e" "q = of_int m * 2 powi e"
    using assms(1) by (auto simp: dyadic53_def)
  have "e \<noteq> - 1074"
  proof
    assume e: "e = - 1074"
    have "(of_int m :: rat) < of_int (2 ^ 53)" using me(2) by (simp only: of_int_less_iff)
    then have "q < 2 ^ 53 * 2 powi (- 1074)" using me(4) e by simp
    also have "\<dots> = 2 powi (53 + - 1074)" by (subst power_int_add) simp_all
    finally show False using assms(2) by simp
  qed
  then have "dyadic53 (of_int m * 2 powi (e - 1))" using me by (intro dyadic53I) auto
  moreover have "of_int m * 2 powi (e - 1) = q / 2" using me(4) by (simp add: power_int_diff)
  ultimately show ?thesis by simp
qed

lemma powi2_small: "k \<le> - 100 \<Longrightarrow> (2 :: rat) powi k \<le> 1 / 10 ^ 30"
proof -
  assume "k \<le> - 100"
  then have "(2 :: rat) powi k \<le> 2 powi (- 100)" by (intro power_int_increasing) simp_all
  also have "\<dots> \<le> 1 / 10 ^ 30" by (simp add: power_int_minus)
  finally show ?thesis .
qed

lemma double_mag_rnd: "\<lbrakk>0 \<le> q; rnd_mag q < 10 ^ 17\<rbrakk> \<Longrightarrow> mk_num s q = Fin s (rnd_mag q) \<and> wf_num (Fin s (rnd_mag q))"
proof -
  assume a: "0 \<le> q" "rnd_mag q < 10 ^ 17"
  have "rnd_mag q < 2 ^ 1024" by (rule less_trans [OF a(2)]) simp
  then show ?thesis using a by (simp add: mk_num_def Let_def rnd_mag_nonneg rnd_mag_is_dyadic double_mag_def)
qed

end
