(* ===== verification/Js_Numeral.thy ===== *)
theory Js_Numeral
  imports Js_Number
begin

text \<open>
  The text of numbers: \<open>Number(s)\<close> and \<open>parseFloat(s)\<close> by one scanner of decimal literals,
  \<open>String(x)\<close> with the shortest digits that read back as \<open>x\<close> (ECMA-262, Number::toString),
  and \<open>toFixed\<close>.  Digits are computed over \<open>int\<close>, so a closed conversion evaluates in the kernel.
\<close>

section \<open>Digits\<close>

function int_str :: "int \<Rightarrow> jsstr" where
  "int_str n = (if n < 10 then [48 + nat n] else int_str (n div 10) @ [48 + nat (n mod 10)])"
  by pat_completeness auto
termination
  by (relation "measure nat") auto

declare int_str.simps [simp del]

definition digits_int :: "jsstr \<Rightarrow> int" where
  "digits_int s = foldl (\<lambda>a c. 10 * a + int (c - 48)) 0 s"

lemma digits_int_Nil [simp]: "digits_int [] = 0"
  by (simp add: digits_int_def)

lemma digits_int_snoc [simp]: "digits_int (s @ [c]) = 10 * digits_int s + int (c - 48)"
  by (simp add: digits_int_def)

lemma digits_int_append: "digits_int (s @ t) = digits_int s * 10 ^ length t + digits_int t"
proof (induction t rule: rev_induct)
  case Nil
  show ?case by simp
next
  case (snoc c t)
  have "digits_int (s @ t @ [c]) = 10 * digits_int (s @ t) + int (c - 48)"
    using digits_int_snoc [of "s @ t" c] by simp
  with snoc show ?case by (simp add: algebra_simps)
qed

lemma digits_int_Cons: "digits_int (c # t) = int (c - 48) * 10 ^ length t + digits_int t"
  using digits_int_append [of "[c]" t] by (simp add: digits_int_def)

lemma digits_int_zeros [simp]: "digits_int (replicate k 48) = 0"
  by (induction k) (auto simp: digits_int_Cons)

lemma digits_int_nonneg: "0 \<le> digits_int s"
  by (induction s) (auto simp: digits_int_Cons)

lemma int_str_digits: "0 \<le> n \<Longrightarrow> \<forall>c \<in> set (int_str n). is_digit c"
proof (induction n rule: int_str.induct)
  case (1 n)
  show ?case
  proof (cases "n < 10")
    case True
    with "1.prems" show ?thesis by (subst int_str.simps) (auto simp: is_digit_def)
  next
    case False
    with 1 have "\<forall>c \<in> set (int_str (n div 10)). is_digit c" by simp
    moreover have "nat (n mod 10) \<le> 9" by simp
    ultimately show ?thesis using False by (subst int_str.simps) (auto simp: is_digit_def)
  qed
qed

lemma int_str_not_Nil [simp]: "int_str n \<noteq> []"
  by (subst int_str.simps) simp

lemma digits_int_int_str [simp]: "0 \<le> n \<Longrightarrow> digits_int (int_str n) = n"
proof (induction n rule: int_str.induct)
  case (1 n)
  show ?case
  proof (cases "n < 10")
    case True
    with "1.prems" show ?thesis by (subst int_str.simps) (simp add: digits_int_def)
  next
    case False
    with 1 have "digits_int (int_str (n div 10)) = n div 10" by simp
    then show ?thesis using False by (subst int_str.simps) simp
  qed
qed

section \<open>Reading\<close>

fun scan_sign :: "jsstr \<Rightarrow> bool \<times> jsstr" where
  "scan_sign [] = (False, [])"
| "scan_sign (c # r) = (if c = 45 then (True, r) else if c = 43 then (False, r) else (False, c # r))"

text \<open>An exponent part is taken only when it has a digit: \<open>parseFloat('1e')\<close> is 1.\<close>

definition scan_exp :: "jsstr \<Rightarrow> int \<times> jsstr" where
  "scan_exp r = (case r of [] \<Rightarrow> (0, [])
     | c # r1 \<Rightarrow>
         if c = 101 \<or> c = 69 then
           (let (neg, r2) = scan_sign r1; ds = takeWhile is_digit r2 in
            if ds = [] then (0, r)
            else (if neg then - digits_int ds else digits_int ds, dropWhile is_digit r2))
         else (0, r))"

definition scan_fraction :: "jsstr \<Rightarrow> jsstr \<times> jsstr" where
  "scan_fraction r = (case r of [] \<Rightarrow> ([], [])
     | c # r1 \<Rightarrow> if c = 46 then (takeWhile is_digit r1, dropWhile is_digit r1) else ([], r))"

definition scan_unsigned :: "jsstr \<Rightarrow> (rat \<times> jsstr) option" where
  "scan_unsigned r =
     (let ip = takeWhile is_digit r; (fp, r1) = scan_fraction (dropWhile is_digit r) in
      if ip = [] \<and> fp = [] then None
      else (let (e, r2) = scan_exp r1 in
        Some (of_int (digits_int (ip @ fp)) * 10 powi (e - int (length fp)), r2)))"

definition scan_number :: "jsstr \<Rightarrow> (jsnum \<times> jsstr) option" where
  "scan_number s =
     (let (neg, r) = scan_sign s in
      if starts_with r (js ''Infinity'') then Some (Infty neg, drop 8 r)
      else (case scan_unsigned r of None \<Rightarrow> None | Some (q, r1) \<Rightarrow> Some (mk_num neg q, r1)))"

text \<open>Literals with a radix prefix: \<open>0x1F\<close>, \<open>0o17\<close>, \<open>0b101\<close>.\<close>

definition digit_value :: "jschar \<Rightarrow> int option" where
  "digit_value c = (if is_digit c then Some (int (c - 48))
     else if 97 \<le> c \<and> c \<le> 102 then Some (int (c - 87))
     else if 65 \<le> c \<and> c \<le> 70 then Some (int (c - 55)) else None)"

definition radix_num :: "int \<Rightarrow> jsstr \<Rightarrow> jsnum" where
  "radix_num b ds =
     (if ds = [] \<or> (\<exists>c \<in> set ds. case digit_value c of None \<Rightarrow> True | Some d \<Rightarrow> b \<le> d) then NaN
      else mk_num False (of_int (foldl (\<lambda>a c. b * a + the (digit_value c)) 0 ds)))"

definition radix_of :: "jsstr \<Rightarrow> int option" where
  "radix_of s = (case s of
       a # b # _ \<Rightarrow> if a \<noteq> 48 then None
         else if b \<in> {120, 88} then Some 16 else if b \<in> {111, 79} then Some 8
         else if b \<in> {98, 66} then Some 2 else None
     | _ \<Rightarrow> None)"

definition to_number :: "jsstr \<Rightarrow> jsnum" where
  "to_number s =
     (let t = trim s in
      if t = [] then Fin False 0
      else (case radix_of t of Some b \<Rightarrow> radix_num b (drop 2 t)
        | None \<Rightarrow> (case scan_number t of Some (x, []) \<Rightarrow> x | _ \<Rightarrow> NaN)))"

definition parse_float :: "jsstr \<Rightarrow> jsnum" where
  "parse_float s = (case scan_number (trim_start s) of Some (x, _) \<Rightarrow> x | None \<Rightarrow> NaN)"

text \<open>\<open>parseInt(s)\<close> with \<open>hex\<close>, \<open>parseInt(s, 10)\<close> without: the longest prefix of digits.\<close>

definition parse_int :: "bool \<Rightarrow> jsstr \<Rightarrow> jsnum" where
  "parse_int hex s =
     (let (neg, r) = scan_sign (trim_start s);
          (b, r1) = (if hex \<and> radix_of r = Some 16 then (16, drop 2 r) else (10, r));
          ds = takeWhile (\<lambda>c. case digit_value c of None \<Rightarrow> False | Some d \<Rightarrow> d < b) r1
      in if ds = [] then NaN else mk_num neg (of_int (foldl (\<lambda>a c. b * a + the (digit_value c)) 0 ds)))"

section \<open>Printing\<close>

text \<open>
  \<open>fmt_decimal ds n\<close> lays the digits \<open>ds\<close> out with the decimal point behind the \<open>n\<close>th one.
\<close>

definition fmt_decimal :: "jsstr \<Rightarrow> int \<Rightarrow> jsstr" where
  "fmt_decimal ds n =
     (let k = int (length ds); e = n - 1;
          es = [101] @ (if e < 0 then [45] else [43]) @ int_str \<bar>e\<bar> in
      if k \<le> n \<and> n \<le> 21 then ds @ replicate (nat (n - k)) 48
      else if 0 < n \<and> n \<le> 21 then take (nat n) ds @ [46] @ drop (nat n) ds
      else if - 6 < n \<and> n \<le> 0 then [48, 46] @ replicate (nat (- n)) 48 @ ds
      else if k = 1 then ds @ es
      else take 1 ds @ [46] @ drop 1 ds @ es)"

text \<open>The \<open>k\<close>-digit decimals next to \<open>m\<close>: the one that reads back as \<open>m\<close>, the closer of two.\<close>

definition pick_digits :: "rat \<Rightarrow> int \<Rightarrow> int \<Rightarrow> int option" where
  "pick_digits m n k =
     (let u = 10 powi (n - k); lo = \<lfloor>m / u\<rfloor>; hi = lo + 1;
          a = m - of_int lo * u; b = of_int hi * u - m in
      if rnd_mag (of_int lo * u) = m then
        (if rnd_mag (of_int hi * u) = m \<and> (b < a \<or> b = a \<and> odd lo) then Some hi else Some lo)
      else if rnd_mag (of_int hi * u) = m then Some hi
      else None)"

text \<open>
  The search for the shortest digits.  The bound 1400 is never reached by a search in practice (17
  digits are enough); it is large enough for the exact expansion of every double, which
  \<open>shortest_reads_back\<close> uses.
\<close>

function shortest :: "rat \<Rightarrow> int \<Rightarrow> int \<Rightarrow> int \<times> int" where
  "shortest m n k =
     (if 1400 \<le> k then (\<lfloor>m / 10 powi (n - k)\<rfloor>, k)
      else (case pick_digits m n k of Some s \<Rightarrow> (s, k) | None \<Rightarrow> shortest m n (k + 1)))"
  by pat_completeness auto
termination
  by (relation "measure (\<lambda>(m, n, k). nat (1400 - k))") auto

declare shortest.simps [simp del]

definition mag_str :: "rat \<Rightarrow> jsstr" where
  "mag_str m =
     (let n = ilog 10 m + 1; (s, k) = shortest m n 1;
          (s1, x) = (if s = 10 ^ nat k then (10 ^ nat (k - 1), n - k + 1) else (s, n - k));
          ds = int_str s1 in
      fmt_decimal ds (x + int (length ds)))"

fun num_str :: "jsnum \<Rightarrow> jsstr" where
  "num_str NaN = js ''NaN''"
| "num_str (Infty neg) = (if neg then [45] else []) @ js ''Infinity''"
| "num_str (Fin neg m) =
     (if m = 0 then [48] else (if neg then [45] else []) @ mag_str m)"

text \<open>\<open>x.toFixed(f)\<close>.\<close>

definition fixed_digits :: "nat \<Rightarrow> int \<Rightarrow> jsstr" where
  "fixed_digits f n =
     (let d = int_str n; d1 = replicate (f + 1 - length d) 48 @ d; k = length d1 in
      if f = 0 then d else take (k - f) d1 @ [46] @ drop (k - f) d1)"

fun to_fixed :: "nat \<Rightarrow> jsnum \<Rightarrow> jsstr" where
  "to_fixed f (Fin neg m) =
     (if 10 ^ 21 \<le> m then num_str (Fin neg m)
      else (if neg \<and> m \<noteq> 0 then [45] else []) @ fixed_digits f \<lfloor>m * 10 ^ f + 1 / 2\<rfloor>)"
| "to_fixed f x = num_str x"

section \<open>Reading what was printed\<close>

lemma not_digit [simp]: "\<not> is_digit 46" "\<not> is_digit 101" "\<not> is_digit 45" "\<not> is_digit 43"
  and digit_48 [simp]: "is_digit 48"
  by (auto simp: is_digit_def)

lemma takeWhile_digits [simp]: "\<forall>c \<in> set ds. is_digit c \<Longrightarrow> takeWhile is_digit ds = ds"
  by simp

lemma span_digits:
  assumes "\<forall>c \<in> set ds. is_digit c" "r = [] \<or> \<not> is_digit (hd r)"
  shows "takeWhile is_digit (ds @ r) = ds" "dropWhile is_digit (ds @ r) = r"
proof -
  have "takeWhile is_digit r = [] \<and> dropWhile is_digit r = r"
    using assms(2) by (cases r) auto
  then show "takeWhile is_digit (ds @ r) = ds" "dropWhile is_digit (ds @ r) = r"
    using assms(1) by auto
qed

lemma scan_exp_none: "r = [] \<Longrightarrow> scan_exp r = (0, [])"
  by (simp add: scan_exp_def)

lemma scan_exp_some:
  assumes "0 \<le> n"
  shows "scan_exp (101 # (if neg then 45 else 43) # int_str n) = (if neg then - n else n, [])"
proof -
  have sp: "takeWhile is_digit (int_str n) = int_str n" "dropWhile is_digit (int_str n) = []"
    using int_str_digits [OF assms] by auto
  show ?thesis using sp assms by (cases neg) (simp_all add: scan_exp_def)
qed

text \<open>A literal \<open>ip[.fp]\<close> followed by an exponent or nothing.\<close>

lemma scan_unsigned_plain:
  assumes "ip \<noteq> []" "\<forall>c \<in> set ip. is_digit c" "r = [] \<or> hd r = 101" "scan_exp r = (e, [])"
  shows "scan_unsigned (ip @ r) = Some (of_int (digits_int ip) * 10 powi e, [])"
proof -
  have "takeWhile is_digit (ip @ r) = ip" "dropWhile is_digit (ip @ r) = r"
    using span_digits [OF assms(2), of r] assms(3) by auto
  moreover have "scan_fraction r = ([], r)" using assms(3) by (cases r) (auto simp: scan_fraction_def)
  ultimately show ?thesis using assms(1,4) by (simp add: scan_unsigned_def)
qed

lemma scan_unsigned_point:
  assumes "\<forall>c \<in> set ip. is_digit c" "\<forall>c \<in> set fp. is_digit c" "ip \<noteq> [] \<or> fp \<noteq> []"
    and "r = [] \<or> hd r = 101" "scan_exp r = (e, [])"
  shows "scan_unsigned (ip @ 46 # fp @ r) =
    Some (of_int (digits_int (ip @ fp)) * 10 powi (e - int (length fp)), [])"
proof -
  have "takeWhile is_digit (ip @ 46 # fp @ r) = ip" "dropWhile is_digit (ip @ 46 # fp @ r) = 46 # fp @ r"
    using span_digits [OF assms(1), of "46 # fp @ r"] by auto
  moreover have "scan_fraction (46 # fp @ r) = (fp, r)"
    using span_digits [OF assms(2), of r] assms(4) by (auto simp: scan_fraction_def)
  ultimately show ?thesis using assms(3,5) by (simp add: scan_unsigned_def)
qed

lemma powi10_nonzero [simp]: "(10 :: rat) powi k \<noteq> 0"
  by simp

lemma scan_fmt_decimal:
  assumes ds: "ds \<noteq> []" "\<forall>c \<in> set ds. is_digit c"
  shows "scan_unsigned (fmt_decimal ds n) =
    Some (of_int (digits_int ds) * 10 powi (n - int (length ds)), [])"
proof -
  let ?k = "int (length ds)"
  let ?es = "101 # (if n - 1 < 0 then 45 else 43) # int_str \<bar>n - 1\<bar>"
  have es: "scan_exp ?es = (n - 1, [])" "?es = [] \<or> hd ?es = 101"
    using scan_exp_some [of "\<bar>n - 1\<bar>" "n - 1 < 0"] by auto
  have tk: "\<forall>c \<in> set (take j ds). is_digit c" "\<forall>c \<in> set (drop j ds). is_digit c" for j
    using ds(2) by (auto dest: in_set_takeD in_set_dropD)
  consider (a) "?k \<le> n" "n \<le> 21" | (b) "\<not> ?k \<le> n" "0 < n" "n \<le> 21"
    | (c) "- 6 < n" "n \<le> 0" | (d) "n \<le> - 6 \<or> 21 < n" "?k = 1" | (e) "n \<le> - 6 \<or> 21 < n" "?k \<noteq> 1"
    by linarith
  then show ?thesis
  proof cases
    case a
    then have "fmt_decimal ds n = (ds @ replicate (nat (n - ?k)) 48) @ []"
      by (simp add: fmt_decimal_def)
    also have "scan_unsigned \<dots> = Some (of_int (digits_int (ds @ replicate (nat (n - ?k)) 48)) * 10 powi 0, [])"
      using ds by (intro scan_unsigned_plain) (auto simp: scan_exp_none)
    also have "(of_int (digits_int (ds @ replicate (nat (n - ?k)) 48)) :: rat) * 10 powi 0 =
        of_int (digits_int ds) * 10 powi (n - ?k)"
      using a by (simp add: digits_int_append power_int_def)
    finally show ?thesis .
  next
    case b
    then have "fmt_decimal ds n = take (nat n) ds @ 46 # drop (nat n) ds @ []"
      by (simp add: fmt_decimal_def)
    also have "scan_unsigned \<dots> = Some (of_int (digits_int (take (nat n) ds @ drop (nat n) ds)) *
        10 powi (0 - int (length (drop (nat n) ds))), [])"
      using ds b tk by (intro scan_unsigned_point) (auto simp: scan_exp_none)
    finally show ?thesis using b by (simp add: of_nat_diff)
  next
    case c
    let ?z = "replicate (nat (- n)) (48 :: nat)"
    have "fmt_decimal ds n = [48] @ 46 # (?z @ ds) @ []"
    proof -
      have "\<not> ?k \<le> n" using c ds(1) by (cases ds) auto
      then show ?thesis using c by (simp add: fmt_decimal_def)
    qed
    also have "scan_unsigned \<dots> = Some (of_int (digits_int ([48] @ ?z @ ds)) *
        10 powi (0 - int (length (?z @ ds))), [])"
      using ds by (intro scan_unsigned_point) (auto simp: scan_exp_none)
    finally show ?thesis using c
      by (simp add: digits_int_append digits_int_Cons)
  next
    case d
    then have "fmt_decimal ds n = ds @ ?es" by (auto simp: fmt_decimal_def Let_def)
    also have "scan_unsigned \<dots> = Some (of_int (digits_int ds) * 10 powi (n - 1), [])"
      using ds es by (intro scan_unsigned_plain)
    finally show ?thesis using d by simp
  next
    case e
    then have "fmt_decimal ds n = take 1 ds @ 46 # drop 1 ds @ ?es"
      using ds(1) by (auto simp: fmt_decimal_def Let_def)
    also have "scan_unsigned \<dots> = Some (of_int (digits_int (take 1 ds @ drop 1 ds)) *
        10 powi (n - 1 - int (length (drop 1 ds))), [])"
      using ds tk es by (intro scan_unsigned_point) auto
    finally show ?thesis using ds(1) by (simp add: of_nat_diff Suc_leI algebra_simps)
  qed
qed

subsection \<open>The shortest digits read back\<close>

lemma pick_digits_reads_back:
  "pick_digits m n k = Some s \<Longrightarrow> rnd_mag (of_int s * 10 powi (n - k)) = m"
  by (auto simp: pick_digits_def Let_def split: if_splits)

lemma shortest_cases:
  "shortest m n k = (s, j) \<Longrightarrow> k \<le> 1400 \<Longrightarrow>
   rnd_mag (of_int s * 10 powi (n - j)) = m \<or> j = 1400 \<and> s = \<lfloor>m / 10 powi (n - 1400)\<rfloor>"
proof (induction m n k rule: shortest.induct)
  case (1 m n k)
  show ?case
  proof (cases "1400 \<le> k")
    case True
    with 1 show ?thesis by (auto simp: shortest.simps [of m n k])
  next
    case False
    show ?thesis
    proof (cases "pick_digits m n k")
      case None
      with 1 False show ?thesis by (auto simp: shortest.simps [of m n k])
    next
      case (Some s')
      with 1 False show ?thesis
        by (auto simp: shortest.simps [of m n k] dest: pick_digits_reads_back)
    qed
  qed
qed

lemma double_mag_ilog10: "\<lbrakk>double_mag m; 0 < m\<rbrakk> \<Longrightarrow> ilog 10 m \<le> 308"
proof (rule ilog_le)
  assume m: "double_mag m" "0 < m"
  have "m < 2 ^ 1024" using m(1) by (simp add: double_mag_def)
  also have "(2 :: rat) ^ 1024 < 10 ^ 309" by simp
  also have "(10 :: rat) ^ 309 = of_int 10 powi (308 + 1)" by (simp add: power_int_def)
  finally show "m < of_int 10 powi (308 + 1)" .
qed auto

text \<open>With 1400 digits the decimal expansion of a double is exact.\<close>

lemma exact_expansion:
  assumes "double_mag m" "0 < m" "n \<le> 309"
  shows "of_int \<lfloor>m / 10 powi (n - 1400)\<rfloor> * 10 powi (n - 1400) = m"
proof -
  obtain c e where ce: "- 1074 \<le> e" "m = of_int c * 2 powi e"
    using assms(1) by (auto simp: double_mag_def dyadic53_def)
  define x where "x = nat (1400 - n)"
  define y where "y = nat (e + 1074)"
  have x: "1400 - n = int x" "1074 \<le> x" using assms(3) by (auto simp: x_def)
  have "n - 1400 = - int x" using x(1) by linarith
  then have "(10 :: rat) powi (n - 1400) = 1 / 10 ^ x"
    by (simp add: power_int_minus divide_inverse)
  then have "m / 10 powi (n - 1400) = m * 10 ^ x" by simp
  also have "\<dots> = of_int c * (2 powi e * 2 ^ x) * 5 ^ x"
    using ce(2) by (simp add: power_mult_distrib [symmetric])
  also have "(2 :: rat) powi e * 2 ^ x = 2 powi (e + int x)" by (simp add: power_int_add)
  also have "\<dots> = 2 ^ nat (e + int x)" using ce(1) x(2) by (simp add: power_int_def)
  finally have "m / 10 powi (n - 1400) = of_int (c * 2 ^ nat (e + int x) * 5 ^ x)" by simp
  then have "of_int \<lfloor>m / 10 powi (n - 1400)\<rfloor> = m / 10 powi (n - 1400)" by (simp only: floor_of_int)
  then show ?thesis by (metis nonzero_eq_divide_eq powi10_nonzero)
qed

lemma shortest_reads_back:
  assumes "double_mag m" "0 < m" "shortest m (ilog 10 m + 1) 1 = (s, k)"
  shows "rnd_mag (of_int s * 10 powi (ilog 10 m + 1 - k)) = m"
  using shortest_cases [OF assms(3)] exact_expansion [OF assms(1,2), of "ilog 10 m + 1"]
    double_mag_ilog10 [OF assms(1,2)] assms(1)
  by (auto simp: rnd_mag_dyadic double_mag_def)

lemma shortest_k: "shortest m n k = (s, j) \<Longrightarrow> k \<le> j"
proof (induction m n k rule: shortest.induct)
  case (1 m n k)
  then show ?case
    by (cases "1400 \<le> k"; cases "pick_digits m n k") (force simp: shortest.simps [of m n k])+
qed

lemma pick_digits_range:
  "pick_digits m n k = Some s \<Longrightarrow> s = \<lfloor>m / 10 powi (n - k)\<rfloor> \<or> s = \<lfloor>m / 10 powi (n - k)\<rfloor> + 1"
  unfolding pick_digits_def Let_def by (force split: if_splits)

lemma shortest_nonneg: "\<lbrakk>0 < m; shortest m n k = (s, j)\<rbrakk> \<Longrightarrow> 0 \<le> s"
proof (induction m n k rule: shortest.induct)
  case (1 m n k)
  have f: "0 \<le> \<lfloor>m / 10 powi (n - k)\<rfloor>" using "1.prems"(1) by (simp add: zero_less_power_int)
  have "0 \<le> s'" if "pick_digits m n k = Some s'" for s'
    using pick_digits_range [OF that] f by auto
  with 1 f show ?case
    by (cases "1400 \<le> k"; cases "pick_digits m n k") (auto simp: shortest.simps [of m n k])
qed

lemma scan_mag_str:
  assumes "double_mag m" "0 < m"
  shows "\<exists>q. scan_unsigned (mag_str m) = Some (q, []) \<and> rnd_mag q = m"
proof -
  obtain s k where sk: "shortest m (ilog 10 m + 1) 1 = (s, k)" by fastforce
  define y where "y = ilog 10 m + 1 - k"
  define s1 x where "s1 = (if s = 10 ^ nat k then 10 ^ nat (k - 1) else s)"
    and "x = (if s = 10 ^ nat k then y + 1 else y)"
  have k: "1 \<le> k" using shortest_k [OF sk] .
  have s1: "0 \<le> s1" using shortest_nonneg [OF assms(2) sk] by (simp add: s1_def)
  have "nat k = Suc (nat (k - 1))" using k by linarith
  then have v: "(of_int s1 :: rat) * 10 powi x = of_int s * 10 powi y"
    by (auto simp: s1_def x_def power_int_add)
  have "mag_str m = fmt_decimal (int_str s1) (x + int (length (int_str s1)))"
    by (auto simp: mag_str_def sk s1_def x_def y_def Let_def)
  then have "scan_unsigned (mag_str m) = Some (of_int s1 * 10 powi x, [])"
    using scan_fmt_decimal [of "int_str s1" "x + int (length (int_str s1))"] int_str_digits [OF s1] s1
    by simp
  then show ?thesis using shortest_reads_back [OF assms sk] v by (auto simp: y_def)
qed

text \<open>The characters of a printed number; none is white space, a sign inside or a radix letter.\<close>

definition numeral_char :: "jschar \<Rightarrow> bool" where
  "numeral_char c \<longleftrightarrow> is_digit c \<or> c \<in> {43, 45, 46, 101}"

lemma numeral_char_not_ws: "numeral_char c \<Longrightarrow> \<not> is_ws c"
  by (auto simp: numeral_char_def is_digit_def is_ws_def)

lemma fmt_decimal_chars:
  assumes "\<forall>c \<in> set ds. is_digit c" "c \<in> set (fmt_decimal ds n)"
  shows "numeral_char c"
  using assms int_str_digits [of "\<bar>n - 1\<bar>"]
  by (auto simp: fmt_decimal_def Let_def numeral_char_def dest: in_set_takeD in_set_dropD split: if_splits)

lemma fmt_decimal_hd:
  assumes "ds \<noteq> []" "\<forall>c \<in> set ds. is_digit c"
  shows "fmt_decimal ds n \<noteq> [] \<and> is_digit (hd (fmt_decimal ds n))"
proof -
  obtain d ds' where d: "ds = d # ds'" using assms(1) by (cases ds) auto
  then have "is_digit d" using assms(2) by simp
  moreover have "0 < n \<Longrightarrow> take (nat n) (d # ds') = d # take (nat n - 1) ds'" by (cases "nat n") auto
  ultimately show ?thesis using d by (auto simp: fmt_decimal_def Let_def)
qed

lemma mag_str_fmt:
  assumes "0 < m"
  shows "\<exists>ds n. mag_str m = fmt_decimal ds n \<and> ds \<noteq> [] \<and> (\<forall>c \<in> set ds. is_digit c)"
proof -
  obtain s k where sk: "shortest m (ilog 10 m + 1) 1 = (s, k)" by fastforce
  have s: "0 \<le> s" using shortest_nonneg [OF assms sk] .
  define s1 where "s1 = (if s = 10 ^ nat k then 10 ^ nat (k - 1) else s)"
  have "\<exists>n. mag_str m = fmt_decimal (int_str s1) n"
    by (auto simp: mag_str_def sk Let_def s1_def)
  moreover have "\<forall>c \<in> set (int_str s1). is_digit c"
    using s by (intro int_str_digits) (simp add: s1_def)
  ultimately show ?thesis using int_str_not_Nil by blast
qed

lemma mag_str_chars: "\<lbrakk>0 < m; c \<in> set (mag_str m)\<rbrakk> \<Longrightarrow> numeral_char c"
  using mag_str_fmt fmt_decimal_chars by metis

lemma mag_str_hd: "0 < m \<Longrightarrow> mag_str m \<noteq> [] \<and> is_digit (hd (mag_str m))"
  using mag_str_fmt fmt_decimal_hd by metis

lemma radix_of_numeral: "\<forall>c \<in> set s. numeral_char c \<Longrightarrow> radix_of s = None"
  by (auto simp: radix_of_def numeral_char_def is_digit_def split: list.splits)

lemma scan_sign_digit: "s \<noteq> [] \<and> is_digit (hd s) \<Longrightarrow> scan_sign s = (False, s)"
  by (cases s) (auto simp: is_digit_def)

lemma digit_not_Infinity: "s \<noteq> [] \<and> is_digit (hd s) \<Longrightarrow> \<not> starts_with s (js ''Infinity'')"
  by (cases s) (auto simp: starts_with_def js_def is_digit_def)

lemma scan_number_signed:
  assumes "s \<noteq> [] \<and> is_digit (hd s)" "scan_unsigned s = Some (q, r)"
  shows "scan_number ((if neg then [45] else []) @ s) = Some (mk_num neg q, r)"
  using assms scan_sign_digit [OF assms(1)] digit_not_Infinity [OF assms(1)]
  by (cases neg) (simp_all add: scan_number_def)

text \<open>Reading a literal made of numeral characters: \<open>Number\<close> and \<open>parseFloat\<close> agree on it.\<close>

lemma read_numeral:
  assumes "\<forall>c \<in> set s. numeral_char c" "s \<noteq> [] \<and> is_digit (hd s)" "scan_unsigned s = Some (q, [])"
  shows "to_number ((if neg then [45] else []) @ s) = mk_num neg q"
    and "parse_float ((if neg then [45] else []) @ s) = mk_num neg q"
proof -
  let ?t = "(if neg then [45] else []) @ s"
  have ch: "\<forall>c \<in> set ?t. numeral_char c" using assms(1) by (auto simp: numeral_char_def)
  then have tr: "trim ?t = ?t" by (intro trim_no_ws) (auto dest: numeral_char_not_ws)
  have ts: "trim_start ?t = ?t"
  proof (rule trim_start_id)
    have "numeral_char (hd ?t)" using ch assms(2) hd_in_set [of ?t] by auto
    then show "?t = [] \<or> \<not> is_ws (hd ?t)" by (blast dest: numeral_char_not_ws)
  qed
  show "to_number ?t = mk_num neg q"
    using scan_number_signed [OF assms(2,3)] radix_of_numeral [OF ch] assms(2)
    unfolding to_number_def tr by (simp add: Let_def)
  show "parse_float ?t = mk_num neg q"
    using scan_number_signed [OF assms(2,3), of neg] unfolding parse_float_def ts by simp
qed

text \<open>\<open>Number(String(x)) === x\<close> for every double: the zeros read back as zero, \<open>NaN\<close> as \<open>NaN\<close>.\<close>

lemma num_str_0 [simp]: "num_str (Fin s 0) = [48]"
  by simp

lemma read_0 [simp]: "to_number [48] = Fin False 0" "parse_float [48] = Fin False 0"
  by (simp_all add: to_number_def parse_float_def trim_def trim_start_def trim_end_def is_ws_def
      radix_of_def scan_number_def starts_with_def js_def scan_unsigned_def scan_fraction_def
      scan_exp_def mk_num_def digits_int_def)

lemma to_number_num_str:
  assumes "wf_num (Fin s m)" "m \<noteq> 0"
  shows "to_number (num_str (Fin s m)) = Fin s m" "parse_float (num_str (Fin s m)) = Fin s m"
proof -
  have m: "double_mag m" "0 < m" using assms by auto
  obtain q where q: "scan_unsigned (mag_str m) = Some (q, [])" "rnd_mag q = m"
    using scan_mag_str [OF m] by blast
  have "mk_num s q = Fin s m" using q(2) m(1) by (simp add: mk_num_def double_mag_def)
  then show "to_number (num_str (Fin s m)) = Fin s m" "parse_float (num_str (Fin s m)) = Fin s m"
    using read_numeral [OF _ mag_str_hd [OF m(2)] q(1), of s] mag_str_chars [OF m(2)] assms(2) by auto
qed

lemma num_str_not_Nil [simp]: "wf_num x \<Longrightarrow> num_str x \<noteq> []"
  by (cases x) (use mag_str_hd in \<open>auto simp: js_def less_le\<close>)

subsection \<open>Fixed point notation\<close>

lemma scan_fixed_digits:
  assumes "0 \<le> n"
  shows "scan_unsigned (fixed_digits f n) = Some (of_int n / 10 ^ f, [])"
    and "\<forall>c \<in> set (fixed_digits f n). numeral_char c"
    and "fixed_digits f n \<noteq> [] \<and> is_digit (hd (fixed_digits f n))"
proof -
  note dg = int_str_digits [OF assms]
  define d1 where "d1 = replicate (f + 1 - length (int_str n)) 48 @ int_str n"
  define k where "k = length d1 - f"
  have d1: "\<forall>c \<in> set d1. is_digit c" "digits_int d1 = n" "f < length d1"
    using dg assms by (auto simp: d1_def digits_int_append)
  have tk: "\<forall>c \<in> set (take k d1). is_digit c" "\<forall>c \<in> set (drop k d1). is_digit c"
    using d1(1) by (auto dest: in_set_takeD in_set_dropD)
  have len: "length (drop k d1) = f" "take k d1 \<noteq> []" using d1(3) by (auto simp: k_def)
  have fd: "f \<noteq> 0 \<Longrightarrow> fixed_digits f n = take k d1 @ 46 # drop k d1"
    by (simp add: fixed_digits_def d1_def k_def Let_def)
  have f0: "fixed_digits 0 n = int_str n" by (simp add: fixed_digits_def)
  have pw: "(10 :: rat) powi (0 - int f) = 1 / 10 ^ f"
    by (simp add: power_int_minus divide_inverse)
  show "scan_unsigned (fixed_digits f n) = Some (of_int n / 10 ^ f, [])"
  proof (cases "f = 0")
    case True
    then show ?thesis
      using scan_unsigned_plain [of "int_str n" "[]" 0] dg assms f0 by (simp add: scan_exp_none)
  next
    case False
    have "scan_unsigned (take k d1 @ 46 # drop k d1 @ []) =
        Some (of_int (digits_int (take k d1 @ drop k d1)) * 10 powi (0 - int (length (drop k d1))), [])"
      using tk len by (intro scan_unsigned_point) (auto simp: scan_exp_none)
    then show ?thesis using fd [OF False] d1(2) pw len(1) by simp
  qed
  show "\<forall>c \<in> set (fixed_digits f n). numeral_char c"
    using dg tk fd f0 by (cases "f = 0") (auto simp: numeral_char_def)
  show "fixed_digits f n \<noteq> [] \<and> is_digit (hd (fixed_digits f n))"
  proof (cases "f = 0")
    case True
    then show ?thesis using dg f0 by (simp add: hd_in_set)
  next
    case False
    moreover have "is_digit (hd (take k d1))" using tk(1) len(2) by (meson hd_in_set)
    ultimately show ?thesis using fd len(2) by simp
  qed
qed

lemma fixed_digits_chars:
  assumes "0 \<le> n" "c \<in> set (fixed_digits f n)"
  shows "is_digit c \<or> c = 46"
  using assms int_str_digits [OF assms(1)]
  by (auto simp: fixed_digits_def Let_def split: if_splits dest!: in_set_takeD in_set_dropD)

text \<open>\<open>parseFloat(x.toFixed(f))\<close>: the double nearest to \<open>x\<close> rounded to \<open>f\<close> decimals.\<close>

lemma parse_to_fixed:
  assumes "0 \<le> m" "m < 10 ^ 21"
  shows "parse_float (to_fixed f (Fin s m)) =
    mk_num (s \<and> m \<noteq> 0) (of_int \<lfloor>m * 10 ^ f + 1 / 2\<rfloor> / 10 ^ f)"
proof -
  have n: "0 \<le> \<lfloor>m * 10 ^ f + 1 / 2\<rfloor>" using assms(1) by simp
  show ?thesis
    using read_numeral(2) [OF scan_fixed_digits(2) [OF n] scan_fixed_digits(3) [OF n]
        scan_fixed_digits(1) [OF n], of "s \<and> m \<noteq> 0"] assms(2)
    by simp
qed

lemma fixed_err: "\<bar>of_int \<lfloor>m * 10 ^ f + 1 / 2\<rfloor> / 10 ^ f - m\<bar> \<le> (1 / 2 / 10 ^ f :: rat)"
proof -
  let ?p = "(10 :: rat) ^ f"
  have p: "0 < ?p" by simp
  have "\<bar>of_int \<lfloor>m * ?p + 1 / 2\<rfloor> - m * ?p\<bar> \<le> 1 / 2" by linarith
  then have "\<bar>of_int \<lfloor>m * ?p + 1 / 2\<rfloor> - m * ?p\<bar> / ?p \<le> 1 / 2 / ?p"
    using p by (intro divide_right_mono) auto
  moreover have "of_int \<lfloor>m * ?p + 1 / 2\<rfloor> / ?p - m = (of_int \<lfloor>m * ?p + 1 / 2\<rfloor> - m * ?p) / ?p"
    by (simp add: diff_divide_distrib)
  ultimately show ?thesis using p by (simp only: abs_divide abs_of_pos)
qed

lemma round_fixed:
  fixes m :: rat
  assumes "\<bar>m - of_int k / 10 ^ f\<bar> < 1 / 2 / 10 ^ f"
  shows "\<lfloor>m * 10 ^ f + 1 / 2\<rfloor> = k"
proof -
  define P where "P = (10 :: rat) ^ f"
  have p: "0 < P" by (simp add: P_def)
  have "\<bar>m - of_int k / P\<bar> * P < 1 / 2 / P * P"
    using assms p unfolding P_def [symmetric] by (intro mult_strict_right_mono)
  then have "\<bar>m - of_int k / P\<bar> * P < 1 / 2" using p by simp
  moreover have "m * P - of_int k = (m - of_int k / P) * P" using p by (simp add: left_diff_distrib)
  then have "\<bar>m * P - of_int k\<bar> = \<bar>m - of_int k / P\<bar> * P" using p by (simp only: abs_mult abs_of_pos)
  ultimately have "\<bar>m * P - of_int k\<bar> < 1 / 2" by simp
  then show ?thesis unfolding P_def [symmetric] by linarith
qed

end
