(* ===== verification/Js_Value.thy ===== *)
theory Js_Value
  imports Js_Numeral
begin

text \<open>
  JavaScript values as far as the sources handle them (JSON data plus \<open>undefined\<close>), the
  conversions and operators on them.  An object is a keyed store of its own properties; inherited
  properties are not modelled.
\<close>

section \<open>Values\<close>

datatype jsval = Undef | Null | Bool bool | Num jsnum | Str jsstr
  | Arr "jsval list" | Obj "(jsstr \<times> jsval) list"

datatype js_error = TypeError | SyntaxError | ErrorMsg jsstr

text \<open>The translation function of i18next, applied to a text and its parameters, and the toasts.\<close>

type_synonym translate = "jsstr \<Rightarrow> (jsstr \<times> jsval) list \<Rightarrow> jsstr"

datatype toast = ShowError jsstr | ShowSuccess jsstr | ShowInfo jsstr | ShowWarning jsstr

definition truthy :: "jsval \<Rightarrow> bool" where
  "truthy v = (case v of Undef \<Rightarrow> False | Null \<Rightarrow> False | Bool b \<Rightarrow> b
     | Num x \<Rightarrow> x \<noteq> NaN \<and> \<not> num_zero x | Str s \<Rightarrow> s \<noteq> [] | _ \<Rightarrow> True)"

text \<open>\<open>typeof v === 'object'\<close>, \<open>v === null\<close> or \<open>undefined\<close>, and \<open>v || w\<close>, \<open>v ?? w\<close>.\<close>

definition is_object_type :: "jsval \<Rightarrow> bool" where
  "is_object_type v = (case v of Null \<Rightarrow> True | Arr _ \<Rightarrow> True | Obj _ \<Rightarrow> True | _ \<Rightarrow> False)"

definition nullish :: "jsval \<Rightarrow> bool" where
  "nullish v = (v = Undef \<or> v = Null)"

definition js_or :: "jsval \<Rightarrow> jsval \<Rightarrow> jsval" where
  "js_or v w = (if truthy v then v else w)"

definition is_array :: "jsval \<Rightarrow> bool" where
  "is_array v = (case v of Arr _ \<Rightarrow> True | _ \<Rightarrow> False)"

text \<open>
  The keys that count as array indices, which objects list first in ascending order
  (OrdinaryOwnPropertyKeys).
\<close>

definition is_index :: "jsstr \<Rightarrow> bool" where
  "is_index k \<longleftrightarrow> k \<noteq> [] \<and> (\<forall>c \<in> set k. is_digit c) \<and> (hd k = 48 \<longrightarrow> length k = 1) \<and>
     digits_int k < 4294967295"

definition own_order :: "(jsstr \<times> 'v) list \<Rightarrow> (jsstr \<times> 'v) list" where
  "own_order kvs = sort_key (digits_int \<circ> fst) (filter (is_index \<circ> fst) kvs) @
     filter (Not \<circ> (is_index \<circ> fst)) kvs"

definition obj_keys :: "jsval \<Rightarrow> jsstr list" where
  "obj_keys v = (case v of Obj kvs \<Rightarrow> map fst (own_order kvs)
     | Arr xs \<Rightarrow> map (\<lambda>i. int_str (int i)) [0..<length xs] | _ \<Rightarrow> [])"

text \<open>\<open>v[k]\<close>: reading a property of \<open>undefined\<close> or \<open>null\<close> throws; \<open>v?.[k]\<close> does not.\<close>

definition own_prop :: "jsval \<Rightarrow> jsstr \<Rightarrow> jsval" where
  "own_prop v k = (case v of
       Obj kvs \<Rightarrow> (case get kvs k of None \<Rightarrow> Undef | Some w \<Rightarrow> w)
     | Arr xs \<Rightarrow>
         if k = js ''length'' then Num (num_of_rat (of_nat (length xs)))
         else if is_index k \<and> digits_int k < int (length xs) then xs ! nat (digits_int k)
         else Undef
     | _ \<Rightarrow> Undef)"

definition get_prop :: "jsval \<Rightarrow> jsstr \<Rightarrow> js_error + jsval" where
  "get_prop v k = (if nullish v then Inl TypeError else Inr (own_prop v k))"

text \<open>\<open>String(v)\<close> and \<open>Number(v)\<close>.\<close>

fun to_str :: "jsval \<Rightarrow> jsstr" where
  "to_str Undef = js ''undefined''"
| "to_str Null = js ''null''"
| "to_str (Bool b) = (if b then js ''true'' else js ''false'')"
| "to_str (Num x) = num_str x"
| "to_str (Str s) = s"
| "to_str (Arr xs) = join [44] (map (\<lambda>v. if nullish v then [] else to_str v) xs)"
| "to_str (Obj _) = js ''[object Object]''"

fun to_num :: "jsval \<Rightarrow> jsnum" where
  "to_num Undef = NaN"
| "to_num Null = Fin False 0"
| "to_num (Bool b) = Fin False (if b then 1 else 0)"
| "to_num (Num x) = x"
| "to_num (Str s) = to_number s"
| "to_num (Arr xs) = to_number (to_str (Arr xs))"
| "to_num (Obj _) = NaN"

text \<open>\<open>String(v ?? '')\<close> and \<open>String(v || '')\<close>.\<close>

definition str_nullish :: "jsval \<Rightarrow> jsstr" where
  "str_nullish v = (if nullish v then [] else to_str v)"

definition str_or_empty :: "jsval \<Rightarrow> jsstr" where
  "str_or_empty v = (if truthy v then to_str v else [])"

definition plain_object :: "jsval \<Rightarrow> bool" where
  "plain_object v = (case v of Obj _ \<Rightarrow> True | _ \<Rightarrow> False)"

text \<open>\<open>v === w\<close> on primitives; arrays and objects compare by identity, which the sources never
  rely on for the values modelled here.\<close>

fun strict_eq :: "jsval \<Rightarrow> jsval \<Rightarrow> bool" where
  "strict_eq (Num x) (Num y) = num_eq x y"
| "strict_eq v w = (v = w)"

lemma own_order_id: "\<forall>k \<in> set (map fst kvs). \<not> is_index k \<Longrightarrow> own_order kvs = kvs"
proof -
  assume a: "\<forall>k \<in> set (map fst kvs). \<not> is_index k"
  then have "filter (is_index \<circ> fst) kvs = []" "filter (Not \<circ> (is_index \<circ> fst)) kvs = kvs"
    by (auto simp: filter_empty_conv filter_id_conv)
  then show ?thesis by (simp add: own_order_def)
qed

lemma mset_own_order: "mset (own_order kvs) = mset kvs"
proof -
  have "mset (own_order kvs) =
      filter_mset (is_index \<circ> fst) (mset kvs) + filter_mset (Not \<circ> (is_index \<circ> fst)) (mset kvs)"
    by (simp add: own_order_def mset_filter)
  also have "\<dots> = mset kvs"
    unfolding comp_def by (rule multiset_partition [symmetric])
  finally show ?thesis .
qed

lemma set_own_order [simp]: "set (own_order kvs) = set kvs"
  using mset_own_order by (metis set_mset_mset)

lemma distinct_own_order: "distinct (map fst kvs) \<Longrightarrow> distinct (map fst (own_order kvs))"
proof -
  assume "distinct (map fst kvs)"
  moreover have "mset (map fst (own_order kvs)) = mset (map fst kvs)" by (simp add: mset_own_order)
  ultimately show ?thesis by (metis mset_eq_imp_distinct_iff)
qed

lemma get_own_order: "wf_store kvs \<Longrightarrow> get (own_order kvs) k = get kvs k"
proof -
  assume "wf_store kvs"
  then have d: "distinct (map fst kvs)" "distinct (map fst (own_order kvs))"
    by (auto simp: wf_store_def keys_def distinct_own_order)
  have "map_of (own_order kvs) = map_of kvs"
    using d by (subst map_of_inject_set) auto
  then show ?thesis by (simp add: get_def)
qed

end
