(* ===== verification/Js_Json.thy ===== *)
theory Js_Json
  imports Js_Value
begin

text \<open>
  \<open>JSON.parse\<close> and \<open>JSON.stringify\<close> (with and without indentation).  The parser runs on fuel;
  \<open>pval_fuel\<close> shows that the fuel \<open>json_parse\<close> gives it never runs out, and
  \<open>json_parse_stringify\<close> that parsing what was written gives back the value.
\<close>

section \<open>Reading\<close>

definition json_ws :: "jschar \<Rightarrow> bool" where
  "json_ws c \<longleftrightarrow> c = 32 \<or> c = 9 \<or> c = 10 \<or> c = 13"

definition skip_ws :: "jsstr \<Rightarrow> jsstr" where
  "skip_ws = dropWhile json_ws"

text \<open>The part of a string literal behind the opening quote.\<close>

definition hex4 :: "jschar \<Rightarrow> jschar \<Rightarrow> jschar \<Rightarrow> jschar \<Rightarrow> jschar option" where
  "hex4 a b c d = (case (digit_value a, digit_value b, digit_value c, digit_value d) of
      (Some w, Some x, Some y, Some z) \<Rightarrow> Some (nat (((w * 16 + x) * 16 + y) * 16 + z))
    | _ \<Rightarrow> None)"

definition escape_char :: "jschar \<Rightarrow> jschar option" where
  "escape_char c = (if c = 34 \<or> c = 92 \<or> c = 47 then Some c
     else if c = 98 then Some 8 else if c = 102 then Some 12 else if c = 110 then Some 10
     else if c = 114 then Some 13 else if c = 116 then Some 9 else None)"

definition push :: "jschar \<Rightarrow> (jsstr \<times> jsstr) option \<Rightarrow> (jsstr \<times> jsstr) option" where
  "push c x = map_option (\<lambda>(s, r). (c # s, r)) x"

fun pstr :: "jsstr \<Rightarrow> (jsstr \<times> jsstr) option" where
  "pstr [] = None"
| "pstr (c # r) =
     (if c = 34 then Some ([], r)
      else if c < 32 then None
      else if c = 92 then
        (case r of
           [] \<Rightarrow> None
         | e # r1 \<Rightarrow>
             if e = 117 then
               (case r1 of
                  w # x # y # z # r2 \<Rightarrow>
                    (case hex4 w x y z of None \<Rightarrow> None | Some u \<Rightarrow> push u (pstr r2))
                | _ \<Rightarrow> None)
             else (case escape_char e of None \<Rightarrow> None | Some u \<Rightarrow> push u (pstr r1)))
      else push c (pstr r))"

text \<open>A number: no leading zero, digits on both sides of a point, digits in an exponent.\<close>

definition pnum :: "jsstr \<Rightarrow> (jsnum \<times> jsstr) option" where
  "pnum s =
     (let (neg, r) = (case s of [] \<Rightarrow> (False, s) | c # s1 \<Rightarrow> if c = 45 then (True, s1) else (False, s));
          ip = takeWhile is_digit r; r1 = dropWhile is_digit r in
      if ip = [] \<or> (hd ip = 48 \<and> ip \<noteq> [48]) then None
      else if r1 \<noteq> [] \<and> hd r1 = 46 \<and> takeWhile is_digit (tl r1) = [] then None
      else (case scan_unsigned r of None \<Rightarrow> None | Some (q, r2) \<Rightarrow> Some (mk_num neg q, r2)))"

fun pval :: "nat \<Rightarrow> jsstr \<Rightarrow> (jsval \<times> jsstr) option"
and parr :: "nat \<Rightarrow> jsstr \<Rightarrow> (jsval list \<times> jsstr) option"
and pobj :: "nat \<Rightarrow> (jsstr \<times> jsval) list \<Rightarrow> jsstr \<Rightarrow> (jsval \<times> jsstr) option" where
  "pval 0 s = None"
| "pval (Suc n) s =
     (case skip_ws s of
        [] \<Rightarrow> None
      | c # r \<Rightarrow>
          if c = 34 then map_option (\<lambda>(t, r1). (Str t, r1)) (pstr r)
          else if c = 91 then
            (case skip_ws r of
               [] \<Rightarrow> None
             | d # r1 \<Rightarrow> if d = 93 then Some (Arr [], r1)
                 else map_option (\<lambda>(vs, r2). (Arr vs, r2)) (parr n r))
          else if c = 123 then
            (case skip_ws r of
               [] \<Rightarrow> None
             | d # r1 \<Rightarrow> if d = 125 then Some (Obj [], r1) else pobj n [] r)
          else if starts_with (c # r) (js ''true'') then Some (Bool True, drop 4 (c # r))
          else if starts_with (c # r) (js ''false'') then Some (Bool False, drop 5 (c # r))
          else if starts_with (c # r) (js ''null'') then Some (Null, drop 4 (c # r))
          else map_option (\<lambda>(x, r1). (Num x, r1)) (pnum (c # r)))"
| "parr 0 s = None"
| "parr (Suc n) s =
     (case pval n s of
        None \<Rightarrow> None
      | Some (v, r) \<Rightarrow>
          (case skip_ws r of
             [] \<Rightarrow> None
           | d # r1 \<Rightarrow>
               if d = 93 then Some ([v], r1)
               else if d = 44 then map_option (\<lambda>(vs, r2). (v # vs, r2)) (parr n r1)
               else None))"
| "pobj 0 acc s = None"
| "pobj (Suc n) acc s =
     (case skip_ws s of
        [] \<Rightarrow> None
      | c # r \<Rightarrow>
          if c \<noteq> 34 then None
          else (case pstr r of
              None \<Rightarrow> None
            | Some (k, r1) \<Rightarrow>
                (case skip_ws r1 of
                   [] \<Rightarrow> None
                 | d # r2 \<Rightarrow>
                     if d \<noteq> 58 then None
                     else (case pval n r2 of
                         None \<Rightarrow> None
                       | Some (v, r3) \<Rightarrow>
                           (case skip_ws r3 of
                              [] \<Rightarrow> None
                            | e # r4 \<Rightarrow>
                                if e = 125 then Some (Obj (put k v acc), r4)
                                else if e = 44 then pobj n (put k v acc) r4
                                else None)))))"

text \<open>
  \<open>JSON.parse(s)\<close>; \<open>None\<close> is the \<open>SyntaxError\<close>.  The fuel covers every input: see
  \<open>pval_fuel\<close> below.
\<close>

definition json_parse :: "jsstr \<Rightarrow> jsval option" where
  "json_parse s = (case pval (2 * length s + 2) s of
      Some (v, r) \<Rightarrow> if skip_ws r = [] then Some v else None | None \<Rightarrow> None)"

text \<open>\<open>verifyJSON\<close> of \<open>helpers/utils.jsx\<close>.\<close>

definition verifyJSON :: "jsstr \<Rightarrow> bool" where
  "verifyJSON s = (json_parse s \<noteq> None)"

section \<open>Writing\<close>

definition hex_digit :: "nat \<Rightarrow> jschar" where
  "hex_digit d = (if d < 10 then 48 + d else 87 + d)"

definition unicode_escape :: "jschar \<Rightarrow> jsstr" where
  "unicode_escape c = [92, 117, hex_digit (c div 4096 mod 16), hex_digit (c div 256 mod 16),
     hex_digit (c div 16 mod 16), hex_digit (c mod 16)]"

definition quote_char :: "jschar \<Rightarrow> jsstr" where
  "quote_char c = (if c = 34 then [92, 34] else if c = 92 then [92, 92]
     else if c = 8 then [92, 98] else if c = 12 then [92, 102] else if c = 10 then [92, 110]
     else if c = 13 then [92, 114] else if c = 9 then [92, 116]
     else if c < 32 then unicode_escape c else [c])"

definition is_lead :: "jschar \<Rightarrow> bool" where
  "is_lead c \<longleftrightarrow> 55296 \<le> c \<and> c \<le> 56319"

definition is_trail :: "jschar \<Rightarrow> bool" where
  "is_trail c \<longleftrightarrow> 56320 \<le> c \<and> c \<le> 57343"

text \<open>Surrogates that are not part of a pair are escaped (well-formed \<open>JSON.stringify\<close>).\<close>

fun quote_body :: "jsstr \<Rightarrow> jsstr" where
  "quote_body [] = []"
| "quote_body [c] = (if is_lead c \<or> is_trail c then unicode_escape c else quote_char c)"
| "quote_body (c # d # r) =
     (if is_lead c \<and> is_trail d then c # d # quote_body r
      else if is_lead c \<or> is_trail c then unicode_escape c @ quote_body (d # r)
      else quote_char c @ quote_body (d # r))"

definition json_quote :: "jsstr \<Rightarrow> jsstr" where
  "json_quote s = [34] @ quote_body s @ [34]"

text \<open>
  \<open>JSON.stringify(v, null, gap)\<close> at an indentation; \<open>undefined\<close> is left out of objects and
  written as \<open>null\<close> in arrays.
\<close>

definition enclose :: "jsstr \<Rightarrow> jsstr \<Rightarrow> jschar \<Rightarrow> jschar \<Rightarrow> jsstr list \<Rightarrow> jsstr" where
  "enclose gap ind l r parts =
     (if parts = [] then [l, r]
      else if gap = [] then [l] @ join [44] parts @ [r]
      else [l, 10] @ ind @ gap @ join ([44, 10] @ ind @ gap) parts @ [10] @ ind @ [r])"

definition colon :: "jsstr \<Rightarrow> jsstr" where
  "colon gap = (if gap = [] then [58] else [58, 32])"

fun json_ser :: "jsstr \<Rightarrow> jsstr \<Rightarrow> jsval \<Rightarrow> jsstr" where
  "json_ser gap ind Undef = js ''null''"
| "json_ser gap ind Null = js ''null''"
| "json_ser gap ind (Bool b) = (if b then js ''true'' else js ''false'')"
| "json_ser gap ind (Num x) = (if is_finite x then num_str x else js ''null'')"
| "json_ser gap ind (Str s) = json_quote s"
| "json_ser gap ind (Arr vs) = enclose gap ind 91 93 (map (json_ser gap (ind @ gap)) vs)"
| "json_ser gap ind (Obj kvs) = enclose gap ind 123 125
     (map snd (own_order (map (\<lambda>(k, v). (k, json_quote k @ colon gap @ json_ser gap (ind @ gap) v))
        (filter (\<lambda>kv. snd kv \<noteq> Undef) kvs))))"

definition json_stringify :: "jsstr \<Rightarrow> jsval \<Rightarrow> jsstr option" where
  "json_stringify gap v = (if v = Undef then None else Some (json_ser gap [] v))"

section \<open>The fuel is enough\<close>

lemma skip_ws_length: "length (skip_ws s) \<le> length s"
  by (simp add: skip_ws_def length_dropWhile_le)

lemma skip_ws_Cons_length: "skip_ws s = c # r \<Longrightarrow> length r < length s"
  using skip_ws_length [of s] by simp

lemma push_Some [simp]: "push c x = Some (s, r) \<longleftrightarrow> (\<exists>t. x = Some (t, r) \<and> s = c # t)"
  by (auto simp: push_def)

lemma pstr_length: "pstr s = Some (t, r) \<Longrightarrow> length r < length s"
proof (induction s arbitrary: t rule: pstr.induct)
  case 1
  then show ?case by simp
next
  case (2 c r0)
  then show ?case
    by (auto split: if_splits list.splits option.splits) fastforce+
qed

lemma scan_exp_length: "length (snd (scan_exp r)) \<le> length r"
proof (cases r)
  case Nil
  then show ?thesis by (simp add: scan_exp_def)
next
  case (Cons c r1)
  obtain neg r2 where "scan_sign r1 = (neg, r2)" by fastforce
  then have "length r2 \<le> length r1" "scan_sign r1 = (neg, r2)" by (cases r1; auto split: if_splits)+
  then show ?thesis
    using Cons length_dropWhile_le [of is_digit r2] by (auto simp: scan_exp_def Let_def)
qed

lemma scan_fraction_length: "length (snd (scan_fraction r)) \<le> length r"
  by (cases r) (auto simp: scan_fraction_def length_dropWhile_le le_SucI)

lemma scan_unsigned_length: "scan_unsigned s = Some (q, r) \<Longrightarrow> length r \<le> length s"
  using scan_fraction_length [of "dropWhile is_digit s"] length_dropWhile_le [of is_digit s]
    scan_exp_length [of "snd (scan_fraction (dropWhile is_digit s))"]
  by (auto simp: scan_unsigned_def Let_def split: prod.splits if_splits)

lemma scan_unsigned_length_less:
  assumes "scan_unsigned s = Some (q, r)" "takeWhile is_digit s \<noteq> []"
  shows "length r < length s"
proof -
  have "length (dropWhile is_digit s) < length s"
    using assms(2) by (metis length_append length_greater_0_conv less_add_same_cancel2 takeWhile_dropWhile_id)
  then show ?thesis
    using assms scan_fraction_length [of "dropWhile is_digit s"]
      scan_exp_length [of "snd (scan_fraction (dropWhile is_digit s))"]
    by (auto simp: scan_unsigned_def Let_def split: prod.splits if_splits)
qed

lemma pnum_length: "pnum s = Some (x, r) \<Longrightarrow> length r < length s"
  by (auto simp: pnum_def Let_def split: if_splits list.splits option.splits
      dest!: scan_unsigned_length_less)

lemma p_length:
  "pval n s = Some (v, r) \<Longrightarrow> length r < length s"
  "parr n s = Some (vs, r) \<Longrightarrow> length r < length s"
  "pobj n acc s = Some (v, r) \<Longrightarrow> length r < length s"
proof (induction n s and n s and n acc s arbitrary: v r and vs r and v r rule: pval_parr_pobj.induct)
  case (2 n s)
  then show ?case
    by (auto split: list.splits if_splits dest!: pstr_length pnum_length skip_ws_Cons_length)
      (fastforce dest: skip_ws_Cons_length)+
next
  case (4 n s)
  then show ?case
    by (fastforce split: list.splits if_splits option.splits prod.splits dest!: skip_ws_Cons_length)
next
  case (6 n acc s)
  then show ?case
    by (fastforce split: list.splits if_splits option.splits prod.splits
        dest!: skip_ws_Cons_length pstr_length)
qed auto

text \<open>Above the bound one more unit of fuel changes nothing.\<close>

lemma p_fuel_step:
  "(2 * length s + 2 \<le> n \<longrightarrow> pval (Suc n) s = pval n s) \<and>
   (2 * length s + 3 \<le> n \<longrightarrow> parr (Suc n) s = parr n s) \<and>
   (2 * length s + 2 \<le> n \<longrightarrow> pobj (Suc n) acc s = pobj n acc s)"
proof (induction n arbitrary: s acc)
  case 0
  show ?case by simp
next
  case (Suc n)
  have A: "parr (Suc n) r = parr n r" "pobj (Suc n) acc' r = pobj n acc' r" "pval (Suc n) r = pval n r"
    if "length r < length s" "2 * length s + 2 \<le> Suc n" for r acc'
    using Suc [of r acc'] that by auto
  have V: "pval (Suc (Suc n)) s = pval (Suc n) s" if "2 * length s + 2 \<le> Suc n"
  proof (cases "skip_ws s")
    case Nil
    then show ?thesis by (simp only: pval.simps(2) [of "Suc n" s] pval.simps(2) [of n s] list.case)
  next
    case (Cons c r)
    note A [OF skip_ws_Cons_length [OF Cons] that]
    with Cons show ?thesis by (simp only: pval.simps(2) [of "Suc n" s] pval.simps(2) [of n s] list.case)
  qed
  have R: "parr (Suc (Suc n)) s = parr (Suc n) s" if b: "2 * length s + 3 \<le> Suc n"
  proof -
    have pv: "pval (Suc n) s = pval n s" using Suc [of s] b by auto
    have pa: "parr (Suc n) r1 = parr n r1"
      if "pval n s = Some (v, r)" "skip_ws r = d # r1" for v r d r1
      using p_length(1) [OF that(1)] skip_ws_Cons_length [OF that(2)] b by (intro A(1)) auto
    note unf = parr.simps(2) [of "Suc n" s] parr.simps(2) [of n s]
    show ?thesis
    proof (cases "pval n s")
      case None
      with pv show ?thesis by (simp only: unf option.case)
    next
      case (Some vr)
      obtain v r where vr: "vr = (v, r)" by fastforce
      show ?thesis
      proof (cases "skip_ws r")
        case Nil
        with pv Some vr show ?thesis by (simp only: unf option.case prod.case list.case)
      next
        case (Cons d r1)
        note pa [OF Some [unfolded vr] Cons]
        with Cons pv Some vr show ?thesis by (simp only: unf option.case prod.case list.case)
      qed
    qed
  qed
  have O: "pobj (Suc (Suc n)) acc s = pobj (Suc n) acc s" if b: "2 * length s + 2 \<le> Suc n"
  proof -
    note unf = pobj.simps(2) [of "Suc n" acc s] pobj.simps(2) [of n acc s]
    show ?thesis
    proof (cases "skip_ws s")
      case Nil
      then show ?thesis by (simp only: unf list.case)
    next
      case s: (Cons c r)
      show ?thesis
      proof (cases "pstr r")
        case None
        with s show ?thesis by (simp only: unf list.case option.case)
      next
        case (Some kr)
        obtain k r1 where kr: "pstr r = Some (k, r1)" using Some by (cases kr) auto
        show ?thesis
        proof (cases "skip_ws r1")
          case Nil
          with s kr show ?thesis by (simp only: unf list.case option.case prod.case)
        next
          case r1: (Cons d r2)
          have l2: "length r2 < length s"
            using skip_ws_Cons_length [OF s] pstr_length [OF kr] skip_ws_Cons_length [OF r1] by simp
          have pv: "pval (Suc n) r2 = pval n r2" using A(3) [OF l2 b] .
          have po: "pobj (Suc n) acc' r4 = pobj n acc' r4"
            if "pval n r2 = Some (w, r3)" "skip_ws r3 = e # r4" for w r3 e r4 acc'
            using p_length(1) [OF that(1)] skip_ws_Cons_length [OF that(2)] l2 b by (intro A(2)) auto
          show ?thesis
            using s kr r1 pv po
            by (simp only: unf list.case option.case prod.case)
              (auto split: option.split list.split simp del: pobj.simps pval.simps)
        qed
      qed
    qed
  qed
  show ?case using V R O by blast
qed

lemma pval_fuel: "2 * length s + 2 \<le> n \<Longrightarrow> pval n s = pval (2 * length s + 2) s"
proof (induction rule: dec_induct)
  case base
  show ?case ..
next
  case (step n)
  then show ?case using p_fuel_step [of s n] by simp
qed

section \<open>Reading what was written\<close>

subsection \<open>Strings\<close>

lemma digit_value_hex [simp]: "d < 16 \<Longrightarrow> digit_value (hex_digit d) = Some (int d)"
  by (auto simp: digit_value_def hex_digit_def is_digit_def)

lemma hex4_escape:
  assumes "c < 65536"
  shows "hex4 (hex_digit (c div 4096 mod 16)) (hex_digit (c div 256 mod 16))
    (hex_digit (c div 16 mod 16)) (hex_digit (c mod 16)) = Some c"
proof -
  have q: "c div 256 = c div 16 div 16" "c div 4096 = c div 256 div 16"
    by (simp_all flip: div_mult2_eq)
  have top: "c div 4096 mod 16 = c div 4096" using assms by (intro mod_less) simp
  have "((c div 4096 mod 16 * 16 + c div 256 mod 16) * 16 + c div 16 mod 16) * 16 + c mod 16 = c"
    unfolding top unfolding q(2) div_mult_mod_eq unfolding q(1) div_mult_mod_eq ..
  then have eq: "((int (c div 4096 mod 16) * 16 + int (c div 256 mod 16)) * 16 + int (c div 16 mod 16)) * 16 +
      int (c mod 16) = int c"
    by (metis of_nat_add of_nat_mult of_nat_numeral)
  have g: "hex4 (hex_digit w) (hex_digit x) (hex_digit y) (hex_digit z) =
      Some (nat (((int w * 16 + int x) * 16 + int y) * 16 + int z))"
    if "w < 16" "x < 16" "y < 16" "z < 16" for w x y z
    using that by (simp add: hex4_def)
  show ?thesis by (subst g) (simp_all only: eq nat_int mod_less_divisor zero_less_numeral)
qed

lemma pstr_hex4: "hex4 w x y z = Some u \<Longrightarrow> pstr (92 # 117 # w # x # y # z # r) = push u (pstr r)"
  by simp

lemma pstr_unicode_escape: "c < 65536 \<Longrightarrow> pstr (unicode_escape c @ r) = push c (pstr r)"
  unfolding unicode_escape_def append_Cons append_Nil by (rule pstr_hex4 [OF hex4_escape])

lemma pstr_quote_char: "pstr (quote_char c @ r) = push c (pstr r)"
  using pstr_unicode_escape [of c r] by (auto simp: quote_char_def escape_char_def)

lemma surrogate_small: "is_lead c \<or> is_trail c \<Longrightarrow> c < 65536 \<and> \<not> c < 32 \<and> c \<noteq> 34 \<and> c \<noteq> 92"
  by (auto simp: is_lead_def is_trail_def)

lemma pstr_plain: "\<lbrakk>\<not> c < 32; c \<noteq> 34; c \<noteq> 92\<rbrakk> \<Longrightarrow> pstr (c # r) = push c (pstr r)"
  by simp

lemma pstr_quote_body: "pstr (quote_body s @ 34 # r) = Some (s, r)"
proof (induction s rule: quote_body.induct)
  case 1
  show ?case by simp
next
  case (2 c)
  show ?case
    using pstr_unicode_escape [of c] pstr_quote_char [of c] surrogate_small [of c]
    by (simp del: pstr.simps(2)) (simp add: push_def)
next
  case (3 c d r0)
  consider "is_lead c \<and> is_trail d" | "\<not> (is_lead c \<and> is_trail d)" "is_lead c \<or> is_trail c"
    | "\<not> (is_lead c \<or> is_trail c)" by blast
  then show ?case
  proof cases
    case 1
    then show ?thesis
      using "3.IH"(1) surrogate_small [of c] surrogate_small [of d]
      by (simp del: pstr.simps(2) add: pstr_plain)
  next
    case 2
    then show ?thesis
      using "3.IH"(2) pstr_unicode_escape [of c] surrogate_small [of c] by (auto simp del: pstr.simps(2))
  next
    case 3
    then show ?thesis
      using "3.IH"(3) pstr_quote_char [of c] by (simp del: pstr.simps(2))
  qed
qed

subsection \<open>Numbers\<close>

text \<open>What may follow a value: the end, a comma, a closing bracket or a line break.\<close>

definition delim :: "jsstr \<Rightarrow> bool" where
  "delim r \<longleftrightarrow> r = [] \<or> hd r = 44 \<or> hd r = 93 \<or> hd r = 125 \<or> hd r = 10"

lemma delim_not_digit: "delim r \<Longrightarrow> takeWhile is_digit r = [] \<and> dropWhile is_digit r = r"
  by (cases r) (auto simp: delim_def is_digit_def)

lemma span_append_delim:
  assumes "delim r"
  shows "takeWhile is_digit (s @ r) = takeWhile is_digit s"
    "dropWhile is_digit (s @ r) = dropWhile is_digit s @ r"
proof -
  have "takeWhile is_digit (s @ r) = takeWhile is_digit s \<and>
      dropWhile is_digit (s @ r) = dropWhile is_digit s @ r"
    by (induction s) (use delim_not_digit [OF assms] in auto)
  then show "takeWhile is_digit (s @ r) = takeWhile is_digit s"
    "dropWhile is_digit (s @ r) = dropWhile is_digit s @ r" by auto
qed

lemma scan_exp_append:
  assumes "delim r" "scan_exp s = (e, [])"
  shows "scan_exp (s @ r) = (e, r)"
proof (cases s)
  case Nil
  with assms show ?thesis by (cases r) (auto simp: scan_exp_def delim_def)
next
  case (Cons c s1)
  obtain neg s2 where ss: "scan_sign s1 = (neg, s2)" by fastforce
  have c: "c = 101 \<or> c = 69" "takeWhile is_digit s2 \<noteq> []" "dropWhile is_digit s2 = []"
    "e = (if neg then - digits_int (takeWhile is_digit s2) else digits_int (takeWhile is_digit s2))"
    using assms(2) Cons ss by (auto simp: scan_exp_def Let_def split: if_splits)
  have "s1 \<noteq> []" using ss c(2) by (cases s1) auto
  then have "scan_sign (s1 @ r) = (neg, s2 @ r)" using ss by (cases s1) auto
  then show ?thesis
    using Cons c span_append_delim [OF assms(1), of s2] by (auto simp: scan_exp_def)
qed

lemma scan_fraction_append:
  assumes "delim r" "scan_fraction s = (fp, s1)"
  shows "scan_fraction (s @ r) = (fp, s1 @ r)"
proof (cases s)
  case Nil
  with assms show ?thesis by (cases r) (auto simp: scan_fraction_def delim_def)
next
  case (Cons c s2)
  with assms span_append_delim [OF assms(1), of s2] show ?thesis
    by (auto simp: scan_fraction_def)
qed

lemma scan_unsigned_append:
  assumes "delim r" "scan_unsigned s = Some (q, [])"
  shows "scan_unsigned (s @ r) = Some (q, r)"
proof -
  obtain fp s1 where f: "scan_fraction (dropWhile is_digit s) = (fp, s1)" by fastforce
  obtain e s2 where e: "scan_exp s1 = (e, s2)" by fastforce
  have s2: "s2 = []" using assms(2) f e by (simp add: scan_unsigned_def Let_def split: if_splits)
  show ?thesis
    using assms(2) f e scan_fraction_append [OF assms(1) f] scan_exp_append [OF assms(1), of s1 e]
    by (simp add: s2 scan_unsigned_def span_append_delim [OF assms(1)] Let_def split: if_splits)
qed

text \<open>Printed numbers have no leading zero and no bare point.\<close>

definition json_numeral :: "jsstr \<Rightarrow> bool" where
  "json_numeral s \<longleftrightarrow> takeWhile is_digit s \<noteq> [] \<and>
     (hd (takeWhile is_digit s) = 48 \<longrightarrow> takeWhile is_digit s = [48]) \<and>
     (dropWhile is_digit s \<noteq> [] \<and> hd (dropWhile is_digit s) = 46 \<longrightarrow>
        takeWhile is_digit (tl (dropWhile is_digit s)) \<noteq> [])"

lemma int_str_hd: "0 < n \<Longrightarrow> hd (int_str n) \<noteq> 48"
proof (induction n rule: int_str.induct)
  case (1 n)
  then show ?case by (subst int_str.simps) auto
qed

lemma json_numeral_fmt:
  assumes "ds \<noteq> []" "\<forall>c \<in> set ds. is_digit c" "hd ds \<noteq> 48"
  shows "json_numeral (fmt_decimal ds n)"
proof -
  have tk: "\<forall>c \<in> set (take j ds). is_digit c" "\<forall>c \<in> set (drop j ds). is_digit c" for j
    using assms(2) by (auto dest: in_set_takeD in_set_dropD)
  have plain: "json_numeral (ip @ r)"
    if "ip \<noteq> []" "\<forall>c \<in> set ip. is_digit c" "hd ip \<noteq> 48" "r = [] \<or> hd r = 101" for ip r
    using that span_digits [OF that(2), of r] by (auto simp: json_numeral_def)
  have point: "json_numeral (ip @ 46 # fp @ r)"
    if "ip \<noteq> []" "\<forall>c \<in> set ip. is_digit c" "hd ip \<noteq> 48 \<or> ip = [48]" "fp \<noteq> []"
      "\<forall>c \<in> set fp. is_digit c" for ip fp r
    using that span_digits [OF that(2), of "46 # fp @ r"] by (cases fp) (auto simp: json_numeral_def)
  have hdt: "take j ds \<noteq> [] \<Longrightarrow> hd (take j ds) \<noteq> 48" for j using assms(3) by (cases j; cases ds) auto
  let ?k = "int (length ds)"
  consider (a) "?k \<le> n" "n \<le> 21" | (b) "\<not> ?k \<le> n" "0 < n" "n \<le> 21"
    | (c) "- 6 < n" "n \<le> 0" | (d) "n \<le> - 6 \<or> 21 < n" "?k = 1" | (e) "n \<le> - 6 \<or> 21 < n" "?k \<noteq> 1"
    by linarith
  then show ?thesis
  proof cases
    case a
    have "json_numeral ((ds @ replicate (nat (n - ?k)) 48) @ [])"
      using assms by (intro plain) auto
    with a show ?thesis by (simp add: fmt_decimal_def)
  next
    case b
    have "json_numeral (take (nat n) ds @ 46 # drop (nat n) ds @ [])"
      using b assms hdt tk by (intro point) auto
    with b show ?thesis by (simp add: fmt_decimal_def)
  next
    case c
    have "json_numeral ([48] @ 46 # (replicate (nat (- n)) 48 @ ds) @ [])"
      using assms by (intro point) auto
    moreover have "\<not> ?k \<le> n" using c assms(1) by (cases ds) auto
    ultimately show ?thesis using c by (simp add: fmt_decimal_def)
  next
    case d
    then obtain r where "fmt_decimal ds n = ds @ 101 # r" by (auto simp: fmt_decimal_def Let_def)
    moreover have "json_numeral (ds @ 101 # r)" using assms by (intro plain) auto
    ultimately show ?thesis by simp
  next
    case e
    then have len: "1 < length ds" using assms(1) by (cases ds) auto
    from e obtain r where "fmt_decimal ds n = take 1 ds @ 46 # drop 1 ds @ r"
      using assms(1) by (auto simp: fmt_decimal_def Let_def)
    moreover have "json_numeral (take 1 ds @ 46 # drop 1 ds @ r)"
      using len assms hdt [of 1] tk by (intro point) auto
    ultimately show ?thesis by simp
  qed
qed

lemma json_numeral_mag_str:
  assumes "double_mag m" "0 < m"
  shows "json_numeral (mag_str m)"
proof -
  obtain s k where sk: "shortest m (ilog 10 m + 1) 1 = (s, k)" by fastforce
  have "s \<noteq> 0" using shortest_reads_back [OF assms sk] assms(2) by auto
  then have s: "0 < s" using shortest_nonneg [OF assms(2) sk] by simp
  define s1 where "s1 = (if s = 10 ^ nat k then 10 ^ nat (k - 1) else s)"
  have s1: "0 < s1" using s by (simp add: s1_def)
  obtain n where "mag_str m = fmt_decimal (int_str s1) n"
    by (cases "s = 10 ^ nat k") (auto simp: mag_str_def sk Let_def s1_def)
  then show ?thesis using json_numeral_fmt [of "int_str s1" n] int_str_digits [of s1] int_str_hd s1 by simp
qed

text \<open>The numbers that JSON carries: finite, and not \<open>-0\<close>.\<close>

definition json_num :: "jsnum \<Rightarrow> bool" where
  "json_num x \<longleftrightarrow> wf_num x \<and> is_finite x \<and> x \<noteq> Fin True 0"

lemma pnum_append:
  assumes "json_numeral s" "scan_unsigned s = Some (q, [])" "delim r" "hd s \<noteq> 45"
  shows "pnum ((if neg then [45] else []) @ s @ r) = Some (mk_num neg q, r)"
proof -
  have "s \<noteq> []" using assms(1) by (auto simp: json_numeral_def)
  then obtain c s' where s: "s = c # s'" by (cases s) auto
  then have sign: "(case s @ r of [] \<Rightarrow> (False, s @ r) | c # s1 \<Rightarrow> if c = 45 then (True, s1) else (False, s @ r)) =
      (False, s @ r)"
    using assms(4) by simp
  have body: "takeWhile is_digit (s @ r) = takeWhile is_digit s"
    "dropWhile is_digit (s @ r) = dropWhile is_digit s @ r"
    using span_append_delim [OF assms(3)] by auto
  have pt: "\<not> (dropWhile is_digit s @ r \<noteq> [] \<and> hd (dropWhile is_digit s @ r) = 46 \<and>
      takeWhile is_digit (tl (dropWhile is_digit s @ r)) = [])"
  proof (cases "dropWhile is_digit s")
    case Nil
    then have "dropWhile is_digit s @ r = r" by simp
    then show ?thesis using assms(3) by (simp only: delim_def) auto
  next
    case (Cons d t)
    then show ?thesis
      using assms(1) span_append_delim(1) [OF assms(3), of t] by (auto simp: json_numeral_def)
  qed
  have dig: "\<not> (takeWhile is_digit s = [] \<or> (hd (takeWhile is_digit s) = 48 \<and> takeWhile is_digit s \<noteq> [48]))"
    using assms(1) by (auto simp: json_numeral_def)
  show ?thesis
    using sign by (cases neg) (simp_all only: pnum_def body Let_def if_True if_False append.simps list.case
      pt dig scan_unsigned_append [OF assms(3,2)] option.case prod.case refl simp_thms)
qed

lemma pnum_num_str:
  assumes "json_num x" "delim r"
  shows "pnum (num_str x @ r) = Some (x, r)"
proof -
  obtain neg m where x: "x = Fin neg m" and m: "0 \<le> m" "double_mag m"
    using assms(1) by (cases x) (auto simp: json_num_def)
  show ?thesis
  proof (cases "m = 0")
    case True
    have "json_numeral [48]" "scan_unsigned [48] = Some (0, [])"
      by (simp_all add: json_numeral_def scan_unsigned_def scan_fraction_def scan_exp_def digits_int_def)
    from pnum_append [OF this assms(2), of False] True x assms(1) show ?thesis
      by (simp add: json_num_def mk_num_double)
  next
    case False
    then have pos: "0 < m" using m by simp
    obtain q where q: "scan_unsigned (mag_str m) = Some (q, [])" "rnd_mag q = m"
      using scan_mag_str [OF m(2) pos] by blast
    have "hd (mag_str m) \<noteq> 45" using mag_str_hd [OF pos] by (auto simp: is_digit_def)
    moreover have "mk_num neg q = Fin neg m" using q(2) m(2) by (simp add: mk_num_def double_mag_def)
    ultimately show ?thesis
      using pnum_append [OF json_numeral_mag_str [OF m(2) pos] q(1) assms(2), of neg] False x by simp
  qed
qed

lemma num_str_hd_numeral:
  assumes "json_num x"
  shows "num_str x \<noteq> [] \<and> numeral_char (hd (num_str x)) \<and> hd (num_str x) \<noteq> 101"
proof -
  obtain neg m where x: "x = Fin neg m" and m: "0 \<le> m" using assms by (cases x) (auto simp: json_num_def)
  then show ?thesis
    using mag_str_hd [of m] by (cases "m = 0") (auto simp: numeral_char_def is_digit_def)
qed

subsection \<open>Values\<close>

text \<open>
  The values \<open>JSON.stringify\<close> loses nothing of: finite numbers, no \<open>undefined\<close>, and objects with
  distinct keys in the order \<open>Object.keys\<close> lists them.
\<close>

fun json_canon :: "jsval \<Rightarrow> bool" where
  "json_canon Undef = False"
| "json_canon Null = True"
| "json_canon (Bool b) = True"
| "json_canon (Num x) = json_num x"
| "json_canon (Str s) = True"
| "json_canon (Arr vs) = (\<forall>v \<in> set vs. json_canon v)"
| "json_canon (Obj kvs) = (distinct (map fst kvs) \<and> own_order kvs = kvs \<and> (\<forall>kv \<in> set kvs. json_canon (snd kv)))"

definition reads :: "jsval \<Rightarrow> jsstr \<Rightarrow> bool" where
  "reads v tx \<longleftrightarrow> (\<exists>N. \<forall>n \<ge> N. \<forall>r. delim r \<longrightarrow> pval n (tx @ r) = Some (v, r))"

lemma skip_ws_append: "\<forall>c \<in> set w. json_ws c \<Longrightarrow> skip_ws (w @ s) = skip_ws s"
  by (simp add: skip_ws_def)

lemma pval_skip: "\<forall>c \<in> set w. json_ws c \<Longrightarrow> pval n (w @ s) = pval n s"
  by (cases n) (simp_all only: pval.simps skip_ws_append)

lemma skip_ws_id: "s \<noteq> [] \<Longrightarrow> \<not> json_ws (hd s) \<Longrightarrow> skip_ws s = s"
  by (cases s) (auto simp: skip_ws_def)

lemma reads_scalar:
  assumes "\<And>n r. delim r \<Longrightarrow> pval (Suc n) (tx @ r) = Some (v, r)"
  shows "reads v tx"
  unfolding reads_def
proof (intro exI [of _ 1] allI impI)
  fix n :: nat and r assume "1 \<le> n" "delim r"
  then show "pval n (tx @ r) = Some (v, r)" using assms by (cases n) auto
qed

lemma reads_literals:
  "reads Null (js ''null'')" "reads (Bool True) (js ''true'')" "reads (Bool False) (js ''false'')"
  by (rule reads_scalar, simp add: js_def skip_ws_def json_ws_def starts_with_def)+

lemma reads_str: "reads (Str s) (json_quote s)"
  by (rule reads_scalar) (simp add: json_quote_def skip_ws_def json_ws_def pstr_quote_body)

lemma reads_num:
  assumes "json_num x"
  shows "reads (Num x) (num_str x)"
proof (rule reads_scalar)
  fix n r assume d: "delim r"
  obtain c s where cs: "num_str x = c # s" "numeral_char c" "c \<noteq> 101"
    using num_str_hd_numeral [OF assms] by (cases "num_str x") auto
  then have c: "is_digit c \<or> c = 43 \<or> c = 45 \<or> c = 46" by (auto simp: numeral_char_def)
  then have "skip_ws (c # s @ r) = c # s @ r" by (auto simp: skip_ws_def json_ws_def is_digit_def)
  moreover have "c \<noteq> 34" "c \<noteq> 91" "c \<noteq> 123" "c \<noteq> 116" "c \<noteq> 102" "c \<noteq> 110"
    using c by (auto simp: is_digit_def)
  ultimately show "pval (Suc n) (num_str x @ r) = Some (Num x, r)"
    using pnum_num_str [OF assms d] cs by (simp add: starts_with_def js_def)
qed

lemma pval_hd:
  assumes "pval n s = Some x"
  shows "\<exists>c r. skip_ws s = c # r \<and> c \<noteq> 93"
proof (cases n)
  case 0
  then show ?thesis using assms by simp
next
  case (Suc m)
  show ?thesis
  proof (cases "skip_ws s")
    case Nil
    then show ?thesis using assms Suc by simp
  next
    case (Cons c r)
    moreover have "pnum (93 # r) = None" by (simp add: pnum_def is_digit_def)
    ultimately show ?thesis using assms Suc by (cases "c = 93") (auto simp: starts_with_def js_def)
  qed
qed

text \<open>Blank text that may follow a value: nothing, or a line break and an indentation.\<close>

definition blank :: "jsstr \<Rightarrow> bool" where
  "blank w \<longleftrightarrow> (\<forall>c \<in> set w. json_ws c) \<and> (w = [] \<or> hd w = 10)"

lemma delim_blank: "blank w \<Longrightarrow> c = 44 \<or> c = 93 \<or> c = 125 \<Longrightarrow> delim (w @ c # r)"
  by (cases w) (auto simp: blank_def delim_def)

lemma skip_blank: "blank w \<Longrightarrow> \<not> json_ws c \<Longrightarrow> skip_ws (w @ c # r) = c # r"
  by (simp add: blank_def skip_ws_append) (simp add: skip_ws_def)

lemma parr_parts:
  assumes "list_all2 reads vs txts" "vs \<noteq> []" and w: "blank w" and w2: "blank w2"
  shows "\<exists>N. \<forall>n \<ge> N. \<forall>r. parr n (w @ join (44 # w) txts @ w2 @ 93 # r) = Some (vs, r)"
  using assms(1,2)
proof (induction rule: list_all2_induct)
  case Nil
  then show ?case by simp
next
  case (Cons v vs tx txts)
  have ws: "\<forall>c \<in> set w. json_ws c" using w by (simp add: blank_def)
  obtain N where N: "\<And>n r. N \<le> n \<Longrightarrow> delim r \<Longrightarrow> pval n (tx @ r) = Some (v, r)"
    using Cons(1) unfolding reads_def by blast
  show ?case
  proof (cases "vs = []")
    case True
    have "parr n (w @ join (44 # w) (tx # txts) @ w2 @ 93 # r) = Some (v # vs, r)" if b: "Suc N \<le> n" for n r
    proof -
      obtain m where n: "n = Suc m" "N \<le> m" using b by (cases n) auto
      have "pval m (w @ tx @ w2 @ 93 # r) = Some (v, w2 @ 93 # r)"
        using N [OF n(2) delim_blank [OF w2]] pval_skip [OF ws] by simp
      then show ?thesis
        using True Cons(2) n skip_blank [OF w2, of 93] by (simp add: json_ws_def)
    qed
    then show ?thesis by blast
  next
    case False
    with Cons obtain M where M: "\<And>n r. M \<le> n \<Longrightarrow> parr n (w @ join (44 # w) txts @ w2 @ 93 # r) = Some (vs, r)"
      by blast
    obtain t ts where txts: "txts = t # ts" using False Cons(2) by (cases txts) auto
    have "parr n (w @ join (44 # w) (tx # txts) @ w2 @ 93 # r) = Some (v # vs, r)"
      if b: "Suc (N + M) \<le> n" for n r
    proof -
      obtain m where n: "n = Suc m" "N \<le> m" "M \<le> m" using b by (cases n) auto
      let ?r = "44 # w @ join (44 # w) txts @ w2 @ 93 # r"
      have "pval m (w @ tx @ ?r) = Some (v, ?r)"
        using N [OF n(2)] pval_skip [OF ws] by (simp add: delim_def)
      moreover have "skip_ws ?r = ?r" by (simp add: skip_ws_def json_ws_def)
      ultimately show ?thesis using n M [OF n(3)] by (simp add: txts)
    qed
    then show ?thesis by blast
  qed
qed

lemma reads_arr:
  assumes "list_all2 reads vs txts" "\<forall>c \<in> set (gap @ ind). json_ws c"
  shows "reads (Arr vs) (enclose gap ind 91 93 txts)"
proof (cases "vs = []")
  case True
  with assms(1) show ?thesis
    by (intro reads_scalar) (simp add: enclose_def skip_ws_def json_ws_def)
next
  case False
  define w where "w = (if gap = [] then [] else 10 # ind @ gap)"
  define w2 where "w2 = (if gap = [] then [] else 10 # ind)"
  have bl: "blank w" "blank w2" using assms(2) by (auto simp: w_def w2_def blank_def json_ws_def)
  obtain N where N: "\<And>n r. N \<le> n \<Longrightarrow> parr n (w @ join (44 # w) txts @ w2 @ 93 # r) = Some (vs, r)"
    using parr_parts [OF assms(1) False bl] by blast
  obtain v vs' t ts where Cons: "vs = v # vs'" "txts = t # ts" "reads v t"
    using False assms(1) by (cases vs; cases txts) auto
  have enc: "enclose gap ind 91 93 txts @ r = 91 # w @ join (44 # w) txts @ w2 @ 93 # r" for r
    by (simp add: enclose_def Cons w_def w2_def)
  have "pval n (enclose gap ind 91 93 txts @ r) = Some (Arr vs, r)" if b: "Suc (Suc N) \<le> n" for n r
  proof -
    obtain m where n: "n = Suc (Suc m)" "N \<le> Suc m" using b by (cases n; cases "n - 1") auto
    let ?s = "w @ join (44 # w) txts @ w2 @ 93 # r"
    note P = N [OF n(2), of r]
    then obtain y where "pval m ?s = Some y" by (auto split: option.splits)
    then obtain c r1 where "skip_ws ?s = c # r1" "c \<noteq> 93" using pval_hd by blast
    moreover have "skip_ws (91 # ?s) = 91 # ?s" by (simp add: skip_ws_def json_ws_def)
    ultimately show ?thesis unfolding enc n(1) pval.simps(2) [of "Suc m"] using P by (simp del: parr.simps)
  qed
  then show ?thesis unfolding reads_def by blast
qed

definition member_text :: "jsstr \<Rightarrow> jsstr \<Rightarrow> jsstr \<Rightarrow> jsstr" where
  "member_text gap k tx = json_quote k @ colon gap @ tx"

lemma put_new: "k \<notin> fst ` set m \<Longrightarrow> put k v m = m @ [(k, v)]"
  by (induction k v m rule: put.induct) auto

lemma pobj_member:
  assumes "pval n (tx @ r) = Some (v, r)" "blank w"
  shows "pobj (Suc n) acc (w @ member_text gap k tx @ r) =
    (case skip_ws r of [] \<Rightarrow> None
     | e # r4 \<Rightarrow> if e = 125 then Some (Obj (put k v acc), r4)
        else if e = 44 then pobj n (put k v acc) r4 else None)"
proof -
  have "skip_ws (w @ member_text gap k tx @ r) = 34 # quote_body k @ 34 # colon gap @ tx @ r"
    using assms(2) by (simp add: member_text_def json_quote_def skip_blank json_ws_def)
  moreover have "pstr (quote_body k @ 34 # colon gap @ tx @ r) = Some (k, colon gap @ tx @ r)"
    by (rule pstr_quote_body)
  moreover obtain b where b: "colon gap = 58 # b" "\<forall>c \<in> set b. json_ws c"
    by (cases "gap = []") (auto simp: colon_def json_ws_def)
  moreover have "skip_ws (58 # b @ tx @ r) = 58 # b @ tx @ r" by (simp add: skip_ws_def json_ws_def)
  moreover have "pval n (b @ tx @ r) = Some (v, r)" using assms(1) pval_skip [OF b(2)] by simp
  ultimately show ?thesis by (simp only: pobj.simps append_Cons list.case option.case prod.case if_False simp_thms)
qed

lemma pobj_parts:
  assumes "list_all2 (\<lambda>kv tx. reads (snd kv) tx) kvs txs" "kvs \<noteq> []" and w: "blank w" and w2: "blank w2"
    and "distinct (map fst (acc @ kvs))"
  shows "\<exists>N. \<forall>n \<ge> N. \<forall>r.
    pobj n acc (w @ join (44 # w) (map2 (member_text gap) (map fst kvs) txs) @ w2 @ 125 # r) = Some (Obj (acc @ kvs), r)"
  using assms(1,2,5)
proof (induction arbitrary: acc rule: list_all2_induct)
  case Nil
  then show ?case by simp
next
  case (Cons kv kvs tx txs)
  obtain k v where kv: "kv = (k, v)" by fastforce
  obtain N where N: "\<And>n r. N \<le> n \<Longrightarrow> delim r \<Longrightarrow> pval n (tx @ r) = Some (v, r)"
    using Cons(1) unfolding reads_def kv by auto
  have put: "put k v acc = acc @ [kv]" using Cons(5) kv by (intro put_new [THEN trans]) auto
  show ?case
  proof (cases "kvs = []")
    case True
    have "pobj n acc (w @ join (44 # w) (map2 (member_text gap) (map fst (kv # kvs)) (tx # txs)) @ w2 @ 125 # r) =
        Some (Obj (acc @ kv # kvs), r)" if b: "Suc N \<le> n" for n r
    proof -
      obtain m where n: "n = Suc m" "N \<le> m" using b by (cases n) auto
      from pobj_member [OF N [OF n(2) delim_blank [OF w2, of 125]] w, where gap = gap and k = k and acc = acc]
      show ?thesis using True Cons(2) put kv skip_blank [OF w2, of 125] n(1)
        by (simp add: json_ws_def del: pobj.simps)
    qed
    then show ?thesis by blast
  next
    case False
    have "distinct (map fst ((acc @ [kv]) @ kvs))" using Cons(5) by simp
    from Cons(3) [OF False this] obtain M where M: "\<And>n r. M \<le> n \<Longrightarrow>
        pobj n (acc @ [kv]) (w @ join (44 # w) (map2 (member_text gap) (map fst kvs) txs) @ w2 @ 125 # r) =
          Some (Obj (acc @ kv # kvs), r)"
      by auto
    obtain x xs y ys where parts: "kvs = x # xs" "txs = y # ys" using False Cons(2) by (cases kvs; cases txs) auto
    have "pobj n acc (w @ join (44 # w) (map2 (member_text gap) (map fst (kv # kvs)) (tx # txs)) @ w2 @ 125 # r) =
        Some (Obj (acc @ kv # kvs), r)" if b: "Suc (N + M) \<le> n" for n r
    proof -
      obtain m where n: "n = Suc m" "N \<le> m" "M \<le> m" using b by (cases n) auto
      let ?r = "44 # w @ join (44 # w) (map2 (member_text gap) (map fst kvs) txs) @ w2 @ 125 # r"
      have d: "delim ?r" and ws: "skip_ws ?r = ?r" by (simp_all add: delim_def skip_ws_def json_ws_def)
      from pobj_member [OF N [OF n(2) d] w, where gap = gap and k = k and acc = acc] show ?thesis
        using M [OF n(3)] put kv n(1) ws by (simp add: parts del: pobj.simps)
    qed
    then show ?thesis by blast
  qed
qed

lemma reads_obj:
  assumes "list_all2 (\<lambda>kv tx. reads (snd kv) tx) kvs txs" "distinct (map fst kvs)"
    "\<forall>c \<in> set (gap @ ind). json_ws c"
  shows "reads (Obj kvs) (enclose gap ind 123 125 (map2 (member_text gap) (map fst kvs) txs))"
proof (cases "kvs = []")
  case True
  with assms(1) show ?thesis
    by (intro reads_scalar) (simp add: enclose_def skip_ws_def json_ws_def)
next
  case False
  define w where "w = (if gap = [] then [] else 10 # ind @ gap)"
  define w2 where "w2 = (if gap = [] then [] else 10 # ind)"
  define ps where "ps = map2 (member_text gap) (map fst kvs) txs"
  have bl: "blank w" "blank w2" using assms(3) by (auto simp: w_def w2_def blank_def json_ws_def)
  obtain N where N: "\<And>n r. N \<le> n \<Longrightarrow> pobj n [] (w @ join (44 # w) ps @ w2 @ 125 # r) = Some (Obj kvs, r)"
    using pobj_parts [OF assms(1) False bl, of "[]" gap] assms(2) unfolding ps_def by auto
  obtain k t pt where ps: "ps = member_text gap k t # pt"
    using False assms(1) by (cases kvs; cases txs) (auto simp: ps_def)
  have enc: "enclose gap ind 123 125 ps @ r = 123 # w @ join (44 # w) ps @ w2 @ 125 # r" for r
    by (simp add: enclose_def ps w_def w2_def)
  have "pval n (enclose gap ind 123 125 ps @ r) = Some (Obj kvs, r)" if b: "Suc N \<le> n" for n r
  proof -
    obtain m where n: "n = Suc m" "N \<le> m" using b by (cases n) auto
    let ?s = "w @ join (44 # w) ps @ w2 @ 125 # r"
    have "\<exists>u. join (44 # w) ps = 34 # u" unfolding ps by (cases pt) (auto simp: member_text_def json_quote_def)
    then obtain u where "skip_ws ?s = 34 # u"
      using bl(1) by (auto simp: skip_blank json_ws_def)
    moreover have "skip_ws (123 # ?s) = 123 # ?s" by (simp add: skip_ws_def json_ws_def)
    ultimately show ?thesis unfolding enc n(1) pval.simps(2) [of m] using N [OF n(2), of r] by (simp del: pobj.simps)
  qed
  then show ?thesis unfolding reads_def ps_def by blast
qed

lemma own_order_map_snd:
  "own_order (map (\<lambda>(k, v). (k, g k v)) kvs) = map (\<lambda>(k, v). (k, g k v)) (own_order kvs)"
proof -
  let ?g = "\<lambda>(k, v). (k, g k v)"
  have f: "filter (P \<circ> fst) (map ?g xs) = map ?g (filter (P \<circ> fst) xs)" for P xs
    by (induction xs) auto
  have i: "insort_key (digits_int \<circ> fst) (?g x) (map ?g xs) = map ?g (insort_key (digits_int \<circ> fst) x xs)" for x xs
    by (induction xs) (simp_all add: case_prod_unfold)
  have "sort_key (digits_int \<circ> fst) (map ?g xs) = map ?g (sort_key (digits_int \<circ> fst) xs)" for xs
    by (induction xs) (simp_all only: i list.map sort_key_simps)
  then show ?thesis unfolding own_order_def using f [of is_index] f [of "Not \<circ> is_index"] by (simp add: comp_assoc)
qed

lemma json_ser_Obj:
  assumes "json_canon (Obj kvs)"
  shows "json_ser gap ind (Obj kvs) = enclose gap ind 123 125
    (map2 (member_text gap) (map fst kvs) (map (json_ser gap (ind @ gap) \<circ> snd) kvs))"
proof -
  have "filter (\<lambda>kv. snd kv \<noteq> Undef) kvs = kvs" using assms by (auto simp: filter_id_conv)
  moreover have "map2 (member_text gap) (map fst kvs) (map (json_ser gap (ind @ gap) \<circ> snd) kvs) =
      map snd (map (\<lambda>(k, v). (k, json_quote k @ colon gap @ json_ser gap (ind @ gap) v)) kvs)"
    by (induction kvs) (auto simp: member_text_def)
  ultimately show ?thesis using assms
    own_order_map_snd [of "\<lambda>k v. json_quote k @ colon gap @ json_ser gap (ind @ gap) v" kvs] by simp
qed

lemma reads_json_ser:
  assumes "json_canon v" "\<forall>c \<in> set (gap @ ind). json_ws c"
  shows "reads v (json_ser gap ind v)"
  using assms
proof (induction v arbitrary: ind)
  case (Num x)
  then show ?case using reads_num [of x] by (simp add: json_num_def)
next
  case (Arr vs)
  have "reads v (json_ser gap (ind @ gap) v)" if "v \<in> set vs" for v
    using Arr.IH [OF that, of "ind @ gap"] Arr.prems that by auto
  then have "list_all2 reads vs (map (json_ser gap (ind @ gap)) vs)"
    by (auto simp: list_all2_conv_all_nth)
  then show ?case using reads_arr Arr.prems(2) by simp
next
  case (Obj kvs)
  have "reads (snd kv) (json_ser gap (ind @ gap) (snd kv))" if "kv \<in> set kvs" for kv
    using Obj.IH [of kv "snd kv" "ind @ gap"] Obj.prems that by (cases kv) (force simp: snds.simps)
  then have "list_all2 (\<lambda>kv tx. reads (snd kv) tx) kvs (map (json_ser gap (ind @ gap) \<circ> snd) kvs)"
    by (auto simp: list_all2_conv_all_nth)
  from reads_obj [OF this, of gap ind] show ?case unfolding json_ser_Obj [OF Obj.prems(1)] using Obj.prems by simp
qed (simp_all add: reads_literals reads_str)

theorem json_parse_stringify:
  assumes "json_canon v" "\<forall>c \<in> set gap. json_ws c"
  shows "json_parse (json_ser gap [] v) = Some v"
proof -
  let ?s = "json_ser gap [] v"
  obtain N where N: "\<And>n. N \<le> n \<Longrightarrow> pval n ?s = Some (v, [])"
    using reads_json_ser [OF assms(1), of gap "[]"] assms(2) unfolding reads_def by (force simp: delim_def)
  have "pval (2 * length ?s + 2) ?s = pval (N + (2 * length ?s + 2)) ?s"
    by (rule pval_fuel [symmetric]) simp
  then have "pval (2 * length ?s + 2) ?s = Some (v, [])" by (simp only: N [OF le_add1])
  moreover have "skip_ws [] = []" by (simp add: skip_ws_def)
  ultimately show ?thesis by (simp only: json_parse_def option.case prod.case if_True simp_thms)
qed

section \<open>Texts of objects\<close>

lemma sort_key_idem: "sort_key f (sort_key f xs) = sort_key f xs"
  by (rule sort_key_id_if_sorted) simp

lemma own_order_idem: "own_order (own_order kvs) = own_order kvs"
proof -
  let ?P = "is_index \<circ> fst"
  have 1: "filter ?P (own_order kvs) = sort_key (digits_int \<circ> fst) (filter ?P kvs)"
    "filter (Not \<circ> ?P) (own_order kvs) = filter (Not \<circ> ?P) kvs"
    unfolding own_order_def by (auto simp: filter_empty_conv filter_id_conv comp_def)
  show ?thesis unfolding own_order_def [of "own_order kvs"] 1 sort_key_idem by (simp add: own_order_def)
qed

lemma json_ser_own_order:
  assumes "\<forall>kv \<in> set kvs. snd kv \<noteq> Undef"
  shows "json_ser gap ind (Obj kvs) = json_ser gap ind (Obj (own_order kvs))"
proof -
  have f: "filter (\<lambda>kv. snd kv \<noteq> Undef) kvs = kvs" "filter (\<lambda>kv. snd kv \<noteq> Undef) (own_order kvs) = own_order kvs"
    using assms by (auto simp: filter_id_conv)
  show ?thesis unfolding json_ser.simps f own_order_map_snd own_order_idem ..
qed

lemma json_ser_Obj_hd: "json_ser gap ind (Obj kvs) \<noteq> [] \<and> hd (json_ser gap ind (Obj kvs)) = 123"
  by (simp add: enclose_def)

lemma not_index_js [simp]: "c \<notin> {48..57} \<Longrightarrow> \<not> is_index (c # k)"
  by (auto simp: is_index_def is_digit_def)

lemma trim_json_Obj [simp]: "trim (json_ser [] [] (Obj kvs)) = json_ser [] [] (Obj kvs)"
proof (rule trim_id)
  show "json_ser [] [] (Obj kvs) = [] \<or> \<not> is_ws (hd (json_ser [] [] (Obj kvs)))" by (simp add: enclose_def is_ws_def)
  show "json_ser [] [] (Obj kvs) = [] \<or> \<not> is_ws (last (json_ser [] [] (Obj kvs)))" by (simp add: enclose_def is_ws_def)
qed

end
