(* ===== verification/Status_Code_Rules.thy ===== *)
theory Status_Code_Rules
  imports Js_Prelude
begin

text \<open>
  \<open>web/src/helpers/statusCodeRules.js\<close>: the parser of HTTP status code rules such as
  \<open>401, 500-503\<close> that the retry and auto-disable settings use.  A rule text becomes a list of
  closed ranges of codes, which is merged into a normal form and printed back.
\<close>

section \<open>Model\<close>

record status_range =
  r_start :: nat
  r_end :: nat

record parse_result =
  ok :: bool
  ranges :: "status_range list"
  tokens :: "jsstr list"
  normalized :: jsstr
  invalidTokens :: "jsstr list"

text \<open>\<open>/^\d+$/.test(s)\<close> on a string.\<close>

definition isNumber :: "jsstr \<Rightarrow> bool" where
  "isNumber s \<longleftrightarrow> s \<noteq> [] \<and> (\<forall>c \<in> set s. is_digit c)"

text \<open>
  \<open>Number.isFinite(Number.parseInt(s, 10))\<close> for a digit string of value \<open>n\<close>: the nearest double is
  finite below the midpoint of the largest double and \<open>2^1024\<close>.  Values up to 599, the only ones
  a rule may hold, are exact doubles, so the comparisons below are those of the code.
\<close>

definition parse_finite :: "nat \<Rightarrow> bool" where
  "parse_finite n \<longleftrightarrow> n < 2 ^ 1024 - 2 ^ 970"

definition parseToken :: "jsstr option \<Rightarrow> status_range option" where
  "parseToken token =
     (let cleaned = filter (\<lambda>c. c \<noteq> 32) (trim (case token of None \<Rightarrow> [] | Some t \<Rightarrow> t)) in
      if cleaned = [] then None
      else if 45 \<in> set cleaned then
        (case split_on 45 cleaned of
           [a, b] \<Rightarrow>
             if \<not> isNumber a \<or> \<not> isNumber b then None
             else
               (let start = digits_val a; end' = digits_val b in
                if \<not> parse_finite start \<or> \<not> parse_finite end' then None
                else if start > end' then None
                else if start < 100 \<or> end' > 599 then None
                else Some \<lparr>r_start = start, r_end = end'\<rparr>)
         | _ \<Rightarrow> None)
      else if \<not> isNumber cleaned then None
      else
        (let code = digits_val cleaned in
         if \<not> parse_finite code then None
         else if code < 100 \<or> code > 599 then None
         else Some \<lparr>r_start = code, r_end = code\<rparr>))"

definition range_cmp :: "status_range \<Rightarrow> status_range \<Rightarrow> int" where
  "range_cmp a b =
     (if r_start a \<noteq> r_start b then int (r_start a) - int (r_start b)
      else int (r_end a) - int (r_end b))"

text \<open>The loop of \<open>mergeRanges\<close>: \<open>prev\<close> is \<open>merged[merged.length - 1]\<close>.\<close>

fun merge_loop :: "status_range \<Rightarrow> status_range list \<Rightarrow> status_range list" where
  "merge_loop prev [] = [prev]"
| "merge_loop prev (current # rest) =
     (if r_start current \<le> r_end prev + 1
      then merge_loop (prev\<lparr>r_end := max (r_end prev) (r_end current)\<rparr>) rest
      else prev # merge_loop current rest)"

definition mergeRanges :: "status_range list \<Rightarrow> status_range list" where
  "mergeRanges rs = (case js_sort range_cmp rs of [] \<Rightarrow> [] | r # rest \<Rightarrow> merge_loop r rest)"

definition range_token :: "status_range \<Rightarrow> jsstr" where
  "range_token r =
     (if r_start r = r_end r then nat_str (r_start r)
      else nat_str (r_start r) @ [45] @ nat_str (r_end r))"

text \<open>The scan over the segments: the parsed ranges and the invalid tokens, both in order.\<close>

fun scan_segments :: "jsstr list \<Rightarrow> status_range list \<times> jsstr list" where
  "scan_segments [] = ([], [])"
| "scan_segments (segment # segments) =
     (let trimmed = trim segment; (rs, bad) = scan_segments segments in
      if trimmed = [] then (rs, bad)
      else (case parseToken (Some trimmed) of None \<Rightarrow> (rs, trimmed # bad) | Some r \<Rightarrow> (r # rs, bad)))"

definition parseHttpStatusCodeRules :: "jsstr option \<Rightarrow> parse_result" where
  "parseHttpStatusCodeRules input =
     (let raw = trim (case input of None \<Rightarrow> [] | Some s \<Rightarrow> s) in
      if length raw = 0
      then \<lparr>ok = True, ranges = [], tokens = [], normalized = [], invalidTokens = []\<rparr>
      else
        (let sanitized = map (\<lambda>c. if c = 65292 then 44 else c) raw;
             segments = split_on 44 sanitized;
             (rs, bad) = scan_segments segments in
         if length bad > 0
         then \<lparr>ok = False, ranges = [], tokens = [], normalized = raw, invalidTokens = bad\<rparr>
         else
           (let merged = mergeRanges rs; toks = map range_token merged in
            \<lparr>ok = True, ranges = merged, tokens = toks, normalized = join [44] toks,
             invalidTokens = []\<rparr>)))"

section \<open>Specification\<close>

text \<open>The codes a list of ranges admits, and the shape of a normal form.\<close>

definition codes :: "status_range list \<Rightarrow> nat set" where
  "codes rs = (\<Union>r \<in> set rs. {r_start r .. r_end r})"

definition valid_range :: "status_range \<Rightarrow> bool" where
  "valid_range r \<longleftrightarrow> 100 \<le> r_start r \<and> r_start r \<le> r_end r \<and> r_end r \<le> 599"

definition separated :: "status_range list \<Rightarrow> bool" where
  "separated rs \<longleftrightarrow> sorted_wrt (\<lambda>r s. r_end r + 1 < r_start s) rs"

definition normal_form :: "status_range list \<Rightarrow> bool" where
  "normal_form rs \<longleftrightarrow> (\<forall>r \<in> set rs. valid_range r) \<and> separated rs"

section \<open>Sorting and merging\<close>

interpretation range_order: comparator range_cmp
  by unfold_locales (auto simp: range_cmp_def split: if_splits)

lemma codes_simps [simp]:
  "codes [] = {}" "codes (r # rs) = {r_start r .. r_end r} \<union> codes rs"
  by (auto simp: codes_def)

lemma codes_js_sort [simp]: "codes (js_sort cmp rs) = codes rs"
  by (simp add: codes_def)

lemma range_cmp_start: "range_cmp r s \<le> 0 \<Longrightarrow> r_start r \<le> r_start s"
  by (auto simp: range_cmp_def split: if_splits)

lemma sorted_starts: "sorted_wrt (\<lambda>r s. r_start r \<le> r_start s) (js_sort range_cmp rs)"
  by (rule sorted_wrt_mono_rel [OF _ range_order.js_sort_sorted]) (rule range_cmp_start)

lemma merge_loop_codes:
  "\<lbrakk>\<forall>r \<in> set (prev # rs). r_start r \<le> r_end r;
    sorted_wrt (\<lambda>r s. r_start r \<le> r_start s) (prev # rs)\<rbrakk>
   \<Longrightarrow> codes (merge_loop prev rs) = codes (prev # rs)"
proof (induction prev rs rule: merge_loop.induct)
  case (1 prev)
  show ?case by simp
next
  case (2 prev current rest)
  show ?case
  proof (cases "r_start current \<le> r_end prev + 1")
    case True
    let ?l = "prev\<lparr>r_end := max (r_end prev) (r_end current)\<rparr>"
    have "{r_start prev .. max (r_end prev) (r_end current)} =
        {r_start prev .. r_end prev} \<union> {r_start current .. r_end current}"
      using True "2.prems" by auto
    moreover have "codes (merge_loop ?l rest) = codes (?l # rest)"
      using True "2.prems" by (intro "2.IH"(1)) auto
    ultimately show ?thesis using True by auto
  next
    case False
    with 2 show ?thesis by auto
  qed
qed

lemma merge_loop_starts:
  "sorted_wrt (\<lambda>r s. r_start r \<le> r_start s) (prev # rs) \<Longrightarrow>
   \<forall>m \<in> set (merge_loop prev rs). r_start prev \<le> r_start m"
  by (induction prev rs rule: merge_loop.induct) (fastforce split: if_splits)+

lemma merge_loop_separated:
  "sorted_wrt (\<lambda>r s. r_start r \<le> r_start s) (prev # rs) \<Longrightarrow> separated (merge_loop prev rs)"
proof (induction prev rs rule: merge_loop.induct)
  case (1 prev)
  show ?case by (simp add: separated_def)
next
  case (2 prev current rest)
  show ?case
  proof (cases "r_start current \<le> r_end prev + 1")
    case True
    with 2 show ?thesis by auto
  next
    case False
    have "sorted_wrt (\<lambda>r s. r_start r \<le> r_start s) (current # rest)"
      using "2.prems" by simp
    with False 2 merge_loop_starts [OF this] show ?thesis
      by (fastforce simp: separated_def)
  qed
qed

lemma merge_loop_valid:
  "\<forall>r \<in> set (prev # rs). valid_range r \<Longrightarrow> \<forall>r \<in> set (merge_loop prev rs). valid_range r"
  by (induction prev rs rule: merge_loop.induct) (auto simp: valid_range_def max_def)

lemma mergeRanges_codes:
  assumes "\<forall>r \<in> set rs. valid_range r"
  shows "codes (mergeRanges rs) = codes rs"
proof (cases "js_sort range_cmp rs")
  case Nil
  then have "rs = []" by (metis length_0_conv length_js_sort)
  then show ?thesis by (simp add: mergeRanges_def js_sort_def)
next
  case (Cons r rest)
  have "\<forall>s \<in> set (r # rest). valid_range s"
    using assms Cons by (metis set_js_sort)
  then have "codes (merge_loop r rest) = codes (r # rest)"
    using sorted_starts [of rs] Cons
    by (intro merge_loop_codes) (auto simp: valid_range_def)
  then show ?thesis
    using codes_js_sort [of range_cmp rs] Cons by (simp add: mergeRanges_def)
qed

lemma mergeRanges_normal:
  assumes "\<forall>r \<in> set rs. valid_range r"
  shows "normal_form (mergeRanges rs)"
proof (cases "js_sort range_cmp rs")
  case Nil
  then show ?thesis by (simp add: mergeRanges_def normal_form_def separated_def)
next
  case (Cons r rest)
  then have v: "\<forall>s \<in> set (r # rest). valid_range s"
    using assms by (metis set_js_sort)
  then show ?thesis
    using sorted_starts [of rs] Cons merge_loop_valid [OF v]
    by (auto simp: mergeRanges_def normal_form_def intro: merge_loop_separated)
qed

text \<open>A normal form is determined by the codes it admits.\<close>

lemma normal_form_Nil [simp]: "normal_form []"
  by (simp add: normal_form_def separated_def)

lemma codes_above: "\<lbrakk>normal_form (r # rs); c \<in> codes rs\<rbrakk> \<Longrightarrow> r_end r + 1 < c"
  by (fastforce simp: normal_form_def separated_def codes_def)

lemma normal_form_tl: "normal_form (r # rs) \<Longrightarrow> normal_form rs"
  by (simp add: normal_form_def separated_def)

lemma normal_form_hd_le:
  assumes "normal_form (r # rs)" "normal_form (s # ss)" "codes (r # rs) = codes (s # ss)"
  shows "r_start s \<le> r_start r"
proof -
  have "r_start r \<in> codes (s # ss)"
    using assms by (auto simp: normal_form_def valid_range_def simp flip: assms(3))
  then show ?thesis
    using codes_above [OF assms(2), of "r_start r"] assms(2)
    by (auto simp: normal_form_def valid_range_def)
qed

lemma normal_form_hd_end_le:
  assumes "normal_form (r # rs)" "normal_form (s # ss)" "codes (r # rs) = codes (s # ss)"
    and "r_start r = r_start s"
  shows "r_end s \<le> r_end r"
proof (rule ccontr)
  assume "\<not> r_end s \<le> r_end r"
  then have "r_end r + 1 \<in> codes (s # ss)"
    using assms(1,4) by (auto simp: normal_form_def valid_range_def)
  then have "r_end r + 1 \<in> codes (r # rs)" by (simp only: assms(3))
  then have "r_end r + 1 \<in> codes rs" by simp
  then show False using codes_above [OF assms(1)] by blast
qed

lemma normal_form_unique:
  "\<lbrakk>normal_form rs; normal_form ss; codes rs = codes ss\<rbrakk> \<Longrightarrow> rs = ss"
proof (induction rs arbitrary: ss)
  case Nil
  then show ?case by (cases ss) (auto simp: normal_form_def valid_range_def)
next
  case (Cons r rs)
  obtain s ss' where ss: "ss = s # ss'"
    using Cons.prems by (cases ss) (auto simp: normal_form_def valid_range_def)
  note prems = Cons.prems [unfolded ss]
  have st: "r_start r = r_start s"
    using normal_form_hd_le [OF prems] normal_form_hd_le [OF prems(2,1) prems(3) [symmetric]]
    by simp
  have en: "r_end r = r_end s"
    using normal_form_hd_end_le [OF prems st]
      normal_form_hd_end_le [OF prems(2,1) prems(3) [symmetric] st [symmetric]] by simp
  have "codes rs = codes (r # rs) - {r_start r .. r_end r}"
    using codes_above [OF prems(1)] by fastforce
  moreover have "codes ss' = codes (s # ss') - {r_start s .. r_end s}"
    using codes_above [OF prems(2)] by fastforce
  ultimately have "codes rs = codes ss'" using prems(3) st en by simp
  then have "rs = ss'"
    using Cons.IH normal_form_tl prems(1,2) by blast
  with st en ss show ?case by (simp add: status_range.equality)
qed

section \<open>Tokens\<close>

lemma isNumber_nat_str [simp]: "isNumber (nat_str n)"
  using nat_str_digits by (simp add: isNumber_def)

lemma nat_str_no_char: "\<not> is_digit c \<Longrightarrow> c \<notin> set (nat_str n)"
  using nat_str_digits by blast

lemma nat_str_filter_space [simp]: "filter (\<lambda>c. c \<noteq> 32) (nat_str n) = nat_str n"
  by (rule filter_True) (use nat_str_no_char [of 32] in \<open>auto simp: is_digit_def\<close>)

lemma range_token_chars: "c \<in> set (range_token r) \<Longrightarrow> is_digit c \<or> c = 45"
  using nat_str_digits by (auto simp: range_token_def split: if_splits)

lemma range_token_trim [simp]: "trim (range_token r) = range_token r"
  by (intro trim_no_ws ballI) (auto dest!: range_token_chars simp: is_ws_not_digit is_ws_def [of 45])

lemma range_token_not_Nil [simp]: "range_token r \<noteq> []"
  by (simp add: range_token_def)

lemma range_token_no_comma: "44 \<notin> set (range_token r)" "65292 \<notin> set (range_token r)"
  using range_token_chars by (force simp: is_digit_def)+

lemma parse_finite_small: "n \<le> 599 \<Longrightarrow> parse_finite n"
proof -
  assume "n \<le> 599"
  also have "(599::nat) < 2 ^ 1024 - 2 ^ 970" by simp
  finally show ?thesis by (simp add: parse_finite_def)
qed

text \<open>Printing a valid range and parsing it back gives the range.\<close>

lemma parseToken_range_token:
  assumes "valid_range r"
  shows "parseToken (Some (range_token r)) = Some r"
proof (cases "r_start r = r_end r")
  case True
  have "45 \<notin> set (nat_str (r_start r))"
    by (rule nat_str_no_char) (simp add: is_digit_def)
  with True assms show ?thesis
    by (cases r) (simp add: parseToken_def range_token_def valid_range_def parse_finite_small Let_def)
next
  case False
  have "45 \<notin> set (nat_str (r_start r))" "45 \<notin> set (nat_str (r_end r))"
    by (rule nat_str_no_char, simp add: is_digit_def)+
  moreover have "trim (nat_str (r_start r) @ 45 # nat_str (r_end r)) =
      nat_str (r_start r) @ 45 # nat_str (r_end r)"
    using range_token_trim [of r] False by (simp add: range_token_def)
  ultimately show ?thesis using False assms
    by (cases r) (simp add: parseToken_def range_token_def valid_range_def parse_finite_small Let_def
        split_on_append_sep split_on_no_sep)
qed

text \<open>Every range the parser accepts lies within the HTTP status codes.\<close>

lemma parseToken_valid: "parseToken t = Some r \<Longrightarrow> valid_range r"
  by (auto simp: parseToken_def valid_range_def Let_def split: if_splits list.splits)

lemma scan_segments_valid: "\<forall>r \<in> set (fst (scan_segments ss)). valid_range r"
  by (induction ss) (auto simp: Let_def split: prod.splits option.splits dest: parseToken_valid)

lemma scan_segments_tokens:
  "\<forall>r \<in> set rs. valid_range r \<Longrightarrow> scan_segments (map range_token rs) = (rs, [])"
  by (induction rs) (auto simp: parseToken_range_token)

text \<open>The segments a non-blank rule text is scanned as.\<close>

definition segments_of :: "jsstr \<Rightarrow> jsstr list" where
  "segments_of raw = split_on 44 (map (\<lambda>c. if c = 65292 then 44 else c) raw)"

lemma parse_blank: "trim s = [] \<Longrightarrow> parseHttpStatusCodeRules (Some s) =
  \<lparr>ok = True, ranges = [], tokens = [], normalized = [], invalidTokens = []\<rparr>"
  by (simp add: parseHttpStatusCodeRules_def)

lemma parse_nonblank:
  assumes "trim s \<noteq> []"
  shows "parseHttpStatusCodeRules (Some s) =
    (let (rs, bad) = scan_segments (segments_of (trim s)) in
     if bad \<noteq> [] then \<lparr>ok = False, ranges = [], tokens = [], normalized = trim s, invalidTokens = bad\<rparr>
     else \<lparr>ok = True, ranges = mergeRanges rs, tokens = map range_token (mergeRanges rs),
           normalized = join [44] (map range_token (mergeRanges rs)), invalidTokens = []\<rparr>)"
  using assms by (simp add: parseHttpStatusCodeRules_def segments_of_def Let_def split: prod.split)

text \<open>The three ways a parse can come out.\<close>

lemma parse_cases:
  obtains (blank) "trim s = []" "parseHttpStatusCodeRules (Some s) =
      \<lparr>ok = True, ranges = [], tokens = [], normalized = [], invalidTokens = []\<rparr>"
  | (bad) rs bad where "scan_segments (segments_of (trim s)) = (rs, bad)" "bad \<noteq> []"
      "parseHttpStatusCodeRules (Some s) =
        \<lparr>ok = False, ranges = [], tokens = [], normalized = trim s, invalidTokens = bad\<rparr>"
  | (good) rs where "scan_segments (segments_of (trim s)) = (rs, [])" "\<forall>r \<in> set rs. valid_range r"
      "parseHttpStatusCodeRules (Some s) =
        \<lparr>ok = True, ranges = mergeRanges rs, tokens = map range_token (mergeRanges rs),
         normalized = join [44] (map range_token (mergeRanges rs)), invalidTokens = []\<rparr>"
proof (cases "trim s = []")
  case True
  then show ?thesis using parse_blank blank by blast
next
  case False
  obtain rs bd where sc: "scan_segments (segments_of (trim s)) = (rs, bd)" by fastforce
  have "\<forall>r \<in> set rs. valid_range r"
    using scan_segments_valid [of "segments_of (trim s)"] sc by simp
  then show ?thesis
    using sc parse_nonblank [OF False] by (cases "bd = []") (auto intro: bad good)
qed

lemma join_tokens_chars: "c \<in> set (join [44] (map range_token rs)) \<Longrightarrow> is_digit c \<or> c = 45 \<or> c = 44"
  using set_join [of "[44]" "map range_token rs"] range_token_chars by fastforce

lemma join_tokens_trim: "trim (join [44] (map range_token rs)) = join [44] (map range_token rs)"
  by (intro trim_no_ws ballI)
    (auto dest!: join_tokens_chars simp: is_ws_not_digit is_ws_def [of 45] is_ws_def [of 44])

lemma segments_of_join:
  assumes "rs \<noteq> []"
  shows "segments_of (join [44] (map range_token rs)) = map range_token rs"
proof -
  have "map (\<lambda>c. if c = 65292 then 44 else c) (join [44] (map range_token rs)) =
      join [44] (map range_token rs)"
    by (rule map_idI) (auto dest!: join_tokens_chars simp: is_digit_def)
  then show ?thesis
    using assms range_token_no_comma by (simp add: segments_of_def split_join)
qed

lemma parse_join_tokens:
  assumes "normal_form rs"
  shows "parseHttpStatusCodeRules (Some (join [44] (map range_token rs))) =
    \<lparr>ok = True, ranges = rs, tokens = map range_token rs,
     normalized = join [44] (map range_token rs), invalidTokens = []\<rparr>"
proof (cases "rs = []")
  case True
  then show ?thesis by (simp add: parse_blank)
next
  case False
  let ?s = "join [44] (map range_token rs)"
  have v: "\<forall>r \<in> set rs. valid_range r" using assms by (simp add: normal_form_def)
  have m: "mergeRanges rs = rs"
    using normal_form_unique [OF mergeRanges_normal [OF v] assms mergeRanges_codes [OF v]] .
  have "?s \<noteq> []" using False by (cases rs; cases "tl rs") auto
  then show ?thesis
    using False v m by (simp add: parse_nonblank join_tokens_trim segments_of_join scan_segments_tokens)
qed

section \<open>Properties\<close>

definition token_codes :: "jsstr \<Rightarrow> nat set" where
  "token_codes t = (case parseToken (Some t) of None \<Rightarrow> {} | Some r \<Rightarrow> {r_start r .. r_end r})"

lemma parseToken_Nil [simp]: "parseToken (Some []) = None"
  by (simp add: parseToken_def)

lemma scan_segments_codes:
  "codes (fst (scan_segments ss)) = (\<Union>seg \<in> set ss. token_codes (trim seg))"
  by (induction ss) (auto simp: Let_def token_codes_def split: prod.splits option.splits)

lemma scan_segments_bad:
  "snd (scan_segments ss) =
     filter (\<lambda>t. t \<noteq> [] \<and> parseToken (Some t) = None) (map trim ss)"
  by (induction ss) (auto simp: Let_def split: prod.splits option.splits)

lemma segments_of_Nil [simp]: "segments_of [] = [[]]"
  by (simp add: segments_of_def)

lemmas rules_eval = parseHttpStatusCodeRules_def js_def trim_def trim_start_def trim_end_def is_ws_def
  parseToken_def isNumber_def is_digit_def digits_val_def parse_finite_def mergeRanges_def
  js_sort_def range_cmp_def range_token_def nat_str.simps Let_def

text \<open>C1: An accepted rule text yields ranges in normal form (inside 100 to 599, sorted, neither
  overlapping nor adjacent), and they admit exactly the codes that its comma separated tokens
  denote: merging neither drops nor adds a code.\<close>

theorem parse_rules_meaning:
  assumes "ok (parseHttpStatusCodeRules (Some s))"
  shows "normal_form (ranges (parseHttpStatusCodeRules (Some s))) \<and>
    codes (ranges (parseHttpStatusCodeRules (Some s))) =
      (\<Union>seg \<in> set (segments_of (trim s)). token_codes (trim seg))"
proof (cases s rule: parse_cases)
  case blank
  then show ?thesis by (simp add: token_codes_def)
next
  case (bad rs bad)
  with assms show ?thesis by simp
next
  case (good rs)
  then show ?thesis
    using scan_segments_codes [of "segments_of (trim s)"]
    by (simp add: mergeRanges_normal mergeRanges_codes)
qed

theorem parse_rules_meaning_witness:
  "ok (parseHttpStatusCodeRules (Some (js ''503, 500-502,401''))) \<and>
   normal_form (ranges (parseHttpStatusCodeRules (Some (js ''503, 500-502,401''))))"
proof -
  have "ok (parseHttpStatusCodeRules (Some (js ''503, 500-502,401'')))"
    by (simp add: rules_eval)
  with parse_rules_meaning [OF this] show ?thesis by blast
qed



text \<open>C3: The normalized text is a fixed point: parsing what the parser printed gives back the
  same ranges, tokens and text.\<close>

theorem parse_rules_roundtrip:
  assumes "ok (parseHttpStatusCodeRules (Some s))"
  shows "parseHttpStatusCodeRules (Some (normalized (parseHttpStatusCodeRules (Some s)))) =
    parseHttpStatusCodeRules (Some s)"
proof (cases s rule: parse_cases)
  case blank
  then show ?thesis by (simp add: parse_blank)
next
  case (bad rs bad)
  with assms show ?thesis by simp
next
  case (good rs)
  then show ?thesis by (simp add: parse_join_tokens mergeRanges_normal)
qed

theorem parse_rules_roundtrip_witness:
  "parseHttpStatusCodeRules (Some (normalized (parseHttpStatusCodeRules (Some (js '' 502,500-501 ''))))) =
   parseHttpStatusCodeRules (Some (js '' 502,500-501 ''))"
  by (rule parse_rules_roundtrip) (simp add: rules_eval)

text \<open>C4: The normalized text is canonical: two accepted rule texts are normalized to the same text
  exactly when they admit the same codes.\<close>

theorem parse_rules_canonical:
  assumes "ok (parseHttpStatusCodeRules (Some s))" "ok (parseHttpStatusCodeRules (Some t))"
  shows "normalized (parseHttpStatusCodeRules (Some s)) = normalized (parseHttpStatusCodeRules (Some t)) \<longleftrightarrow>
    codes (ranges (parseHttpStatusCodeRules (Some s))) = codes (ranges (parseHttpStatusCodeRules (Some t)))"
proof -
  have shape: "normal_form (ranges (parseHttpStatusCodeRules (Some u))) \<and>
      normalized (parseHttpStatusCodeRules (Some u)) =
        join [44] (map range_token (ranges (parseHttpStatusCodeRules (Some u))))"
    if "ok (parseHttpStatusCodeRules (Some u))" for u
    by (cases u rule: parse_cases)
      (use that in \<open>auto simp: mergeRanges_normal\<close>)
  have inj: "rs = ts" if "normal_form rs" "normal_form ts"
    "join [44] (map range_token rs) = join [44] (map range_token ts)" for rs ts
  proof -
    have "rs = ranges (parseHttpStatusCodeRules (Some (join [44] (map range_token rs))))"
      by (simp add: parse_join_tokens that(1))
    also have "\<dots> = ts" unfolding that(3) by (simp add: parse_join_tokens that(2))
    finally show ?thesis .
  qed
  note s = shape [OF assms(1)] and t = shape [OF assms(2)]
  have "ranges (parseHttpStatusCodeRules (Some s)) = ranges (parseHttpStatusCodeRules (Some t)) \<longleftrightarrow>
      codes (ranges (parseHttpStatusCodeRules (Some s))) = codes (ranges (parseHttpStatusCodeRules (Some t)))"
    using normal_form_unique s t by auto
  moreover have "ranges (parseHttpStatusCodeRules (Some s)) = ranges (parseHttpStatusCodeRules (Some t)) \<longleftrightarrow>
      normalized (parseHttpStatusCodeRules (Some s)) = normalized (parseHttpStatusCodeRules (Some t))"
    using inj s t by auto
  ultimately show ?thesis by simp
qed

theorem parse_rules_canonical_witness:
  "normalized (parseHttpStatusCodeRules (Some (js ''500,501''))) =
   normalized (parseHttpStatusCodeRules (Some (js ''500-501''))) \<longleftrightarrow>
   codes (ranges (parseHttpStatusCodeRules (Some (js ''500,501'')))) =
   codes (ranges (parseHttpStatusCodeRules (Some (js ''500-501''))))"
  by (rule parse_rules_canonical) (simp_all add: rules_eval)

end
