(* ===== verification/Pricing_Model.thy ===== *)
theory Pricing_Model
  imports Js_Json
begin

text \<open>
  The pure part of \<open>web/src/pages/Setting/Ratio/hooks/useModelPricingEditorState.js\<close>: a model's
  ratios, as the server stores them, become prices a user edits (\<open>buildModelState\<close>), and the
  prices become ratios again (\<open>serializeModel\<close>).  Names that objects inherit (such as
  \<open>constructor\<close>) are not model names here.  The translation function \<open>t\<close> of i18next is a
  parameter; the texts it is applied to are the source's.
\<close>

section \<open>Texts\<close>

definition txt_conflict :: jsstr where
  "txt_conflict = [24403, 21069, 27169, 22411, 21516, 26102, 23384, 22312, 25353, 27425, 20215, 26684,
     21644, 20493, 29575, 37197, 32622, 65292, 20445, 23384, 26102, 20250, 25353,
     24403, 21069, 35745, 36153, 26041, 24335, 35206, 30422, 12290]"

definition txt_no_input_ratio :: jsstr where
  "txt_no_input_ratio = [24403, 21069, 27169, 22411, 23384, 22312, 26410, 26174, 24335, 35774, 32622, 36755,
     20837, 20493, 29575, 30340, 25193, 23637, 20493, 29575, 65307, 22635, 20889,
     36755, 20837, 20215, 26684, 21518, 20250, 33258, 21160, 25442, 31639, 20026,
     20215, 26684, 23383, 27573, 12290]"

definition txt_need_input :: jsstr where
  "txt_need_input = [25353, 37327, 35745, 36153, 19979, 38656, 35201, 20808, 22635, 20889, 36755, 20837,
     20215, 26684, 65292, 25165, 33021, 20445, 23384, 20854, 23427, 20215, 26684,
     39033, 12290]"

definition txt_need_audio_input :: jsstr where
  "txt_need_audio_input = [22635, 20889, 38899, 39057, 34917, 20840, 20215, 26684, 21069, 65292, 38656, 35201,
     20808, 22635, 20889, 38899, 39057, 36755, 20837, 20215, 26684, 12290]"

definition txt_missing_input :: jsstr where
  "txt_missing_input = [27169, 22411, 32, 123, 123, 110, 97, 109, 101, 125, 125, 32, 32570, 23569, 36755,
     20837, 20215, 26684, 65292, 26080, 27861, 35745, 31639, 34917, 20840, 47, 32531,
     23384, 47, 22270, 29255, 47, 38899, 39057, 20215, 26684, 23545, 24212, 30340,
     20493, 29575]"

definition txt_missing_audio :: jsstr where
  "txt_missing_audio = [27169, 22411, 32, 123, 123, 110, 97, 109, 101, 125, 125, 32, 32570, 23569, 38899,
     39057, 36755, 20837, 20215, 26684, 65292, 26080, 27861, 35745, 31639, 38899,
     39057, 34917, 20840, 20493, 29575]"

definition txt_per_request :: jsstr where "txt_per_request = [25353, 27425]"
definition txt_time :: jsstr where "txt_time = [27425]"
definition txt_extra :: jsstr where "txt_extra = [39069, 22806, 20215, 26684, 39033]"
definition txt_input :: jsstr where "txt_input = [36755, 20837]"
definition txt_price_unset :: jsstr where "txt_price_unset = [26410, 35774, 32622, 20215, 26684]"
definition txt_empty :: jsstr where "txt_empty = [31354]"
definition txt_backend_fixed :: jsstr where "txt_backend_fixed = [21518, 31471, 22266, 23450]"

section \<open>Data\<close>

datatype billing_mode = Per_token | Per_request

record raw_ratios =
  modelRatio :: jsstr
  completionRatio :: jsstr
  cacheRatio :: jsstr
  createCacheRatio :: jsstr
  imageRatio :: jsstr
  audioRatio :: jsstr
  audioCompletionRatio :: jsstr

record model =
  name :: jsstr
  billingMode :: billing_mode
  fixedPrice :: jsstr
  inputPrice :: jsstr
  completionPrice :: jsstr
  lockedCompletionRatio :: jsstr
  completionRatioLocked :: bool
  cachePrice :: jsstr
  createCachePrice :: jsstr
  imagePrice :: jsstr
  audioInputPrice :: jsstr
  audioOutputPrice :: jsstr
  rawRatios :: raw_ratios
  hasConflict :: bool

definition EMPTY_MODEL :: model where
  "EMPTY_MODEL = \<lparr>name = [], billingMode = Per_token, fixedPrice = [], inputPrice = [],
     completionPrice = [], lockedCompletionRatio = [], completionRatioLocked = False,
     cachePrice = [], createCachePrice = [], imagePrice = [], audioInputPrice = [],
     audioOutputPrice = [],
     rawRatios = \<lparr>modelRatio = [], completionRatio = [], cacheRatio = [], createCacheRatio = [],
       imageRatio = [], audioRatio = [], audioCompletionRatio = []\<rparr>,
     hasConflict = False\<rparr>"

text \<open>The option maps read from the server, each the result of \<open>parseOptionJSON\<close>.\<close>

record source_maps =
  ModelPriceMap :: jsval
  ModelRatioMap :: jsval
  CompletionRatioMap :: jsval
  CompletionRatioMetaMap :: jsval
  CacheRatioMap :: jsval
  CreateCacheRatioMap :: jsval
  ImageRatioMap :: jsval
  AudioRatioMap :: jsval
  AudioCompletionRatioMap :: jsval

section \<open>Numbers and texts\<close>

text \<open>\<open>NUMERIC_INPUT_REGEX = /^(\d+(\.\d*)?|\.\d*)?$/\<close>.\<close>

definition NUMERIC_INPUT_REGEX :: "jsstr \<Rightarrow> bool" where
  "NUMERIC_INPUT_REGEX s =
     (case dropWhile is_digit s of [] \<Rightarrow> True | c # r \<Rightarrow> c = 46 \<and> (\<forall>d \<in> set r. is_digit d))"

definition hasValue :: "jsval \<Rightarrow> bool" where
  "hasValue v \<longleftrightarrow> v \<noteq> Str [] \<and> v \<noteq> Null \<and> v \<noteq> Undef \<and> v \<noteq> Bool False"

definition toNumericString :: "jsval \<Rightarrow> jsstr" where
  "toNumericString v =
     (if \<not> hasValue v \<and> \<not> strict_eq v (Num (Fin False 0)) then []
      else (let num = to_num v in if is_finite num then num_str num else []))"

definition toNumberOrNull :: "jsval \<Rightarrow> jsnum option" where
  "toNumberOrNull v =
     (if \<not> hasValue v \<and> \<not> strict_eq v (Num (Fin False 0)) then None
      else (let num = to_num v in if is_finite num then Some num else None))"

definition formatNumber :: "jsval \<Rightarrow> jsstr" where
  "formatNumber v =
     (case toNumberOrNull v of None \<Rightarrow> [] | Some num \<Rightarrow> num_str (parse_float (to_fixed 12 num)))"

definition parseOptionJSON :: "jsstr option \<Rightarrow> jsval" where
  "parseOptionJSON rawValue =
     (case rawValue of
        None \<Rightarrow> Obj []
      | Some s \<Rightarrow>
          if s = [] \<or> trim s = [] then Obj []
          else (case json_parse s of
              Some parsed \<Rightarrow> if truthy parsed \<and> is_object_type parsed then parsed else Obj []
            | None \<Rightarrow> Obj []))"

abbreviation two :: jsnum where "two \<equiv> Fin False 2"

definition ratioToBasePrice :: "jsval \<Rightarrow> jsstr" where
  "ratioToBasePrice ratio =
     (case toNumberOrNull ratio of None \<Rightarrow> [] | Some num \<Rightarrow> formatNumber (Num (num_mul num two)))"

text \<open>The pair of \<open>locked\<close> and \<open>ratio\<close>.\<close>

definition normalizeCompletionRatioMeta :: "jsval \<Rightarrow> bool \<times> jsstr" where
  "normalizeCompletionRatioMeta rawMeta =
     (if \<not> truthy rawMeta \<or> \<not> is_object_type rawMeta \<or> is_array rawMeta then (False, [])
      else (truthy (own_prop rawMeta (js ''locked'')),
        toNumericString (own_prop rawMeta (js ''ratio''))))"

abbreviation has :: "jsstr \<Rightarrow> bool" where "has s \<equiv> hasValue (Str s)"

text \<open>\<open>cond ? formatNumber(base * Number(ratio)) : ''\<close>, the shape of every derived price.\<close>

definition derived_price :: "jsnum option \<Rightarrow> jsstr \<Rightarrow> jsstr" where
  "derived_price base ratio =
     (case base of
        Some b \<Rightarrow> if has ratio then formatNumber (Num (num_mul b (to_number ratio))) else []
      | None \<Rightarrow> [])"

definition buildModelState :: "jsstr \<Rightarrow> source_maps \<Rightarrow> model" where
  "buildModelState nm sm =
     (let mr = toNumericString (own_prop (ModelRatioMap sm) nm);
          cr = toNumericString (own_prop (CompletionRatioMap sm) nm);
          (locked, metaRatio) = normalizeCompletionRatioMeta (own_prop (CompletionRatioMetaMap sm) nm);
          car = toNumericString (own_prop (CacheRatioMap sm) nm);
          ccr = toNumericString (own_prop (CreateCacheRatioMap sm) nm);
          ir = toNumericString (own_prop (ImageRatioMap sm) nm);
          ar = toNumericString (own_prop (AudioRatioMap sm) nm);
          acr = toNumericString (own_prop (AudioCompletionRatioMap sm) nm);
          fp = toNumericString (own_prop (ModelPriceMap sm) nm);
          ip = ratioToBasePrice (Str mr);
          ipn = toNumberOrNull (Str ip);
          aip = derived_price ipn ar
      in \<lparr>name = nm,
          billingMode = (if has fp then Per_request else Per_token),
          fixedPrice = fp,
          inputPrice = ip,
          completionPrice = derived_price ipn (if locked then metaRatio else cr),
          lockedCompletionRatio = metaRatio,
          completionRatioLocked = locked,
          cachePrice = derived_price ipn car,
          createCachePrice = derived_price ipn ccr,
          imagePrice = derived_price ipn ir,
          audioInputPrice = aip,
          audioOutputPrice = derived_price (toNumberOrNull (Str aip)) acr,
          rawRatios = \<lparr>modelRatio = mr, completionRatio = cr, cacheRatio = car,
            createCacheRatio = ccr, imageRatio = ir, audioRatio = ar, audioCompletionRatio = acr\<rparr>,
          hasConflict = (has fp \<and> (\<exists>s \<in> set [mr, cr, car, ccr, ir, ar, acr]. has s))\<rparr>)"

definition isBasePricingUnset :: "model \<Rightarrow> bool" where
  "isBasePricingUnset model \<longleftrightarrow> \<not> has (fixedPrice model) \<and> \<not> has (inputPrice model)"

section \<open>Warnings, summary and toggles\<close>

definition getModelWarnings :: "translate \<Rightarrow> model option \<Rightarrow> jsstr list" where
  "getModelWarnings t m =
     (case m of
        None \<Rightarrow> []
      | Some model \<Rightarrow>
          (let r = rawRatios model;
               hasDerivedPricing = list_ex has [inputPrice model, completionPrice model,
                 cachePrice model, createCachePrice model, imagePrice model, audioInputPrice model,
                 audioOutputPrice model]
           in (if hasConflict model then [t txt_conflict []] else [])
            @ (if \<not> has (inputPrice model) \<and>
                  list_ex has [completionRatio r, cacheRatio r, createCacheRatio r, imageRatio r,
                    audioRatio r, audioCompletionRatio r]
               then [t txt_no_input_ratio []] else [])
            @ (if billingMode model = Per_token \<and> hasDerivedPricing \<and> \<not> has (inputPrice model)
               then [t txt_need_input []] else [])
            @ (if billingMode model = Per_token \<and> has (audioOutputPrice model) \<and>
                  \<not> has (audioInputPrice model)
               then [t txt_need_audio_input []] else [])))"

definition buildSummaryText :: "translate \<Rightarrow> model \<Rightarrow> jsstr" where
  "buildSummaryText t model =
     (if billingMode model = Per_request \<and> has (fixedPrice model)
      then t txt_per_request [] @ js '' $'' @ fixedPrice model @ js '' / '' @ t txt_time []
      else if has (inputPrice model) then
        (let extraCount = length (filter has [completionPrice model, cachePrice model,
               createCachePrice model, imagePrice model, audioInputPrice model, audioOutputPrice model]);
             extraLabel = (if extraCount > 0
               then [65292] @ t txt_extra [] @ js '' '' @ int_str (int extraCount) else [])
         in t txt_input [] @ js '' $'' @ inputPrice model @ extraLabel)
      else t txt_price_unset [])"

text \<open>The price fields a user edits, by their property names.\<close>

datatype price_field = FixedPrice | InputPrice | CompletionPrice | CachePrice | CreateCachePrice
  | ImagePrice | AudioInputPrice | AudioOutputPrice

type_synonym toggles = "(price_field \<times> bool) list"

definition buildOptionalFieldToggles :: "model \<Rightarrow> toggles" where
  "buildOptionalFieldToggles model =
     [(CompletionPrice, completionRatioLocked model \<or> has (completionPrice model)),
      (CachePrice, has (cachePrice model)),
      (CreateCachePrice, has (createCachePrice model)),
      (ImagePrice, has (imagePrice model)),
      (AudioInputPrice, has (audioInputPrice model)),
      (AudioOutputPrice, has (audioOutputPrice model))]"

section \<open>Prices back to ratios\<close>

datatype option_key = ModelPrice | ModelRatio | CompletionRatio | CacheRatio | CreateCacheRatio
  | ImageRatio | AudioRatio | AudioCompletionRatio

definition option_keys :: "option_key list" where
  "option_keys = [ModelPrice, ModelRatio, CompletionRatio, CacheRatio, CreateCacheRatio, ImageRatio,
     AudioRatio, AudioCompletionRatio]"

text \<open>The result object: an entry per option key, \<open>None\<close> for \<open>null\<close>.\<close>

type_synonym serialized = "option_key \<Rightarrow> jsnum option"

definition number_of :: "jsstr \<Rightarrow> jsnum option" where
  "number_of s = (if has s then Some (to_number s) else None)"

definition ratio_over :: "jsnum option \<Rightarrow> jsnum \<Rightarrow> jsnum option" where
  "ratio_over price base = map_option (\<lambda>p. num_div p base) price"

text \<open>A thrown \<open>Error\<close> is represented by its message.\<close>

definition serializeModel :: "translate \<Rightarrow> model \<Rightarrow> jsstr + serialized" where
  "serializeModel t model =
     (let result = (\<lambda>_. None) in
      if billingMode model = Per_request then
        Inr (result(ModelPrice := number_of (fixedPrice model)))
      else
        (let ip = toNumberOrNull (Str (inputPrice model));
             cp = toNumberOrNull (Str (completionPrice model));
             cap = toNumberOrNull (Str (cachePrice model));
             ccp = toNumberOrNull (Str (createCachePrice model));
             imp = toNumberOrNull (Str (imagePrice model));
             aip = toNumberOrNull (Str (audioInputPrice model));
             aop = toNumberOrNull (Str (audioOutputPrice model));
             hasDependentPrice = list_ex (\<lambda>v. v \<noteq> None) [cp, cap, ccp, imp, aip, aop];
             raw = rawRatios model
         in case ip of
              None \<Rightarrow>
                if hasDependentPrice
                then Inl (t txt_missing_input [(js ''name'', Str (name model))])
                else Inr (result(
                  ModelRatio := number_of (modelRatio raw),
                  CompletionRatio := number_of (completionRatio raw),
                  CacheRatio := number_of (cacheRatio raw),
                  CreateCacheRatio := number_of (createCacheRatio raw),
                  ImageRatio := number_of (imageRatio raw),
                  AudioRatio := number_of (audioRatio raw),
                  AudioCompletionRatio := number_of (audioCompletionRatio raw)))
            | Some base \<Rightarrow>
                (let result1 = result(
                   ModelRatio := Some (num_div base two),
                   CompletionRatio :=
                     (if \<not> completionRatioLocked model \<and> cp \<noteq> None then ratio_over cp base
                      else if completionRatioLocked model then number_of (completionRatio raw)
                      else None),
                   CacheRatio := ratio_over cap base,
                   CreateCacheRatio := ratio_over ccp base,
                   ImageRatio := ratio_over imp base,
                   AudioRatio := ratio_over aip base)
                 in case aop of
                      None \<Rightarrow> Inr result1
                    | Some out \<Rightarrow>
                        (case aip of
                           None \<Rightarrow> Inl (t txt_missing_audio [(js ''name'', Str (name model))])
                         | Some inp \<Rightarrow>
                             if num_zero inp
                             then Inl (t txt_missing_audio [(js ''name'', Str (name model))])
                             else Inr (result1(AudioCompletionRatio := Some (num_div out inp)))))))"

text \<open>The preview: rows of a key and a text.\<close>

definition text_or_empty :: "translate \<Rightarrow> jsstr \<Rightarrow> jsstr" where
  "text_or_empty t s = (if has s then s else t txt_empty [])"

definition ratio_text :: "translate \<Rightarrow> jsnum option \<Rightarrow> jsnum \<Rightarrow> jsstr" where
  "ratio_text t price base =
     (case price of Some p \<Rightarrow> formatNumber (Num (num_div p base)) | None \<Rightarrow> t txt_empty [])"

definition buildPreviewRows :: "translate \<Rightarrow> model option \<Rightarrow> (option_key \<times> jsstr) list" where
  "buildPreviewRows t m =
     (case m of
        None \<Rightarrow> []
      | Some model \<Rightarrow>
          (let raw = rawRatios model in
           if billingMode model = Per_request
           then [(ModelPrice, text_or_empty t (fixedPrice model))]
           else
             (case toNumberOrNull (Str (inputPrice model)) of
                None \<Rightarrow>
                  [(ModelRatio, text_or_empty t (modelRatio raw)),
                   (CompletionRatio, text_or_empty t (completionRatio raw)),
                   (CacheRatio, text_or_empty t (cacheRatio raw)),
                   (CreateCacheRatio, text_or_empty t (createCacheRatio raw)),
                   (ImageRatio, text_or_empty t (imageRatio raw)),
                   (AudioRatio, text_or_empty t (audioRatio raw)),
                   (AudioCompletionRatio, text_or_empty t (audioCompletionRatio raw))]
              | Some base \<Rightarrow>
                  (let cp = toNumberOrNull (Str (completionPrice model));
                       cap = toNumberOrNull (Str (cachePrice model));
                       ccp = toNumberOrNull (Str (createCachePrice model));
                       imp = toNumberOrNull (Str (imagePrice model));
                       aip = toNumberOrNull (Str (audioInputPrice model));
                       aop = toNumberOrNull (Str (audioOutputPrice model))
                   in [(ModelRatio, formatNumber (Num (num_div base two))),
                       (CompletionRatio,
                          if completionRatioLocked model
                          then (if lockedCompletionRatio model = [] then t txt_empty []
                                else lockedCompletionRatio model)
                             @ js '' ('' @ t txt_backend_fixed [] @ js '')''
                          else ratio_text t cp base),
                       (CacheRatio, ratio_text t cap base),
                       (CreateCacheRatio, ratio_text t ccp base),
                       (ImageRatio, ratio_text t imp base),
                       (AudioRatio, ratio_text t aip base),
                       (AudioCompletionRatio,
                          case aip of
                            Some inp \<Rightarrow> if num_zero inp then t txt_empty [] else ratio_text t aop inp
                          | None \<Rightarrow> t txt_empty [])]))))"

section \<open>Values of the fields\<close>

lemma has_iff [simp]: "has s \<longleftrightarrow> s \<noteq> []"
  by (simp add: hasValue_def)

lemma toNumberOrNull_Str:
  "toNumberOrNull (Str s) = (if s = [] \<or> \<not> is_finite (to_number s) then None else Some (to_number s))"
  by (auto simp: toNumberOrNull_def hasValue_def Let_def)

lemma toNumberOrNull_Num:
  "toNumberOrNull (Num x) = (if is_finite x then Some x else None)"
  by (auto simp: toNumberOrNull_def hasValue_def Let_def)

lemma toNumericString_Num: "toNumericString (Num x) = (if is_finite x then num_str x else [])"
  by (auto simp: toNumericString_def hasValue_def Let_def)

lemma toNumericString_Undef [simp]: "toNumericString Undef = []"
  by (simp add: toNumericString_def hasValue_def)

lemma to_number_Str_num_str:
  "\<lbrakk>wf_num (Fin False m)\<rbrakk> \<Longrightarrow> to_number (num_str (Fin False m)) = Fin False m"
  using to_number_num_str [of False m] by (cases "m = 0") (simp_all del: num_str.simps add: num_str_0)

end
