(* ===== verification/Pricing_Exact.thy ===== *)
theory Pricing_Exact
  imports Pricing_Model
begin

text \<open>
  Saving and loading prices is exact.  Prices with at most twelve decimals, below 4096 for the input
  price and below 1024 for the prices derived from it, are turned into ratios by
  \<open>serializeModel\<close> and back into the same numbers by \<open>buildModelState\<close>, although every step rounds
  to a double: the accumulated error stays below half a unit of the twelfth decimal, which is
  where \<open>formatNumber\<close> rounds.
\<close>

section \<open>Exactness of the price texts\<close>

text \<open>
  \<open>price k\<close> is the double of a decimal with twelve decimals.  Such a double survives
  \<open>formatNumber\<close>, and so does what multiplication and division make of it as long as the error
  stays below half a unit of the twelfth decimal.
\<close>

definition price :: "int \<Rightarrow> jsnum" where
  "price k = mk_num False (of_int k / 10 ^ 12)"

lemma tens: "(10 :: rat) ^ 4 = 10000" "(10 :: rat) ^ 12 = 1000000000000" "(10 :: rat) ^ 13 = 10000000000000"
  "(10 :: rat) ^ 14 = 100000000000000" "(10 :: rat) ^ 17 = 100000000000000000"
  by simp_all

lemma mag_quotient_back:
  fixes q b :: rat
  assumes "1 / 10 ^ 12 \<le> q" "q < 1024" and b: "1 / 10 ^ 13 \<le> b" "b \<le> 5000"
  defines "c \<equiv> rnd_mag q"
  defines "r \<equiv> rnd_mag (c / b)"
  shows "\<bar>rnd_mag (b * r) - q\<bar> < 1 / 2 / 10 ^ 12" "r < 10 ^ 17" "0 < c" "c < 10 ^ 4" "rnd_mag (b * r) < 10 ^ 4"
proof -
  have sm: "(2 :: rat) powi (- 1022) \<le> 1 / 10 ^ 30" by (rule powi2_small) simp
  have b0: "0 < b" using b by simp
  have c: "\<bar>c - q\<bar> \<le> ulp * q"
    unfolding c_def by (rule rnd_mag_rel) (use sm assms(1) in simp)
  then have c_lo: "1 / 10 ^ 13 \<le> c" and c_hi: "c < 1100" using assms(1,2) unfolding tens by linarith+
  show "0 < c" "c < 10 ^ 4" using c_lo c_hi by simp_all
  have "1 / 10 ^ 13 / 5000 \<le> c / b" using c_lo b b0 by (intro frac_le) simp_all
  then have "2 powi (- 1022) \<le> c / b" using sm by simp
  then have r: "\<bar>r - c / b\<bar> \<le> ulp * (c / b)" unfolding r_def by (rule rnd_mag_rel)
  define w where "w = c / b"
  have "c / b \<le> 1100 / (1 / 10 ^ 13)" using c_hi c_lo b by (intro frac_le) simp_all
  then have "c / b \<le> 11000000000000000" by simp
  with r show "r < 10 ^ 17" unfolding w_def [symmetric] tens by linarith
  define z where "z = b * r"
  have "\<bar>r - c / b\<bar> * b \<le> ulp * (c / b) * b" using r b0 by (intro mult_right_mono) simp_all
  moreover have "(r - c / b) * b = z - c" using b0 by (simp add: z_def algebra_simps)
  then have "\<bar>r - c / b\<bar> * b = \<bar>z - c\<bar>" using b0 by (metis abs_mult abs_of_pos)
  ultimately have z: "\<bar>z - c\<bar> \<le> ulp * c" using b0 by simp
  then have "1 / 10 ^ 14 \<le> z" using c_lo unfolding tens by linarith
  then have "2 powi (- 1022) \<le> z" using sm by simp
  then have y: "\<bar>rnd_mag z - z\<bar> \<le> ulp * z" by (rule rnd_mag_rel)
  show "\<bar>rnd_mag (b * r) - q\<bar> < 1 / 2 / 10 ^ 12" "rnd_mag (b * r) < 10 ^ 4"
    unfolding z_def [symmetric] using y z c assms(1,2) unfolding tens by linarith+
qed

lemma formatNumber_near:
  assumes "0 \<le> m" "m < 10 ^ 21" "\<bar>m - of_int k / 10 ^ 12\<bar> < 1 / 2 / 10 ^ 12"
  shows "formatNumber (Num (Fin False m)) = num_str (price k)"
proof -
  have "\<lfloor>m * 10 ^ 12 + 1 / 2\<rfloor> = k" by (rule round_fixed [OF assms(3)])
  then have "parse_float (to_fixed 12 (Fin False m)) = price k"
    using parse_to_fixed [OF assms(1,2), of 12 False] by (simp only: price_def simp_thms)
  then show ?thesis by (simp only: formatNumber_def toNumberOrNull_Num is_finite_simps if_True option.case)
qed

lemma price_fin:
  assumes "0 \<le> k" "k < 4096 * 10 ^ 12"
  obtains m where "price k = Fin False m" "0 \<le> m" "double_mag m" "m < 4097"
    "\<bar>m - of_int k / 10 ^ 12\<bar> < 1 / 2 / 10 ^ 12" "0 < k \<Longrightarrow> 1 / 10 ^ 13 \<le> m" "m = rnd_mag (of_int k / 10 ^ 12)"
proof -
  define q :: rat where "q = of_int k / 10 ^ 12"
  define m where "m = rnd_mag q"
  have "(of_int k :: rat) < of_int (4096 * 10 ^ 12)" using assms(2) by (simp only: of_int_less_iff)
  then have q: "0 \<le> q" "q < 4096" using assms(1) by (simp_all add: q_def)
  have b: "\<bar>m - q\<bar> \<le> ulp * q \<and> (0 < k \<longrightarrow> 1 / 10 ^ 12 \<le> q)"
  proof (cases "k = 0")
    case True
    then show ?thesis by (simp add: m_def q_def)
  next
    case False
    then have "(1 :: rat) \<le> of_int k" using assms(1) by simp
    then have k: "1 / 10 ^ 12 \<le> q" by (simp add: q_def)
    have "(2 :: rat) powi (- 1022) \<le> 1 / 10 ^ 30" by (rule powi2_small) simp
    then have "2 powi (- 1022) \<le> q" using k by simp
    then have "\<bar>m - q\<bar> \<le> ulp * q" unfolding m_def by (rule rnd_mag_rel)
    with k show ?thesis by simp
  qed
  then have m: "m < 4097" "\<bar>m - q\<bar> < 1 / 2 / 10 ^ 12" "0 < k \<Longrightarrow> 1 / 10 ^ 13 \<le> m"
    using q unfolding tens by linarith+
  have "m < 2 ^ 1024" by (rule less_trans [OF m(1)]) simp
  moreover have "0 \<le> m" "dyadic53 m" unfolding m_def using q(1) by (rule rnd_mag_nonneg, intro rnd_mag_is_dyadic)
  moreover have "price k = Fin False m"
    using \<open>m < 2 ^ 1024\<close> by (simp add: price_def mk_num_def Let_def m_def q_def)
  ultimately show ?thesis using that m by (simp add: double_mag_def q_def m_def)
qed

lemma formatNumber_price:
  assumes "0 \<le> k" "k < 4096 * 10 ^ 12"
  shows "formatNumber (Num (price k)) = num_str (price k)"
proof (rule price_fin [OF assms])
  fix m assume m: "price k = Fin False m" "0 \<le> m" "m < 4097" "\<bar>m - of_int k / 10 ^ 12\<bar> < 1 / 2 / 10 ^ 12"
  show ?thesis unfolding m(1) by (rule formatNumber_near [OF m(2) _ m(4), unfolded m(1)]) (use m(3) in simp)
qed

lemma price_read:
  assumes "0 \<le> k" "k < 4096 * 10 ^ 12"
  shows "to_number (num_str (price k)) = price k" "num_str (price k) \<noteq> []" "is_finite (price k)"
    "toNumberOrNull (Str (num_str (price k))) = Some (price k)"
proof -
  obtain m where m: "price k = Fin False m" "0 \<le> m" "double_mag m" using price_fin [OF assms] by metis
  show 1: "to_number (num_str (price k)) = price k" using to_number_Str_num_str m by simp
  show 2: "num_str (price k) \<noteq> []" using m by (intro num_str_not_Nil) simp
  show 3: "is_finite (price k)" using m by simp
  show "toNumberOrNull (Str (num_str (price k))) = Some (price k)"
    using 1 2 3 by (simp add: toNumberOrNull_Str)
qed

lemma price_quotient:
  assumes k: "0 \<le> k" "k < 1024 * 10 ^ 12" and b: "0 < kb" "kb < 4096 * 10 ^ 12"
  obtains r where "num_div (price k) (price kb) = Fin False r" "wf_num (Fin False r)"
    "formatNumber (Num (num_mul (price kb) (Fin False r))) = num_str (price k)"
proof -
  obtain bm where bm: "price kb = Fin False bm" "0 \<le> bm" "bm < 4097" "1 / 10 ^ 13 \<le> bm"
    using price_fin [of kb] b by (metis less_imp_le)
  then have b0: "0 < bm" unfolding tens by linarith
  have k2: "k < 4096 * 10 ^ 12" using k(2) by simp
  obtain cm where cm: "price k = Fin False cm" "0 \<le> cm" "cm = rnd_mag (of_int k / 10 ^ 12)"
    using price_fin [OF k(1) k2] by metis
  define r where "r = rnd_mag (cm / bm)"
  define y where "y = rnd_mag (bm * r)"
  have main: "r < 10 ^ 17 \<and> y < 10 ^ 4 \<and> \<bar>y - of_int k / 10 ^ 12\<bar> < 1 / 2 / 10 ^ 12"
  proof (cases "k = 0")
    case True
    then show ?thesis by (simp add: y_def r_def cm(3))
  next
    case False
    then have "(1 :: rat) \<le> of_int k" using k by simp
    then have q1: "1 / 10 ^ 12 \<le> (of_int k / 10 ^ 12 :: rat)" by simp
    have "(of_int k :: rat) < of_int (1024 * 10 ^ 12)" using k(2) by (simp only: of_int_less_iff)
    then have q2: "(of_int k / 10 ^ 12 :: rat) < 1024" by simp
    have "bm \<le> 5000" using bm by simp
    note mag_quotient_back [OF q1 q2 bm(4) this]
    then show ?thesis unfolding y_def r_def cm(3) by blast
  qed
  have r0: "0 \<le> r" unfolding r_def using cm bm by (intro rnd_mag_nonneg) simp
  have d: "num_div (price k) (price kb) = Fin False r \<and> wf_num (Fin False r)"
    using double_mag_rnd [of "cm / bm" False] main cm bm b0 by (simp add: r_def)
  have y4: "y < 10 ^ 17" "y < 10 ^ 21" using main unfolding tens by simp_all
  have "num_mul (price kb) (Fin False r) = Fin False y"
    using double_mag_rnd [of "bm * r" False] y4 r0 bm by (simp add: y_def)
  moreover have "0 \<le> y" unfolding y_def using r0 bm by (intro rnd_mag_nonneg) simp
  ultimately show ?thesis using that d formatNumber_near [OF _ y4(2), of k] main by simp
qed

text \<open>
  The value, in units of the twelfth decimal, of a text a price input accepts that has a digit and
  at most twelve decimals.
\<close>

definition decimal_text :: "jsstr \<Rightarrow> int option" where
  "decimal_text s =
     (let a = takeWhile is_digit s; r = dropWhile is_digit s in
      if r = [] then (if a = [] then None else Some (digits_int a * 10 ^ 12))
      else (let b = tl r in
        if hd r = 46 \<and> (\<forall>d \<in> set b. is_digit d) \<and> length b \<le> 12 \<and> (a \<noteq> [] \<or> b \<noteq> [])
        then Some (digits_int (a @ b) * 10 ^ (12 - length b)) else None))"

lemma read_decimal:
  assumes "\<forall>c \<in> set s. is_digit c \<or> c = 46" "s \<noteq> []" "scan_unsigned s = Some (q, [])"
  shows "to_number s = mk_num False q"
proof -
  obtain c r where s: "s = c # r" using assms(2) by (cases s) auto
  have n: "\<forall>c \<in> set s. numeral_char c" using assms(1) by (auto simp: numeral_char_def)
  then have "trim s = s" by (intro trim_no_ws) (blast dest: numeral_char_not_ws)
  moreover have "radix_of s = None" by (rule radix_of_numeral [OF n])
  moreover have "scan_sign s = (False, s)" "\<not> starts_with s (js ''Infinity'')"
    using assms(1) s by (auto simp: is_digit_def starts_with_def js_def)
  ultimately show ?thesis using assms(2,3) by (simp add: to_number_def scan_number_def)
qed

lemma decimal_text_read:
  assumes "decimal_text s = Some k"
  shows "to_number s = price k" "0 \<le> k" "s \<noteq> []" "NUMERIC_INPUT_REGEX s"
proof -
  define a where "a = takeWhile is_digit s"
  define r where "r = dropWhile is_digit s"
  have s: "s = a @ r" by (simp add: a_def r_def)
  have a: "\<forall>c \<in> set a. is_digit c" by (auto simp: a_def dest: set_takeWhileD)
  have d: "(if r = [] then (if a = [] then None else Some (digits_int a * 10 ^ 12))
      else (if hd r = 46 \<and> (\<forall>d \<in> set (tl r). is_digit d) \<and> length (tl r) \<le> 12 \<and> (a \<noteq> [] \<or> tl r \<noteq> [])
        then Some (digits_int (a @ tl r) * 10 ^ (12 - length (tl r))) else None)) = Some k"
    using assms by (simp only: decimal_text_def Let_def a_def r_def)
  then show "s \<noteq> []" by (auto simp: s)
  show "0 \<le> k" using d digits_int_nonneg by (auto split: if_splits)
  show "NUMERIC_INPUT_REGEX s"
    using d unfolding NUMERIC_INPUT_REGEX_def r_def [symmetric] by (cases r) (auto split: if_splits)
  have "scan_unsigned s = Some (of_int k / 10 ^ 12, []) \<and> (\<forall>c \<in> set s. is_digit c \<or> c = 46)"
  proof (cases r)
    case Nil
    then show ?thesis using d a scan_unsigned_plain [of a "[]" 0] by (auto simp: s scan_exp_none split: if_splits)
  next
    case (Cons c b)
    then have b: "c = 46" "\<forall>d \<in> set b. is_digit d" "length b \<le> 12" "a \<noteq> [] \<or> b \<noteq> []"
      and k: "k = digits_int (a @ b) * 10 ^ (12 - length b)" using d by (auto split: if_splits)
    have "(10 :: rat) ^ 12 = 10 ^ (12 - length b) * 10 ^ length b"
      using b(3) by (simp only: power_add [symmetric] le_add_diff_inverse2)
    then have "of_int k / 10 ^ 12 = of_int (digits_int (a @ b)) * (10 :: rat) powi (0 - int (length b))"
      unfolding k of_int_mult of_int_power of_int_numeral
      by (simp only:) (simp add: power_int_minus divide_inverse del: power_numeral)
    then show ?thesis
      using scan_unsigned_point [OF a b(2,4), of "[]" 0] a b(1,2) Cons by (auto simp: s scan_exp_none)
  qed
  then show "to_number s = price k" using read_decimal [of s] \<open>s \<noteq> []\<close> by (simp add: price_def)
qed

section \<open>Saving and loading prices\<close>

definition priced :: "int \<Rightarrow> jsstr \<Rightarrow> bool" where
  "priced bnd s \<longleftrightarrow> s = [] \<or> (case decimal_text s of Some k \<Rightarrow> k < bnd * 10 ^ 12 | None \<Rightarrow> False)"

text \<open>The text a loaded price is shown as: the shortest numeral of the same number.\<close>

definition shown :: "jsstr \<Rightarrow> jsstr" where
  "shown s = (if s = [] then [] else num_str (to_number s))"

definition stored :: "jsnum option \<Rightarrow> jsval" where
  "stored x = (case x of None \<Rightarrow> Undef | Some v \<Rightarrow> Num v)"

lemma toNumericString_stored: "toNumericString (stored x) =
    (case x of None \<Rightarrow> [] | Some v \<Rightarrow> if is_finite v then num_str v else [])"
  by (simp add: stored_def toNumericString_Num split: option.splits)

lemma priced_cases [consumes 2, case_names empty price]:
  assumes "priced bnd s" "bnd \<le> 4096"
  obtains "s = []"
  | k where "decimal_text s = Some k" "0 \<le> k" "k < bnd * 10 ^ 12" "k < 4096 * 10 ^ 12"
      "toNumberOrNull (Str s) = Some (price k)" "shown s = num_str (price k)" "s \<noteq> []" "to_number s = price k"
proof (cases "s = []")
  case False
  then obtain k where k: "decimal_text s = Some k" "k < bnd * 10 ^ 12"
    using assms(1) by (auto simp: priced_def split: option.splits)
  note r = decimal_text_read [OF k(1)]
  have "k < 4096 * 10 ^ 12" using k(2) assms(2) by simp
  then show ?thesis using that(2) k r price_read [of k] by (simp add: toNumberOrNull_Str shown_def)
qed (use that in blast)

lemma price_json_num: "\<lbrakk>0 \<le> k; k < 4096 * 10 ^ 12\<rbrakk> \<Longrightarrow> json_num (price k)"
  by (rule price_fin) (auto simp: json_num_def)

lemma derived_roundtrip:
  assumes "priced 1024 s" "0 < kb" "kb < 4096 * 10 ^ 12"
  defines "x \<equiv> ratio_over (toNumberOrNull (Str s)) (price kb)"
  shows "derived_price (Some (price kb)) (toNumericString (stored x)) = shown s" "pred_option json_num x"
    "x = None \<longleftrightarrow> s = []"
proof -
  have le: "1024 \<le> (4096 :: int)" by simp
  have "derived_price (Some (price kb)) (toNumericString (stored x)) = shown s \<and> pred_option json_num x \<and>
      (x = None \<longleftrightarrow> s = [])"
    using assms(1) le
  proof (cases rule: priced_cases)
    case empty
    then show ?thesis by (simp add: x_def ratio_over_def toNumberOrNull_Str derived_price_def stored_def shown_def)
  next
    case (price k)
    then obtain r where r: "num_div (price k) (price kb) = Fin False r" "wf_num (Fin False r)"
        "formatNumber (Num (num_mul (price kb) (Fin False r))) = num_str (price k)"
      using price_quotient [OF price(2,3) assms(2,3)] by blast
    have x: "x = Some (Fin False r)" using price r(1) by (simp add: x_def ratio_over_def)
    have "num_str (Fin False r) \<noteq> []" by (rule num_str_not_Nil [OF r(2)])
    then show ?thesis using price r to_number_Str_num_str [OF r(2)]
      by (simp add: x toNumericString_stored derived_price_def json_num_def del: num_str.simps wf_num_simps)
  qed
  then show "derived_price (Some (price kb)) (toNumericString (stored x)) = shown s" "pred_option json_num x"
    "x = None \<longleftrightarrow> s = []" by blast+
qed

lemma base_roundtrip:
  assumes "0 \<le> k" "k < 4096 * 10 ^ 12"
  shows "ratioToBasePrice (Str (toNumericString (Num (num_div (price k) two)))) = num_str (price k)"
    "json_num (num_div (price k) two)"
proof -
  obtain m where m: "price k = Fin False m" "0 \<le> m" "double_mag m" "m < 4097" "0 < k \<Longrightarrow> 1 / 10 ^ 13 \<le> m"
    "m = rnd_mag (of_int k / 10 ^ 12)"
    using price_fin [OF assms] by metis
  have half: "double_mag (m / 2)"
  proof (cases "k = 0")
    case True
    then show ?thesis using m(6) by simp
  next
    case False
    have "(2 :: rat) powi (- 1021) \<le> 1 / 10 ^ 30" by (rule powi2_small) simp
    also have "\<dots> \<le> 1 / 10 ^ 13" by simp
    also have "\<dots> \<le> m" using m(5) False assms(1) by simp
    finally have "dyadic53 (m / 2)" using m(3) by (intro dyadic53_halve) (simp_all add: double_mag_def)
    moreover have "m / 2 < 2 ^ 1024" by (rule less_trans [of _ 5000]) (use m(4) in simp_all)
    ultimately show ?thesis by (simp add: double_mag_def)
  qed
  then have d: "num_div (price k) two = Fin False (m / 2)" using m(1,2) by (simp add: mk_num_double)
  have wf: "wf_num (Fin False (m / 2))" using half m(2) by simp
  have n: "toNumberOrNull (Str (toNumericString (Num (Fin False (m / 2))))) = Some (Fin False (m / 2))"
    using to_number_Str_num_str [OF wf] num_str_not_Nil [OF wf]
    by (simp add: toNumericString_Num toNumberOrNull_Str del: num_str.simps)
  have "num_mul (Fin False (m / 2)) two = Fin False m" using m(3) by (simp add: mk_num_double)
  then show "ratioToBasePrice (Str (toNumericString (Num (num_div (price k) two)))) = num_str (price k)"
    unfolding d ratioToBasePrice_def n using formatNumber_price [OF assms] m(1) by (simp del: num_str.simps)
  show "json_num (num_div (price k) two)" unfolding d using wf by (simp add: json_num_def)
qed

text \<open>
  The models whose prices are exact decimals: a fixed price, or a positive input price below 4096
  with further prices below 1024, an audio output price only with a non-zero audio input price.
\<close>

definition exact_prices :: "model \<Rightarrow> bool" where
  "exact_prices m \<longleftrightarrow>
     (case billingMode m of
        Per_request \<Rightarrow> fixedPrice m \<noteq> [] \<and> priced 4096 (fixedPrice m)
      | Per_token \<Rightarrow>
          \<not> completionRatioLocked m \<and> inputPrice m \<noteq> [] \<and> priced 4096 (inputPrice m) \<and>
          decimal_text (inputPrice m) \<noteq> Some 0 \<and>
          priced 1024 (completionPrice m) \<and> priced 1024 (cachePrice m) \<and> priced 1024 (createCachePrice m) \<and>
          priced 1024 (imagePrice m) \<and> priced 1024 (audioInputPrice m) \<and> priced 1024 (audioOutputPrice m) \<and>
          (audioOutputPrice m \<noteq> [] \<longrightarrow> audioInputPrice m \<noteq> [] \<and> decimal_text (audioInputPrice m) \<noteq> Some 0))"

definition price_fields :: "model \<Rightarrow> jsstr list" where
  "price_fields m = [fixedPrice m, inputPrice m, completionPrice m, cachePrice m, createCachePrice m,
     imagePrice m, audioInputPrice m, audioOutputPrice m]"

text \<open>What is left of the prices under the billing mode, as the loaded model shows them.\<close>

definition shown_prices :: "model \<Rightarrow> jsstr list" where
  "shown_prices m = (case billingMode m of
       Per_request \<Rightarrow> [shown (fixedPrice m), [], [], [], [], [], [], []]
     | Per_token \<Rightarrow> [] # map shown (tl (price_fields m)))"

fun source_map :: "source_maps \<Rightarrow> option_key \<Rightarrow> jsval" where
  "source_map sm ModelPrice = ModelPriceMap sm"
| "source_map sm ModelRatio = ModelRatioMap sm"
| "source_map sm CompletionRatio = CompletionRatioMap sm"
| "source_map sm CacheRatio = CacheRatioMap sm"
| "source_map sm CreateCacheRatio = CreateCacheRatioMap sm"
| "source_map sm ImageRatio = ImageRatioMap sm"
| "source_map sm AudioRatio = AudioRatioMap sm"
| "source_map sm AudioCompletionRatio = AudioCompletionRatioMap sm"

definition maps_hold :: "source_maps \<Rightarrow> jsstr \<Rightarrow> serialized \<Rightarrow> bool" where
  "maps_hold sm nm r \<longleftrightarrow> (\<forall>key. own_prop (source_map sm key) nm = stored (r key)) \<and>
     own_prop (CompletionRatioMetaMap sm) nm = Undef"

lemma maps_holdD:
  assumes "maps_hold sm nm r"
  shows "own_prop (ModelPriceMap sm) nm = stored (r ModelPrice)" "own_prop (ModelRatioMap sm) nm = stored (r ModelRatio)"
    "own_prop (CompletionRatioMap sm) nm = stored (r CompletionRatio)" "own_prop (CacheRatioMap sm) nm = stored (r CacheRatio)"
    "own_prop (CreateCacheRatioMap sm) nm = stored (r CreateCacheRatio)" "own_prop (ImageRatioMap sm) nm = stored (r ImageRatio)"
    "own_prop (AudioRatioMap sm) nm = stored (r AudioRatio)"
    "own_prop (AudioCompletionRatioMap sm) nm = stored (r AudioCompletionRatio)"
    "own_prop (CompletionRatioMetaMap sm) nm = Undef"
  using assms unfolding maps_hold_def by (metis source_map.simps)+

lemma normalize_Undef [simp]: "normalizeCompletionRatioMeta Undef = (False, [])"
  by (simp add: normalizeCompletionRatioMeta_def truthy_def)

lemma stored_None [simp]: "stored None = Undef"
  by (simp add: stored_def)

lemma empty_prices [simp]: "ratioToBasePrice (Str []) = []" "toNumberOrNull (Str []) = None" "derived_price None s = []"
  "derived_price b [] = []"
  by (simp_all add: ratioToBasePrice_def toNumberOrNull_Str derived_price_def split: option.splits)

lemma shown_Nil [simp]: "shown [] = []"
  by (simp add: shown_def)

lemma request_roundtrip:
  assumes "exact_prices m" "billingMode m = Per_request"
  shows "\<exists>r. serializeModel t m = Inr r \<and> (\<forall>key. pred_option json_num (r key)) \<and> (\<exists>key. r key \<noteq> None) \<and>
    (\<forall>sm. maps_hold sm (name m) r \<longrightarrow> billingMode (buildModelState (name m) sm) = billingMode m \<and>
       price_fields (buildModelState (name m) sm) = shown_prices m)"
proof -
  define r where "r = (\<lambda>_. None)(ModelPrice := number_of (fixedPrice m))"
  have ser: "serializeModel t m = Inr r" using assms(2) by (simp add: serializeModel_def r_def)
  have p: "priced 4096 (fixedPrice m)" "4096 \<le> (4096 :: int)" "fixedPrice m \<noteq> []"
    using assms by (simp_all add: exact_prices_def)
  from p(1,2) obtain k where k: "0 \<le> k" "k < 4096 * 10 ^ 12" "to_number (fixedPrice m) = price k"
      "shown (fixedPrice m) = num_str (price k)"
    by (cases rule: priced_cases) (use p(3) in auto)
  have mp: "r ModelPrice = Some (price k)" using p(3) k by (simp add: r_def number_of_def)
  have other: "r key = None" if "key \<noteq> ModelPrice" for key using that by (simp add: r_def)
  have "billingMode (buildModelState (name m) sm) = billingMode m \<and>
      price_fields (buildModelState (name m) sm) = shown_prices m" if "maps_hold sm (name m) r" for sm
    using price_read [OF k(1,2)] k assms(2)
    by (simp add: buildModelState_def maps_holdD [OF that] other mp toNumericString_stored
        price_fields_def shown_prices_def Let_def)
  moreover have "pred_option json_num (r key)" for key
    using mp other [of key] price_json_num [OF k(1,2)] by (cases "key = ModelPrice") auto
  ultimately show ?thesis using ser mp by blast
qed

lemma price_nonzero: "\<lbrakk>0 < k; k < 4096 * 10 ^ 12\<rbrakk> \<Longrightarrow> \<not> num_zero (price k)"
  by (rule price_fin [of k]) (auto simp: num_zero_def)

lemma audio_output_roundtrip:
  assumes "priced 1024 inp" "priced 1024 outp" "outp \<noteq> [] \<longrightarrow> inp \<noteq> [] \<and> decimal_text inp \<noteq> Some 0"
  defines "x \<equiv> (case toNumberOrNull (Str inp) of None \<Rightarrow> None | Some i \<Rightarrow> ratio_over (toNumberOrNull (Str outp)) i)"
  shows "derived_price (toNumberOrNull (Str (shown inp))) (toNumericString (stored x)) = shown outp"
    "pred_option json_num x" "outp \<noteq> [] \<Longrightarrow> \<exists>i. toNumberOrNull (Str inp) = Some i \<and> \<not> num_zero i"
proof -
  have le: "1024 \<le> (4096 :: int)" by simp
  have "derived_price (toNumberOrNull (Str (shown inp))) (toNumericString (stored x)) = shown outp \<and>
      pred_option json_num x \<and> (outp \<noteq> [] \<longrightarrow> (\<exists>i. toNumberOrNull (Str inp) = Some i \<and> \<not> num_zero i))"
  proof (cases "outp = []")
    case True
    then show ?thesis by (simp add: x_def ratio_over_def split: option.splits)
  next
    case False
    from assms(1) le obtain k where k: "decimal_text inp = Some k" "0 \<le> k" "k < 4096 * 10 ^ 12"
        "toNumberOrNull (Str inp) = Some (price k)" "shown inp = num_str (price k)"
      by (cases rule: priced_cases) (use assms(3) False in auto)
    then have k0: "0 < k" using assms(3) False by (auto simp: less_le)
    show ?thesis
      using derived_roundtrip [OF assms(2) k0 k(3)] price_nonzero [OF k0 k(3)] price_read [OF k(2,3)] k
      by (simp add: x_def)
  qed
  then show "derived_price (toNumberOrNull (Str (shown inp))) (toNumericString (stored x)) = shown outp"
    "pred_option json_num x" "outp \<noteq> [] \<Longrightarrow> \<exists>i. toNumberOrNull (Str inp) = Some i \<and> \<not> num_zero i" by blast+
qed

text \<open>The ratios an exactly priced per-token model is saved as.\<close>

definition token_ratios :: "int \<Rightarrow> model \<Rightarrow> serialized" where
  "token_ratios k m =
     (let n = (\<lambda>f. toNumberOrNull (Str (f m))) in
      (\<lambda>_. None)(ModelRatio := Some (num_div (price k) two),
        CompletionRatio := ratio_over (n completionPrice) (price k), CacheRatio := ratio_over (n cachePrice) (price k),
        CreateCacheRatio := ratio_over (n createCachePrice) (price k), ImageRatio := ratio_over (n imagePrice) (price k),
        AudioRatio := ratio_over (n audioInputPrice) (price k),
        AudioCompletionRatio :=
          (case n audioInputPrice of None \<Rightarrow> None | Some i \<Rightarrow> ratio_over (n audioOutputPrice) i)))"

lemma exact_tokenE:
  assumes "exact_prices m" "billingMode m = Per_token"
  obtains k where "0 < k" "k < 4096 * 10 ^ 12" "toNumberOrNull (Str (inputPrice m)) = Some (price k)"
    "shown (inputPrice m) = num_str (price k)" "\<not> completionRatioLocked m"
    "\<And>f. f \<in> {completionPrice, cachePrice, createCachePrice, imagePrice, audioInputPrice, audioOutputPrice} \<Longrightarrow> priced 1024 (f m)"
    "audioOutputPrice m \<noteq> [] \<longrightarrow> audioInputPrice m \<noteq> [] \<and> decimal_text (audioInputPrice m) \<noteq> Some 0"
proof -
  have e: "priced 4096 (inputPrice m)" "4096 \<le> (4096 :: int)" "inputPrice m \<noteq> []" "decimal_text (inputPrice m) \<noteq> Some 0"
    using assms by (simp_all add: exact_prices_def)
  from e(1,2) obtain k where k: "0 \<le> k" "k < 4096 * 10 ^ 12" "toNumberOrNull (Str (inputPrice m)) = Some (price k)"
      "shown (inputPrice m) = num_str (price k)" "decimal_text (inputPrice m) = Some k"
    by (cases rule: priced_cases) (use e(3) in auto)
  then have "0 < k" using e(4) by (auto simp: less_le)
  with k that assms show ?thesis by (auto simp: exact_prices_def)
qed

lemma serialize_exact:
  assumes "billingMode m = Per_token" "\<not> completionRatioLocked m" "toNumberOrNull (Str (inputPrice m)) = Some (price k)"
    and "audioOutputPrice m \<noteq> [] \<Longrightarrow> \<exists>i. toNumberOrNull (Str (audioInputPrice m)) = Some i \<and> \<not> num_zero i"
  shows "serializeModel t m = Inr (token_ratios k m)"
proof (cases "toNumberOrNull (Str (audioOutputPrice m))")
  case None
  then show ?thesis using assms(1-3)
    by (auto simp: serializeModel_def token_ratios_def Let_def ratio_over_def fun_eq_iff split: option.splits)
next
  case (Some out)
  then have "audioOutputPrice m \<noteq> []" by auto
  with Some assms show ?thesis
    by (auto simp: serializeModel_def token_ratios_def Let_def ratio_over_def fun_eq_iff)
qed

lemma token_roundtrip:
  assumes "exact_prices m" "billingMode m = Per_token"
  shows "\<exists>r. serializeModel t m = Inr r \<and> (\<forall>key. pred_option json_num (r key)) \<and> (\<exists>key. r key \<noteq> None) \<and>
    (\<forall>sm. maps_hold sm (name m) r \<longrightarrow> billingMode (buildModelState (name m) sm) = billingMode m \<and>
       price_fields (buildModelState (name m) sm) = shown_prices m)"
proof -
  obtain k where k: "0 < k" "k < 4096 * 10 ^ 12" "toNumberOrNull (Str (inputPrice m)) = Some (price k)"
    "shown (inputPrice m) = num_str (price k)" "\<not> completionRatioLocked m"
    and p: "\<And>f. f \<in> {completionPrice, cachePrice, createCachePrice, imagePrice, audioInputPrice, audioOutputPrice} \<Longrightarrow> priced 1024 (f m)"
    and a: "audioOutputPrice m \<noteq> [] \<longrightarrow> audioInputPrice m \<noteq> [] \<and> decimal_text (audioInputPrice m) \<noteq> Some 0"
    using exact_tokenE [OF assms] by metis
  then have k0: "0 \<le> k" by simp
  let ?r = "token_ratios k m"
  have dr: "derived_price (Some (price k)) (toNumericString (stored (ratio_over (toNumberOrNull (Str (f m))) (price k)))) = shown (f m)"
      "pred_option json_num (ratio_over (toNumberOrNull (Str (f m))) (price k))"
    if "f \<in> {completionPrice, cachePrice, createCachePrice, imagePrice, audioInputPrice}" for f
    using derived_roundtrip [OF _ k(1,2), of "f m"] p [of f] that by auto
  have pa: "priced 1024 (audioInputPrice m)" "priced 1024 (audioOutputPrice m)" by (rule p, simp)+
  note ao = audio_output_roundtrip [OF pa a]
  have fin: "pred_option json_num (?r key)" for key
    using base_roundtrip(2) [OF k0 k(2)] dr(2) ao(2) by (cases key) (simp_all add: token_ratios_def)
  have bk: "billingMode (buildModelState (name m) sm) = billingMode m \<and>
      price_fields (buildModelState (name m) sm) = shown_prices m" if "maps_hold sm (name m) ?r" for sm
  proof -
    have base: "ratioToBasePrice (Str (toNumericString (stored (?r ModelRatio)))) = num_str (price k)"
      using base_roundtrip(1) [OF k0 k(2)] by (simp add: token_ratios_def stored_def)
    have mp: "toNumericString (stored (?r ModelPrice)) = []" by (simp add: token_ratios_def)
    have rd: "toNumberOrNull (Str (num_str (price k))) = Some (price k)" by (rule price_read(4) [OF k0 k(2)])
    show ?thesis
      using assms(2) k(4) dr(1) ao(1) by (simp add: buildModelState_def maps_holdD [OF that] base mp rd
          price_fields_def shown_prices_def Let_def) (simp add: token_ratios_def)
  qed
  have "?r ModelRatio \<noteq> None" by (simp add: token_ratios_def)
  with serialize_exact [OF assms(2) k(5,3) ao(3)] fin bk show ?thesis by blast
qed

lemma model_roundtrip:
  assumes "exact_prices m"
  obtains r where "serializeModel t m = Inr r" "\<And>key. pred_option json_num (r key)" "\<exists>key. r key \<noteq> None"
    "\<And>sm. maps_hold sm (name m) r \<Longrightarrow> billingMode (buildModelState (name m) sm) = billingMode m \<and>
       price_fields (buildModelState (name m) sm) = shown_prices m"
  using request_roundtrip [OF assms] token_roundtrip [OF assms] by (cases "billingMode m") blast+
end
