(* ===== verification/Pricing_Rules.thy ===== *)
theory Pricing_Rules
  imports Pricing_Exact
begin

text \<open>
  The rules of \<open>serializeModel\<close>: when it throws, how the warnings announce it, and that the preview
  shows what is saved.
\<close>

section \<open>Failures\<close>

abbreviation num_field :: "jsstr \<Rightarrow> jsnum option" where
  "num_field s \<equiv> toNumberOrNull (Str s)"

definition dependent_prices :: "model \<Rightarrow> jsstr list" where
  "dependent_prices m = [completionPrice m, cachePrice m, createCachePrice m, imagePrice m,
     audioInputPrice m, audioOutputPrice m]"

lemma serialize_cases:
  "serializeModel t m = Inl msg \<longleftrightarrow>
     billingMode m = Per_token \<and>
     (num_field (inputPrice m) = None \<and> list_ex (\<lambda>s. num_field s \<noteq> None) (dependent_prices m) \<and>
        msg = t txt_missing_input [(js ''name'', Str (name m))]
      \<or> num_field (inputPrice m) \<noteq> None \<and> num_field (audioOutputPrice m) \<noteq> None \<and>
        (num_field (audioInputPrice m) = None \<or> num_zero (the (num_field (audioInputPrice m)))) \<and>
        msg = t txt_missing_audio [(js ''name'', Str (name m))])"
proof (cases "billingMode m")
  case Per_token
  show ?thesis
    unfolding serializeModel_def dependent_prices_def Let_def Per_token
    by (cases "num_field (inputPrice m)"; cases "num_field (audioOutputPrice m)";
        cases "num_field (audioInputPrice m)") (auto simp del: not_None_eq)
next
  case Per_request
  then show ?thesis by (simp add: serializeModel_def)
qed



definition audio_model :: model where
  "audio_model = EMPTY_MODEL\<lparr>name := js ''tts'', inputPrice := js ''2.5'', audioInputPrice := js ''40'',
     audioOutputPrice := js ''80.''\<rparr>"


section \<open>The preview\<close>

definition preview_text :: "translate \<Rightarrow> jsnum option \<Rightarrow> jsstr" where
  "preview_text t x = (case x of None \<Rightarrow> t txt_empty [] | Some v \<Rightarrow> formatNumber (Num v))"

lemma ratio_text_preview: "ratio_text t pr base = preview_text t (ratio_over pr base)"
  by (simp add: ratio_text_def preview_text_def ratio_over_def split: option.splits)

text \<open>Under per-token billing with an input price and no locked completion ratio, the preview
  rows are exactly the values that are saved, each formatted to at most twelve decimals, and an
  empty mark where nothing is saved.\<close>

theorem preview_shows_saved:
  assumes "serializeModel t m = Inr r" "billingMode m = Per_token" "\<not> completionRatioLocked m"
    "num_field (inputPrice m) = Some base"
  shows "buildPreviewRows t (Some m) = map (\<lambda>key. (key, preview_text t (r key))) (tl option_keys)"
proof -
  have audio: "r AudioCompletionRatio =
      (case num_field (audioInputPrice m) of None \<Rightarrow> None
       | Some inp \<Rightarrow> if num_zero inp then None else ratio_over (num_field (audioOutputPrice m)) inp)"
    using assms by (auto simp: serializeModel_def Let_def ratio_over_def split: option.splits if_splits)
  have rest: "r ModelRatio = Some (num_div base two)"
    "r CompletionRatio = ratio_over (num_field (completionPrice m)) base"
    "r CacheRatio = ratio_over (num_field (cachePrice m)) base"
    "r CreateCacheRatio = ratio_over (num_field (createCachePrice m)) base"
    "r ImageRatio = ratio_over (num_field (imagePrice m)) base"
    "r AudioRatio = ratio_over (num_field (audioInputPrice m)) base"
    using assms by (auto simp: serializeModel_def Let_def ratio_over_def split: option.splits if_splits)
  have "(case num_field (audioInputPrice m) of
        Some inp \<Rightarrow> if num_zero inp then t txt_empty [] else ratio_text t (num_field (audioOutputPrice m)) inp
      | None \<Rightarrow> t txt_empty []) = preview_text t (r AudioCompletionRatio)"
    unfolding audio ratio_text_preview by (simp add: preview_text_def split: option.splits)
  then show ?thesis
    using assms(2-4) rest
    by (simp add: buildPreviewRows_def Let_def option_keys_def ratio_text_preview) (simp add: preview_text_def)
qed

theorem preview_shows_saved_witness:
  "buildPreviewRows (\<lambda>_ _. js ''-'') (Some audio_model) =
     [(ModelRatio, js ''1.25''), (CompletionRatio, js ''-''), (CacheRatio, js ''-''),
      (CreateCacheRatio, js ''-''), (ImageRatio, js ''-''), (AudioRatio, js ''16''),
      (AudioCompletionRatio, js ''2'')]"
proof -
  let ?t = "\<lambda>_ _. js ''-''"
  have num: "num_field (js ''2.5'') = Some (Fin False (5 / 2))" "num_field (js ''40'') = Some (Fin False 40)"
    "num_field (js ''80.'') = Some (Fin False 80)" by code_simp+
  have div: "num_div (Fin False (5 / 2)) two = Fin False (5 / 4)" "num_div (Fin False 40) (Fin False (5 / 2)) = Fin False 16"
    "num_div (Fin False 80) (Fin False 40) = two" by code_simp+
  have fmt: "formatNumber (Num (Fin False (5 / 4))) = js ''1.25''" "formatNumber (Num (Fin False 16)) = js ''16''"
    "formatNumber (Num two) = js ''2''" by code_simp+
  let ?r = "(\<lambda>_. None)(ModelRatio := Some (Fin False (5 / 4)), AudioRatio := Some (Fin False 16),
     AudioCompletionRatio := Some two)"
  have r: "serializeModel ?t audio_model = Inr ?r"
    using num div by (simp add: serializeModel_def audio_model_def EMPTY_MODEL_def Let_def ratio_over_def num_zero_def
        fun_eq_iff del: num_div.simps)
  have "buildPreviewRows ?t (Some audio_model) = map (\<lambda>key. (key, preview_text ?t (?r key))) (tl option_keys)"
    by (rule preview_shows_saved [OF r]) (simp_all add: audio_model_def EMPTY_MODEL_def num)
  then show ?thesis by (simp add: option_keys_def preview_text_def fmt)
qed

section \<open>A zero input price\<close>

text \<open>An input price of zero silently loses every price that depends on it: the ratio that is saved
  for a set cache price is not a finite number, so \<open>JSON.stringify\<close> writes it as \<open>null\<close>, and the
  loaded model shows no cache price.\<close>

theorem zero_input_price_loses_prices:
  assumes "serializeModel t m = Inr r" "billingMode m = Per_token"
    "num_field (inputPrice m) = Some (Fin s 0)" "num_field (cachePrice m) \<noteq> None"
  shows "\<exists>x. r CacheRatio = Some x \<and> json_ser gap ind (Num x) = js ''null'' \<and> toNumericString Null = []"
proof -
  obtain c where c: "num_field (cachePrice m) = Some c" using assms(4) by auto
  then have "is_finite c" by (auto simp: toNumberOrNull_Str split: if_splits)
  then obtain n q where "c = Fin n q" by (cases c) auto
  then have "\<not> is_finite (num_div c (Fin s 0))" by simp
  moreover have "r CacheRatio = Some (num_div c (Fin s 0))"
    using assms c by (auto simp: serializeModel_def Let_def ratio_over_def split: option.splits if_splits)
  ultimately show ?thesis by (simp add: toNumericString_def hasValue_def)
qed

theorem zero_input_price_loses_prices_witness:
  "\<exists>r x. serializeModel (\<lambda>k _. k) (EMPTY_MODEL\<lparr>inputPrice := js ''0'', cachePrice := js ''0.5''\<rparr>) = Inr r \<and>
     r CacheRatio = Some x \<and> json_ser [] [] (Num x) = js ''null''"
proof -
  let ?m = "EMPTY_MODEL\<lparr>inputPrice := js ''0'', cachePrice := js ''0.5''\<rparr>"
  have r: "serializeModel (\<lambda>k _. k) ?m = Inr (projr (serializeModel (\<lambda>k _. k) ?m))"
    by (rule sum.collapse(2) [symmetric]) code_simp
  have "billingMode ?m = Per_token" by code_simp
  moreover have "num_field (inputPrice ?m) = Some (Fin False 0)" by code_simp
  moreover have "num_field (cachePrice ?m) \<noteq> None" by code_simp
  ultimately show ?thesis using zero_input_price_loses_prices [OF r, of False "[]" "[]"] r by blast
qed

end
