(* ===== verification/Pricing_State.thy ===== *)
theory Pricing_State
  imports Pricing_Exact
begin

text \<open>
  The React hook \<open>useModelPricingEditorState\<close>: its state, the values it derives, its effects, its
  handlers and the submission.  A handler runs on the state of the last render and queues updates,
  which are applied in order before the next render; the effects whose dependencies changed then
  run on the new state.  \<open>localeCompare\<close> and \<open>toLowerCase\<close> (tables of the host) and the server are
  parameters.
\<close>

section \<open>State\<close>

datatype filter_mode = All_models | Unset_only

record options =
  oModelPrice :: "jsstr option"
  oModelRatio :: "jsstr option"
  oCompletionRatio :: "jsstr option"
  oCompletionRatioMeta :: "jsstr option"
  oCacheRatio :: "jsstr option"
  oCreateCacheRatio :: "jsstr option"
  oImageRatio :: "jsstr option"
  oAudioRatio :: "jsstr option"
  oAudioCompletionRatio :: "jsstr option"

record props =
  p_options :: options
  candidateModelNames :: "jsstr list"
  filterMode :: filter_mode

record editor =
  models :: "model list"
  initialVisibleModelNames :: "jsstr list"
  selectedModelName :: jsstr
  selectedModelNames :: "jsstr list"
  searchText :: jsstr
  currentPage :: int
  loading :: bool
  conflictOnly :: bool
  optionalFieldToggles :: "(jsstr \<times> toggles) list"

definition init_editor :: editor where
  "init_editor = \<lparr>models = [], initialVisibleModelNames = [], selectedModelName = [],
     selectedModelNames = [], searchText = [], currentPage = 1, loading = False,
     conflictOnly = False, optionalFieldToggles = []\<rparr>"

section \<open>Loading\<close>

definition source_maps_of :: "options \<Rightarrow> source_maps" where
  "source_maps_of opts = \<lparr>
     ModelPriceMap = parseOptionJSON (oModelPrice opts),
     ModelRatioMap = parseOptionJSON (oModelRatio opts),
     CompletionRatioMap = parseOptionJSON (oCompletionRatio opts),
     CompletionRatioMetaMap = parseOptionJSON (oCompletionRatioMeta opts),
     CacheRatioMap = parseOptionJSON (oCacheRatio opts),
     CreateCacheRatioMap = parseOptionJSON (oCreateCacheRatio opts),
     ImageRatioMap = parseOptionJSON (oImageRatio opts),
     AudioRatioMap = parseOptionJSON (oAudioRatio opts),
     AudioCompletionRatioMap = parseOptionJSON (oAudioCompletionRatio opts)\<rparr>"

definition model_names :: "jsstr list \<Rightarrow> source_maps \<Rightarrow> jsstr list" where
  "model_names candidates sm = nub (candidates
     @ obj_keys (ModelPriceMap sm) @ obj_keys (ModelRatioMap sm) @ obj_keys (CompletionRatioMap sm)
     @ obj_keys (CompletionRatioMetaMap sm) @ obj_keys (CacheRatioMap sm)
     @ obj_keys (CreateCacheRatioMap sm) @ obj_keys (ImageRatioMap sm) @ obj_keys (AudioRatioMap sm)
     @ obj_keys (AudioCompletionRatioMap sm))"

type_synonym locale_compare = "jsstr \<Rightarrow> jsstr \<Rightarrow> int"

definition next_models :: "locale_compare \<Rightarrow> props \<Rightarrow> model list" where
  "next_models cmp p =
     (let sm = source_maps_of (p_options p) in
      js_sort (\<lambda>a b. cmp (name a) (name b))
        (map (\<lambda>nm. buildModelState nm sm) (model_names (candidateModelNames p) sm)))"

text \<open>\<open>xs[0]?.name || ''\<close>\<close>

definition first_name :: "model list \<Rightarrow> jsstr" where
  "first_name ms = (case ms of [] \<Rightarrow> [] | m # _ \<Rightarrow> name m)"

definition load_effect :: "locale_compare \<Rightarrow> props \<Rightarrow> editor \<Rightarrow> editor" where
  "load_effect cmp p e =
     (let next = next_models cmp p;
          nextVisible = (if filterMode p = Unset_only then filter isBasePricingUnset next else next)
      in e\<lparr>models := next,
           initialVisibleModelNames := map name nextVisible,
           optionalFieldToggles := fold (\<lambda>m acc. put (name m) (buildOptionalFieldToggles m) acc) next [],
           selectedModelName :=
             (if selectedModelName e \<noteq> [] \<and> selectedModelName e \<in> name ` set next
              then selectedModelName e else first_name nextVisible)\<rparr>)"

section \<open>Derived values\<close>

definition visibleModels :: "props \<Rightarrow> editor \<Rightarrow> model list" where
  "visibleModels p e =
     (if filterMode p = Unset_only
      then filter (\<lambda>m. name m \<in> set (initialVisibleModelNames e)) (models e) else models e)"

definition filteredModels :: "(jsstr \<Rightarrow> jsstr) \<Rightarrow> props \<Rightarrow> editor \<Rightarrow> model list" where
  "filteredModels lower p e =
     filter (\<lambda>m. (let keyword = lower (trim (searchText e)) in
        (keyword \<noteq> [] \<longrightarrow> str_includes (lower (name m)) keyword) \<and>
        (conflictOnly e \<longrightarrow> hasConflict m))) (visibleModels p e)"

definition PAGE_SIZE :: int where "PAGE_SIZE = 10"

definition pagedData :: "(jsstr \<Rightarrow> jsstr) \<Rightarrow> props \<Rightarrow> editor \<Rightarrow> model list" where
  "pagedData lower p e =
     (let start = (currentPage e - 1) * PAGE_SIZE in
      js_slice (filteredModels lower p e) start (start + PAGE_SIZE))"

definition selectedModel :: "props \<Rightarrow> editor \<Rightarrow> model option" where
  "selectedModel p e = find (\<lambda>m. name m = selectedModelName e) (visibleModels p e)"

section \<open>Effects\<close>

definition page_effect :: "editor \<Rightarrow> editor" where
  "page_effect e = e\<lparr>currentPage := 1\<rparr>"

definition prune_effect :: "props \<Rightarrow> editor \<Rightarrow> editor" where
  "prune_effect p e = e\<lparr>selectedModelNames :=
     filter (\<lambda>nm. nm \<in> name ` set (visibleModels p e)) (selectedModelNames e)\<rparr>"

definition focus_effect :: "props \<Rightarrow> editor \<Rightarrow> editor" where
  "focus_effect p e =
     (if length (visibleModels p e) = 0 then e\<lparr>selectedModelName := []\<rparr>
      else if selectedModelName e \<notin> name ` set (visibleModels p e)
      then e\<lparr>selectedModelName := name (hd (visibleModels p e))\<rparr>
      else e)"

section \<open>Handlers\<close>

definition upsertModel :: "jsstr \<Rightarrow> (model \<Rightarrow> model) \<Rightarrow> editor \<Rightarrow> editor" where
  "upsertModel nm updater e =
     e\<lparr>models := map (\<lambda>m. if name m \<noteq> nm then m else updater m) (models e)\<rparr>"

definition toggles_of :: "jsstr \<Rightarrow> editor \<Rightarrow> toggles" where
  "toggles_of nm e = (case get (optionalFieldToggles e) nm of None \<Rightarrow> [] | Some ts \<Rightarrow> ts)"

definition isOptionalFieldEnabled :: "editor \<Rightarrow> model option \<Rightarrow> price_field \<Rightarrow> bool option" where
  "isOptionalFieldEnabled e mo field =
     (case mo of
        None \<Rightarrow> Some False
      | Some m \<Rightarrow>
          (case get (toggles_of (name m) e) field of
             Some b \<Rightarrow> Some b
           | None \<Rightarrow> get (buildOptionalFieldToggles m) field))"

definition updateOptionalFieldToggle :: "jsstr \<Rightarrow> price_field \<Rightarrow> bool \<Rightarrow> editor \<Rightarrow> editor" where
  "updateOptionalFieldToggle nm field checked e =
     e\<lparr>optionalFieldToggles := put nm (put field checked (toggles_of nm e)) (optionalFieldToggles e)\<rparr>"

fun set_field :: "price_field \<Rightarrow> jsstr \<Rightarrow> model \<Rightarrow> model" where
  "set_field FixedPrice v m = m\<lparr>fixedPrice := v\<rparr>"
| "set_field InputPrice v m = m\<lparr>inputPrice := v\<rparr>"
| "set_field CompletionPrice v m = m\<lparr>completionPrice := v\<rparr>"
| "set_field CachePrice v m = m\<lparr>cachePrice := v\<rparr>"
| "set_field CreateCachePrice v m = m\<lparr>createCachePrice := v\<rparr>"
| "set_field ImagePrice v m = m\<lparr>imagePrice := v\<rparr>"
| "set_field AudioInputPrice v m = m\<lparr>audioInputPrice := v\<rparr>"
| "set_field AudioOutputPrice v m = m\<lparr>audioOutputPrice := v\<rparr>"

definition handleOptionalFieldToggle :: "props \<Rightarrow> price_field \<Rightarrow> bool \<Rightarrow> editor \<Rightarrow> editor" where
  "handleOptionalFieldToggle p field checked e =
     (case selectedModel p e of
        None \<Rightarrow> e
      | Some sel \<Rightarrow>
          (let e1 = updateOptionalFieldToggle (name sel) field checked e in
           if checked then e1
           else
             (let e2 = upsertModel (name sel)
                (\<lambda>m. let m1 = set_field field [] m in
                     if field = AudioInputPrice then m1\<lparr>audioOutputPrice := []\<rparr> else m1) e1
              in if field = AudioInputPrice
                 then updateOptionalFieldToggle (name sel) AudioOutputPrice False
                   (updateOptionalFieldToggle (name sel) AudioInputPrice False e2)
                 else e2)))"

definition fillDerivedPricesFromBase :: "model \<Rightarrow> jsstr \<Rightarrow> model" where
  "fillDerivedPricesFromBase m nextInputPrice =
     (case toNumberOrNull (Str nextInputPrice) of
        None \<Rightarrow> m
      | Some base \<Rightarrow>
          (let raw = rawRatios m;
               fill = (\<lambda>price ratio. if \<not> has price \<and> has ratio
                  then formatNumber (Num (num_mul base (to_number ratio))) else price)
           in m\<lparr>completionPrice :=
                  (if completionRatioLocked m \<and> has (lockedCompletionRatio m)
                   then formatNumber (Num (num_mul base (to_number (lockedCompletionRatio m))))
                   else fill (completionPrice m) (completionRatio raw)),
                cachePrice := fill (cachePrice m) (cacheRatio raw),
                createCachePrice := fill (createCachePrice m) (createCacheRatio raw),
                imagePrice := fill (imagePrice m) (imageRatio raw),
                audioInputPrice := fill (audioInputPrice m) (audioRatio raw),
                audioOutputPrice :=
                  (if \<not> has (audioOutputPrice m) \<and> has (audioRatio raw) \<and> has (audioCompletionRatio raw)
                   then formatNumber (Num (num_mul (num_mul base (to_number (audioRatio raw)))
                     (to_number (audioCompletionRatio raw))))
                   else audioOutputPrice m)\<rparr>))"

definition handleNumericFieldChange :: "props \<Rightarrow> price_field \<Rightarrow> jsstr \<Rightarrow> editor \<Rightarrow> editor" where
  "handleNumericFieldChange p field v e =
     (case selectedModel p e of
        None \<Rightarrow> e
      | Some sel \<Rightarrow>
          if \<not> NUMERIC_INPUT_REGEX v then e
          else upsertModel (name sel)
            (\<lambda>m. let updated = set_field field v m in
                 if field = InputPrice then fillDerivedPricesFromBase updated v else updated) e)"

definition handleBillingModeChange :: "props \<Rightarrow> billing_mode \<Rightarrow> editor \<Rightarrow> editor" where
  "handleBillingModeChange p v e =
     (case selectedModel p e of
        None \<Rightarrow> e
      | Some sel \<Rightarrow> upsertModel (name sel) (\<lambda>m. m\<lparr>billingMode := v\<rparr>) e)"

definition txt_enter_name :: jsstr where "txt_enter_name = [35831, 36755, 20837, 27169, 22411, 21517, 31216]"
definition txt_name_exists :: jsstr where "txt_name_exists = [27169, 22411, 21517, 31216, 24050, 23384, 22312]"
definition txt_choose_template :: jsstr where "txt_choose_template = [35831, 20808, 36873, 25321, 19968, 20010, 20316, 20026, 27169, 26495, 30340, 27169,
     22411]"
definition txt_check_models :: jsstr where "txt_check_models = [35831, 20808, 21246, 36873, 38656, 35201, 25209, 37327, 35774, 32622, 30340, 27169,
     22411]"
definition txt_applied :: jsstr where
  "txt_applied = [24050, 23558, 27169, 22411, 32, 123, 123, 110, 97, 109, 101, 125, 125, 32, 30340,
     20215, 26684, 37197, 32622, 25209, 37327, 24212, 29992, 21040, 32, 123, 123, 99,
     111, 117, 110, 116, 125, 125, 32, 20010, 27169, 22411]"
definition txt_save_failed :: jsstr where "txt_save_failed = [20445, 23384, 22833, 36133, 65292, 35831, 37325, 35797]"
definition txt_saved :: jsstr where "txt_saved = [20445, 23384, 25104, 21151]"

definition addModel :: "translate \<Rightarrow> jsstr \<Rightarrow> editor \<Rightarrow> bool \<times> toast list \<times> editor" where
  "addModel t modelName e =
     (let trimmedName = trim modelName in
      if trimmedName = [] then (False, [ShowError (t txt_enter_name [])], e)
      else if trimmedName \<in> name ` set (models e) then (False, [ShowError (t txt_name_exists [])], e)
      else
        (let nextModel = EMPTY_MODEL\<lparr>name := trimmedName\<rparr> in
         (True, [],
          e\<lparr>models := nextModel # models e,
            optionalFieldToggles :=
              put trimmedName (buildOptionalFieldToggles nextModel) (optionalFieldToggles e),
            selectedModelName := trimmedName,
            currentPage := 1\<rparr>)))"

definition deleteModel :: "jsstr \<Rightarrow> editor \<Rightarrow> editor" where
  "deleteModel nm e =
     (let nextModels = filter (\<lambda>m. name m \<noteq> nm) (models e) in
      e\<lparr>models := nextModels,
        optionalFieldToggles := del nm (optionalFieldToggles e),
        selectedModelNames := filter (\<lambda>x. x \<noteq> nm) (selectedModelNames e),
        selectedModelName :=
          (if selectedModelName e = nm then first_name nextModels else selectedModelName e)\<rparr>)"

definition apply_pricing :: "model \<Rightarrow> model \<Rightarrow> model" where
  "apply_pricing sel m =
     (let next = m\<lparr>billingMode := billingMode sel, fixedPrice := fixedPrice sel,
            inputPrice := inputPrice sel, completionPrice := completionPrice sel,
            cachePrice := cachePrice sel, createCachePrice := createCachePrice sel,
            imagePrice := imagePrice sel, audioInputPrice := audioInputPrice sel,
            audioOutputPrice := audioOutputPrice sel\<rparr>
      in if billingMode next = Per_token \<and> completionRatioLocked next \<and> has (inputPrice next) \<and>
            has (lockedCompletionRatio next)
         then next\<lparr>completionPrice := formatNumber (Num (num_mul (to_number (inputPrice next))
           (to_number (lockedCompletionRatio next))))\<rparr>
         else next)"

text \<open>\<open>Boolean(sourceToggles[f])\<close>\<close>

definition toggled :: "toggles \<Rightarrow> price_field \<Rightarrow> bool" where
  "toggled ts f = (get ts f = Some True)"

definition apply_toggles :: "toggles \<Rightarrow> model option \<Rightarrow> toggles" where
  "apply_toggles src target =
     [(CompletionPrice, (case target of Some m \<Rightarrow> completionRatioLocked m | None \<Rightarrow> False) \<or>
         toggled src CompletionPrice),
      (CachePrice, toggled src CachePrice),
      (CreateCachePrice, toggled src CreateCachePrice),
      (ImagePrice, toggled src ImagePrice),
      (AudioInputPrice, toggled src AudioInputPrice),
      (AudioOutputPrice, toggled src AudioInputPrice \<and> toggled src AudioOutputPrice)]"

definition applySelectedModelPricing :: "translate \<Rightarrow> props \<Rightarrow> editor \<Rightarrow> bool \<times> toast list \<times> editor" where
  "applySelectedModelPricing t p e =
     (case selectedModel p e of
        None \<Rightarrow> (False, [ShowError (t txt_choose_template [])], e)
      | Some sel \<Rightarrow>
          if length (selectedModelNames e) = 0
          then (False, [ShowError (t txt_check_models [])], e)
          else
            (let src = toggles_of (name sel) e in
             (True,
              [ShowSuccess (t txt_applied [(js ''name'', Str (name sel)),
                 (js ''count'', Num (of_nat_num (length (selectedModelNames e))))])],
              e\<lparr>models := map (\<lambda>m. if name m \<notin> set (selectedModelNames e) then m
                   else apply_pricing sel m) (models e),
                optionalFieldToggles := fold (\<lambda>nm acc. put nm
                   (apply_toggles src (find (\<lambda>m. name m = nm) (models e))) acc)
                   (selectedModelNames e) (optionalFieldToggles e)\<rparr>)))"

section \<open>Submission\<close>

fun option_key_name :: "option_key \<Rightarrow> jsstr" where
  "option_key_name ModelPrice = js ''ModelPrice''"
| "option_key_name ModelRatio = js ''ModelRatio''"
| "option_key_name CompletionRatio = js ''CompletionRatio''"
| "option_key_name CacheRatio = js ''CacheRatio''"
| "option_key_name CreateCacheRatio = js ''CreateCacheRatio''"
| "option_key_name ImageRatio = js ''ImageRatio''"
| "option_key_name AudioRatio = js ''AudioRatio''"
| "option_key_name AudioCompletionRatio = js ''AudioCompletionRatio''"

type_synonym option_output = "option_key \<Rightarrow> (jsstr \<times> jsnum) list"

fun build_output :: "translate \<Rightarrow> model list \<Rightarrow> option_output \<Rightarrow> jsstr + option_output" where
  "build_output t [] out = Inr out"
| "build_output t (m # ms) out =
     (case serializeModel t m of
        Inl err \<Rightarrow> Inl err
      | Inr serialized \<Rightarrow>
          build_output t ms (\<lambda>key. case serialized key of None \<Rightarrow> out key | Some v \<Rightarrow> put (name m) v (out key)))"

definition output_object :: "(jsstr \<times> jsnum) list \<Rightarrow> jsval" where
  "output_object kvs = Obj (map (\<lambda>(k, v). (k, Num v)) kvs)"

text \<open>The body of each \<open>PUT /api/option/\<close>: the key, and the JSON text with two spaces.\<close>

definition option_requests :: "option_output \<Rightarrow> (jsstr \<times> jsstr) list" where
  "option_requests out =
     map (\<lambda>key. (option_key_name key, json_ser [32, 32] [] (output_object (out key)))) option_keys"

definition opt_prop :: "jsval \<Rightarrow> jsstr \<Rightarrow> jsval" where
  "opt_prop v k = (if nullish v then Undef else own_prop v k)"

fun check_results :: "translate \<Rightarrow> jsval list \<Rightarrow> jsstr option" where
  "check_results t [] = None"
| "check_results t (res # rest) =
     (let d = opt_prop res (js ''data'') in
      if \<not> truthy (opt_prop d (js ''success''))
      then Some (to_str (js_or (opt_prop d (js ''message'')) (Str (t txt_save_failed []))))
      else check_results t rest)"

record submit_result =
  s_requests :: "(jsstr \<times> jsstr) list"
  s_toasts :: "toast list"
  s_refreshed :: bool

definition fail_toast :: "translate \<Rightarrow> jsstr \<Rightarrow> toast" where
  "fail_toast t msg = ShowError (if msg = [] then t txt_save_failed [] else msg)"

text \<open>
  \<open>server reqs\<close> is what \<open>Promise.all\<close> settles to: the message of a rejection, or the responses;
  \<open>refresh\<close> is \<open>Some msg\<close> when the refresh rejects.
\<close>

definition handleSubmit :: "translate \<Rightarrow> ((jsstr \<times> jsstr) list \<Rightarrow> jsstr + jsval list) \<Rightarrow> jsstr option \<Rightarrow>
    editor \<Rightarrow> submit_result \<times> editor" where
  "handleSubmit t server refresh e0 =
     (let e = e0\<lparr>loading := True\<rparr>;
          res = (case build_output t (models e) (\<lambda>_. []) of
            Inl err \<Rightarrow> \<lparr>s_requests = [], s_toasts = [fail_toast t err], s_refreshed = False\<rparr>
          | Inr out \<Rightarrow>
              (let reqs = option_requests out in
               case server reqs of
                 Inl err \<Rightarrow> \<lparr>s_requests = reqs, s_toasts = [fail_toast t err], s_refreshed = False\<rparr>
               | Inr results \<Rightarrow>
                   (case check_results t results of
                      Some err \<Rightarrow> \<lparr>s_requests = reqs, s_toasts = [fail_toast t err], s_refreshed = False\<rparr>
                    | None \<Rightarrow>
                        \<lparr>s_requests = reqs,
                         s_toasts = ShowSuccess (t txt_saved []) #
                           (case refresh of None \<Rightarrow> [] | Some err \<Rightarrow> [fail_toast t err]),
                         s_refreshed = True\<rparr>)))
      in (res, e\<lparr>loading := False\<rparr>))"

section \<open>Loaded models\<close>

lemma name_buildModelState [simp]: "name (buildModelState nm sm) = nm"
  by (simp add: buildModelState_def Let_def split: prod.splits)

lemma set_next_models: "set (next_models cmp p) =
    (\<lambda>nm. buildModelState nm (source_maps_of (p_options p))) `
      set (model_names (candidateModelNames p) (source_maps_of (p_options p)))"
  by (simp add: next_models_def Let_def)

lemma distinct_name_next: "distinct (map name (next_models cmp p))"
proof -
  let ?sm = "source_maps_of (p_options p)"
  have "distinct (map name (map (\<lambda>nm. buildModelState nm ?sm) (model_names (candidateModelNames p) ?sm)))"
    by (simp add: comp_def model_names_def)
  moreover have "mset (map name (next_models cmp p)) =
      mset (map name (map (\<lambda>nm. buildModelState nm ?sm) (model_names (candidateModelNames p) ?sm)))"
    by (simp add: next_models_def Let_def multiset.map_comp)
  ultimately show ?thesis by (metis mset_eq_imp_distinct_iff)
qed

lemma find_name: "\<lbrakk>distinct (map name ms); m \<in> set ms\<rbrakk> \<Longrightarrow> find (\<lambda>x. name x = name m) ms = Some m"
  by (induction ms) auto

end
