(* ===== verification/Js_Object.thy ===== *)
theory Js_Object
  imports Js_Value
begin

text \<open>
  Objects as the sources build them: own entries, spreads (\<open>{...a, ...b}\<close>), and what reading a property
  gives afterwards.
\<close>

section \<open>Entries and spreads\<close>

definition entries :: "jsval \<Rightarrow> (jsstr \<times> jsval) list" where
  "entries v = map (\<lambda>k. (k, own_prop v k)) (obj_keys v)"

text \<open>\<open>{...base, ...v}\<close> for an object \<open>base\<close>.\<close>

definition spread_over :: "(jsstr, jsval) store \<Rightarrow> jsval \<Rightarrow> (jsstr, jsval) store" where
  "spread_over base v = fold (\<lambda>k. put k (own_prop v k)) (obj_keys v) base"

lemma get_spread_over:
  "get (spread_over base v) k = (if k \<in> set (obj_keys v) then Some (own_prop v k) else get base k)"
  by (simp add: spread_over_def store.fold_insert_mem store.fold_insert_other)

section \<open>Lookups\<close>

lemma truthy_Obj [simp]: "truthy (Obj kvs)" and not_truthy_Undef [simp]: "\<not> truthy Undef"
  by (simp_all add: truthy_def)

lemma own_prop_Undef [simp]: "own_prop Undef k = Undef"
  by (simp add: own_prop_def)

lemma own_prop_empty [simp]: "own_prop (Obj []) k = Undef"
  by (simp add: own_prop_def)

lemma set_obj_keys_Obj [simp]: "set (obj_keys (Obj kvs)) = set (keys kvs)"
  by (simp add: obj_keys_def keys_def)

lemma own_prop_not_key: "k \<notin> set (keys kvs) \<Longrightarrow> own_prop (Obj kvs) k = Undef"
  by (simp add: own_prop_def get_None_iff [symmetric])

lemma fold_if: "fold (\<lambda>x acc. if P x then g x acc else acc) xs acc = fold g (filter P xs) acc"
  by (induction xs arbitrary: acc) auto

lemma own_prop_fold_put:
  "own_prop (Obj (fold (\<lambda>k. put k (f k)) ks acc)) k = (if k \<in> set ks then f k else own_prop (Obj acc) k)"
  by (simp add: own_prop_def store.fold_insert_mem store.fold_insert_other)

lemma own_prop_put [simp]: "own_prop (Obj (put k v acc)) k' = (if k' = k then v else own_prop (Obj acc) k')"
  by (simp add: own_prop_def js_store)

lemma own_prop_spread: "own_prop (Obj (spread_over base v)) k = (if k \<in> set (obj_keys v) then own_prop v k else own_prop (Obj base) k)"
  by (simp add: spread_over_def own_prop_fold_put)

lemma own_prop_del [simp]: "own_prop (Obj (del k acc)) k' = (if k' = k then Undef else own_prop (Obj acc) k')"
  by (simp add: own_prop_def js_store)

section \<open>Chaining steps that may stop\<close>

fun and_then :: "'e + 'a \<Rightarrow> ('a \<Rightarrow> 'e + 'b) \<Rightarrow> 'e + 'b" where
  "and_then (Inl e) f = Inl e"
| "and_then (Inr x) f = f x"

lemma and_then_Inr_iff: "and_then r f = Inr y \<longleftrightarrow> (\<exists>x. r = Inr x \<and> f x = Inr y)"
  by (cases r) auto

text \<open>\<open>v.trim()\<close>: only strings have the method.\<close>

definition trim_val :: "jsval \<Rightarrow> js_error + jsstr" where
  "trim_val v = (case v of Str s \<Rightarrow> Inr (trim s) | _ \<Rightarrow> Inl TypeError)"

end
