(* ===== verification/Pricing_Save.thy ===== *)
theory Pricing_Save
  imports Pricing_State Js_Object
begin

text \<open>
  The submission of the pricing editor: which models make it fail, what the eight requests carry,
  and that loading the texts of the requests gives back the models that were saved.
\<close>

section \<open>Reading what was submitted\<close>

lemma trim_not_Nil: "\<lbrakk>s \<noteq> []; \<not> is_ws (hd s)\<rbrakk> \<Longrightarrow> trim s \<noteq> []"
  using trim_hd [of s] by (cases s) (auto simp: trim_def trim_start_def trim_end_def)

text \<open>An object of finite numbers comes back from its JSON text, its keys in enumeration order.\<close>

lemma parse_saved:
  assumes "wf_store kvs" "\<forall>kv \<in> set kvs. json_num (snd kv)"
  shows "parseOptionJSON (Some (json_ser [32, 32] [] (output_object kvs))) =
    Obj (own_order (map (\<lambda>(k, v). (k, Num v)) kvs))"
proof -
  let ?kvs = "map (\<lambda>(k, v). (k, Num v)) kvs"
  let ?s = "json_ser [32, 32] [] (Obj (own_order ?kvs))"
  have s: "json_ser [32, 32] [] (output_object kvs) = ?s"
    unfolding output_object_def by (rule json_ser_own_order) auto
  have "map fst ?kvs = map fst kvs" by (auto simp: comp_def case_prod_unfold)
  then have "distinct (map fst (own_order ?kvs))"
    using assms(1) by (intro distinct_own_order) (simp only: wf_store_def keys_def)
  then have "json_canon (Obj (own_order ?kvs))"
    using assms(2) by (auto simp: own_order_idem)
  then have "json_parse ?s = Some (Obj (own_order ?kvs))"
    by (rule json_parse_stringify) (simp add: json_ws_def)
  moreover have "?s \<noteq> []" "trim ?s \<noteq> []"
    using json_ser_Obj_hd [of "[32, 32]" "[]" "own_order ?kvs"] trim_not_Nil [of ?s] by (auto simp: is_ws_def)
  ultimately show ?thesis unfolding s parseOptionJSON_def by (simp add: truthy_def is_object_type_def del: json_ser.simps)
qed

lemma own_prop_saved:
  assumes "wf_store kvs"
  shows "own_prop (Obj (own_order (map (\<lambda>(k, v). (k, Num v)) kvs))) nm = stored (get kvs nm)"
    "set (obj_keys (Obj (own_order (map (\<lambda>(k, v). (k, Num v)) kvs)))) = set (keys kvs)"
proof -
  let ?kvs = "map (\<lambda>(k, v). (k, Num v)) kvs"
  have wf: "wf_store ?kvs" using assms by (simp add: wf_store_def keys_def comp_def case_prod_unfold)
  have "get ?kvs nm = map_option Num (get kvs nm)" by (induction kvs) (auto simp: get_def)
  then show "own_prop (Obj (own_order ?kvs)) nm = stored (get kvs nm)"
    by (simp add: own_prop_def get_own_order [OF wf] stored_def split: option.splits)
  show "set (obj_keys (Obj (own_order ?kvs))) = set (keys kvs)"
    by (force simp: obj_keys_def own_order_idem keys_def)
qed

text \<open>The stores that the submission builds.\<close>

definition saved_at :: "translate \<Rightarrow> model list \<Rightarrow> option_key \<Rightarrow> jsstr \<Rightarrow> jsnum option" where
  "saved_at t ms key nm =
     (case find (\<lambda>m. name m = nm) ms of
        None \<Rightarrow> None
      | Some m \<Rightarrow> (case serializeModel t m of Inr r \<Rightarrow> r key | Inl _ \<Rightarrow> None))"

lemma build_output_get:
  assumes "build_output t ms out = Inr out'" "distinct (map name ms)" "\<forall>key. wf_store (out key)"
  shows "wf_store (out' key) \<and>
    get (out' key) nm = (case saved_at t ms key nm of Some v \<Rightarrow> Some v | None \<Rightarrow> get (out key) nm)"
  using assms
proof (induction ms arbitrary: out)
  case Nil
  then show ?case by (simp add: saved_at_def)
next
  case (Cons m ms)
  obtain r where r: "serializeModel t m = Inr r" using Cons.prems(1) by (auto split: sum.splits)
  define out1 where "out1 = (\<lambda>key. case r key of None \<Rightarrow> out key | Some v \<Rightarrow> put (name m) v (out key))"
  have b: "build_output t ms out1 = Inr out'" using Cons.prems(1) r by (simp add: out1_def)
  have d: "distinct (map name ms)" "name m \<notin> name ` set ms" using Cons.prems(2) by auto
  have w: "\<forall>key. wf_store (out1 key)"
    using Cons.prems(3) by (auto simp: out1_def wf_store_put split: option.splits)
  have nf: "name m = nm \<Longrightarrow> find (\<lambda>m. name m = nm) ms = None"
    using d(2) unfolding find_None_iff by (metis image_eqI)
  have "get (out1 key) nm = (if nm = name m then (case r key of None \<Rightarrow> get (out key) nm | Some v \<Rightarrow> Some v)
      else get (out key) nm)"
    by (auto simp: out1_def get_put split: option.splits)
  then show ?case
    using Cons.IH [OF b d(1) w] nf r by (auto simp: saved_at_def split: option.splits)
qed

lemma build_output_error:
  "build_output t ms out = Inl err \<longleftrightarrow>
    (\<exists>m. find (\<lambda>m. isl (serializeModel t m)) ms = Some m \<and> serializeModel t m = Inl err)"
proof (induction ms arbitrary: out)
  case (Cons m ms)
  then show ?case by (cases "serializeModel t m") auto
qed simp

lemma build_output_ok: "(\<exists>out'. build_output t ms out = Inr out') \<longleftrightarrow> (\<forall>m \<in> set ms. \<not> isl (serializeModel t m))"
proof (induction ms arbitrary: out)
  case (Cons m ms)
  then show ?case by (cases "serializeModel t m") auto
qed simp

text \<open>The options after a save: the server keeps the text of each request under its key.\<close>

definition saved_options :: "(jsstr \<times> jsstr) list \<Rightarrow> options" where
  "saved_options reqs = \<lparr>
     oModelPrice = map_of reqs (option_key_name ModelPrice), oModelRatio = map_of reqs (option_key_name ModelRatio),
     oCompletionRatio = map_of reqs (option_key_name CompletionRatio), oCompletionRatioMeta = None,
     oCacheRatio = map_of reqs (option_key_name CacheRatio), oCreateCacheRatio = map_of reqs (option_key_name CreateCacheRatio),
     oImageRatio = map_of reqs (option_key_name ImageRatio), oAudioRatio = map_of reqs (option_key_name AudioRatio),
     oAudioCompletionRatio = map_of reqs (option_key_name AudioCompletionRatio)\<rparr>"

lemma map_of_requests:
  "map_of (option_requests out) (option_key_name key) = Some (json_ser [32, 32] [] (output_object (out key)))"
  by (cases key) (simp_all add: option_requests_def option_keys_def js_def del: json_ser.simps)

lemma source_map_saved:
  "source_map (source_maps_of (saved_options (option_requests out))) key =
    parseOptionJSON (Some (json_ser [32, 32] [] (output_object (out key))))"
  by (cases key) (simp_all add: source_maps_of_def saved_options_def map_of_requests del: option_key_name.simps json_ser.simps)

lemma meta_saved: "CompletionRatioMetaMap (source_maps_of (saved_options reqs)) = Obj []"
  by (simp add: source_maps_of_def saved_options_def parseOptionJSON_def)

lemma set_model_names:
  "set (model_names cs sm) = set cs \<union> (\<Union>key. set (obj_keys (source_map sm key))) \<union> set (obj_keys (CompletionRatioMetaMap sm))"
proof -
  have U: "(UNIV :: option_key set) = set option_keys"
    by (auto simp: option_keys_def) (metis option_key.exhaust)
  show ?thesis unfolding U by (auto simp: model_names_def option_keys_def)
qed

lemma obj_keys_empty: "obj_keys (Obj []) = []"
  by (simp add: obj_keys_def own_order_def)

text \<open>What the submission stores for exactly priced models, and what the loaded maps then hold.\<close>

lemma saved_output:
  assumes d: "distinct (map name ms)" and e: "\<forall>m \<in> set ms. exact_prices m"
    and b: "build_output t ms (\<lambda>_. []) = Inr out"
  shows "wf_store (out key)" "get (out key) nm = saved_at t ms key nm"
    "source_map (source_maps_of (saved_options (option_requests out))) key =
      Obj (own_order (map (\<lambda>(k, v). (k, Num v)) (out key)))"
proof -
  have fin: "pred_option json_num (saved_at t ms key nm)" for key nm
  proof (cases "find (\<lambda>m. name m = nm) ms")
    case (Some m)
    then have "exact_prices m" using e by (auto simp: find_Some_iff)
    then show ?thesis by (rule model_roundtrip [where t = t]) (simp add: saved_at_def Some)
  qed (simp add: saved_at_def)
  show g: "wf_store (out key)" "get (out key) nm = saved_at t ms key nm" for nm
    using build_output_get [OF b d, of key nm] by (auto simp: wf_store_def keys_def get_def split: option.splits)
  have "json_num v" if "(k, v) \<in> set (out key)" for k v
  proof -
    have "get (out key) k = Some v" using g(1) that by (simp add: wf_store_def keys_def get_def)
    then show ?thesis using fin [of key k] g(2) by simp
  qed
  then show "source_map (source_maps_of (saved_options (option_requests out))) key =
      Obj (own_order (map (\<lambda>(k, v). (k, Num v)) (out key)))"
    unfolding source_map_saved by (intro parse_saved) (use g(1) in auto)
qed

lemma saved_model:
  assumes d: "distinct (map name ms)" and e: "\<forall>m \<in> set ms. exact_prices m"
    and b: "build_output t ms (\<lambda>_. []) = Inr out"
  defines "sm \<equiv> source_maps_of (saved_options (option_requests out))"
  shows "\<And>m. m \<in> set ms \<Longrightarrow> \<exists>r. serializeModel t m = Inr r \<and> maps_hold sm (name m) r"
    and "set (model_names [] sm) = name ` set ms"
proof -
  note g = saved_output [OF d e b, folded sm_def]
  note pk = own_prop_saved [OF g(1), folded g(3)]
  have meta: "CompletionRatioMetaMap sm = Obj []" unfolding sm_def by (rule meta_saved)
  show r: "\<exists>r. serializeModel t m = Inr r \<and> maps_hold sm (name m) r" if "m \<in> set ms" for m
  proof -
    from e that have "exact_prices m" by blast
    then obtain r where "serializeModel t m = Inr r" by (rule model_roundtrip)
    then show ?thesis using find_name [OF d that]
      by (simp add: maps_hold_def pk(1) g(2) saved_at_def meta)
  qed
  have "set (keys (out key)) \<subseteq> name ` set ms" for key
  proof
    fix n assume "n \<in> set (keys (out key))"
    then have "get (out key) n \<noteq> None" by (simp add: get_None_iff)
    then show "n \<in> name ` set ms" unfolding g(2) by (auto simp: saved_at_def find_Some_iff split: option.splits)
  qed
  moreover have "\<exists>key. name m \<in> set (keys (out key))" if "m \<in> set ms" for m
  proof -
    from e that have "exact_prices m" by blast
    then obtain r key where "serializeModel t m = Inr r" "r key \<noteq> None" by (rule model_roundtrip) blast
    then have "get (out key) (name m) \<noteq> None" using find_name [OF d that] by (simp add: g(2) saved_at_def)
    then show ?thesis by (auto simp: get_None_iff)
  qed
  ultimately show "set (model_names [] sm) = name ` set ms"
    unfolding set_model_names pk(2) meta by (auto simp: obj_keys_empty)
qed

lemma handleSubmit_requests:
  "s_requests (fst (handleSubmit t server refresh e)) =
    (case build_output t (models e) (\<lambda>_. []) of Inl _ \<Rightarrow> [] | Inr out \<Rightarrow> option_requests out)"
  by (simp add: handleSubmit_def Let_def split: sum.splits option.splits)

text \<open>C5: Prices survive saving and loading.  When every model carries exact decimal prices and the
  names are distinct, the texts that \<open>handleSubmit\<close> sends describe, once the server hands them
  back, a list with exactly the same models, each with the same billing mode and the same prices,
  shown as the shortest numerals of the numbers that were typed.\<close>

theorem save_then_load:
  assumes "distinct (map name (models e))" "\<forall>m \<in> set (models e). exact_prices m"
  shows "let reqs = s_requests (fst (handleSubmit t server refresh e));
             loaded = next_models cmp \<lparr>p_options = saved_options reqs, candidateModelNames = [], filterMode = mode\<rparr>
         in distinct (map name loaded) \<and> name ` set loaded = name ` set (models e) \<and>
            (\<forall>m \<in> set (models e). \<exists>m' \<in> set loaded. name m' = name m \<and> billingMode m' = billingMode m \<and>
               price_fields m' = shown_prices m)"
proof -
  let ?ms = "models e"
  have "\<forall>m \<in> set ?ms. \<not> isl (serializeModel t m)"
  proof
    fix m assume "m \<in> set ?ms"
    with assms(2) have "exact_prices m" by blast
    then show "\<not> isl (serializeModel t m)" by (rule model_roundtrip [where t = t]) simp
  qed
  then obtain out where b: "build_output t ?ms (\<lambda>_. []) = Inr out" using build_output_ok by blast
  define sm where "sm = source_maps_of (saved_options (option_requests out))"
  note sv = saved_model [OF assms b, folded sm_def]
  define loaded where "loaded = next_models cmp
    \<lparr>p_options = saved_options (option_requests out), candidateModelNames = [], filterMode = mode\<rparr>"
  have l: "set loaded = (\<lambda>nm. buildModelState nm sm) ` name ` set ?ms"
    unfolding loaded_def set_next_models by (simp add: sm_def [symmetric] sv(2))
  have "\<exists>m' \<in> set loaded. name m' = name m \<and> billingMode m' = billingMode m \<and> price_fields m' = shown_prices m"
    if m: "m \<in> set ?ms" for m
  proof -
    obtain r where r: "serializeModel t m = Inr r" "maps_hold sm (name m) r" using sv(1) [OF m] by blast
    have "exact_prices m" using assms(2) m by blast
    then have "billingMode (buildModelState (name m) sm) = billingMode m \<and>
        price_fields (buildModelState (name m) sm) = shown_prices m"
      by (rule model_roundtrip [where t = t]) (use r in auto)
    then show ?thesis using m unfolding l by auto
  qed
  moreover have "name ` set loaded = name ` set ?ms" unfolding l by (auto simp: image_image)
  moreover have "s_requests (fst (handleSubmit t server refresh e)) = option_requests out"
    by (simp add: handleSubmit_requests b)
  ultimately show ?thesis using distinct_name_next unfolding loaded_def by (simp add: Let_def)
qed

definition demo_model :: model where
  "demo_model = EMPTY_MODEL\<lparr>name := js ''gpt-x'', inputPrice := js ''2.50'', completionPrice := js ''10'',
     cachePrice := js ''0.3''\<rparr>"

theorem save_then_load_witness:
  "let reqs = s_requests (fst (handleSubmit (\<lambda>k _. k) (\<lambda>_. Inr []) None (init_editor\<lparr>models := [demo_model]\<rparr>)));
       loaded = next_models (\<lambda>a b. int (length a) - int (length b))
         \<lparr>p_options = saved_options reqs, candidateModelNames = [], filterMode = All_models\<rparr>
   in name ` set loaded = {js ''gpt-x''} \<and>
      (\<exists>m' \<in> set loaded. name m' = js ''gpt-x'' \<and> billingMode m' = Per_token \<and>
        price_fields m' = [[], js ''2.5'', js ''10'', js ''0.3'', [], [], [], []])"
proof -
  have "exact_prices demo_model" by code_simp
  moreover have "shown_prices demo_model = [[], js ''2.5'', js ''10'', js ''0.3'', [], [], [], []]" by code_simp
  moreover have "billingMode demo_model = Per_token" "name demo_model = js ''gpt-x''"
    by (simp_all add: demo_model_def EMPTY_MODEL_def)
  ultimately show ?thesis
    using save_then_load [of "init_editor\<lparr>models := [demo_model]\<rparr>" "\<lambda>k _. k" "\<lambda>_. Inr []" None
        "\<lambda>a b. int (length a) - int (length b)" All_models]
    by (simp add: Let_def)
qed
text \<open>A submission is all or nothing.  If some model cannot be serialized, no request is sent and the
  message of the first such model is shown; otherwise exactly the eight option maps are sent, in
  order, and the page is refreshed exactly when the server accepts all of them.  The editor state
  is unchanged in both cases, and no longer loading.\<close>

theorem submit_all_or_nothing:
  "let (res, e') = handleSubmit t server refresh e in
     e' = e\<lparr>loading := False\<rparr> \<and>
     (case find (\<lambda>m. isl (serializeModel t m)) (models e) of
        Some m \<Rightarrow> s_requests res = [] \<and> \<not> s_refreshed res \<and>
          s_toasts res = [fail_toast t (projl (serializeModel t m))]
      | None \<Rightarrow> map fst (s_requests res) = map option_key_name option_keys \<and>
          (s_refreshed res \<longleftrightarrow>
            (case server (s_requests res) of Inr results \<Rightarrow> check_results t results = None | Inl _ \<Rightarrow> False)))"
proof (cases "build_output t (models e) (\<lambda>_. [])")
  case (Inl err)
  then show ?thesis unfolding handleSubmit_def using Inl [unfolded build_output_error]
    by (auto simp: Let_def)
next
  case (Inr out)
  then have "find (\<lambda>m. isl (serializeModel t m)) (models e) = None"
    using build_output_ok [of t "models e" "\<lambda>_. []"] by (auto simp: find_None_iff)
  then show ?thesis unfolding handleSubmit_def using Inr
    by (auto simp: Let_def option_requests_def split: sum.splits option.splits)
qed

end
