(* ===== verification/State_Machine.thy ===== *)
theory State_Machine
  imports Main
begin

text \<open>
  State machines: reachability over a step relation, and the interface of an invariant.  Every stateful
  component interprets \<open>invariant_machine\<close> with its own start, step relation and invariant.
\<close>

inductive reach :: "('s \<Rightarrow> bool) \<Rightarrow> ('s \<Rightarrow> 's \<Rightarrow> bool) \<Rightarrow> 's \<Rightarrow> bool"
  for start :: "'s \<Rightarrow> bool" and step :: "'s \<Rightarrow> 's \<Rightarrow> bool" where
  reach_start: "start s \<Longrightarrow> reach start step s"
| reach_step: "reach start step s \<Longrightarrow> step s s' \<Longrightarrow> reach start step s'"

locale invariant_machine =
  fixes start :: "'s \<Rightarrow> bool" and step :: "'s \<Rightarrow> 's \<Rightarrow> bool" and inv :: "'s \<Rightarrow> bool"
  assumes start_inv: "start s \<Longrightarrow> inv s"
    and step_inv: "inv s \<Longrightarrow> step s s' \<Longrightarrow> inv s'"
begin

lemma reach_inv: "reach start step s \<Longrightarrow> inv s"
  by (induction rule: reach.induct) (auto intro: start_inv step_inv)

lemma steps_inv: "step\<^sup>*\<^sup>* s s' \<Longrightarrow> inv s \<Longrightarrow> inv s'"
  by (induction rule: rtranclp_induct) (auto intro: step_inv)

end

text \<open>Refinement: under an invariant every step of the concrete machine is, through the abstraction, a step of
  the abstract one.\<close>

locale refinement = invariant_machine start step inv
  for start :: "'c \<Rightarrow> bool" and step :: "'c \<Rightarrow> 'c \<Rightarrow> bool" and inv :: "'c \<Rightarrow> bool" +
  fixes spec_start :: "'a \<Rightarrow> bool" and spec_step :: "'a \<Rightarrow> 'a \<Rightarrow> bool" and abst :: "'c \<Rightarrow> 'a"
  assumes start_abst: "start s \<Longrightarrow> spec_start (abst s)"
    and step_abst: "inv s \<Longrightarrow> step s s' \<Longrightarrow> spec_step (abst s) (abst s')"
begin

lemma reach_abst: "reach start step s \<Longrightarrow> reach spec_start spec_step (abst s)"
proof (induction rule: reach.induct)
  case (reach_step s s')
  then show ?case using step_abst [OF reach_inv] by (blast intro: reach.reach_step)
qed (blast intro: reach.reach_start start_abst)

lemma steps_abst: "step\<^sup>*\<^sup>* s s' \<Longrightarrow> inv s \<Longrightarrow> spec_step\<^sup>*\<^sup>* (abst s) (abst s')"
proof (induction rule: rtranclp_induct)
  case (step s' s'')
  then show ?case using step_abst steps_inv by (meson rtranclp.rtrancl_into_rtrancl)
qed simp

end

end
