(* ===== verification/Pricing_Editor.thy ===== *)
theory Pricing_Editor
  imports Pricing_State State_Machine
begin

text \<open>
  The pricing editor as a state machine: the events a user and the page cause, the effects React
  runs after them, and the invariants of every reachable state.
\<close>

section \<open>Events\<close>

text \<open>
  \<open>settle\<close>: the effects that depend on \<open>visibleModels\<close> and \<open>selectedModelName\<close>.  React runs them when
  one of the two changed; when neither changed they change nothing (\<open>settle_id\<close>).
\<close>

definition settle :: "props \<Rightarrow> editor \<Rightarrow> editor" where
  "settle p e = focus_effect p (prune_effect p e)"

text \<open>
  Mounting: all effects run on the initial state, where nothing is visible, so the focus effect
  clears the name the load effect chose; the next render focuses the first visible model.
\<close>

definition mount :: "locale_compare \<Rightarrow> props \<Rightarrow> editor" where
  "mount cmp p =
     (let e1 = load_effect cmp p init_editor;
          e2 = page_effect e1
      in settle p (e2\<lparr>selectedModelName := []\<rparr>))"

inductive editor_step :: "translate \<Rightarrow> locale_compare \<Rightarrow> props \<times> editor \<Rightarrow> props \<times> editor \<Rightarrow> bool"
  for t :: translate and cmp :: locale_compare where
  new_props: "editor_step t cmp (p, e) (p', settle p'
      (if filterMode p' \<noteq> filterMode p \<or> fresh then page_effect (load_effect cmp p' e) else load_effect cmp p' e))"
    if "fresh \<or> candidateModelNames p' = candidateModelNames p"
| toggle: "editor_step t cmp (p, e) (p, settle p (handleOptionalFieldToggle p field checked e))"
| numeric: "editor_step t cmp (p, e) (p, settle p (handleNumericFieldChange p field v e))"
| billing: "editor_step t cmp (p, e) (p, settle p (handleBillingModeChange p mode e))"
| add: "editor_step t cmp (p, e) (p, settle p (snd (snd (addModel t nm e))))"
| delete: "editor_step t cmp (p, e) (p, settle p (deleteModel nm e))"
| batch: "editor_step t cmp (p, e) (p, settle p (snd (snd (applySelectedModelPricing t p e))))"
| search: "editor_step t cmp (p, e) (p, page_effect (e\<lparr>searchText := s\<rparr>))"
| conflicts: "editor_step t cmp (p, e) (p, page_effect (e\<lparr>conflictOnly := b\<rparr>))"
| page: "editor_step t cmp (p, e) (p, e\<lparr>currentPage := n\<rparr>)" if "1 \<le> n"
| select: "editor_step t cmp (p, e) (p, settle p (e\<lparr>selectedModelName := nm\<rparr>))"
| select_rows: "editor_step t cmp (p, e) (p, e\<lparr>selectedModelNames := nms\<rparr>)"
    if "set nms \<subseteq> name ` set (visibleModels p e)"
| submit: "editor_step t cmp (p, e) (p, snd (handleSubmit t server refresh e))"

definition editor_start :: "locale_compare \<Rightarrow> props \<times> editor \<Rightarrow> bool" where
  "editor_start cmp s \<longleftrightarrow> snd s = mount cmp (fst s)"

section \<open>Invariant\<close>

definition focused :: "props \<Rightarrow> editor \<Rightarrow> bool" where
  "focused p e \<longleftrightarrow> (if visibleModels p e = [] then selectedModelName e = []
     else selectedModelName e \<in> name ` set (visibleModels p e))"

definition pruned :: "props \<Rightarrow> editor \<Rightarrow> bool" where
  "pruned p e \<longleftrightarrow> set (selectedModelNames e) \<subseteq> name ` set (visibleModels p e)"

definition editor_base :: "editor \<Rightarrow> bool" where
  "editor_base e \<longleftrightarrow> distinct (map name (models e)) \<and> wf_store (optionalFieldToggles e) \<and>
     set (keys (optionalFieldToggles e)) = name ` set (models e) \<and> 1 \<le> currentPage e"

definition editor_inv :: "props \<Rightarrow> editor \<Rightarrow> bool" where
  "editor_inv p e \<longleftrightarrow> editor_base e \<and> focused p e \<and> pruned p e"

lemma visible_subset: "set (visibleModels p e) \<subseteq> set (models e)"
  by (auto simp: visibleModels_def)

lemma visible_cong: "\<lbrakk>models e' = models e; initialVisibleModelNames e' = initialVisibleModelNames e\<rbrakk> \<Longrightarrow>
    visibleModels p e' = visibleModels p e"
  by (simp add: visibleModels_def)

lemma settle_simps [simp]:
  "models (settle p e) = models e" "initialVisibleModelNames (settle p e) = initialVisibleModelNames e"
  "currentPage (settle p e) = currentPage e" "optionalFieldToggles (settle p e) = optionalFieldToggles e"
  "visibleModels p' (settle p e) = visibleModels p' e"
  by (simp_all add: settle_def focus_effect_def prune_effect_def visibleModels_def)

lemma settle_inv: "editor_base e \<Longrightarrow> editor_inv p (settle p e)"
proof -
  assume "editor_base e"
  then have "editor_base (settle p e)" by (simp add: editor_base_def)
  moreover have "focused p (settle p e)"
    by (auto simp: focused_def settle_def focus_effect_def prune_effect_def visibleModels_def split: if_splits)
      (auto dest: hd_in_set)
  moreover have "pruned p (settle p e)"
    by (auto simp: pruned_def settle_def focus_effect_def prune_effect_def visibleModels_def)
  ultimately show ?thesis by (simp add: editor_inv_def)
qed

lemma settle_id: "editor_inv p e \<Longrightarrow> settle p e = e"
proof -
  assume "editor_inv p e"
  then have f: "focused p e" and r: "filter (\<lambda>nm. nm \<in> name ` set (visibleModels p e)) (selectedModelNames e) = selectedModelNames e"
    by (auto simp: editor_inv_def pruned_def filter_id_conv)
  have "prune_effect p e = e" unfolding prune_effect_def r by simp
  moreover have "focus_effect p e = e"
    using f by (cases "visibleModels p e = []") (auto simp: focus_effect_def focused_def)
  ultimately show ?thesis by (simp add: settle_def)
qed

lemma load_effect_base: "1 \<le> currentPage e \<Longrightarrow> editor_base (load_effect cmp p e)"
  using distinct_name_next [of cmp p] fold_put [of "[]" name buildOptionalFieldToggles "next_models cmp p"]
  by (simp add: editor_base_def load_effect_def Let_def wf_store_def keys_def)

lemma editor_base_update:
  assumes "editor_base e" "map name ms = map name (models e)" "wf_store ts" "set (keys ts) = name ` set (models e)"
  shows "editor_base (e\<lparr>models := ms, optionalFieldToggles := ts\<rparr>)"
proof -
  have "name ` set ms = name ` set (models e)" using assms(2) by (metis list.set_map)
  then show ?thesis using assms by (simp add: editor_base_def)
qed

lemma upsertModel_base:
  assumes "editor_base e" "\<And>m. name (f m) = name m"
  shows "editor_base (upsertModel nm f e)"
proof -
  have "editor_base (e\<lparr>models := map (\<lambda>m. if name m \<noteq> nm then m else f m) (models e),
      optionalFieldToggles := optionalFieldToggles e\<rparr>)"
    using assms by (intro editor_base_update) (auto simp: editor_base_def)
  then show ?thesis by (simp add: upsertModel_def)
qed

lemma updateOptionalFieldToggle_base:
  "\<lbrakk>editor_base e; nm \<in> name ` set (models e)\<rbrakk> \<Longrightarrow> editor_base (updateOptionalFieldToggle nm field b e)"
  by (auto simp: editor_base_def updateOptionalFieldToggle_def js_store)

lemma name_set_field [simp]: "name (set_field field v m) = name m"
  by (cases field) simp_all

lemma name_fill [simp]: "name (fillDerivedPricesFromBase m v) = name m"
  by (simp add: fillDerivedPricesFromBase_def Let_def split: option.splits)

lemma name_apply_pricing [simp]: "name (apply_pricing sel m) = name m"
  by (simp add: apply_pricing_def Let_def)

lemma selectedModel_name:
  "selectedModel p e = Some m \<Longrightarrow> m \<in> set (visibleModels p e) \<and> name m = selectedModelName e \<and> name m \<in> name ` set (models e)"
  using visible_subset [of p e] by (auto simp: selectedModel_def find_Some_iff dest: nth_mem)

lemma toggle_base: "editor_base e \<Longrightarrow> editor_base (handleOptionalFieldToggle p field checked e)"
proof (cases "selectedModel p e")
  case None
  assume "editor_base e"
  then show ?thesis by (simp add: handleOptionalFieldToggle_def None)
next
  case (Some sel)
  assume b: "editor_base e"
  have n: "name sel \<in> name ` set (models e)" using selectedModel_name [OF Some] by blast
  have up: "editor_base (updateOptionalFieldToggle (name sel) f c e')"
    if "editor_base e'" "map name (models e') = map name (models e)" for e' f c
  proof -
    have "name ` set (models e') = name ` set (models e)" using that(2) by (metis list.set_map)
    then show ?thesis using that(1) n by (intro updateOptionalFieldToggle_base) auto
  qed
  have m: "models (updateOptionalFieldToggle nm f c e') = models e'" for nm f c e'
    by (simp add: updateOptionalFieldToggle_def)
  have u: "map name (models (upsertModel nm g e')) = map name (models e')" if "\<And>m. name (g m) = name m" for nm g e'
    using that by (simp add: upsertModel_def)
  show ?thesis
    unfolding handleOptionalFieldToggle_def Some option.case Let_def
    by (auto simp: m u intro!: up upsertModel_base b)
qed

lemma numeric_base: "editor_base e \<Longrightarrow> editor_base (handleNumericFieldChange p field v e)"
  by (auto simp: handleNumericFieldChange_def Let_def intro!: upsertModel_base split: option.splits)

lemma billing_base: "editor_base e \<Longrightarrow> editor_base (handleBillingModeChange p mode e)"
  by (auto simp: handleBillingModeChange_def intro!: upsertModel_base split: option.splits)

lemma addModel_base: "editor_base e \<Longrightarrow> editor_base (snd (snd (addModel t nm e)))"
  by (auto simp: addModel_def Let_def editor_base_def js_store)

lemma deleteModel_base: "editor_base e \<Longrightarrow> editor_base (deleteModel nm e)"
  by (auto simp: deleteModel_def Let_def editor_base_def js_store distinct_map_filter)

lemma batch_base:
  assumes "editor_base e" "pruned p e"
  shows "editor_base (snd (snd (applySelectedModelPricing t p e)))"
proof (cases "selectedModel p e")
  case (Some sel)
  have s: "set (selectedModelNames e) \<subseteq> name ` set (models e)"
    using assms(2) visible_subset [of p e] by (auto simp: pruned_def)
  have ts: "wf_store (fold (\<lambda>nm. put nm (g nm)) (selectedModelNames e) (optionalFieldToggles e))"
      "set (keys (fold (\<lambda>nm. put nm (g nm)) (selectedModelNames e) (optionalFieldToggles e))) = name ` set (models e)" for g
    using fold_put [of "optionalFieldToggles e" id g "selectedModelNames e"] assms(1) s by (auto simp: editor_base_def)
  show ?thesis
    using assms(1) ts by (auto simp: applySelectedModelPricing_def Some Let_def intro!: editor_base_update)
qed (use assms in \<open>simp add: applySelectedModelPricing_def\<close>)

lemma editor_step_inv:
  assumes "editor_step t cmp (p, e) (p', e')" "editor_inv p e"
  shows "editor_inv p' e'"
proof -
  have b: "editor_base e" and r: "pruned p e" using assms(2) by (auto simp: editor_inv_def)
  have cp: "1 \<le> currentPage e" using b by (simp add: editor_base_def)
  have keep: "editor_inv p (page_effect (e\<lparr>searchText := s\<rparr>))" "editor_inv p (page_effect (e\<lparr>conflictOnly := c\<rparr>))"
    "1 \<le> n \<Longrightarrow> editor_inv p (e\<lparr>currentPage := n\<rparr>)"
    "set nms \<subseteq> name ` set (visibleModels p e) \<Longrightarrow> editor_inv p (e\<lparr>selectedModelNames := nms\<rparr>)"
    "editor_inv p (snd (handleSubmit t server refresh e))" for s c n nms server refresh
    using assms(2) by (auto simp: editor_inv_def editor_base_def focused_def pruned_def page_effect_def
        visibleModels_def handleSubmit_def Let_def)
  have "editor_base (load_effect cmp p' e)" by (rule load_effect_base [OF cp])
  then have ld: "editor_inv p' (settle p' (load_effect cmp p' e))" "editor_inv p' (settle p' (page_effect (load_effect cmp p' e)))"
    by (auto intro!: settle_inv simp: editor_base_def page_effect_def)
  from assms(1) show ?thesis
  proof cases
    case select
    then show ?thesis using b by (auto intro!: settle_inv simp: editor_base_def)
  qed (use b r keep ld in \<open>auto intro!: settle_inv toggle_base numeric_base billing_base addModel_base
      deleteModel_base batch_base\<close>)
qed

lemma editor_inv_mount: "editor_inv p (mount cmp p)"
proof -
  have "editor_base (load_effect cmp p init_editor)" by (rule load_effect_base) (simp add: init_editor_def)
  then show ?thesis unfolding mount_def Let_def
    by (intro settle_inv) (auto simp: editor_base_def page_effect_def)
qed

interpretation editors: invariant_machine "editor_start cmp" "editor_step t cmp" "\<lambda>s. editor_inv (fst s) (snd s)" for t cmp
proof
  fix s s' assume "editor_inv (fst s) (snd s)" "editor_step t cmp s s'"
  then show "editor_inv (fst s') (snd s')" using editor_step_inv by (metis prod.collapse)
qed (simp add: editor_start_def editor_inv_mount)

section \<open>Properties\<close>

text \<open>C6: In every state the editor reaches, whatever the user does: model names are distinct, each
  model has its toggles and no other name has, the checked rows are visible models, and a visible
  model is selected exactly when there is one.\<close>

theorem editor_invariant:
  assumes "reach (editor_start cmp) (editor_step t cmp) (p, e)"
  shows "distinct (map name (models e)) \<and> set (keys (optionalFieldToggles e)) = name ` set (models e) \<and>
    set (selectedModelNames e) \<subseteq> name ` set (visibleModels p e) \<and>
    (selectedModel p e = None \<longleftrightarrow> visibleModels p e = []) \<and> 1 \<le> currentPage e \<and>
    set (pagedData lower p e) \<subseteq> set (models e) \<and> length (pagedData lower p e) \<le> 10"
proof -
  have i: "editor_base e" "focused p e" "pruned p e" using editors.reach_inv [OF assms] by (auto simp: editor_inv_def)
  have "selectedModel p e = None \<longleftrightarrow> visibleModels p e = []"
    using i(2) by (auto simp: selectedModel_def focused_def find_None_iff split: if_splits)
  moreover have "set (pagedData lower p e) \<subseteq> set (models e)"
    using set_js_slice visible_subset [of p e] unfolding pagedData_def filteredModels_def Let_def by fastforce
  moreover have "length (pagedData lower p e) \<le> 10"
    using i(1) length_js_slice_page [of "(currentPage e - 1) * 10" "filteredModels lower p e" 10]
    by (simp add: pagedData_def Let_def PAGE_SIZE_def editor_base_def)
  ultimately show ?thesis using i by (auto simp: editor_base_def pruned_def)
qed

definition demo_props :: props where
  "demo_props = \<lparr>p_options = \<lparr>oModelPrice = None, oModelRatio = None, oCompletionRatio = None,
     oCompletionRatioMeta = None, oCacheRatio = None, oCreateCacheRatio = None, oImageRatio = None,
     oAudioRatio = None, oAudioCompletionRatio = None\<rparr>,
     candidateModelNames = [js ''b'', js ''a'', js ''b''], filterMode = All_models\<rparr>"

definition len_cmp :: locale_compare where
  "len_cmp a b = int (length a) - int (length b)"

theorem editor_invariant_witness:
  "reach (editor_start len_cmp) (editor_step (\<lambda>k _. k) len_cmp) (demo_props, mount len_cmp demo_props) \<and>
   map name (models (mount len_cmp demo_props)) = [js ''b'', js ''a''] \<and>
   selectedModel demo_props (mount len_cmp demo_props) \<noteq> None"
proof -
  have r: "reach (editor_start len_cmp) (editor_step (\<lambda>k _. k) len_cmp) (demo_props, mount len_cmp demo_props)" by (rule reach_start) (simp add: editor_start_def)
  have m: "map name (models (mount len_cmp demo_props)) = [js ''b'', js ''a'']" by code_simp
  then have "models (mount len_cmp demo_props) \<noteq> []" by auto
  then have "visibleModels demo_props (mount len_cmp demo_props) \<noteq> []"
    by (simp add: visibleModels_def demo_props_def)
  then show ?thesis using editor_invariant [OF r] r m by blast
qed

text \<open>Applying the selected model's prices to the checked models gives each of them the template's
  billing mode and prices (a completion price that the backend locks is recomputed from the
  template's input price instead), leaves every other model, every model's name, ratios and lock
  untouched, and reports success.\<close>

theorem batch_applies_template:
  assumes "applySelectedModelPricing t p e = (True, toasts, e')" "selectedModel p e = Some sel"
  shows "list_all2 (\<lambda>m m'.
      (name m \<notin> set (selectedModelNames e) \<longrightarrow> m' = m) \<and>
      (name m \<in> set (selectedModelNames e) \<longrightarrow>
        name m' = name m \<and> rawRatios m' = rawRatios m \<and> completionRatioLocked m' = completionRatioLocked m \<and>
        lockedCompletionRatio m' = lockedCompletionRatio m \<and> hasConflict m' = hasConflict m \<and>
        billingMode m' = billingMode sel \<and> fixedPrice m' = fixedPrice sel \<and> inputPrice m' = inputPrice sel \<and>
        cachePrice m' = cachePrice sel \<and> createCachePrice m' = createCachePrice sel \<and>
        imagePrice m' = imagePrice sel \<and> audioInputPrice m' = audioInputPrice sel \<and>
        audioOutputPrice m' = audioOutputPrice sel \<and>
        (\<not> completionRatioLocked m \<longrightarrow> completionPrice m' = completionPrice sel)))
      (models e) (models e') \<and>
    (\<forall>nm \<in> set (selectedModelNames e). toggled (toggles_of nm e') CachePrice = toggled (toggles_of (name sel) e) CachePrice)"
proof -
  have ne: "length (selectedModelNames e) \<noteq> 0" using assms by (auto simp: applySelectedModelPricing_def)
  have m: "models e' = map (\<lambda>m. if name m \<notin> set (selectedModelNames e) then m else apply_pricing sel m) (models e)"
    and ts: "optionalFieldToggles e' = fold (\<lambda>nm. put nm (apply_toggles (toggles_of (name sel) e)
      (find (\<lambda>m. name m = nm) (models e)))) (selectedModelNames e) (optionalFieldToggles e)"
    using assms ne by (auto simp: applySelectedModelPricing_def Let_def)
  have "toggles_of nm e' = apply_toggles (toggles_of (name sel) e) (find (\<lambda>m. name m = nm) (models e))"
    if "nm \<in> set (selectedModelNames e)" for nm
  proof -
    have "get (optionalFieldToggles e') nm = Some (apply_toggles (toggles_of (name sel) e) (find (\<lambda>m. name m = nm) (models e)))"
      unfolding ts by (rule store.fold_insert_mem [OF that])
    then show ?thesis by (simp add: toggles_of_def [of nm e'])
  qed
  moreover have "toggled (apply_toggles src target) CachePrice = toggled src CachePrice" for src target
    by (simp add: toggled_def apply_toggles_def get_def)
  ultimately show ?thesis
    unfolding m by (auto simp: list_all2_conv_all_nth apply_pricing_def Let_def)
qed

theorem batch_applies_template_witness:
  "let e = init_editor\<lparr>models := [EMPTY_MODEL\<lparr>name := js ''a'', fixedPrice := js ''3''\<rparr>, EMPTY_MODEL\<lparr>name := js ''b''\<rparr>],
       selectedModelName := js ''a'', selectedModelNames := [js ''b'']\<rparr>
   in \<exists>ts e' m. applySelectedModelPricing (\<lambda>k _. k) demo_props e = (True, ts, e') \<and>
      models e' ! 1 = m \<and> name m = js ''b'' \<and> fixedPrice m = js ''3''"
proof -
  let ?a = "EMPTY_MODEL\<lparr>name := js ''a'', fixedPrice := js ''3''\<rparr>"
  let ?e = "init_editor\<lparr>models := [?a, EMPTY_MODEL\<lparr>name := js ''b''\<rparr>],
       selectedModelName := js ''a'', selectedModelNames := [js ''b'']\<rparr>"
  have sel: "selectedModel demo_props ?e = Some ?a"
    by (simp add: selectedModel_def visibleModels_def demo_props_def)
  then obtain ts e' where r: "applySelectedModelPricing (\<lambda>k _. k) demo_props ?e = (True, ts, e')"
    by (simp add: applySelectedModelPricing_def Let_def)
  from batch_applies_template [OF r sel] have "length (models e') = 2" "name (models e' ! 1) = js ''b''"
    "fixedPrice (models e' ! 1) = js ''3''"
    by (auto simp: list_all2_conv_all_nth)
  with r show ?thesis by (auto simp: Let_def)
qed

end
