(* ===== verification/Param_Operation.thy ===== *)
theory Param_Operation
  imports Js_Json
begin

text \<open>
  The data of \<open>web/src/components/table/channels/modals/ParamOverrideEditorModal.jsx\<close>: the modes of
  an override operation, its conditions, the value texts a user edits, and the drafts of the
  \<open>return_error\<close> and \<open>prune_objects\<close> values.  \<open>Date.now()\<close> is a parameter: \<open>clock n\<close> is the time of the
  \<open>n\<close>th call of \<open>nextLocalId\<close>.
\<close>

section \<open>Modes\<close>

datatype op_mode = M_set | M_delete | M_append | M_prepend | M_copy | M_move | M_replace
  | M_regex_replace | M_trim_prefix | M_trim_suffix | M_ensure_prefix | M_ensure_suffix
  | M_trim_space | M_to_lower | M_to_upper | M_return_error | M_prune_objects | M_pass_headers
  | M_sync_fields | M_set_header | M_delete_header | M_copy_header | M_move_header

fun mode_name :: "op_mode \<Rightarrow> jsstr" where
  "mode_name M_set = js ''set''"
| "mode_name M_delete = js ''delete''"
| "mode_name M_append = js ''append''"
| "mode_name M_prepend = js ''prepend''"
| "mode_name M_copy = js ''copy''"
| "mode_name M_move = js ''move''"
| "mode_name M_replace = js ''replace''"
| "mode_name M_regex_replace = js ''regex_replace''"
| "mode_name M_trim_prefix = js ''trim_prefix''"
| "mode_name M_trim_suffix = js ''trim_suffix''"
| "mode_name M_ensure_prefix = js ''ensure_prefix''"
| "mode_name M_ensure_suffix = js ''ensure_suffix''"
| "mode_name M_trim_space = js ''trim_space''"
| "mode_name M_to_lower = js ''to_lower''"
| "mode_name M_to_upper = js ''to_upper''"
| "mode_name M_return_error = js ''return_error''"
| "mode_name M_prune_objects = js ''prune_objects''"
| "mode_name M_pass_headers = js ''pass_headers''"
| "mode_name M_sync_fields = js ''sync_fields''"
| "mode_name M_set_header = js ''set_header''"
| "mode_name M_delete_header = js ''delete_header''"
| "mode_name M_copy_header = js ''copy_header''"
| "mode_name M_move_header = js ''move_header''"

fun mode_label :: "op_mode \<Rightarrow> jsstr" where
  "mode_label M_set = [35774, 32622, 23383, 27573]"
| "mode_label M_delete = [21024, 38500, 23383, 27573]"
| "mode_label M_append = [36861, 21152, 21040, 26411, 23614]"
| "mode_label M_prepend = [36861, 21152, 21040, 24320, 22836]"
| "mode_label M_copy = [22797, 21046, 23383, 27573]"
| "mode_label M_move = [31227, 21160, 23383, 27573]"
| "mode_label M_replace = [23383, 31526, 20018, 26367, 25442]"
| "mode_label M_regex_replace = [27491, 21017, 26367, 25442]"
| "mode_label M_trim_prefix = [35009, 21098, 21069, 32512]"
| "mode_label M_trim_suffix = [35009, 21098, 21518, 32512]"
| "mode_label M_ensure_prefix = [30830, 20445, 21069, 32512]"
| "mode_label M_ensure_suffix = [30830, 20445, 21518, 32512]"
| "mode_label M_trim_space = [21435, 25481, 31354, 30333]"
| "mode_label M_to_lower = [36716, 23567, 20889]"
| "mode_label M_to_upper = [36716, 22823, 20889]"
| "mode_label M_return_error = [36820, 22238, 33258, 23450, 20041, 38169, 35823]"
| "mode_label M_prune_objects = [28165, 29702, 23545, 35937, 39033]"
| "mode_label M_pass_headers = [35831, 27714, 22836, 36879, 20256]"
| "mode_label M_sync_fields = [23383, 27573, 21516, 27493]"
| "mode_label M_set_header = [35774, 32622, 35831, 27714, 22836]"
| "mode_label M_delete_header = [21024, 38500, 35831, 27714, 22836]"
| "mode_label M_copy_header = [22797, 21046, 35831, 27714, 22836]"
| "mode_label M_move_header = [31227, 21160, 35831, 27714, 22836]"

definition OPERATION_MODES :: "op_mode list" where
  "OPERATION_MODES = [M_set, M_delete, M_append, M_prepend, M_copy, M_move, M_replace,
     M_regex_replace, M_trim_prefix, M_trim_suffix, M_ensure_prefix, M_ensure_suffix, M_trim_space,
     M_to_lower, M_to_upper, M_return_error, M_prune_objects, M_pass_headers, M_sync_fields,
     M_set_header, M_delete_header, M_copy_header, M_move_header]"

text \<open>\<open>OPERATION_MODE_VALUES.has(v) ? v : 'set'\<close>\<close>

definition mode_or_set :: "jsval \<Rightarrow> op_mode" where
  "mode_or_set v = (case find (\<lambda>m. Str (mode_name m) = v) OPERATION_MODES of Some m \<Rightarrow> m | None \<Rightarrow> M_set)"

datatype cond_mode = C_full | C_prefix | C_suffix | C_contains | C_gt | C_gte | C_lt | C_lte

fun cond_mode_name :: "cond_mode \<Rightarrow> jsstr" where
  "cond_mode_name C_full = js ''full''"
| "cond_mode_name C_prefix = js ''prefix''"
| "cond_mode_name C_suffix = js ''suffix''"
| "cond_mode_name C_contains = js ''contains''"
| "cond_mode_name C_gt = js ''gt''"
| "cond_mode_name C_gte = js ''gte''"
| "cond_mode_name C_lt = js ''lt''"
| "cond_mode_name C_lte = js ''lte''"

definition CONDITION_MODES :: "cond_mode list" where
  "CONDITION_MODES = [C_full, C_prefix, C_suffix, C_contains, C_gt, C_gte, C_lt, C_lte]"

definition cond_mode_or_full :: "jsval \<Rightarrow> cond_mode" where
  "cond_mode_or_full v = (case find (\<lambda>m. Str (cond_mode_name m) = v) CONDITION_MODES of Some m \<Rightarrow> m | None \<Rightarrow> C_full)"

record mode_meta =
  m_path :: bool
  m_value :: bool
  m_keepOrigin :: bool
  m_from :: bool
  m_to :: bool
  m_pathOptional :: bool
  m_pathAlias :: bool

definition no_meta :: mode_meta where
  "no_meta = \<lparr>m_path = False, m_value = False, m_keepOrigin = False, m_from = False, m_to = False,
     m_pathOptional = False, m_pathAlias = False\<rparr>"

fun MODE_META :: "op_mode \<Rightarrow> mode_meta" where
  "MODE_META M_delete = no_meta\<lparr>m_path := True\<rparr>"
| "MODE_META M_set = no_meta\<lparr>m_path := True, m_value := True, m_keepOrigin := True\<rparr>"
| "MODE_META M_append = no_meta\<lparr>m_path := True, m_value := True, m_keepOrigin := True\<rparr>"
| "MODE_META M_prepend = no_meta\<lparr>m_path := True, m_value := True, m_keepOrigin := True\<rparr>"
| "MODE_META M_copy = no_meta\<lparr>m_from := True, m_to := True\<rparr>"
| "MODE_META M_move = no_meta\<lparr>m_from := True, m_to := True\<rparr>"
| "MODE_META M_replace = no_meta\<lparr>m_path := True, m_from := True, m_to := False\<rparr>"
| "MODE_META M_regex_replace = no_meta\<lparr>m_path := True, m_from := True, m_to := False\<rparr>"
| "MODE_META M_trim_prefix = no_meta\<lparr>m_path := True, m_value := True\<rparr>"
| "MODE_META M_trim_suffix = no_meta\<lparr>m_path := True, m_value := True\<rparr>"
| "MODE_META M_ensure_prefix = no_meta\<lparr>m_path := True, m_value := True\<rparr>"
| "MODE_META M_ensure_suffix = no_meta\<lparr>m_path := True, m_value := True\<rparr>"
| "MODE_META M_trim_space = no_meta\<lparr>m_path := True\<rparr>"
| "MODE_META M_to_lower = no_meta\<lparr>m_path := True\<rparr>"
| "MODE_META M_to_upper = no_meta\<lparr>m_path := True\<rparr>"
| "MODE_META M_return_error = no_meta\<lparr>m_value := True\<rparr>"
| "MODE_META M_prune_objects = no_meta\<lparr>m_pathOptional := True, m_value := True\<rparr>"
| "MODE_META M_pass_headers = no_meta\<lparr>m_value := True, m_keepOrigin := True\<rparr>"
| "MODE_META M_sync_fields = no_meta\<lparr>m_from := True, m_to := True\<rparr>"
| "MODE_META M_set_header = no_meta\<lparr>m_path := True, m_value := True, m_keepOrigin := True\<rparr>"
| "MODE_META M_delete_header = no_meta\<lparr>m_path := True\<rparr>"
| "MODE_META M_copy_header = no_meta\<lparr>m_from := True, m_to := True, m_keepOrigin := True, m_pathAlias := True\<rparr>"
| "MODE_META M_move_header = no_meta\<lparr>m_from := True, m_to := True, m_keepOrigin := True, m_pathAlias := True\<rparr>"

definition VALUE_REQUIRED_MODES :: "op_mode list" where
  "VALUE_REQUIRED_MODES = [M_trim_prefix, M_trim_suffix, M_ensure_prefix, M_ensure_suffix,
     M_set_header, M_return_error, M_prune_objects, M_pass_headers]"

definition FROM_REQUIRED_MODES :: "op_mode list" where
  "FROM_REQUIRED_MODES = [M_copy, M_move, M_replace, M_regex_replace, M_copy_header, M_move_header,
     M_sync_fields]"

definition TO_REQUIRED_MODES :: "op_mode list" where
  "TO_REQUIRED_MODES = [M_copy, M_move, M_copy_header, M_move_header, M_sync_fields]"

section \<open>Local identifiers\<close>

definition nextLocalId :: "(nat \<Rightarrow> int) \<Rightarrow> nat \<Rightarrow> jsstr \<times> nat" where
  "nextLocalId clock seed =
     (js ''param_override_'' @ int_str (clock seed) @ [95] @ nat_str seed, seed + 1)"

definition local_id :: "(nat \<Rightarrow> int) \<Rightarrow> nat \<Rightarrow> jsstr" where
  "local_id clock n = fst (nextLocalId clock n)"

section \<open>Value texts\<close>

definition toValueText :: "jsval \<Rightarrow> jsstr" where
  "toValueText v = (case v of Undef \<Rightarrow> [] | Str s \<Rightarrow> s | _ \<Rightarrow> json_ser [] [] v)"

definition parseLooseValue :: "jsstr \<Rightarrow> jsval" where
  "parseLooseValue raw = (if trim raw = [] then Str []
     else (case json_parse raw of Some v \<Rightarrow> v | None \<Rightarrow> Str raw))"

definition header_names :: "jsval list \<Rightarrow> jsstr list" where
  "header_names items = filter (\<lambda>s. s \<noteq> []) (map (\<lambda>v. trim (str_nullish v)) items)"

definition parsePassHeaderNames :: "jsval \<Rightarrow> jsstr list" where
  "parsePassHeaderNames rawValue =
     (case rawValue of
        Arr items \<Rightarrow> header_names items
      | Obj _ \<Rightarrow>
          (case own_prop rawValue (js ''headers'') of
             Arr items \<Rightarrow> header_names items
           | _ \<Rightarrow>
               if own_prop rawValue (js ''header'') \<noteq> Undef
               then (let single = trim (str_nullish (own_prop rawValue (js ''header'')))
                     in if single \<noteq> [] then [single] else [])
               else [])
      | Str s \<Rightarrow> filter (\<lambda>x. x \<noteq> []) (map trim (split_on 44 s))
      | _ \<Rightarrow> [])"

section \<open>The draft of a \<open>return_error\<close> value\<close>

record error_draft =
  e_message :: jsstr
  e_statusCode :: jsval
  e_code :: jsstr
  e_type :: jsstr
  e_skipRetry :: bool
  e_simpleMode :: bool

text \<open>\<open>Number.isInteger(x) && x >= 100 && x <= 599 ? x : 400\<close>\<close>

definition is_integer :: "jsnum \<Rightarrow> bool" where
  "is_integer x = (case x of Fin _ m \<Rightarrow> m = of_int \<lfloor>m\<rfloor> | _ \<Rightarrow> False)"

definition status_or_400 :: "jsnum \<Rightarrow> jsnum" where
  "status_or_400 x = (if is_integer x \<and> num_le (Fin False 100) x \<and> num_le x (Fin False 599)
     then x else Fin False 400)"

definition error_defaults :: error_draft where
  "error_defaults = \<lparr>e_message = [], e_statusCode = Num (Fin False 400), e_code = [], e_type = [],
     e_skipRetry = True, e_simpleMode = True\<rparr>"

definition parseReturnErrorDraft :: "jsstr \<Rightarrow> error_draft" where
  "parseReturnErrorDraft valueText =
     (let raw = trim valueText in
      if raw = [] then error_defaults
      else
        (let plain = error_defaults\<lparr>e_message := raw, e_simpleMode := True\<rparr> in
         case json_parse raw of
           None \<Rightarrow> plain
         | Some parsed \<Rightarrow>
             if plain_object parsed then
               (let status = own_prop parsed (js ''status_code'');
                    statusRaw = (if status \<noteq> Undef then status else own_prop parsed (js ''status''))
                in \<lparr>e_message = trim (str_or_empty (js_or (own_prop parsed (js ''message''))
                      (own_prop parsed (js ''msg'')))),
                    e_statusCode = Num (status_or_400 (to_num statusRaw)),
                    e_code = trim (str_or_empty (own_prop parsed (js ''code''))),
                    e_type = trim (str_or_empty (own_prop parsed (js ''type''))),
                    e_skipRetry = (own_prop parsed (js ''skip_retry'') \<noteq> Bool False),
                    e_simpleMode = False\<rparr>)
             else plain))"

definition buildReturnErrorValueText :: "error_draft \<Rightarrow> jsstr" where
  "buildReturnErrorValueText draft =
     (let message = trim (e_message draft) in
      if e_simpleMode draft then message
      else
        (let statusCode = to_num (e_statusCode draft);
             code = trim (e_code draft);
             ty = trim (e_type draft)
         in json_ser [] [] (Obj (
              [(js ''message'', Str message), (js ''status_code'', Num (status_or_400 statusCode))]
              @ (if code \<noteq> [] then [(js ''code'', Str code)] else [])
              @ (if ty \<noteq> [] then [(js ''type'', Str ty)] else [])
              @ (if \<not> e_skipRetry draft then [(js ''skip_retry'', Bool False)] else [])))))"

section \<open>Conditions and rules\<close>

record condition =
  c_id :: jsstr
  c_path :: jsstr
  c_mode :: cond_mode
  c_value_text :: jsstr
  c_invert :: bool
  c_pass_missing_key :: bool

text \<open>\<open>typeof v === 'string' ? v : ''\<close>\<close>

definition string_or_empty :: "jsval \<Rightarrow> jsstr" where
  "string_or_empty v = (case v of Str s \<Rightarrow> s | _ \<Rightarrow> [])"

definition normalize_fields :: "(nat \<Rightarrow> int) \<Rightarrow> nat \<Rightarrow> jsval \<Rightarrow> condition \<times> nat" where
  "normalize_fields clock seed v =
     (let (nid, seed1) = nextLocalId clock seed in
      (\<lparr>c_id = nid,
        c_path = string_or_empty (own_prop v (js ''path'')),
        c_mode = cond_mode_or_full (own_prop v (js ''mode'')),
        c_value_text = toValueText (own_prop v (js ''value'')),
        c_invert = (own_prop v (js ''invert'') = Bool True),
        c_pass_missing_key = (own_prop v (js ''pass_missing_key'') = Bool True)\<rparr>, seed1))"

text \<open>\<open>normalizePruneRule\<close> is only applied to objects; \<open>normalizeCondition\<close> throws on \<open>null\<close>.\<close>

definition normalizePruneRule :: "(nat \<Rightarrow> int) \<Rightarrow> nat \<Rightarrow> jsval \<Rightarrow> condition \<times> nat" where
  "normalizePruneRule clock seed rule = normalize_fields clock seed rule"

definition normalizeCondition :: "(nat \<Rightarrow> int) \<Rightarrow> nat \<Rightarrow> jsval \<Rightarrow> js_error + condition \<times> nat" where
  "normalizeCondition clock seed c = (if c = Null then Inl TypeError else Inr (normalize_fields clock seed c))"

section \<open>The draft of a \<open>prune_objects\<close> value\<close>

datatype logic = L_AND | L_OR

fun logic_name :: "logic \<Rightarrow> jsstr" where
  "logic_name L_AND = js ''AND''"
| "logic_name L_OR = js ''OR''"

text \<open>
  \<open>s.toUpperCase() === 'OR'\<close>: no character outside ASCII has one of these letters as its upper case,
  so the ASCII mapping decides the comparison.  The same holds for \<open>toLowerCase() === 'header'\<close>.
\<close>

definition ascii_upper :: "jsstr \<Rightarrow> jsstr" where
  "ascii_upper = map (\<lambda>c. if 97 \<le> c \<and> c \<le> 122 then c - 32 else c)"

definition ascii_lower :: "jsstr \<Rightarrow> jsstr" where
  "ascii_lower = map (\<lambda>c. if 65 \<le> c \<and> c \<le> 90 then c + 32 else c)"

record prune_draft =
  pd_simpleMode :: bool
  pd_typeText :: jsstr
  pd_logic :: logic
  pd_recursive :: bool
  pd_rules :: "condition list"

definition prune_defaults :: prune_draft where
  "prune_defaults = \<lparr>pd_simpleMode = True, pd_typeText = [], pd_logic = L_AND, pd_recursive = True,
     pd_rules = []\<rparr>"

fun prune_rules :: "(nat \<Rightarrow> int) \<Rightarrow> nat \<Rightarrow> jsval list \<Rightarrow> condition list \<times> nat" where
  "prune_rules clock seed [] = ([], seed)"
| "prune_rules clock seed (v # vs) =
     (let (r, seed1) = normalizePruneRule clock seed v; (rs, seed2) = prune_rules clock seed1 vs
      in (r # rs, seed2))"

text \<open>\<open>Object.entries(o)\<close> as the rules \<open>{path, mode: 'full', value}\<close>.\<close>

definition entry_rules :: "jsval \<Rightarrow> jsval list" where
  "entry_rules obj = (case obj of
       Obj kvs \<Rightarrow> map (\<lambda>(k, v). Obj [(js ''path'', Str k), (js ''mode'', Str (js ''full'')), (js ''value'', v)])
         (own_order kvs)
     | _ \<Rightarrow> [])"

definition condition_rules :: "jsval \<Rightarrow> jsval list" where
  "condition_rules conds = (case conds of
       Arr items \<Rightarrow> filter (\<lambda>v. truthy v \<and> is_object_type v) items
     | Obj _ \<Rightarrow> entry_rules conds
     | _ \<Rightarrow> [])"

definition parsePruneObjectsDraft :: "(nat \<Rightarrow> int) \<Rightarrow> nat \<Rightarrow> jsstr \<Rightarrow> prune_draft \<times> nat" where
  "parsePruneObjectsDraft clock seed valueText =
     (let raw = trim valueText in
      if raw = [] then (prune_defaults, seed)
      else
        (case json_parse raw of
           None \<Rightarrow> (prune_defaults\<lparr>pd_typeText := raw\<rparr>, seed)
         | Some parsed \<Rightarrow>
             (case parsed of
                Str s \<Rightarrow> (prune_defaults\<lparr>pd_typeText := trim s\<rparr>, seed)
              | Obj _ \<Rightarrow>
                  (let field = own_prop parsed;
                       (rules, seed1) = prune_rules clock seed
                         (entry_rules (field (js ''where'')) @ condition_rules (field (js ''conditions'')));
                       hasAdvancedFields = (field (js ''logic'') \<noteq> Undef \<or> field (js ''recursive'') \<noteq> Undef \<or>
                         field (js ''where'') \<noteq> Undef \<or> field (js ''conditions'') \<noteq> Undef)
                   in (\<lparr>pd_simpleMode = (\<not> hasAdvancedFields),
                        pd_typeText = (if field (js ''type'') = Undef then [] else trim (to_str (field (js ''type'')))),
                        pd_logic = (if ascii_upper (to_str (js_or (field (js ''logic'')) (Str (js ''AND'')))) = js ''OR''
                          then L_OR else L_AND),
                        pd_recursive = (field (js ''recursive'') \<noteq> Bool False),
                        pd_rules = rules\<rparr>, seed1))
              | _ \<Rightarrow> (prune_defaults\<lparr>pd_typeText := trim (str_nullish parsed)\<rparr>, seed))))"

definition rule_payload :: "condition \<Rightarrow> jsval" where
  "rule_payload rule =
     (let valueRaw = trim (c_value_text rule) in
      Obj ([(js ''path'', Str (trim (c_path rule))), (js ''mode'', Str (cond_mode_name (c_mode rule)))]
        @ (if valueRaw \<noteq> [] then [(js ''value'', parseLooseValue valueRaw)] else [])
        @ (if c_invert rule then [(js ''invert'', Bool True)] else [])
        @ (if c_pass_missing_key rule then [(js ''pass_missing_key'', Bool True)] else [])))"

definition buildPruneObjectsValueText :: "prune_draft \<Rightarrow> jsstr" where
  "buildPruneObjectsValueText draft =
     (let typeText = trim (pd_typeText draft) in
      if pd_simpleMode draft then typeText
      else
        (let conditions = map rule_payload (filter (\<lambda>rule. trim (c_path rule) \<noteq> []) (pd_rules draft));
             payload =
               (if typeText \<noteq> [] then [(js ''type'', Str typeText)] else [])
               @ (if pd_logic draft = L_OR then [(js ''logic'', Str (js ''OR''))] else [])
               @ (if \<not> pd_recursive draft then [(js ''recursive'', Bool False)] else [])
               @ (if length conditions > 0 then [(js ''conditions'', Arr conditions)] else [])
         in if typeText = [] \<and> conditions = []
            then json_ser [] [] (Obj [(js ''logic'', Str (js ''AND''))])
            else json_ser [] [] (Obj payload)))"

section \<open>Sync targets\<close>

datatype sync_type = Sync_json | Sync_header

definition parseSyncTargetSpec :: "jsstr \<Rightarrow> sync_type \<times> jsstr" where
  "parseSyncTargetSpec spec =
     (let raw = trim spec in
      if raw = [] then (Sync_json, [])
      else if 58 \<notin> set raw then (Sync_json, raw)
      else
        (let prefix = ascii_lower (trim (takeWhile (\<lambda>c. c \<noteq> 58) raw));
             key = trim (tl (dropWhile (\<lambda>c. c \<noteq> 58) raw))
         in if prefix = js ''header'' then (Sync_header, key) else (Sync_json, key)))"

definition buildSyncTargetSpec :: "sync_type \<Rightarrow> jsstr \<Rightarrow> jsstr" where
  "buildSyncTargetSpec ty key =
     (let normalizedKey = trim key in
      if normalizedKey = [] then []
      else (case ty of Sync_header \<Rightarrow> js ''header'' | Sync_json \<Rightarrow> js ''json'') @ [58] @ normalizedKey)"

end
