(* ===== verification/Param_Values.thy ===== *)
theory Param_Values
  imports Param_Operation
begin

text \<open>
  The value texts and drafts of override operations: what is written is read back.
\<close>

section \<open>Identifiers\<close>

lemma span_sep [simp]:
  "x \<notin> set a \<Longrightarrow> takeWhile (\<lambda>c. c \<noteq> x) (a @ x # b) = a"
  "x \<notin> set a \<Longrightarrow> dropWhile (\<lambda>c. c \<noteq> x) (a @ x # b) = x # b"
  by (induction a) auto

lemma append_sep_inj:
  assumes "a @ x # b = a' @ x # b'" "x \<notin> set b" "x \<notin> set b'"
  shows "b = b'"
proof -
  have "rev b @ x # rev a = rev b' @ x # rev a'" using arg_cong [OF assms(1), of rev] by simp
  then have "takeWhile (\<lambda>y. y \<noteq> x) (rev b @ x # rev a) = takeWhile (\<lambda>y. y \<noteq> x) (rev b' @ x # rev a')" by simp
  then show ?thesis using assms(2,3) by simp
qed

lemma local_id_inj [simp]: "local_id clock m = local_id clock n \<longleftrightarrow> m = n"
proof
  assume eq: "local_id clock m = local_id clock n"
  have no: "95 \<notin> set (nat_str k)" for k using nat_str_digits [of k] by (auto simp: is_digit_def)
  have "nat_str m = nat_str n"
    by (rule append_sep_inj [OF _ no no, of "js ''param_override_'' @ int_str (clock m)" _ "js ''param_override_'' @ int_str (clock n)"])
      (use eq in \<open>simp add: local_id_def nextLocalId_def\<close>)
  then show "m = n" by (metis digits_val_nat_str)
qed simp

lemma nextLocalId_eq: "nextLocalId clock seed = (local_id clock seed, Suc seed)"
  by (simp add: local_id_def nextLocalId_def)

section \<open>Loose values\<close>

lemma pstr_len: "pstr s = Some (t, r) \<Longrightarrow> length t + length r < length s"
proof (induction s arbitrary: t rule: pstr.induct)
  case (2 c r0)
  then show ?case by (auto split: if_splits list.splits option.splits) fastforce+
qed simp

lemma pobj_Obj: "pobj n acc s = Some (v, r) \<Longrightarrow> \<exists>kvs. v = Obj kvs"
proof (induction n arbitrary: acc s)
  case (Suc n)
  then show ?case by (auto split: list.splits option.splits if_splits simp del: pval.simps)
qed simp

lemma pval_Str:
  assumes "pval (Suc n) s = Some (Str t, r)"
  shows "\<exists>u. skip_ws s = 34 # u \<and> pstr u = Some (t, r)"
proof (cases "skip_ws s")
  case Nil
  then show ?thesis using assms by simp
next
  case (Cons c u)
  then show ?thesis using assms by (auto split: if_splits list.splits dest: pobj_Obj)
qed

lemma json_parse_not_self: "json_parse s \<noteq> Some (Str s)"
proof
  assume "json_parse s = Some (Str s)"
  then obtain r where "pval (Suc (2 * length s + 1)) s = Some (Str s, r)"
    by (auto simp: json_parse_def split: option.splits if_splits simp del: pval.simps)
  then obtain u where u: "skip_ws s = 34 # u" "pstr u = Some (s, r)" using pval_Str by blast
  then show False using pstr_len [OF u(2)] skip_ws_Cons_length [OF u(1)] by simp
qed

lemma num_str_chars:
  assumes "json_num x"
  shows "\<forall>c \<in> set (num_str x). numeral_char c"
proof -
  obtain neg m where x: "x = Fin neg m" "0 \<le> m" using assms by (cases x) (auto simp: json_num_def)
  then show ?thesis using mag_str_chars [of m]
    by (cases "m = 0") (auto simp: numeral_char_def is_digit_def less_le)
qed

lemma json_text_trim:
  assumes "json_canon v"
  shows "trim (json_ser [] [] v) = json_ser [] [] v \<and> json_ser [] [] v \<noteq> []"
proof (cases v)
  case (Num x)
  then have x: "json_num x" using assms by simp
  then have "trim (num_str x) = num_str x"
    using num_str_chars numeral_char_not_ws by (intro trim_no_ws) blast
  then show ?thesis using Num x num_str_hd_numeral [OF x] by (simp add: json_num_def)
next
  case (Obj kvs)
  then show ?thesis using json_ser_Obj_hd [of "[]" "[]" kvs] by (simp del: json_ser.simps)
qed (use assms in \<open>auto intro!: trim_id simp: enclose_def is_ws_def js_def json_quote_def\<close>)

lemma loose_value_json:
  assumes "json_canon v" "\<And>s. v \<noteq> Str s"
  shows "parseLooseValue (toValueText v) = v"
proof -
  have "toValueText v = json_ser [] [] v" using assms by (cases v) (auto simp: toValueText_def)
  then show ?thesis using json_parse_stringify [OF assms(1), of "[]"] json_text_trim [OF assms(1)]
    by (simp add: parseLooseValue_def)
qed

lemma loose_value_iff:
  assumes "json_canon v"
  shows "parseLooseValue (toValueText v) = v \<longleftrightarrow>
    (case v of Str s \<Rightarrow> s = [] \<or> (trim s \<noteq> [] \<and> json_parse s = None) | _ \<Rightarrow> True)"
proof (cases "\<exists>s. v = Str s")
  case True
  then obtain s where s: "v = Str s" by blast
  then show ?thesis using json_parse_not_self [of s]
    by (auto simp: toValueText_def parseLooseValue_def split: option.splits)
next
  case False
  then show ?thesis using loose_value_json [OF assms] by (auto split: jsval.splits)
qed

text \<open>A loaded JSON value survives its text field: \<open>parseLooseValue\<close> reads the text of \<open>toValueText\<close>
  back as the same value, exactly when the value is not a string, or is empty, or is a string that
  is neither blank nor itself a JSON text.  The other strings change: the string \<open>123\<close> comes back as
  a number.\<close>

theorem loose_value_roundtrip:
  assumes "json_canon v"
  shows "parseLooseValue (toValueText v) = v \<longleftrightarrow>
    (case v of Str s \<Rightarrow> s = [] \<or> (trim s \<noteq> [] \<and> json_parse s = None) | _ \<Rightarrow> True)"
  by (rule loose_value_iff [OF assms])

theorem loose_value_roundtrip_witness:
  "parseLooseValue (toValueText (Arr [Null, Bool True])) = Arr [Null, Bool True] \<and>
   parseLooseValue (toValueText (Str (js ''true''))) \<noteq> Str (js ''true'')"
proof -
  have "json_parse (js ''true'') = Some (Bool True)" by code_simp
  then show ?thesis
    using loose_value_roundtrip [of "Arr [Null, Bool True]"] loose_value_roundtrip [of "Str (js ''true'')"] by simp
qed

section \<open>Sync targets\<close>

lemma trim_append_hd:
  assumes "k \<noteq> []" "trim k = k" "p \<noteq> []" "\<not> is_ws (hd p)"
  shows "trim (p @ k) = p @ k"
  using assms trim_last [of k] by (intro trim_id) (auto simp: hd_append)

text \<open>The text of a sync target is read back as its type and its trimmed key; a blank key gives the
  default target.\<close>

theorem sync_target_roundtrip:
  "parseSyncTargetSpec (buildSyncTargetSpec ty key) = (if trim key = [] then (Sync_json, []) else (ty, trim key))"
proof (cases "trim key = []")
  case False
  define pre where "pre = (case ty of Sync_header \<Rightarrow> js ''header'' | Sync_json \<Rightarrow> js ''json'')"
  have p: "pre \<noteq> []" "\<not> is_ws (hd pre)" "58 \<notin> set pre" "trim pre = pre" "ascii_lower pre = pre"
    by (cases ty; simp add: pre_def js_def is_ws_def ascii_lower_def trim_no_ws)+
  have "trim (pre @ [58] @ trim key) = pre @ [58] @ trim key"
    using trim_append_hd [of "trim key" "pre @ [58]"] False p by (simp add: hd_append)
  moreover have "takeWhile (\<lambda>c. c \<noteq> 58) (pre @ [58] @ trim key) = pre" "dropWhile (\<lambda>c. c \<noteq> 58) (pre @ [58] @ trim key) = 58 # trim key"
    using p(3) by simp_all
  ultimately show ?thesis using False p(1,4,5)
    by (cases ty) (simp_all add: parseSyncTargetSpec_def buildSyncTargetSpec_def pre_def Let_def js_def)
qed (simp add: buildSyncTargetSpec_def parseSyncTargetSpec_def Let_def)

section \<open>Error drafts\<close>

lemma num_le_100: "num_le (Fin False 100) x \<Longrightarrow> is_finite x \<Longrightarrow> wf_num x \<Longrightarrow> \<exists>m. x = Fin False m \<and> 100 \<le> m"
  by (cases x) (auto simp: num_le_def split: if_splits)

lemma status_or_400_json: "wf_num x \<Longrightarrow> json_num (status_or_400 x)" "status_or_400 (status_or_400 x) = status_or_400 x"
proof -
  have d400: "double_mag 400" using double_mag_int [of 400] by simp
  have "json_num x" if a: "wf_num x" "is_integer x" "num_le (Fin False 100) x" "num_le x (Fin False 599)"
  proof -
    obtain m where m: "x = Fin False m" "100 \<le> m" "m = of_int \<lfloor>m\<rfloor>"
      using a num_le_100 [of x] by (cases x) (auto simp: is_integer_def)
    have "m \<le> 599" using a(4) m(1,2) by (auto simp: num_le_def split: if_splits)
    then have "\<lfloor>m\<rfloor> \<le> 599" by linarith
    moreover have "0 \<le> \<lfloor>m\<rfloor>" using m(2) by simp
    ultimately have "double_mag (of_int \<lfloor>m\<rfloor>)" by (intro double_mag_int) auto
    then show ?thesis using m by (simp add: json_num_def)
  qed
  then show "wf_num x \<Longrightarrow> json_num (status_or_400 x)" using d400 by (auto simp: status_or_400_def json_num_def)
  show "status_or_400 (status_or_400 x) = status_or_400 x"
    by (auto simp: status_or_400_def is_integer_def num_le_def split: if_splits)
qed

text \<open>The draft that is left of \<open>d\<close>: fields trimmed, a status outside 100 to 599 replaced by 400.\<close>

definition clean_draft :: "error_draft \<Rightarrow> error_draft" where
  "clean_draft d = d\<lparr>e_message := trim (e_message d),
     e_statusCode := Num (status_or_400 (to_num (e_statusCode d))),
     e_code := trim (e_code d), e_type := trim (e_type d)\<rparr>"

text \<open>The structured form of a \<open>return_error\<close> draft is read back from its text without loss, fields
  trimmed and the status code forced into 100 to 599.\<close>

theorem return_error_roundtrip:
  assumes "\<not> e_simpleMode d" "wf_num (to_num (e_statusCode d))"
  shows "parseReturnErrorDraft (buildReturnErrorValueText d) = clean_draft d"
proof -
  define kvs where "kvs =
    [(js ''message'', Str (trim (e_message d))), (js ''status_code'', Num (status_or_400 (to_num (e_statusCode d))))]
    @ (if trim (e_code d) \<noteq> [] then [(js ''code'', Str (trim (e_code d)))] else [])
    @ (if trim (e_type d) \<noteq> [] then [(js ''type'', Str (trim (e_type d)))] else [])
    @ (if \<not> e_skipRetry d then [(js ''skip_retry'', Bool False)] else [])"
  have b: "buildReturnErrorValueText d = json_ser [] [] (Obj kvs)"
    using assms by (simp add: buildReturnErrorValueText_def kvs_def Let_def)
  have "own_order kvs = kvs" by (rule own_order_id) (auto simp: kvs_def js_def)
  moreover have "distinct (map fst kvs)" by (simp add: kvs_def js_def)
  ultimately have c: "json_canon (Obj kvs)" using status_or_400_json(1) [OF assms(2)] by (auto simp: kvs_def)
  have pj: "json_parse (json_ser [] [] (Obj kvs)) = Some (Obj kvs)" by (rule json_parse_stringify [OF c]) simp
  have ne: "json_ser [] [] (Obj kvs) \<noteq> []" using json_ser_Obj_hd by blast
  have f: "own_prop (Obj kvs) (js ''message'') = Str (trim (e_message d))"
    "own_prop (Obj kvs) (js ''msg'') = Undef"
    "own_prop (Obj kvs) (js ''status_code'') = Num (status_or_400 (to_num (e_statusCode d)))"
    "own_prop (Obj kvs) (js ''code'') = (if trim (e_code d) \<noteq> [] then Str (trim (e_code d)) else Undef)"
    "own_prop (Obj kvs) (js ''type'') = (if trim (e_type d) \<noteq> [] then Str (trim (e_type d)) else Undef)"
    "own_prop (Obj kvs) (js ''skip_retry'') = (if e_skipRetry d then Undef else Bool False)"
    by (simp_all add: own_prop_def get_def kvs_def js_def)
  show ?thesis
    unfolding b parseReturnErrorDraft_def trim_json_Obj Let_def pj
    using ne assms by (simp add: f plain_object_def status_or_400_json(2) clean_draft_def js_or_def truthy_def
        str_or_empty_def del: json_ser.simps)
qed

theorem return_error_roundtrip_witness:
  "parseReturnErrorDraft (buildReturnErrorValueText
     \<lparr>e_message = js '' no '', e_statusCode = Num (Fin False 42), e_code = [], e_type = js ''t'', e_skipRetry = False,
      e_simpleMode = False\<rparr>) =
   \<lparr>e_message = js ''no'', e_statusCode = Num (Fin False 400), e_code = [], e_type = js ''t'', e_skipRetry = False,
      e_simpleMode = False\<rparr>"
proof -
  let ?d = "\<lparr>e_message = js '' no '', e_statusCode = Num (Fin False 42), e_code = [], e_type = js ''t'',
     e_skipRetry = False, e_simpleMode = False\<rparr>"
  have "trim (js '' no '') = js ''no''" "trim (js ''t'') = js ''t''" by code_simp+
  moreover have "status_or_400 (Fin False 42) = Fin False 400" by code_simp
  moreover have "wf_num (Fin False 42)" using double_mag_int [of 42] by simp
  ultimately show ?thesis using return_error_roundtrip [of ?d] by (simp add: clean_draft_def)
qed
end
