(* ===== verification/Param_Payload.thy ===== *)
theory Param_Payload
  imports Param_Values
begin

text \<open>
  Override operations of \<open>ParamOverrideEditorModal.jsx\<close>: how an operation is read from JSON
  (\<open>normalizeOperation\<close>), checked (\<open>validateOperations\<close>) and written back (\<open>buildOperationsJson\<close>), and how
  the modal opens on a saved text (\<open>parseInitialState\<close>).  Thrown errors are values of a sum type: the
  message of an \<open>Error\<close>, or the \<open>TypeError\<close> of a property read on \<open>null\<close>.
\<close>

section \<open>Operations\<close>

record operation =
  op_id :: jsstr
  op_description :: jsstr
  op_path :: jsstr
  op_mode :: op_mode
  op_value_text :: jsstr
  op_keep_origin :: bool
  op_from :: jsstr
  op_to :: jsstr
  op_logic :: logic
  op_conditions :: "condition list"

text \<open>\<open>items.map(normalizeCondition)\<close>\<close>

fun normalize_conditions :: "(nat \<Rightarrow> int) \<Rightarrow> nat \<Rightarrow> jsval list \<Rightarrow> js_error + condition list \<times> nat" where
  "normalize_conditions clock seed [] = Inr ([], seed)"
| "normalize_conditions clock seed (v # vs) =
     (case normalizeCondition clock seed v of
        Inl err \<Rightarrow> Inl err
      | Inr (c, seed1) \<Rightarrow>
          (case normalize_conditions clock seed1 vs of
             Inl err \<Rightarrow> Inl err
           | Inr (cs, seed2) \<Rightarrow> Inr (c # cs, seed2)))"

definition normalizeOperation :: "(nat \<Rightarrow> int) \<Rightarrow> nat \<Rightarrow> jsval \<Rightarrow> js_error + operation \<times> nat" where
  "normalizeOperation clock seed operation =
     (let (nid, seed1) = nextLocalId clock seed; field = own_prop operation in
      if operation = Null then Inl TypeError
      else
        (case (case field (js ''conditions'') of
                 Arr items \<Rightarrow> normalize_conditions clock seed1 items
               | _ \<Rightarrow> Inr ([], seed1)) of
           Inl err \<Rightarrow> Inl err
         | Inr (conds, seed2) \<Rightarrow>
             Inr (\<lparr>op_id = nid,
                  op_description = string_or_empty (field (js ''description'')),
                  op_path = string_or_empty (field (js ''path'')),
                  op_mode = mode_or_set (field (js ''mode'')),
                  op_value_text = toValueText (field (js ''value'')),
                  op_keep_origin = (field (js ''keep_origin'') = Bool True),
                  op_from = string_or_empty (field (js ''from'')),
                  op_to = string_or_empty (field (js ''to'')),
                  op_logic = (if ascii_upper (to_str (js_or (field (js ''logic'')) (Str (js ''OR'')))) = js ''AND''
                    then L_AND else L_OR),
                  op_conditions = conds\<rparr>, seed2)))"

text \<open>\<open>normalizeOperation({mode: 'set'})\<close>: see \<open>createDefaultOperation_eq\<close> below.\<close>

definition default_operation :: "jsstr \<Rightarrow> operation" where
  "default_operation nid = \<lparr>op_id = nid, op_description = [], op_path = [], op_mode = M_set, op_value_text = [],
     op_keep_origin = False, op_from = [], op_to = [], op_logic = L_OR, op_conditions = []\<rparr>"

definition createDefaultOperation :: "(nat \<Rightarrow> int) \<Rightarrow> nat \<Rightarrow> operation \<times> nat" where
  "createDefaultOperation clock seed =
     (let (nid, seed1) = nextLocalId clock seed in (default_operation nid, seed1))"

definition createDefaultCondition :: "(nat \<Rightarrow> int) \<Rightarrow> nat \<Rightarrow> condition \<times> nat" where
  "createDefaultCondition clock seed = normalize_fields clock seed (Obj [])"

text \<open>\<open>items.map(normalizeOperation)\<close>\<close>

fun normalize_operations :: "(nat \<Rightarrow> int) \<Rightarrow> nat \<Rightarrow> jsval list \<Rightarrow> js_error + operation list \<times> nat" where
  "normalize_operations clock seed [] = Inr ([], seed)"
| "normalize_operations clock seed (v # vs) =
     (case normalizeOperation clock seed v of
        Inl err \<Rightarrow> Inl err
      | Inr (x, seed1) \<Rightarrow>
          (case normalize_operations clock seed1 vs of
             Inl err \<Rightarrow> Inl err
           | Inr (xs, seed2) \<Rightarrow> Inr (x # xs, seed2)))"

datatype drop_position = Before | After

text \<open>\<open>xs.findIndex(p)\<close>, \<open>None\<close> for \<open>-1\<close>.\<close>

fun find_index :: "('a \<Rightarrow> bool) \<Rightarrow> 'a list \<Rightarrow> nat option" where
  "find_index P [] = None"
| "find_index P (x # xs) = (if P x then Some 0 else map_option Suc (find_index P xs))"

definition reorderOperations :: "operation list \<Rightarrow> jsstr \<Rightarrow> jsstr \<Rightarrow> drop_position \<Rightarrow> operation list" where
  "reorderOperations ops sourceId targetId position =
     (if sourceId = [] \<or> targetId = [] \<or> sourceId = targetId then ops
      else
        (case find_index (\<lambda>x. op_id x = sourceId) ops of
           None \<Rightarrow> ops
         | Some i \<Rightarrow>
             (let moved = ops ! i; next = take i ops @ drop (Suc i) ops in
              case find_index (\<lambda>x. op_id x = targetId) next of
                None \<Rightarrow> ops
              | Some j \<Rightarrow>
                  (let k = (if position = After then j + 1 else j)
                   in take k next @ [moved] @ drop k next))))"

definition getOperationSummary :: "operation \<Rightarrow> nat \<Rightarrow> jsstr" where
  "getOperationSummary operation index =
     (let mode = op_mode operation;
          path = trim (op_path operation); frm = trim (op_from operation); tgt = trim (op_to operation);
          pick = (\<lambda>xs. case filter (\<lambda>s. s \<noteq> []) xs of [] \<Rightarrow> [45] | s # _ \<Rightarrow> s)
      in int_str (int index + 1) @ js ''. '' @ mode_label mode @ [32, 183, 32] @
         (if mode = M_sync_fields then pick [frm, tgt] else pick [path, frm, tgt]))"

definition getOperationModeTagColor :: "op_mode \<Rightarrow> jsstr" where
  "getOperationModeTagColor mode =
     (let has_part = str_includes (mode_name mode) in
      if has_part (js ''header'') then js ''cyan''
      else if has_part (js ''replace'') \<or> has_part (js ''trim'') then js ''violet''
      else if has_part (js ''copy'') \<or> has_part (js ''move'') then js ''blue''
      else if has_part (js ''error'') \<or> has_part (js ''prune'') then js ''red''
      else if has_part (js ''sync'') then js ''green''
      else js ''grey'')"

definition isOperationBlank :: "operation \<Rightarrow> bool" where
  "isOperationBlank operation \<longleftrightarrow>
     op_mode operation = M_set \<and> trim (op_path operation) = [] \<and> trim (op_from operation) = [] \<and>
     trim (op_to operation) = [] \<and> trim (op_value_text operation) = [] \<and> \<not> op_keep_origin operation \<and>
     \<not> list_ex (\<lambda>c. trim (c_path c) \<noteq> [] \<or> trim (c_value_text c) \<noteq> [] \<or> c_mode c \<noteq> C_full \<or>
          c_invert c \<or> c_pass_missing_key c) (op_conditions operation)"

section \<open>Validation\<close>

definition txt_no_path :: jsstr where "txt_no_path = [31532, 32, 123, 123, 108, 105, 110, 101, 125, 125, 32, 26465, 25805, 20316, 32570,
     23569, 30446, 26631, 36335, 24452]"
definition txt_no_from :: jsstr where "txt_no_from = [31532, 32, 123, 123, 108, 105, 110, 101, 125, 125, 32, 26465, 25805, 20316, 32570,
     23569, 26469, 28304, 23383, 27573]"
definition txt_no_to :: jsstr where "txt_no_to = [31532, 32, 123, 123, 108, 105, 110, 101, 125, 125, 32, 26465, 25805, 20316, 32570,
     23569, 30446, 26631, 23383, 27573]"
definition txt_no_value :: jsstr where "txt_no_value = [31532, 32, 123, 123, 108, 105, 110, 101, 125, 125, 32, 26465, 25805, 20316, 32570,
     23569, 20540]"
definition txt_no_message :: jsstr where "txt_no_message = [31532, 32, 123, 123, 108, 105, 110, 101, 125, 125, 32, 26465, 32, 114, 101, 116, 117,
     114, 110, 95, 101, 114, 114, 111, 114, 32, 38656, 35201, 32, 109, 101, 115, 115,
     97, 103, 101, 32, 23383, 27573]"
definition txt_prune_empty :: jsstr where "txt_prune_empty = [31532, 32, 123, 123, 108, 105, 110, 101, 125, 125, 32, 26465, 32, 112, 114, 117, 110,
     101, 95, 111, 98, 106, 101, 99, 116, 115, 32, 32570, 23569, 26465, 20214]"
definition txt_prune_match :: jsstr where "txt_prune_match = [31532, 32, 123, 123, 108, 105, 110, 101, 125, 125, 32, 26465, 32, 112, 114, 117, 110,
     101, 95, 111, 98, 106, 101, 99, 116, 115, 32, 38656, 35201, 33267, 23569, 19968,
     20010, 21305, 37197, 26465, 20214]"
definition txt_header_empty :: jsstr where "txt_header_empty = [31532, 32, 123, 123, 108, 105, 110, 101, 125, 125, 32, 26465, 35831, 27714, 22836,
     36879, 20256, 32570, 23569, 35831, 27714, 22836, 21517, 31216]"
definition txt_header_format :: jsstr where "txt_header_format = [31532, 32, 123, 123, 108, 105, 110, 101, 125, 125, 32, 26465, 35831, 27714, 22836,
     36879, 20256, 26684, 24335, 26080, 25928]"

definition missing_message :: "jsstr \<Rightarrow> bool" where
  "missing_message raw = (case json_parse raw of
       Some parsed \<Rightarrow> plain_object parsed \<and> trim (str_or_empty (own_prop parsed (js ''message''))) = []
     | None \<Rightarrow> False)"

definition missing_match :: "jsstr \<Rightarrow> bool" where
  "missing_match raw = (case json_parse raw of
       Some parsed \<Rightarrow>
         plain_object parsed \<and>
         (let field = own_prop parsed;
              hasType = (field (js ''type'') \<noteq> Undef \<and> trim (to_str (field (js ''type''))) \<noteq> []);
              hasWhere = (plain_object (field (js ''where'')) \<and> obj_keys (field (js ''where'')) \<noteq> []);
              hasConditionsArray = (case field (js ''conditions'') of Arr items \<Rightarrow> items \<noteq> [] | _ \<Rightarrow> False);
              hasConditionsObject = (plain_object (field (js ''conditions'')) \<and> obj_keys (field (js ''conditions'')) \<noteq> [])
          in \<not> hasType \<and> \<not> hasWhere \<and> \<not> hasConditionsArray \<and> \<not> hasConditionsObject)
     | None \<Rightarrow> False)"

text \<open>The checks of one operation in the order of the loop body; \<open>None\<close> when it passes.\<close>

definition validate_one :: "operation \<Rightarrow> jsstr option" where
  "validate_one op =
     (let mode = op_mode op; meta = MODE_META mode;
          pathValue = trim (op_path op); fromValue = trim (op_from op); toValue = trim (op_to op);
          raw = trim (op_value_text op)
      in if m_path meta \<and> pathValue = [] then Some txt_no_path
         else if mode \<in> set FROM_REQUIRED_MODES \<and> fromValue = [] \<and> \<not> (m_pathAlias meta \<and> pathValue \<noteq> [])
         then Some txt_no_from
         else if mode \<in> set TO_REQUIRED_MODES \<and> toValue = [] \<and> \<not> (m_pathAlias meta \<and> pathValue \<noteq> [])
         then Some txt_no_to
         else if m_from meta \<and> fromValue = [] then Some txt_no_from
         else if m_to meta \<and> toValue = [] then Some txt_no_to
         else if mode \<in> set VALUE_REQUIRED_MODES \<and> raw = [] then Some txt_no_value
         else if mode = M_return_error \<and> raw = [] then Some txt_no_value
         else if mode = M_return_error \<and> missing_message raw then Some txt_no_message
         else if mode = M_prune_objects \<and> raw = [] then Some txt_prune_empty
         else if mode = M_prune_objects \<and> missing_match raw then Some txt_prune_match
         else if mode = M_pass_headers \<and> raw = [] then Some txt_header_empty
         else if mode = M_pass_headers \<and> parsePassHeaderNames (parseLooseValue raw) = [] then Some txt_header_format
         else None)"

fun validate_from :: "translate \<Rightarrow> nat \<Rightarrow> operation list \<Rightarrow> jsstr" where
  "validate_from t i [] = []"
| "validate_from t i (op # ops) =
     (case validate_one op of
        Some msg \<Rightarrow> t msg [(js ''line'', Num (of_nat_num (i + 1)))]
      | None \<Rightarrow> validate_from t (i + 1) ops)"

definition validateOperations :: "translate \<Rightarrow> operation list \<Rightarrow> jsstr" where
  "validateOperations t ops = validate_from t 0 ops"

section \<open>Writing\<close>

definition buildConditionPayload :: "condition \<Rightarrow> jsval option" where
  "buildConditionPayload c =
     (let path = trim (c_path c) in
      if path = [] then None
      else Some (Obj ([(js ''path'', Str path), (js ''mode'', Str (cond_mode_name (c_mode c))),
          (js ''value'', parseLooseValue (c_value_text c))]
        @ (if c_invert c then [(js ''invert'', Bool True)] else [])
        @ (if c_pass_missing_key c then [(js ''pass_missing_key'', Bool True)] else []))))"

text \<open>The payload of one operation, assignment by assignment: \<open>if (b) payload[k] = v\<close>.\<close>

definition assign_if :: "bool \<Rightarrow> string \<Rightarrow> jsval \<Rightarrow> (jsstr \<times> jsval) list \<Rightarrow> (jsstr \<times> jsval) list" where
  "assign_if b k v p = (if b then put (js k) v p else p)"

definition falsy_at :: "string \<Rightarrow> (jsstr \<times> jsval) list \<Rightarrow> bool" where
  "falsy_at k p \<longleftrightarrow> \<not> truthy (own_prop (Obj p) (js k))"

definition operation_payload :: "operation \<Rightarrow> jsval" where
  "operation_payload op =
     (let mode = op_mode op; meta = MODE_META mode;
          descriptionValue = trim (op_description op);
          pathValue = trim (op_path op); fromValue = trim (op_from op); toValue = trim (op_to op);
          p1 = [(js ''mode'', Str (mode_name mode))];
          p2 = assign_if (descriptionValue \<noteq> []) ''description'' (Str descriptionValue) p1;
          p3 = assign_if (m_path meta) ''path'' (Str pathValue) p2;
          p4 = assign_if (m_pathOptional meta \<and> pathValue \<noteq> []) ''path'' (Str pathValue) p3;
          p5 = assign_if (m_value meta) ''value'' (parseLooseValue (op_value_text op)) p4;
          p6 = assign_if (m_keepOrigin meta \<and> op_keep_origin op) ''keep_origin'' (Bool True) p5;
          p7 = assign_if (m_from meta) ''from'' (Str fromValue) p6;
          p8 = assign_if (\<not> m_to meta \<and> toValue \<noteq> []) ''to'' (Str toValue) p7;
          p9 = assign_if (m_to meta) ''to'' (Str toValue) p8;
          p10 = assign_if (m_pathAlias meta \<and> falsy_at ''from'' p9 \<and> pathValue \<noteq> []) ''from'' (Str pathValue) p9;
          p11 = assign_if (m_pathAlias meta \<and> falsy_at ''to'' p10 \<and> pathValue \<noteq> []) ''to'' (Str pathValue) p10;
          conditions = List.map_filter buildConditionPayload (op_conditions op);
          p12 = assign_if (length conditions > 0) ''conditions'' (Arr conditions) p11;
          p13 = assign_if (length conditions > 0) ''logic'' (Str (logic_name (op_logic op))) p12
      in Obj p13)"

definition operations_text :: "operation list \<Rightarrow> jsstr" where
  "operations_text ops = json_ser [32, 32] [] (Obj [(js ''operations'', Arr (map operation_payload ops))])"

definition buildOperationsJson :: "translate \<Rightarrow> bool \<Rightarrow> operation list \<Rightarrow> jsstr + jsstr" where
  "buildOperationsJson t validate sourceOperations =
     (let filteredOps = filter (\<lambda>op. \<not> isOperationBlank op) sourceOperations in
      if length filteredOps = 0 then Inr []
      else if validate \<and> validateOperations t filteredOps \<noteq> [] then Inl (validateOperations t filteredOps)
      else Inr (operations_text filteredOps))"

section \<open>Opening\<close>

datatype edit_mode = Edit_visual | Edit_json
datatype visual_mode = Visual_operations | Visual_legacy

record initial_state =
  i_editMode :: edit_mode
  i_visualMode :: visual_mode
  i_legacyValue :: jsstr
  i_operations :: "operation list"
  i_jsonText :: jsstr
  i_jsonError :: jsstr

definition txt_json_invalid :: jsstr where "txt_json_invalid = [74, 83, 79, 78, 32, 26684, 24335, 19981, 27491, 30830]"

text \<open>The operations of \<open>{operations: [...]}\<close>, if the value has that shape.\<close>

definition operations_of :: "jsval \<Rightarrow> jsval list option" where
  "operations_of v = (if plain_object v
     then (case own_prop v (js ''operations'') of Arr items \<Rightarrow> Some items | _ \<Rightarrow> None) else None)"

text \<open>\<open>items.length > 0 ? items.map(normalizeOperation) : [createDefaultOperation()]\<close>\<close>

definition load_operations :: "(nat \<Rightarrow> int) \<Rightarrow> nat \<Rightarrow> jsval list \<Rightarrow> js_error + operation list \<times> nat" where
  "load_operations clock seed items =
     (if length items > 0 then normalize_operations clock seed items
      else (let (op, seed1) = createDefaultOperation clock seed in Inr ([op], seed1)))"

definition parseInitialState :: "(nat \<Rightarrow> int) \<Rightarrow> nat \<Rightarrow> jsval \<Rightarrow> js_error + initial_state \<times> nat" where
  "parseInitialState clock seed rawValue =
     (let txt' = string_or_empty rawValue; trimmed = trim txt';
          (fallback, seed1) = createDefaultOperation clock seed
      in if trimmed = [] then
           Inr (\<lparr>i_editMode = Edit_visual, i_visualMode = Visual_operations, i_legacyValue = [],
             i_operations = [fallback], i_jsonText = [], i_jsonError = []\<rparr>, seed1)
         else
           (case json_parse trimmed of
              None \<Rightarrow>
                Inr (\<lparr>i_editMode = Edit_json, i_visualMode = Visual_operations, i_legacyValue = [],
                  i_operations = [fallback], i_jsonText = txt', i_jsonError = txt_json_invalid\<rparr>, seed1)
            | Some parsed \<Rightarrow>
                (let pretty = json_ser [32, 32] [] parsed in
                 case operations_of parsed of
                   Some items \<Rightarrow>
                     (case load_operations clock seed items of
                        Inl err \<Rightarrow> Inl err
                      | Inr (ops, seed2) \<Rightarrow>
                          Inr (\<lparr>i_editMode = Edit_visual, i_visualMode = Visual_operations, i_legacyValue = [],
                            i_operations = ops, i_jsonText = pretty, i_jsonError = []\<rparr>, seed2))
                 | None \<Rightarrow>
                     if plain_object parsed then
                       Inr (\<lparr>i_editMode = Edit_visual, i_visualMode = Visual_legacy, i_legacyValue = pretty,
                         i_operations = [fallback], i_jsonText = pretty, i_jsonError = []\<rparr>, seed1)
                     else
                       Inr (\<lparr>i_editMode = Edit_json, i_visualMode = Visual_operations, i_legacyValue = [],
                         i_operations = [fallback], i_jsonText = pretty, i_jsonError = []\<rparr>, seed1))))"

end
