(* ===== verification/Param_Templates.thy ===== *)
theory Param_Templates
  imports Param_Payload
begin

text \<open>
  The template library and the field guide of \<open>ParamOverrideEditorModal.jsx\<close>, with the header lists of
  \<open>channel-affinity-template.constants.js\<close>.  Template payloads are values of the language, written as the
  object literals of the source.
\<close>

section \<open>Templates\<close>

definition LEGACY_TEMPLATE :: jsval where
  "LEGACY_TEMPLATE =
     Obj [(js ''temperature'', Num (Fin False 0)), (js ''max_tokens'', Num (Fin False 1000))]"

definition OPERATION_TEMPLATE :: jsval where
  "OPERATION_TEMPLATE =
     Obj [
       (js ''operations'', Arr [
         Obj [
           (js ''description'', Str (js ''Set default temperature for openai/* models.'')),
           (js ''path'', Str (js ''temperature'')),
           (js ''mode'', Str (js ''set'')),
           (js ''value'', Num (mk_num False (7 / 10))),
           (js ''conditions'', Arr [
             Obj [
               (js ''path'', Str (js ''model'')),
               (js ''mode'', Str (js ''prefix'')),
               (js ''value'', Str (js ''openai/''))]]),
           (js ''logic'', Str (js ''AND''))]])]"

definition HEADER_PASSTHROUGH_TEMPLATE :: jsval where
  "HEADER_PASSTHROUGH_TEMPLATE =
     Obj [
       (js ''operations'', Arr [
         Obj [
           (js ''description'', Str (js ''Pass through X-Request-Id header to upstream.'')),
           (js ''mode'', Str (js ''pass_headers'')),
           (js ''value'', Arr [Str (js ''X-Request-Id'')]),
           (js ''keep_origin'', Bool True)]])]"

definition GEMINI_IMAGE_4K_TEMPLATE :: jsval where
  "GEMINI_IMAGE_4K_TEMPLATE =
     Obj [
       (js ''operations'', Arr [
         Obj [
           (js ''description'', Str (js ''Set imageSize to 4K when model contains gemini/image and ends with 4k.'')),
           (js ''mode'', Str (js ''set'')),
           (js ''path'', Str (js ''generationConfig.imageConfig.imageSize'')),
           (js ''value'', Str (js ''4K'')),
           (js ''conditions'', Arr [
             Obj [
               (js ''path'', Str (js ''original_model'')),
               (js ''mode'', Str (js ''contains'')),
               (js ''value'', Str (js ''gemini''))],
             Obj [
               (js ''path'', Str (js ''original_model'')),
               (js ''mode'', Str (js ''contains'')),
               (js ''value'', Str (js ''image''))],
             Obj [
               (js ''path'', Str (js ''original_model'')),
               (js ''mode'', Str (js ''suffix'')),
               (js ''value'', Str (js ''4k''))]]),
           (js ''logic'', Str (js ''AND''))]])]"

definition AWS_BEDROCK_ANTHROPIC_COMPAT_TEMPLATE :: jsval where
  "AWS_BEDROCK_ANTHROPIC_COMPAT_TEMPLATE =
     Obj [
       (js ''operations'', Arr [
         Obj [
           (js ''description'', Str (js ''Normalize anthropic-beta header tokens for Bedrock compatibility.'')),
           (js ''mode'', Str (js ''set_header'')),
           (js ''path'', Str (js ''anthropic-beta'')),
           (js ''value'', Obj [
             (js ''advanced-tool-use-2025-11-20'', Str (js ''tool-search-tool-2025-10-19'')),
             (js ''bash_20241022'', Null),
             (js ''bash_20250124'', Null),
             (js ''code-execution-2025-08-25'', Null),
             (js ''compact-2026-01-12'', Str (js ''compact-2026-01-12'')),
             (js ''computer-use-2025-01-24'', Str (js ''computer-use-2025-01-24'')),
             (js ''computer-use-2025-11-24'', Str (js ''computer-use-2025-11-24'')),
             (js ''context-1m-2025-08-07'', Str (js ''context-1m-2025-08-07'')),
             (js ''context-management-2025-06-27'', Str (js ''context-management-2025-06-27'')),
             (js ''effort-2025-11-24'', Null),
             (js ''fast-mode-2026-02-01'', Null),
             (js ''files-api-2025-04-14'', Null),
             (js ''fine-grained-tool-streaming-2025-05-14'', Null),
             (js ''interleaved-thinking-2025-05-14'', Str (js ''interleaved-thinking-2025-05-14'')),
             (js ''mcp-client-2025-11-20'', Null),
             (js ''mcp-client-2025-04-04'', Null),
             (js ''mcp-servers-2025-12-04'', Null),
             (js ''output-128k-2025-02-19'', Null),
             (js ''structured-output-2024-03-01'', Null),
             (js ''prompt-caching-scope-2026-01-05'', Null),
             (js ''skills-2025-10-02'', Null),
             (js ''structured-outputs-2025-11-13'', Null),
             (js ''text_editor_20241022'', Null),
             (js ''text_editor_20250124'', Null),
             (js ''token-efficient-tools-2025-02-19'', Null),
             (js ''tool-search-tool-2025-10-19'', Str (js ''tool-search-tool-2025-10-19'')),
             (js ''web-fetch-2025-09-10'', Null),
             (js ''web-search-2025-03-05'', Null),
             (js ''oauth-2025-04-20'', Null)])],
         Obj [
           (js ''description'', Str (js ''Remove all tools[*].custom.input_examples before upstream relay.'')),
           (js ''mode'', Str (js ''delete'')),
           (js ''path'', Str (js ''tools.*.custom.input_examples''))]])]"

text \<open>\<open>web/src/constants/channel-affinity-template.constants.js\<close>\<close>

definition buildPassHeadersTemplate :: "jsstr list \<Rightarrow> jsval" where
  "buildPassHeadersTemplate headers =
     Obj [(js ''operations'', Arr [Obj [(js ''mode'', Str (js ''pass_headers'')), (js ''value'', Arr (map Str headers)),
       (js ''keep_origin'', Bool True)]])]"

definition CODEX_CLI_HEADER_PASSTHROUGH_HEADERS :: "jsstr list" where
  "CODEX_CLI_HEADER_PASSTHROUGH_HEADERS =
    [js ''Originator'', js ''Session_id'', js ''User-Agent'', js ''X-Codex-Beta-Features'',
     js ''X-Codex-Turn-Metadata'']"

definition CLAUDE_CLI_HEADER_PASSTHROUGH_HEADERS :: "jsstr list" where
  "CLAUDE_CLI_HEADER_PASSTHROUGH_HEADERS =
    [js ''X-Stainless-Arch'', js ''X-Stainless-Lang'', js ''X-Stainless-Os'',
     js ''X-Stainless-Package-Version'', js ''X-Stainless-Retry-Count'', js ''X-Stainless-Runtime'',
     js ''X-Stainless-Runtime-Version'', js ''X-Stainless-Timeout'', js ''User-Agent'', js ''X-App'',
     js ''Anthropic-Beta'', js ''Anthropic-Dangerous-Direct-Browser-Access'', js ''Anthropic-Version'']"

definition CODEX_CLI_HEADER_PASSTHROUGH_TEMPLATE :: jsval where
  "CODEX_CLI_HEADER_PASSTHROUGH_TEMPLATE = buildPassHeadersTemplate CODEX_CLI_HEADER_PASSTHROUGH_HEADERS"

definition CLAUDE_CLI_HEADER_PASSTHROUGH_TEMPLATE :: jsval where
  "CLAUDE_CLI_HEADER_PASSTHROUGH_TEMPLATE = buildPassHeadersTemplate CLAUDE_CLI_HEADER_PASSTHROUGH_HEADERS"

datatype template_group = G_basic | G_scenario
datatype template_kind = K_operations | K_legacy

record preset =
  p_group :: template_group
  p_label :: jsstr
  p_kind :: template_kind
  p_payload :: jsval

definition TEMPLATE_PRESET_CONFIG :: "(jsstr, preset) store" where
  "TEMPLATE_PRESET_CONFIG =
     [(js ''operations_default'', \<lparr>p_group = G_basic,
        p_label = [26032, 26684, 24335, 27169, 26495, 65288, 35268, 21017, 38598, 65289],
        p_kind = K_operations, p_payload = OPERATION_TEMPLATE\<rparr>),
      (js ''legacy_default'', \<lparr>p_group = G_basic,
        p_label = [26087, 26684, 24335, 27169, 26495, 65288, 74, 83, 79, 78, 32, 23545, 35937, 65289],
        p_kind = K_legacy, p_payload = LEGACY_TEMPLATE\<rparr>),
      (js ''pass_headers_auth'', \<lparr>p_group = G_scenario,
        p_label = [35831, 27714, 22836, 36879, 20256, 65288, 88, 45, 82, 101, 113, 117, 101, 115, 116, 45,
     73, 100, 65289],
        p_kind = K_operations, p_payload = HEADER_PASSTHROUGH_TEMPLATE\<rparr>),
      (js ''gemini_image_4k'', \<lparr>p_group = G_scenario,
        p_label = [71, 101, 109, 105, 110, 105, 32, 22270, 29255, 32, 52, 75],
        p_kind = K_operations, p_payload = GEMINI_IMAGE_4K_TEMPLATE\<rparr>),
      (js ''claude_cli_headers_passthrough'', \<lparr>p_group = G_scenario,
        p_label = [67, 108, 97, 117, 100, 101, 32, 67, 76, 73, 32, 35831, 27714, 22836, 36879, 20256],
        p_kind = K_operations, p_payload = CLAUDE_CLI_HEADER_PASSTHROUGH_TEMPLATE\<rparr>),
      (js ''codex_cli_headers_passthrough'', \<lparr>p_group = G_scenario,
        p_label = [67, 111, 100, 101, 120, 32, 67, 76, 73, 32, 35831, 27714, 22836, 36879, 20256],
        p_kind = K_operations, p_payload = CODEX_CLI_HEADER_PASSTHROUGH_TEMPLATE\<rparr>),
      (js ''aws_bedrock_anthropic_beta_override'', \<lparr>p_group = G_scenario,
        p_label = [65, 87, 83, 32, 66, 101, 100, 114, 111, 99, 107, 32, 67, 108, 97, 117, 100, 101, 32,
     20860, 23481, 27169, 26495],
        p_kind = K_operations, p_payload = AWS_BEDROCK_ANTHROPIC_COMPAT_TEMPLATE\<rparr>)]"

section \<open>Field guide\<close>

record guide_field =
  f_key :: jsstr
  f_label :: jsstr
  f_tip :: jsstr

record guide_section =
  fs_title :: jsstr
  fs_fields :: "guide_field list"

definition BUILTIN_FIELD_SECTIONS :: "guide_section list" where
  "BUILTIN_FIELD_SECTIONS =
     [\<lparr>fs_title = [24120, 29992, 35831, 27714, 23383, 27573],
        fs_fields = [\<lparr>f_key = js ''model'',
            f_label = [27169, 22411, 21517, 31216],
            f_tip = [25903, 25345, 22810, 32423, 27169, 22411, 21517, 65292, 20363, 22914, 32, 111, 112,
     101, 110, 97, 105, 47, 103, 112, 116, 45, 52, 111, 45, 109, 105, 110, 105]\<rparr>,
          \<lparr>f_key = js ''temperature'',
            f_label = [37319, 26679, 28201, 24230],
            f_tip = [25511, 21046, 36755, 20986, 38543, 26426, 24615]\<rparr>,
          \<lparr>f_key = js ''max_tokens'',
            f_label = [26368, 22823, 36755, 20986, 32, 84, 111, 107, 101, 110],
            f_tip = [25511, 21046, 36755, 20986, 38271, 24230, 19978, 38480]\<rparr>,
          \<lparr>f_key = js ''messages.-1.content'',
            f_label = [26368, 21518, 19968, 26465, 28040, 24687, 20869, 23481],
            f_tip = [24120, 29992, 20110, 37325, 20889, 29992, 25143, 36755, 20837]\<rparr>]\<rparr>,
      \<lparr>fs_title = [19978, 19979, 25991, 23383, 27573],
        fs_fields = [\<lparr>f_key = js ''retry.is_retry'',
            f_label = [26159, 21542, 37325, 35797],
            f_tip = [116, 114, 117, 101, 32, 34920, 31034, 37325, 35797, 35831, 27714]\<rparr>,
          \<lparr>f_key = js ''last_error.code'',
            f_label = [19978, 27425, 38169, 35823, 30721],
            f_tip = [37197, 21512, 37325, 35797, 31574, 30053, 20351, 29992]\<rparr>,
          \<lparr>f_key = js ''metadata.conversation_id'',
            f_label = [20250, 35805, 32, 73, 68],
            f_tip = [21487, 29992, 20110, 36335, 30001, 25110, 32531, 23384, 21629, 20013]\<rparr>]\<rparr>,
      \<lparr>fs_title = [35831, 27714, 22836, 26144, 23556, 23383, 27573],
        fs_fields = [\<lparr>f_key = js ''header_override_normalized.authorization'',
            f_label = [26631, 20934, 21270, 32, 65, 117, 116, 104, 111, 114, 105, 122, 97, 116, 105, 111, 110],
            f_tip = [32479, 19968, 23567, 20889, 21518, 21487, 31283, 23450, 21305, 37197]\<rparr>,
          \<lparr>f_key = js ''header_override_normalized.x_debug_mode'',
            f_label = [26631, 20934, 21270, 32, 88, 45, 68, 101, 98, 117, 103, 45, 77, 111, 100, 101],
            f_tip = [36866, 21512, 28784, 24230, 32, 47, 32, 35843, 35797, 24320, 20851, 21028, 26029]\<rparr>]\<rparr>]"

end
