(* ===== verification/Param_Modal.thy ===== *)
theory Param_Modal
  imports Param_Templates
begin

text \<open>
  The component \<open>ParamOverrideEditorModal\<close>: its state, its effects and its handlers, in the order of the
  source.  A handler maps the state of the current render to the state it sets and to what it shows or
  hands to the page (\<open>outcome\<close>); a handler that can throw returns a sum.  \<open>localIdSeed\<close> is the module
  variable behind \<open>nextLocalId\<close>, \<open>clock\<close> the times \<open>Date.now()\<close> returns, \<open>t\<close> the translation.  Patches of
  object fields (\<open>{...item, ...patch}\<close>) are the ones the form fields of the modal send.
\<close>

section \<open>State\<close>

datatype guide_target = Target_path | Target_from | Target_to

record modal =
  editMode :: edit_mode
  visualMode :: visual_mode
  legacyValue :: jsstr
  operations :: "operation list"
  jsonText :: jsstr
  jsonError :: jsstr
  operationSearch :: jsstr
  selectedOperationId :: jsstr
  expandedConditionMap :: "(jsstr, jsstr list) store"
  draggedOperationId :: jsstr
  dragOverOperationId :: jsstr
  dragOverPosition :: drop_position
  templateGroupKey :: template_group
  templatePresetKey :: jsstr
  headerValueExampleVisible :: bool
  fieldGuideVisible :: bool
  fieldGuideTarget :: guide_target
  fieldGuideKeyword :: jsstr
  localIdSeed :: nat

datatype outcome = Toast toast | Saved jsstr

definition init_modal :: "(nat \<Rightarrow> int) \<Rightarrow> nat \<Rightarrow> modal" where
  "init_modal clock seed =
     (let (op, seed1) = createDefaultOperation clock seed in
      \<lparr>editMode = Edit_visual, visualMode = Visual_operations, legacyValue = [], operations = [op],
       jsonText = [], jsonError = [], operationSearch = [], selectedOperationId = [],
       expandedConditionMap = [], draggedOperationId = [], dragOverOperationId = [],
       dragOverPosition = Before, templateGroupKey = G_basic, templatePresetKey = js ''operations_default'',
       headerValueExampleVisible = False, fieldGuideVisible = False, fieldGuideTarget = Target_path,
       fieldGuideKeyword = [], localIdSeed = seed1\<rparr>)"

definition first_id :: "operation list \<Rightarrow> jsstr" where
  "first_id ops = (case ops of [] \<Rightarrow> [] | op # _ \<Rightarrow> op_id op)"

section \<open>Effects\<close>

text \<open>The effect on \<open>[visible, value]\<close>, when the modal is visible.\<close>

definition open_effect :: "(nat \<Rightarrow> int) \<Rightarrow> jsval \<Rightarrow> modal \<Rightarrow> js_error + modal" where
  "open_effect clock rawValue st =
     (case parseInitialState clock (localIdSeed st) rawValue of
        Inl err \<Rightarrow> Inl err
      | Inr (nextState, seed1) \<Rightarrow>
          Inr (st\<lparr>editMode := i_editMode nextState, visualMode := i_visualMode nextState,
            legacyValue := i_legacyValue nextState, operations := i_operations nextState,
            jsonText := i_jsonText nextState, jsonError := i_jsonError nextState, operationSearch := [],
            selectedOperationId := first_id (i_operations nextState), expandedConditionMap := [],
            draggedOperationId := [], dragOverOperationId := [], dragOverPosition := Before,
            templateGroupKey := G_basic,
            templatePresetKey := (if i_visualMode nextState = Visual_legacy then js ''legacy_default''
              else js ''operations_default''),
            headerValueExampleVisible := False, fieldGuideVisible := False, fieldGuideTarget := Target_path,
            fieldGuideKeyword := [], localIdSeed := seed1\<rparr>))"

definition selection_effect :: "modal \<Rightarrow> modal" where
  "selection_effect st =
     (if operations st = [] then st\<lparr>selectedOperationId := []\<rparr>
      else if \<not> list_ex (\<lambda>op. op_id op = selectedOperationId st) (operations st)
      then st\<lparr>selectedOperationId := op_id (hd (operations st))\<rparr>
      else st)"

definition templatePresetOptions :: "template_group \<Rightarrow> (jsstr \<times> jsstr) list" where
  "templatePresetOptions g =
     map (\<lambda>(k, config). (k, p_label config)) (filter (\<lambda>(_, config). p_group config = g) TEMPLATE_PRESET_CONFIG)"

definition preset_effect :: "modal \<Rightarrow> modal" where
  "preset_effect st =
     (let options = templatePresetOptions (templateGroupKey st) in
      if length options = 0 then st
      else if \<not> list_ex (\<lambda>x. fst x = templatePresetKey st) options
      then st\<lparr>templatePresetKey := fst (hd options)\<rparr>
      else st)"

section \<open>Derived values\<close>

definition operationCount :: "modal \<Rightarrow> nat" where
  "operationCount st = length (filter (\<lambda>op. \<not> isOperationBlank op) (operations st))"

definition searchable_text :: "(jsstr \<Rightarrow> jsstr) \<Rightarrow> jsstr list \<Rightarrow> jsstr" where
  "searchable_text lower parts = lower (join [32] (filter (\<lambda>s. s \<noteq> []) parts))"

definition filteredOperations :: "(jsstr \<Rightarrow> jsstr) \<Rightarrow> modal \<Rightarrow> operation list" where
  "filteredOperations lower st =
     (let keyword = lower (trim (operationSearch st)) in
      if keyword = [] then operations st
      else filter (\<lambda>op. str_includes (searchable_text lower [op_description op, mode_name (op_mode op),
        op_path op, op_from op, op_to op, op_value_text op]) keyword) (operations st))"

definition selectedOperation :: "modal \<Rightarrow> operation option" where
  "selectedOperation st = find (\<lambda>op. op_id op = selectedOperationId st) (operations st)"

definition selectedOperationIndex :: "modal \<Rightarrow> int" where
  "selectedOperationIndex st =
     (case find_index (\<lambda>op. op_id op = selectedOperationId st) (operations st) of None \<Rightarrow> -1 | Some i \<Rightarrow> int i)"

definition returnErrorDraft :: "modal \<Rightarrow> error_draft option" where
  "returnErrorDraft st =
     (case selectedOperation st of
        None \<Rightarrow> None
      | Some op \<Rightarrow> if op_mode op \<noteq> M_return_error then None else Some (parseReturnErrorDraft (op_value_text op)))"

text \<open>Rendering the draft takes fresh ids: the memo returns the draft and the next seed.\<close>

definition pruneObjectsDraft :: "(nat \<Rightarrow> int) \<Rightarrow> modal \<Rightarrow> prune_draft option \<times> nat" where
  "pruneObjectsDraft clock st =
     (case selectedOperation st of
        None \<Rightarrow> (None, localIdSeed st)
      | Some op \<Rightarrow>
          if op_mode op \<noteq> M_prune_objects then (None, localIdSeed st)
          else (let (draft, seed1) = parsePruneObjectsDraft clock (localIdSeed st) (op_value_text op)
                in (Some draft, seed1)))"

definition mode_counts :: "operation list \<Rightarrow> (jsstr, int) store" where
  "mode_counts ops = fold (\<lambda>op acc. let mode = mode_name (op_mode op) in
     put mode ((case get acc mode of None \<Rightarrow> 0 | Some n \<Rightarrow> n) + 1) acc) ops []"

definition topOperationModes :: "modal \<Rightarrow> (jsstr \<times> int) list" where
  "topOperationModes st = js_slice (js_sort (\<lambda>a b. snd b - snd a) (mode_counts (operations st))) 0 4"

section \<open>Texts\<close>

definition txt_override_json :: jsstr where "txt_override_json = [21442, 25968, 35206, 30422, 24517, 39035, 26159, 21512, 27861, 30340, 32, 74, 83, 79,
     78, 32, 26684, 24335, 65281]"
definition txt_override_object :: jsstr where "txt_override_object = [21442, 25968, 35206, 30422, 24517, 39035, 26159, 21512, 27861, 30340, 32, 74, 83, 79,
     78, 32, 23545, 35937]"
definition txt_legacy_object :: jsstr where "txt_legacy_object = [26087, 26684, 24335, 24517, 39035, 26159, 32, 74, 83, 79, 78, 32, 23545, 35937]"
definition txt_config_error :: jsstr where "txt_config_error = [21442, 25968, 37197, 32622, 26377, 35823]"
definition txt_append_json :: jsstr where "txt_append_json = [24403, 21069, 26087, 26684, 24335, 32, 74, 83, 79, 78, 32, 19981, 21512, 27861, 65292,
     26080, 27861, 36861, 21152, 27169, 26495]"
definition txt_append_object :: jsstr where "txt_append_object = [24403, 21069, 26087, 26684, 24335, 19981, 26159, 32, 74, 83, 79, 78, 32, 23545, 35937,
     65292, 26080, 27861, 36861, 21152, 27169, 26495]"
definition txt_select_first :: jsstr where "txt_select_first = [35831, 20808, 36873, 25321, 19968, 26465, 35268, 21017]"
definition txt_not_supported :: jsstr where "txt_not_supported = [24403, 21069, 35268, 21017, 19981, 25903, 25345, 20889, 20837, 21040, 35813, 20301,
     32622]"
definition txt_copied_field :: jsstr where "txt_copied_field = [24050, 22797, 21046, 23383, 27573, 65306, 123, 123, 110, 97, 109, 101, 125, 125]"
definition txt_copy_failed :: jsstr where "txt_copy_failed = [22797, 21046, 22833, 36133]"
definition txt_value_not_json :: jsstr where "txt_value_not_json = [24403, 21069, 20540, 19981, 26159, 21512, 27861, 32, 74, 83, 79, 78, 65292, 26080,
     27861, 26684, 24335, 21270]"
definition txt_json_formatted :: jsstr where "txt_json_formatted = [74, 83, 79, 78, 32, 24050, 26684, 24335, 21270]"
definition txt_json_error :: jsstr where "txt_json_error = [74, 83, 79, 78, 26684, 24335, 38169, 35823]"

section \<open>Visual and JSON mode\<close>

definition pretty :: "jsval \<Rightarrow> jsstr" where
  "pretty v = json_ser [32, 32] [] v"

definition buildVisualJson :: "translate \<Rightarrow> modal \<Rightarrow> jsstr + jsstr" where
  "buildVisualJson t st =
     (if visualMode st = Visual_legacy then
        (let trimmed = trim (legacyValue st) in
         if trimmed = [] then Inr []
         else
           (case json_parse trimmed of
              None \<Rightarrow> Inl (t txt_override_json [])
            | Some parsed \<Rightarrow> if \<not> plain_object parsed then Inl (t txt_legacy_object []) else Inr (pretty parsed)))
      else buildOperationsJson t True (operations st))"

definition switchToJsonMode :: "translate \<Rightarrow> modal \<Rightarrow> modal \<times> outcome list" where
  "switchToJsonMode t st =
     (if editMode st = Edit_json then (st, [])
      else
        (case buildVisualJson t st of
           Inr text' \<Rightarrow> (st\<lparr>jsonText := text', jsonError := [], editMode := Edit_json\<rparr>, [])
         | Inl message \<Rightarrow>
             (st\<lparr>jsonText := (if visualMode st = Visual_legacy then legacyValue st
                  else (case buildOperationsJson t False (operations st) of Inr text' \<Rightarrow> text' | Inl _ \<Rightarrow> jsonText st)),
                jsonError := (if message \<noteq> [] then message else t txt_config_error []),
                editMode := Edit_json\<rparr>, [Toast (ShowError message)])))"

definition set_default_operation :: "(nat \<Rightarrow> int) \<Rightarrow> modal \<Rightarrow> modal" where
  "set_default_operation clock st =
     (let (fallback, seed1) = createDefaultOperation clock (localIdSeed st)
      in st\<lparr>operations := [fallback], selectedOperationId := op_id fallback, localIdSeed := seed1\<rparr>)"

definition switchToVisualMode :: "translate \<Rightarrow> (nat \<Rightarrow> int) \<Rightarrow> modal \<Rightarrow> js_error + modal \<times> outcome list" where
  "switchToVisualMode t clock st =
     (if editMode st = Edit_visual then Inr (st, [])
      else
        (let trimmed = trim (jsonText st) in
         if trimmed = [] then
           Inr ((set_default_operation clock st)\<lparr>visualMode := Visual_operations, legacyValue := [], jsonError := [],
             editMode := Edit_visual\<rparr>, [])
         else
           (case json_parse trimmed of
              None \<Rightarrow> Inr (st, [Toast (ShowError (t txt_override_json []))])
            | Some parsed \<Rightarrow>
                (case operations_of parsed of
                   Some items \<Rightarrow>
                     (case load_operations clock (localIdSeed st) items of
                        Inl err \<Rightarrow> Inl err
                      | Inr (nextOperations, seed1) \<Rightarrow>
                          Inr (st\<lparr>visualMode := Visual_operations, operations := nextOperations,
                            selectedOperationId := first_id nextOperations, legacyValue := [], jsonError := [],
                            editMode := Edit_visual, templateGroupKey := G_basic,
                            templatePresetKey := js ''operations_default'', localIdSeed := seed1\<rparr>, []))
                 | None \<Rightarrow>
                     if plain_object parsed then
                       Inr ((set_default_operation clock st)\<lparr>visualMode := Visual_legacy, legacyValue := pretty parsed,
                         jsonError := [], editMode := Edit_visual, templateGroupKey := G_basic,
                         templatePresetKey := js ''legacy_default''\<rparr>, [])
                     else Inr (st, [Toast (ShowError (t txt_override_object []))])))))"

section \<open>Templates\<close>

definition fillLegacyTemplate :: "(nat \<Rightarrow> int) \<Rightarrow> jsval \<Rightarrow> modal \<Rightarrow> modal" where
  "fillLegacyTemplate clock legacyPayload st =
     (let text' = pretty legacyPayload
      in (set_default_operation clock st)\<lparr>visualMode := Visual_legacy, legacyValue := text',
           expandedConditionMap := [], jsonText := text', jsonError := [], editMode := Edit_visual\<rparr>)"

definition fillOperationsTemplate :: "(nat \<Rightarrow> int) \<Rightarrow> jsval list \<Rightarrow> modal \<Rightarrow> js_error + modal" where
  "fillOperationsTemplate clock operationsPayload st =
     (case load_operations clock (localIdSeed st) operationsPayload of
        Inl err \<Rightarrow> Inl err
      | Inr (finalOperations, seed1) \<Rightarrow>
          Inr (st\<lparr>visualMode := Visual_operations, operations := finalOperations,
            selectedOperationId := first_id finalOperations, expandedConditionMap := [],
            jsonText := pretty (Obj [(js ''operations'', Arr operationsPayload)]), jsonError := [],
            editMode := Edit_visual, localIdSeed := seed1\<rparr>))"

text \<open>\<open>{...a, ...b}\<close>\<close>

definition spread :: "jsval \<Rightarrow> jsval \<Rightarrow> jsval" where
  "spread a b =
     (case (a, b) of
        (Obj kvs, Obj kvs') \<Rightarrow> Obj (fold (\<lambda>(k, v). put k v) (own_order kvs') (own_order kvs))
      | (Obj kvs, _) \<Rightarrow> Obj (own_order kvs)
      | (_, Obj kvs') \<Rightarrow> Obj (own_order kvs')
      | _ \<Rightarrow> Obj [])"

text \<open>The object the legacy text holds now, or the message that stops the append.\<close>

definition legacy_current :: "translate \<Rightarrow> modal \<Rightarrow> jsstr + jsval" where
  "legacy_current t st =
     (if visualMode st = Visual_legacy \<and> trim (legacyValue st) \<noteq> [] then
        (case json_parse (trim (legacyValue st)) of
           None \<Rightarrow> Inl (t txt_append_json [])
         | Some parsed \<Rightarrow> if \<not> plain_object parsed then Inl (t txt_append_object []) else Inr parsed)
      else Inr (Obj []))"

definition appendLegacyTemplate :: "translate \<Rightarrow> (nat \<Rightarrow> int) \<Rightarrow> jsval \<Rightarrow> modal \<Rightarrow> modal \<times> outcome list" where
  "appendLegacyTemplate t clock legacyPayload st =
     (case legacy_current t st of
        Inl message \<Rightarrow> (st, [Toast (ShowError message)])
      | Inr parsedCurrent \<Rightarrow>
          (let text' = pretty (spread legacyPayload parsedCurrent)
           in ((set_default_operation clock st)\<lparr>visualMode := Visual_legacy, legacyValue := text',
                expandedConditionMap := [], jsonText := text', jsonError := [], editMode := Edit_visual\<rparr>, [])))"

definition appendOperationsTemplate :: "(nat \<Rightarrow> int) \<Rightarrow> jsval list \<Rightarrow> modal \<Rightarrow> js_error + modal" where
  "appendOperationsTemplate clock operationsPayload st =
     (case normalize_operations clock (localIdSeed st) operationsPayload of
        Inl err \<Rightarrow> Inl err
      | Inr (appended, seed1) \<Rightarrow>
          (let existing = (if visualMode st = Visual_operations
                 then filter (\<lambda>op. \<not> isOperationBlank op) (operations st) else []);
               nextOperations = existing @ appended
           in Inr (st\<lparr>visualMode := Visual_operations, operations := nextOperations,
                selectedOperationId := first_id nextOperations, expandedConditionMap := [], legacyValue := [],
                jsonError := [], editMode := Edit_visual, jsonText := [], localIdSeed := seed1\<rparr>)))"

definition clearValue :: "(nat \<Rightarrow> int) \<Rightarrow> modal \<Rightarrow> modal" where
  "clearValue clock st =
     (set_default_operation clock st)\<lparr>visualMode := Visual_operations, legacyValue := [], expandedConditionMap := [],
       jsonText := [], jsonError := [], templateGroupKey := G_basic, templatePresetKey := js ''operations_default''\<rparr>"

definition getSelectedTemplatePreset :: "modal \<Rightarrow> preset" where
  "getSelectedTemplatePreset st =
     (case get TEMPLATE_PRESET_CONFIG (templatePresetKey st) of
        Some config \<Rightarrow> config
      | None \<Rightarrow> snd (hd TEMPLATE_PRESET_CONFIG))"

definition payload_operations :: "jsval \<Rightarrow> jsval list" where
  "payload_operations v = (case own_prop v (js ''operations'') of Arr items \<Rightarrow> items | _ \<Rightarrow> [])"

definition fillTemplateFromLibrary :: "(nat \<Rightarrow> int) \<Rightarrow> modal \<Rightarrow> js_error + modal" where
  "fillTemplateFromLibrary clock st =
     (let preset = getSelectedTemplatePreset st in
      if p_kind preset = K_legacy then Inr (fillLegacyTemplate clock (p_payload preset) st)
      else fillOperationsTemplate clock (payload_operations (p_payload preset)) st)"

definition appendTemplateFromLibrary :: "translate \<Rightarrow> (nat \<Rightarrow> int) \<Rightarrow> modal \<Rightarrow> js_error + modal \<times> outcome list" where
  "appendTemplateFromLibrary t clock st =
     (let preset = getSelectedTemplatePreset st in
      if p_kind preset = K_legacy then Inr (appendLegacyTemplate t clock (p_payload preset) st)
      else (case appendOperationsTemplate clock (payload_operations (p_payload preset)) st of
              Inl err \<Rightarrow> Inl err | Inr st' \<Rightarrow> Inr (st', [])))"

definition resetEditorState :: "(nat \<Rightarrow> int) \<Rightarrow> modal \<Rightarrow> modal" where
  "resetEditorState clock st = (clearValue clock st)\<lparr>editMode := Edit_visual\<rparr>"

section \<open>Operations\<close>

datatype op_patch = Op_mode op_mode | Op_path jsstr | Op_description jsstr | Op_value_text jsstr
  | Op_keep_origin bool | Op_from jsstr | Op_to jsstr | Op_endpoints jsstr jsstr | Op_logic logic

fun patch_operation :: "op_patch \<Rightarrow> operation \<Rightarrow> operation" where
  "patch_operation (Op_mode m) op = op\<lparr>op_mode := m\<rparr>"
| "patch_operation (Op_path s) op = op\<lparr>op_path := s\<rparr>"
| "patch_operation (Op_description s) op = op\<lparr>op_description := s\<rparr>"
| "patch_operation (Op_value_text s) op = op\<lparr>op_value_text := s\<rparr>"
| "patch_operation (Op_keep_origin b) op = op\<lparr>op_keep_origin := b\<rparr>"
| "patch_operation (Op_from s) op = op\<lparr>op_from := s\<rparr>"
| "patch_operation (Op_to s) op = op\<lparr>op_to := s\<rparr>"
| "patch_operation (Op_endpoints s s') op = op\<lparr>op_from := s, op_to := s'\<rparr>"
| "patch_operation (Op_logic l) op = op\<lparr>op_logic := l\<rparr>"

definition updateOperation :: "jsstr \<Rightarrow> op_patch \<Rightarrow> modal \<Rightarrow> modal" where
  "updateOperation operationId patch st =
     st\<lparr>operations := map (\<lambda>op. if op_id op = operationId then patch_operation patch op else op) (operations st)\<rparr>"

definition applyBuiltinField :: "translate \<Rightarrow> jsstr \<Rightarrow> guide_target \<Rightarrow> modal \<Rightarrow> modal \<times> outcome list" where
  "applyBuiltinField t fieldKey target st =
     (case selectedOperation st of
        None \<Rightarrow> (st, [Toast (ShowError (t txt_select_first []))])
      | Some op \<Rightarrow>
          (let mode = op_mode op; meta = MODE_META mode;
               spec = (if mode = M_sync_fields then buildSyncTargetSpec Sync_json fieldKey else fieldKey)
           in if target = Target_path \<and> (m_path meta \<or> m_pathOptional meta \<or> m_pathAlias meta)
              then (updateOperation (op_id op) (Op_path fieldKey) st, [])
              else if target = Target_from \<and> (m_from meta \<or> m_pathAlias meta \<or> mode = M_sync_fields)
              then (updateOperation (op_id op) (Op_from spec) st, [])
              else if target = Target_to \<and> (m_to meta \<or> mode = M_sync_fields)
              then (updateOperation (op_id op) (Op_to spec) st, [])
              else (st, [Toast (ShowError (t txt_not_supported []))])))"

definition openFieldGuide :: "guide_target \<Rightarrow> modal \<Rightarrow> modal" where
  "openFieldGuide target st = st\<lparr>fieldGuideTarget := target, fieldGuideVisible := True\<rparr>"

text \<open>\<open>copy\<close> is the clipboard helper of the page.\<close>

definition copyBuiltinField :: "translate \<Rightarrow> (jsstr \<Rightarrow> bool) \<Rightarrow> jsstr \<Rightarrow> outcome list" where
  "copyBuiltinField t copy fieldKey =
     (if copy fieldKey then [Toast (ShowSuccess (t txt_copied_field [(js ''name'', Str fieldKey)]))]
      else [Toast (ShowError (t txt_copy_failed []))])"

definition filteredFieldGuideSections :: "(jsstr \<Rightarrow> jsstr) \<Rightarrow> modal \<Rightarrow> guide_section list" where
  "filteredFieldGuideSections lower st =
     (let keyword = lower (trim (fieldGuideKeyword st)) in
      if keyword = [] then BUILTIN_FIELD_SECTIONS
      else filter (\<lambda>s. length (fs_fields s) > 0)
        (map (\<lambda>s. s\<lparr>fs_fields := filter (\<lambda>f. str_includes (searchable_text lower [f_key f, f_label f, f_tip f]) keyword)
           (fs_fields s)\<rparr>) BUILTIN_FIELD_SECTIONS))"

definition fieldGuideFieldCount :: "(jsstr \<Rightarrow> jsstr) \<Rightarrow> modal \<Rightarrow> nat" where
  "fieldGuideFieldCount lower st =
     foldl (\<lambda>total s. total + length (fs_fields s)) 0 (filteredFieldGuideSections lower st)"

definition formatSelectedOperationValueAsJson :: "translate \<Rightarrow> modal \<Rightarrow> modal \<times> outcome list" where
  "formatSelectedOperationValueAsJson t st =
     (case selectedOperation st of
        None \<Rightarrow> (st, [])
      | Some op \<Rightarrow>
          (let raw = trim (op_value_text op) in
           if raw = [] then (st, [])
           else
             (case json_parse raw of
                None \<Rightarrow> (st, [Toast (ShowError (t txt_value_not_json []))])
              | Some v \<Rightarrow> (updateOperation (op_id op) (Op_value_text (pretty v)) st,
                  [Toast (ShowSuccess (t txt_json_formatted []))]))))"

section \<open>Value drafts\<close>

datatype error_patch = Err_simpleMode bool | Err_message jsstr | Err_statusCode jsval | Err_code jsstr
  | Err_type jsstr | Err_skipRetry bool | Err_preset jsval jsstr jsstr

fun patch_error :: "error_patch \<Rightarrow> error_draft \<Rightarrow> error_draft" where
  "patch_error (Err_simpleMode b) d = d\<lparr>e_simpleMode := b\<rparr>"
| "patch_error (Err_message s) d = d\<lparr>e_message := s\<rparr>"
| "patch_error (Err_statusCode v) d = d\<lparr>e_statusCode := v\<rparr>"
| "patch_error (Err_code s) d = d\<lparr>e_code := s\<rparr>"
| "patch_error (Err_type s) d = d\<lparr>e_type := s\<rparr>"
| "patch_error (Err_skipRetry b) d = d\<lparr>e_skipRetry := b\<rparr>"
| "patch_error (Err_preset v s s') d = d\<lparr>e_statusCode := v, e_code := s, e_type := s'\<rparr>"

definition updateReturnErrorDraft :: "jsstr \<Rightarrow> error_patch \<Rightarrow> modal \<Rightarrow> modal" where
  "updateReturnErrorDraft operationId draftPatch st =
     (case find (\<lambda>op. op_id op = operationId) (operations st) of
        None \<Rightarrow> st
      | Some current \<Rightarrow>
          (let nextDraft = patch_error draftPatch (parseReturnErrorDraft (op_value_text current))
           in updateOperation operationId (Op_value_text (buildReturnErrorValueText nextDraft)) st))"

text \<open>
  \<open>updatePruneObjectsDraft\<close> with an updater that may take ids: the updater maps the seed and the parsed
  draft to the next draft and seed.  A patch object is the updater that sets the fields.
\<close>

definition updatePruneObjectsDraft ::
  "(nat \<Rightarrow> int) \<Rightarrow> jsstr \<Rightarrow> (nat \<Rightarrow> prune_draft \<Rightarrow> prune_draft \<times> nat) \<Rightarrow> modal \<Rightarrow> modal" where
  "updatePruneObjectsDraft clock operationId updater st =
     (case find (\<lambda>op. op_id op = operationId) (operations st) of
        None \<Rightarrow> st
      | Some current \<Rightarrow>
          (let (draft, seed1) = parsePruneObjectsDraft clock (localIdSeed st) (op_value_text current);
               (nextDraft, seed2) = updater seed1 draft
           in (updateOperation operationId (Op_value_text (buildPruneObjectsValueText nextDraft)) st)\<lparr>localIdSeed := seed2\<rparr>))"

datatype prune_patch = Prune_simpleMode bool | Prune_typeText jsstr | Prune_logic logic | Prune_recursive bool

fun patch_prune :: "prune_patch \<Rightarrow> nat \<Rightarrow> prune_draft \<Rightarrow> prune_draft \<times> nat" where
  "patch_prune (Prune_simpleMode b) seed d = (d\<lparr>pd_simpleMode := b\<rparr>, seed)"
| "patch_prune (Prune_typeText s) seed d = (d\<lparr>pd_typeText := s\<rparr>, seed)"
| "patch_prune (Prune_logic l) seed d = (d\<lparr>pd_logic := l\<rparr>, seed)"
| "patch_prune (Prune_recursive b) seed d = (d\<lparr>pd_recursive := b\<rparr>, seed)"

datatype cond_patch = Cond_path jsstr | Cond_mode cond_mode | Cond_value_text jsstr | Cond_invert bool
  | Cond_pass_missing_key bool

fun patch_condition :: "cond_patch \<Rightarrow> condition \<Rightarrow> condition" where
  "patch_condition (Cond_path s) c = c\<lparr>c_path := s\<rparr>"
| "patch_condition (Cond_mode m) c = c\<lparr>c_mode := m\<rparr>"
| "patch_condition (Cond_value_text s) c = c\<lparr>c_value_text := s\<rparr>"
| "patch_condition (Cond_invert b) c = c\<lparr>c_invert := b\<rparr>"
| "patch_condition (Cond_pass_missing_key b) c = c\<lparr>c_pass_missing_key := b\<rparr>"

definition patch_conditions :: "jsstr \<Rightarrow> cond_patch \<Rightarrow> condition list \<Rightarrow> condition list" where
  "patch_conditions cid patch cs = map (\<lambda>c. if c_id c = cid then patch_condition patch c else c) cs"

definition addPruneRule :: "(nat \<Rightarrow> int) \<Rightarrow> jsstr \<Rightarrow> modal \<Rightarrow> modal" where
  "addPruneRule clock operationId =
     updatePruneObjectsDraft clock operationId (\<lambda>seed draft.
       let (rule, seed1) = normalizePruneRule clock seed (Obj [])
       in (draft\<lparr>pd_simpleMode := False, pd_rules := pd_rules draft @ [rule]\<rparr>, seed1))"

definition updatePruneRule :: "(nat \<Rightarrow> int) \<Rightarrow> jsstr \<Rightarrow> jsstr \<Rightarrow> cond_patch \<Rightarrow> modal \<Rightarrow> modal" where
  "updatePruneRule clock operationId ruleId patch =
     updatePruneObjectsDraft clock operationId (\<lambda>seed draft.
       (draft\<lparr>pd_rules := patch_conditions ruleId patch (pd_rules draft)\<rparr>, seed))"

definition removePruneRule :: "(nat \<Rightarrow> int) \<Rightarrow> jsstr \<Rightarrow> jsstr \<Rightarrow> modal \<Rightarrow> modal" where
  "removePruneRule clock operationId ruleId =
     updatePruneObjectsDraft clock operationId (\<lambda>seed draft.
       (draft\<lparr>pd_rules := filter (\<lambda>rule. c_id rule \<noteq> ruleId) (pd_rules draft)\<rparr>, seed))"

section \<open>The list of operations\<close>

definition addOperation :: "(nat \<Rightarrow> int) \<Rightarrow> modal \<Rightarrow> modal" where
  "addOperation clock st =
     (let (created, seed1) = createDefaultOperation clock (localIdSeed st)
      in st\<lparr>operations := operations st @ [created], selectedOperationId := op_id created, localIdSeed := seed1\<rparr>)"

definition resetOperationDragState :: "modal \<Rightarrow> modal" where
  "resetOperationDragState st = st\<lparr>draggedOperationId := [], dragOverOperationId := [], dragOverPosition := Before\<rparr>"

definition moveOperation :: "jsstr \<Rightarrow> jsstr \<Rightarrow> drop_position \<Rightarrow> modal \<Rightarrow> modal" where
  "moveOperation sourceId targetId position st =
     (if sourceId = [] \<or> targetId = [] \<or> sourceId = targetId then st
      else st\<lparr>operations := reorderOperations (operations st) sourceId targetId position,
        selectedOperationId := sourceId\<rparr>)"

definition handleOperationDragStart :: "jsstr \<Rightarrow> modal \<Rightarrow> modal" where
  "handleOperationDragStart operationId st =
     st\<lparr>draggedOperationId := operationId, selectedOperationId := operationId\<rparr>"

text \<open>\<open>lower_half\<close>: the pointer is below the middle of the row.\<close>

definition handleOperationDragOver :: "jsstr \<Rightarrow> bool \<Rightarrow> modal \<Rightarrow> modal" where
  "handleOperationDragOver operationId lower_half st =
     (if draggedOperationId st = [] \<or> draggedOperationId st = operationId then st
      else st\<lparr>dragOverOperationId := operationId, dragOverPosition := (if lower_half then After else Before)\<rparr>)"

text \<open>\<open>transferred\<close>: the text the drag event carries.\<close>

definition handleOperationDrop :: "jsstr \<Rightarrow> jsstr \<Rightarrow> modal \<Rightarrow> modal" where
  "handleOperationDrop transferred operationId st =
     (let sourceId = (if draggedOperationId st \<noteq> [] then draggedOperationId st else transferred);
          position = (if dragOverOperationId st = operationId then dragOverPosition st else Before)
      in resetOperationDragState (moveOperation sourceId operationId position st))"

definition condition_source :: "condition \<Rightarrow> jsval" where
  "condition_source c =
     Obj [(js ''path'', Str (c_path c)), (js ''mode'', Str (cond_mode_name (c_mode c))),
       (js ''value'', parseLooseValue (c_value_text c)), (js ''invert'', Bool (c_invert c)),
       (js ''pass_missing_key'', Bool (c_pass_missing_key c))]"

definition operation_source :: "operation \<Rightarrow> jsval" where
  "operation_source op =
     Obj [(js ''description'', Str (op_description op)), (js ''path'', Str (op_path op)),
       (js ''mode'', Str (mode_name (op_mode op))), (js ''value'', parseLooseValue (op_value_text op)),
       (js ''keep_origin'', Bool (op_keep_origin op)), (js ''from'', Str (op_from op)), (js ''to'', Str (op_to op)),
       (js ''logic'', Str (logic_name (op_logic op))),
       (js ''conditions'', Arr (map condition_source (op_conditions op)))]"

text \<open>
  The id of the copy is assigned inside the updater passed to \<open>setOperations\<close>.  React runs the updater
  at once when no update is pending (\<open>eager\<close>), otherwise with the next render, when the selection has
  already been skipped.
\<close>

definition duplicateOperation :: "(nat \<Rightarrow> int) \<Rightarrow> bool \<Rightarrow> jsstr \<Rightarrow> modal \<Rightarrow> js_error + modal" where
  "duplicateOperation clock eager operationId st =
     (case find_index (\<lambda>op. op_id op = operationId) (operations st) of
        None \<Rightarrow> Inr st
      | Some index \<Rightarrow>
          (case normalizeOperation clock (localIdSeed st) (operation_source (operations st ! index)) of
             Inl err \<Rightarrow> Inl err
           | Inr (cloned, seed1) \<Rightarrow>
               Inr (st\<lparr>operations := take (index + 1) (operations st) @ [cloned] @ drop (index + 1) (operations st),
                 selectedOperationId := (if eager then op_id cloned else selectedOperationId st),
                 localIdSeed := seed1\<rparr>)))"

definition removeOperation :: "(nat \<Rightarrow> int) \<Rightarrow> jsstr \<Rightarrow> modal \<Rightarrow> modal" where
  "removeOperation clock operationId st =
     (let (fallback, seed1) = createDefaultOperation clock (localIdSeed st);
          st' = (if length (operations st) \<le> 1 then st\<lparr>operations := [fallback], localIdSeed := seed1\<rparr>
            else st\<lparr>operations := filter (\<lambda>op. op_id op \<noteq> operationId) (operations st)\<rparr>)
      in st'\<lparr>expandedConditionMap := del operationId (expandedConditionMap st)\<rparr>)"

section \<open>Conditions\<close>

definition expanded :: "modal \<Rightarrow> jsstr \<Rightarrow> jsstr list" where
  "expanded st operationId = (case get (expandedConditionMap st) operationId of None \<Rightarrow> [] | Some ids \<Rightarrow> ids)"

definition update_conditions :: "jsstr \<Rightarrow> (condition list \<Rightarrow> condition list) \<Rightarrow> modal \<Rightarrow> modal" where
  "update_conditions operationId f st =
     st\<lparr>operations := map (\<lambda>op. if op_id op = operationId then op\<lparr>op_conditions := f (op_conditions op)\<rparr> else op)
       (operations st)\<rparr>"

definition addCondition :: "(nat \<Rightarrow> int) \<Rightarrow> jsstr \<Rightarrow> modal \<Rightarrow> modal" where
  "addCondition clock operationId st =
     (let (createdCondition, seed1) = createDefaultCondition clock (localIdSeed st)
      in (update_conditions operationId (\<lambda>cs. cs @ [createdCondition]) st)\<lparr>
           expandedConditionMap := put operationId (expanded st operationId @ [c_id createdCondition])
             (expandedConditionMap st),
           localIdSeed := seed1\<rparr>)"

definition updateCondition :: "jsstr \<Rightarrow> jsstr \<Rightarrow> cond_patch \<Rightarrow> modal \<Rightarrow> modal" where
  "updateCondition operationId conditionId patch = update_conditions operationId (patch_conditions conditionId patch)"

definition removeCondition :: "jsstr \<Rightarrow> jsstr \<Rightarrow> modal \<Rightarrow> modal" where
  "removeCondition operationId conditionId st =
     (update_conditions operationId (filter (\<lambda>c. c_id c \<noteq> conditionId)) st)\<lparr>
       expandedConditionMap := put operationId (filter (\<lambda>i. i \<noteq> conditionId) (expanded st operationId))
         (expandedConditionMap st)\<rparr>"

definition selectedConditionKeys :: "modal \<Rightarrow> jsstr list" where
  "selectedConditionKeys st = expanded st (selectedOperationId st)"

definition handleConditionCollapseChange :: "jsstr \<Rightarrow> jsstr list \<Rightarrow> modal \<Rightarrow> modal" where
  "handleConditionCollapseChange operationId activeKeys st =
     st\<lparr>expandedConditionMap := put operationId (filter (\<lambda>i. i \<noteq> []) activeKeys) (expandedConditionMap st)\<rparr>"

definition expandAllSelectedConditions :: "modal \<Rightarrow> modal" where
  "expandAllSelectedConditions st =
     (case selectedOperation st of
        None \<Rightarrow> st
      | Some op \<Rightarrow>
          if selectedOperationId st = [] then st
          else st\<lparr>expandedConditionMap := put (selectedOperationId st) (map c_id (op_conditions op))
            (expandedConditionMap st)\<rparr>)"

definition collapseAllSelectedConditions :: "modal \<Rightarrow> modal" where
  "collapseAllSelectedConditions st =
     (if selectedOperationId st = [] then st
      else st\<lparr>expandedConditionMap := put (selectedOperationId st) [] (expandedConditionMap st)\<rparr>)"

section \<open>JSON text and saving\<close>

definition handleJsonChange :: "translate \<Rightarrow> jsstr \<Rightarrow> modal \<Rightarrow> modal" where
  "handleJsonChange t nextValue st =
     (let trimmed = trim nextValue in
      st\<lparr>jsonText := nextValue,
        jsonError := (if trimmed = [] then [] else if \<not> verifyJSON trimmed then t txt_json_error [] else [])\<rparr>)"

definition formatJson :: "translate \<Rightarrow> modal \<Rightarrow> modal \<times> outcome list" where
  "formatJson t st =
     (let trimmed = trim (jsonText st) in
      if trimmed = [] then (st, [])
      else
        (case json_parse trimmed of
           None \<Rightarrow> (st, [Toast (ShowError (t txt_override_json []))])
         | Some v \<Rightarrow> (st\<lparr>jsonText := pretty v, jsonError := []\<rparr>, [])))"

definition visualValidationError :: "translate \<Rightarrow> modal \<Rightarrow> jsstr" where
  "visualValidationError t st =
     (if editMode st \<noteq> Edit_visual then []
      else
        (case buildVisualJson t st of
           Inr _ \<Rightarrow> []
         | Inl message \<Rightarrow> if message \<noteq> [] then message else t txt_config_error []))"

definition handleSave :: "translate \<Rightarrow> modal \<Rightarrow> outcome list" where
  "handleSave t st =
     (let result =
        (if editMode st = Edit_json then
           (let trimmed = trim (jsonText st) in
            if trimmed = [] then Inr []
            else (case json_parse trimmed of None \<Rightarrow> Inl (t txt_override_json []) | Some v \<Rightarrow> Inr (pretty v)))
         else buildVisualJson t st)
      in case result of Inr text' \<Rightarrow> [Saved text'] | Inl message \<Rightarrow> [Toast (ShowError message)])"

end
