(* ===== verification/Param_Roundtrip.thy ===== *)
theory Param_Roundtrip
  imports Param_Payload
begin

text \<open>
  What the parameter override editor writes is what it reads: the fields of a payload, the
  operation that loading it gives, and the text that saving this operation again gives.
\<close>

section \<open>Payloads\<close>

lemma createDefaultOperation_eq:
  "normalizeOperation clock seed (Obj [(js ''mode'', Str (js ''set''))]) = Inr (createDefaultOperation clock seed)"
  by (simp add: normalizeOperation_def createDefaultOperation_def default_operation_def nextLocalId_eq Let_def
      own_prop_def get_def string_or_empty_def toValueText_def mode_or_set_def OPERATION_MODES_def
      js_or_def truthy_def ascii_upper_def) (simp add: js_def)

lemma mode_or_set_name [simp]: "mode_or_set (Str (mode_name m)) = m"
  by (cases m) (simp_all add: mode_or_set_def OPERATION_MODES_def js_def)

lemma cond_mode_or_full_name [simp]: "cond_mode_or_full (Str (cond_mode_name m)) = m"
  by (cases m) (simp_all add: cond_mode_or_full_def CONDITION_MODES_def js_def)

lemma get_assign_if: "get (assign_if b k v p) (js k') = (if b \<and> k' = k then Some v else get p (js k'))"
  by (simp add: assign_if_def get_put)

lemma assign_if_False: "assign_if False k v p = p"
  by (simp add: assign_if_def)

lemma put_same [simp]: "put k v (put k u p) = put k v p"
  by (induction k u p rule: put.induct) auto

lemma put_over: "k \<noteq> k' \<Longrightarrow> put k v (put k' w (put k u p)) = put k' w (put k v p)"
  by (induction k u p rule: put.induct) auto

lemma wf_assign_if: "wf_store p \<Longrightarrow> wf_store (assign_if b k v p)"
  by (simp add: assign_if_def wf_store_put)

definition prop_or_undef :: "(jsstr \<times> jsval) list \<Rightarrow> jsstr \<Rightarrow> jsval" where
  "prop_or_undef p k = (case get p k of None \<Rightarrow> Undef | Some v \<Rightarrow> v)"

lemma own_prop_Obj: "own_prop (Obj p) k = prop_or_undef p k"
  by (simp add: own_prop_def prop_or_undef_def)

lemma prop_assign_if: "prop_or_undef (assign_if b k v p) (js k') = (if b \<and> k' = k then v else prop_or_undef p (js k'))"
  by (simp add: prop_or_undef_def get_assign_if)

lemma prop_single: "prop_or_undef [(js k, v)] (js k') = (if k' = k then v else Undef)"
  by (simp add: prop_or_undef_def get_def)


lemma alias_meta: "m_pathAlias (MODE_META m) \<Longrightarrow> m_from (MODE_META m) \<and> m_to (MODE_META m) \<and> \<not> m_path (MODE_META m)"
  by (cases m) (simp_all add: no_meta_def)

lemma optional_meta: "m_pathOptional (MODE_META m) \<Longrightarrow> \<not> m_path (MODE_META m)"
  by (cases m) (simp_all add: no_meta_def)

definition uses_path :: "operation \<Rightarrow> bool" where
  "uses_path op \<longleftrightarrow> m_path (MODE_META (op_mode op)) \<or> m_pathOptional (MODE_META (op_mode op)) \<and> trim (op_path op) \<noteq> []"

definition alias_or :: "operation \<Rightarrow> jsstr \<Rightarrow> jsstr" where
  "alias_or op s = (if m_pathAlias (MODE_META (op_mode op)) \<and> trim s = [] then trim (op_path op) else trim s)"

lemma truthy_Str [simp]: "truthy (Str s) \<longleftrightarrow> s \<noteq> []" and truthy_Undef [simp]: "\<not> truthy Undef"
  by (simp_all add: truthy_def)

text \<open>The properties of a payload.\<close>

lemma payload_fields:
  fixes op
  defines "field \<equiv> own_prop (operation_payload op)" and "meta \<equiv> MODE_META (op_mode op)"
    and "conds \<equiv> List.map_filter buildConditionPayload (op_conditions op)"
  shows "field (js ''mode'') = Str (mode_name (op_mode op))"
    "field (js ''description'') = (if trim (op_description op) \<noteq> [] then Str (trim (op_description op)) else Undef)"
    "field (js ''path'') = (if uses_path op then Str (trim (op_path op)) else Undef)"
    "field (js ''value'') = (if m_value meta then parseLooseValue (op_value_text op) else Undef)"
    "field (js ''keep_origin'') = (if m_keepOrigin meta \<and> op_keep_origin op then Bool True else Undef)"
    "field (js ''from'') = (if m_from meta then Str (alias_or op (op_from op)) else Undef)"
    "field (js ''to'') = (if m_to meta \<or> trim (op_to op) \<noteq> [] then Str (alias_or op (op_to op)) else Undef)"
    "field (js ''conditions'') = (if conds \<noteq> [] then Arr conds else Undef)"
    "field (js ''logic'') = (if conds \<noteq> [] then Str (logic_name (op_logic op)) else Undef)"
  unfolding field_def meta_def conds_def operation_payload_def Let_def own_prop_Obj falsy_at_def
  using alias_meta [of "op_mode op"] optional_meta [of "op_mode op"]
  by (auto simp: prop_assign_if prop_single uses_path_def alias_or_def)


section \<open>Loading a payload\<close>

text \<open>A text whose value keeps its text: see \<open>loose_value_iff\<close>.\<close>

definition stable_text :: "jsstr \<Rightarrow> bool" where
  "stable_text s \<longleftrightarrow> json_canon (parseLooseValue s) \<and> parseLooseValue (toValueText (parseLooseValue s)) = parseLooseValue s"

lemma condition_back:
  assumes "buildConditionPayload c = Some v" "stable_text (c_value_text c)"
  shows "\<exists>c'. normalizeCondition clock seed v = Inr (c', Suc seed) \<and> buildConditionPayload c' = Some v"
    "json_canon v"
proof -
  define kvs where "kvs = [(js ''path'', Str (trim (c_path c))), (js ''mode'', Str (cond_mode_name (c_mode c))),
      (js ''value'', parseLooseValue (c_value_text c))]
    @ (if c_invert c then [(js ''invert'', Bool True)] else [])
    @ (if c_pass_missing_key c then [(js ''pass_missing_key'', Bool True)] else [])"
  have v: "v = Obj kvs" "trim (c_path c) \<noteq> []"
    using assms(1) by (auto simp: buildConditionPayload_def kvs_def Let_def split: if_splits)
  have f: "own_prop v (js ''path'') = Str (trim (c_path c))" "own_prop v (js ''mode'') = Str (cond_mode_name (c_mode c))"
    "own_prop v (js ''value'') = parseLooseValue (c_value_text c)"
    "own_prop v (js ''invert'') = (if c_invert c then Bool True else Undef)"
    "own_prop v (js ''pass_missing_key'') = (if c_pass_missing_key c then Bool True else Undef)"
    by (simp_all add: v(1) own_prop_def get_def kvs_def)
  have nn: "v \<noteq> Null" by (simp add: v(1))
  define c' where "c' = \<lparr>c_id = local_id clock seed, c_path = trim (c_path c), c_mode = c_mode c,
    c_value_text = toValueText (parseLooseValue (c_value_text c)), c_invert = c_invert c,
    c_pass_missing_key = c_pass_missing_key c\<rparr>"
  have "normalizeCondition clock seed v = Inr (c', Suc seed)"
    using nn by (simp add: normalizeCondition_def normalize_fields_def nextLocalId_eq f string_or_empty_def c'_def)
  moreover have "buildConditionPayload c' = Some v"
    using assms v(2) by (simp add: buildConditionPayload_def c'_def stable_text_def Let_def)
  ultimately show "\<exists>c'. normalizeCondition clock seed v = Inr (c', Suc seed) \<and> buildConditionPayload c' = Some v"
    by blast
  have "own_order kvs = kvs" by (rule own_order_id) (auto simp: kvs_def js_def)
  then show "json_canon v" using assms(2) unfolding v(1) by (auto simp: kvs_def stable_text_def)
qed

lemma map_filter_Cons: "List.map_filter f (x # xs) = (case f x of None \<Rightarrow> List.map_filter f xs | Some y \<Rightarrow> y # List.map_filter f xs)"
  by (simp add: List.map_filter_def split: option.splits)

lemma map_filter_Nil: "List.map_filter f [] = []"
  by (simp add: List.map_filter_def)

lemma conditions_back:
  assumes "\<forall>c \<in> set cs. stable_text (c_value_text c)"
  shows "\<exists>cs' seed'. normalize_conditions clock seed (List.map_filter buildConditionPayload cs) = Inr (cs', seed') \<and>
    List.map_filter buildConditionPayload cs' = List.map_filter buildConditionPayload cs"
  using assms
proof (induction cs arbitrary: seed)
  case Nil
  then show ?case by (simp add: map_filter_Nil)
next
  case (Cons c cs)
  show ?case
  proof (cases "buildConditionPayload c")
    case None
    then show ?thesis using Cons by (simp add: map_filter_Cons)
  next
    case (Some v)
    obtain c' where c': "normalizeCondition clock seed v = Inr (c', Suc seed)" "buildConditionPayload c' = Some v"
      using condition_back(1) [OF Some, of clock seed] Cons.prems by auto
    obtain cs' seed' where "normalize_conditions clock (Suc seed) (List.map_filter buildConditionPayload cs) = Inr (cs', seed')"
      "List.map_filter buildConditionPayload cs' = List.map_filter buildConditionPayload cs"
      using Cons.IH [of "Suc seed"] Cons.prems by auto
    then show ?thesis using Some c' by (auto simp: map_filter_Cons intro!: exI [of _ "c' # cs'"])
  qed
qed

definition stable_op :: "operation \<Rightarrow> bool" where
  "stable_op op \<longleftrightarrow> stable_text (op_value_text op) \<and> list_all (\<lambda>c. stable_text (c_value_text c)) (op_conditions op)"

text \<open>Two operations with the same visible fields have the same payload.\<close>

lemma operation_payload_cong:
  assumes "op_mode op' = op_mode op" "op_description op' = trim (op_description op)"
    "op_path op' = (if uses_path op then trim (op_path op) else [])"
    "m_value (MODE_META (op_mode op)) \<longrightarrow> parseLooseValue (op_value_text op') = parseLooseValue (op_value_text op)"
    "op_keep_origin op' \<longleftrightarrow> m_keepOrigin (MODE_META (op_mode op)) \<and> op_keep_origin op"
    "op_from op' = (if m_from (MODE_META (op_mode op)) then alias_or op (op_from op) else [])"
    "op_to op' = (if m_to (MODE_META (op_mode op)) \<or> trim (op_to op) \<noteq> [] then alias_or op (op_to op) else [])"
    "List.map_filter buildConditionPayload (op_conditions op') = List.map_filter buildConditionPayload (op_conditions op)"
    "List.map_filter buildConditionPayload (op_conditions op) \<noteq> [] \<longrightarrow> op_logic op' = op_logic op"
  shows "operation_payload op' = operation_payload op"
proof -
  let ?cs = "List.map_filter buildConditionPayload (op_conditions op)"
  have tail: "assign_if (length ?cs > 0) ''logic'' (Str (logic_name (op_logic op'))) p =
      assign_if (length ?cs > 0) ''logic'' (Str (logic_name (op_logic op))) p" for p
    using assms(9) by (auto simp: assign_if_def)
  show ?thesis
    using assms(1-7) unfolding operation_payload_def Let_def assms(8) tail falsy_at_def own_prop_Obj
    by (cases "op_mode op")
      (simp_all add: no_meta_def uses_path_def alias_or_def assign_if_False prop_assign_if,
       simp_all add: assign_if_def put_over)
qed


lemma operation_back:
  assumes "stable_op op"
  obtains op' seed' where "normalizeOperation clock seed (operation_payload op) = Inr (op', seed')"
    "operation_payload op' = operation_payload op" "op_mode op' = op_mode op"
    "op_path op' = (if uses_path op then trim (op_path op) else [])"
proof -
  let ?v = "operation_payload op" and ?meta = "MODE_META (op_mode op)"
  let ?cs = "List.map_filter buildConditionPayload (op_conditions op)"
  have st: "\<forall>c \<in> set (op_conditions op). stable_text (c_value_text c)"
    "parseLooseValue (toValueText (parseLooseValue (op_value_text op))) = parseLooseValue (op_value_text op)"
    using assms by (auto simp: stable_op_def list_all_iff stable_text_def)
  obtain cs' seed' where cs': "normalize_conditions clock (Suc seed) ?cs = Inr (cs', seed')"
      "List.map_filter buildConditionPayload cs' = ?cs"
    using conditions_back [OF st(1), of clock "Suc seed"] by blast
  define cs2 where "cs2 = (if ?cs = [] then [] else cs')"
  define seed2 where "seed2 = (if ?cs = [] then Suc seed else seed')"
  have arr: "(case own_prop ?v (js ''conditions'') of Arr items \<Rightarrow> normalize_conditions clock (Suc seed) items
      | _ \<Rightarrow> Inr ([], Suc seed)) = Inr (cs2, seed2)"
    using cs'(1) by (simp add: payload_fields cs2_def seed2_def)
  have cs2: "List.map_filter buildConditionPayload cs2 = ?cs"
    using cs'(2) by (simp add: cs2_def map_filter_Nil)
  define op' where "op' = \<lparr>op_id = local_id clock seed,
      op_description = string_or_empty (own_prop ?v (js ''description'')),
      op_path = string_or_empty (own_prop ?v (js ''path'')), op_mode = mode_or_set (own_prop ?v (js ''mode'')),
      op_value_text = toValueText (own_prop ?v (js ''value'')),
      op_keep_origin = (own_prop ?v (js ''keep_origin'') = Bool True),
      op_from = string_or_empty (own_prop ?v (js ''from'')), op_to = string_or_empty (own_prop ?v (js ''to'')),
      op_logic = (if ascii_upper (to_str (js_or (own_prop ?v (js ''logic'')) (Str (js ''OR'')))) = js ''AND''
        then L_AND else L_OR),
      op_conditions = cs2\<rparr>"
  have nn: "?v \<noteq> Null" by (simp add: operation_payload_def Let_def)
  have norm: "normalizeOperation clock seed ?v = Inr (op', seed2)"
    using nn arr by (simp add: normalizeOperation_def nextLocalId_eq Let_def op'_def)
  have up: "ascii_upper (js ''AND'') = js ''AND''" "ascii_upper (js ''OR'') \<noteq> js ''AND''"
    by (simp_all add: ascii_upper_def js_def)
  have lg: "?cs \<noteq> [] \<longrightarrow> op_logic op' = op_logic op"
    by (cases "op_logic op") (auto simp: op'_def payload_fields js_or_def up)
  have same: "operation_payload op' = ?v"
    by (rule operation_payload_cong)
      (use st(2) lg cs2 in \<open>auto simp: op'_def payload_fields string_or_empty_def\<close>)
  show ?thesis
    by (rule that [OF norm same]) (simp_all add: op'_def payload_fields string_or_empty_def)
qed

lemma set_put_subset: "set (put k v p) \<subseteq> insert (k, v) (set p)"
  by (induction k v p rule: put.induct) auto

definition good_store :: "(jsstr \<times> jsval) list \<Rightarrow> bool" where
  "good_store p \<longleftrightarrow> wf_store p \<and> (\<forall>kv \<in> set p. \<not> is_index (fst kv) \<and> json_canon (snd kv))"

lemma assign_if_good:
  "\<lbrakk>good_store p; \<not> is_index (js k); b \<Longrightarrow> json_canon v\<rbrakk> \<Longrightarrow> good_store (assign_if b k v p)"
  using set_put_subset [of "js k" v p] by (auto simp: assign_if_def good_store_def wf_store_put)

lemma good_store_canon: "good_store p \<Longrightarrow> json_canon (Obj p)"
  using own_order_id [of p] by (auto simp: good_store_def wf_store_def keys_def)

lemma payload_canon:
  assumes "stable_op op"
  shows "json_canon (operation_payload op)"
proof -
  have v: "json_canon (parseLooseValue (op_value_text op))" using assms by (simp add: stable_op_def stable_text_def)
  have c: "json_canon (Arr (List.map_filter buildConditionPayload (op_conditions op)))"
    using assms condition_back(2) by (fastforce simp: stable_op_def list_all_iff List.map_filter_def)
  have k: "\<not> is_index (js ''mode'')" "\<not> is_index (js ''description'')" "\<not> is_index (js ''path'')"
    "\<not> is_index (js ''value'')" "\<not> is_index (js ''keep_origin'')" "\<not> is_index (js ''from'')"
    "\<not> is_index (js ''to'')" "\<not> is_index (js ''conditions'')" "\<not> is_index (js ''logic'')"
    by (simp_all add: js_def)
  have "good_store [(js ''mode'', Str (mode_name (op_mode op)))]"
    by (simp add: good_store_def wf_store_def keys_def k)
  then show ?thesis
    unfolding operation_payload_def Let_def
    by (intro good_store_canon assign_if_good) (simp_all add: v c k del: json_canon.simps(6))
qed


section \<open>Saving, opening and saving again\<close>

definition reloaded :: "operation \<Rightarrow> operation \<Rightarrow> bool" where
  "reloaded op op' \<longleftrightarrow> op_mode op' = op_mode op \<and> op_path op' = (if uses_path op then trim (op_path op) else [])"

lemma operations_back:
  assumes "list_all stable_op ops"
  shows "\<exists>ops' seed'. normalize_operations clock seed (map operation_payload ops) = Inr (ops', seed') \<and>
    map operation_payload ops' = map operation_payload ops \<and>
    list_all2 reloaded ops ops'"
  using assms
proof (induction ops arbitrary: seed)
  case Nil
  then show ?case by simp
next
  case (Cons op ops)
  then have "stable_op op" by simp
  then obtain op' seed' where op': "normalizeOperation clock seed (operation_payload op) = Inr (op', seed')"
    "operation_payload op' = operation_payload op" "op_mode op' = op_mode op"
    "op_path op' = (if uses_path op then trim (op_path op) else [])"
    by (rule operation_back)
  obtain ops' seed2 where "normalize_operations clock seed' (map operation_payload ops) = Inr (ops', seed2)"
    "map operation_payload ops' = map operation_payload ops"
    "list_all2 reloaded ops ops'"
    using Cons by force
  moreover have "reloaded op op'" using op' by (simp add: reloaded_def)
  ultimately show ?case using op' by (intro exI [of _ "op' # ops'"] exI [of _ seed2]) simp
qed

lemma validate_from_None:
  assumes "\<And>msg ps. t msg ps \<noteq> []"
  shows "validate_from t i ops = [] \<longleftrightarrow> list_all (\<lambda>op. validate_one op = None) ops"
  using assms by (induction ops arbitrary: i) (auto split: option.splits)

lemma valid_set_path: "\<lbrakk>validate_one op = None; op_mode op = M_set\<rbrakk> \<Longrightarrow> trim (op_path op) \<noteq> []"
  by (auto simp: validate_one_def Let_def no_meta_def)

lemma reloaded_not_blank:
  assumes "list_all2 reloaded ops ops'" "list_all (\<lambda>op. validate_one op = None) ops"
  shows "filter (\<lambda>op. \<not> isOperationBlank op) ops' = ops'"
proof -
  have nb: "\<not> isOperationBlank op'" if "reloaded op op'" "validate_one op = None" for op op'
    using that valid_set_path [of op] by (auto simp: isOperationBlank_def reloaded_def uses_path_def no_meta_def)
  from assms show ?thesis by (induction rule: list_all2_induct) (auto simp: nb)
qed

lemma operations_json_canon:
  "list_all stable_op ops \<Longrightarrow> json_canon (Obj [(js ''operations'', Arr (map operation_payload ops))])"
  using payload_canon by (auto simp: list_all_iff own_order_def js_def)

lemma operations_reload:
  assumes "\<And>msg ps. t msg ps \<noteq> []" "buildOperationsJson t True ops = Inr s" "s \<noteq> []" "list_all stable_op ops"
  obtains v items ops' seed' where "trim s = s" "json_parse s = Some v" "json_ser [32, 32] [] v = s"
    "operations_of v = Some items" "load_operations clock seed items = Inr (ops', seed')"
    "length ops' = length (filter (\<lambda>op. \<not> isOperationBlank op) ops)" "buildOperationsJson t False ops' = Inr s"
proof -
  define fops where "fops = filter (\<lambda>op. \<not> isOperationBlank op) ops"
  have b: "fops \<noteq> []" "validateOperations t fops = []" "s = operations_text fops"
    using assms(2,3) by (auto simp: buildOperationsJson_def fops_def Let_def split: if_splits)
  have st: "list_all stable_op fops" using assms(4) by (auto simp: fops_def list_all_iff)
  have val: "list_all (\<lambda>op. validate_one op = None) fops"
    using b(2) validate_from_None [OF assms(1), where i = 0] by (simp add: validateOperations_def)
  let ?v = "Obj [(js ''operations'', Arr (map operation_payload fops))]"
  have s: "s = json_ser [32, 32] [] ?v" using b(3) by (simp add: operations_text_def)
  have pj: "json_parse s = Some ?v" unfolding s
    by (rule json_parse_stringify [OF operations_json_canon [OF st]]) (simp add: json_ws_def)
  have tr: "trim s = s"
    using json_ser_Obj_hd [of "[32, 32]" "[]"] unfolding s by (auto intro!: trim_id simp: enclose_def is_ws_def)
  have it: "operations_of ?v = Some (map operation_payload fops)"
    by (simp add: operations_of_def plain_object_def own_prop_def get_def)
  obtain ops' seed' where ops': "normalize_operations clock seed (map operation_payload fops) = Inr (ops', seed')"
      "map operation_payload ops' = map operation_payload fops" "list_all2 reloaded fops ops'"
    using operations_back [OF st, of clock seed] by blast
  have len: "length ops' = length fops" using list_all2_lengthD [OF ops'(3)] by simp
  have "buildOperationsJson t False ops' = Inr s"
    using b(1) len ops'(2)
    by (auto simp: buildOperationsJson_def Let_def reloaded_not_blank [OF ops'(3) val] operations_text_def s
        simp del: json_ser.simps)
  moreover have "load_operations clock seed (map operation_payload fops) = Inr (ops', seed')"
    using ops'(1) b(1) by (simp add: load_operations_def)
  ultimately show thesis using that [OF tr pj s [symmetric] it] len by (simp add: fops_def)
qed


definition demo_op :: operation where
  "demo_op = (default_operation (js ''x''))\<lparr>op_path := js '' stream '', op_value_text := js ''true'',
     op_conditions := [\<lparr>c_id = js ''y'', c_path = js ''model'', c_mode = C_prefix, c_value_text = js ''gpt'',
       c_invert = False, c_pass_missing_key = True\<rparr>]\<rparr>"

lemma demo_op_facts:
  "stable_op demo_op" "stable_op (default_operation i)" "\<not> isOperationBlank demo_op" "validate_one demo_op = None"
proof -
  have "parseLooseValue (js ''true'') = Bool True" "toValueText (Bool True) = js ''true''"
    "parseLooseValue (js ''gpt'') = Str (js ''gpt'')" "toValueText (Str (js ''gpt'')) = js ''gpt''"
    "parseLooseValue [] = Str []" "toValueText (Str []) = []" by code_simp+
  then show "stable_op demo_op" "stable_op (default_operation i)"
    by (simp_all add: stable_op_def stable_text_def demo_op_def default_operation_def)
qed code_simp+

lemma default_blank: "isOperationBlank (default_operation i)"
  by (simp add: isOperationBlank_def default_operation_def trim_def trim_start_def trim_end_def)

lemma demo_op_saved:
  "buildOperationsJson t True (demo_op # map default_operation is) = Inr (operations_text [demo_op])"
  "operations_text [demo_op] \<noteq> []"
proof -
  have "filter (\<lambda>op. \<not> isOperationBlank op) (map default_operation is) = []" by (simp add: default_blank)
  then show "buildOperationsJson t True (demo_op # map default_operation is) = Inr (operations_text [demo_op])"
    using demo_op_facts by (simp add: buildOperationsJson_def validateOperations_def)
  show "operations_text [demo_op] \<noteq> []"
    unfolding operations_text_def using json_ser_Obj_hd by blast
qed


end
