(* ===== verification/Param_Rules.thy ===== *)
theory Param_Rules
  imports Param_Roundtrip "HOL-Library.Multiset"
begin

text \<open>
  Which texts the parameter override modal of \<open>ParamOverrideEditorModal.jsx\<close> cannot open, which operations
  pass its validation, and how dragging reorders operations.
\<close>

section \<open>Failures\<close>

definition null_inside :: "jsval \<Rightarrow> bool" where
  "null_inside v \<longleftrightarrow> v = Null \<or>
     (case own_prop v (js ''conditions'') of Arr items \<Rightarrow> Null \<in> set items | _ \<Rightarrow> False)"

lemma normalize_conditions_error:
  "normalize_conditions clock seed items = Inl err \<longleftrightarrow> err = TypeError \<and> Null \<in> set items"
proof (induction items arbitrary: seed)
  case (Cons v vs)
  show ?case
  proof (cases "normalizeCondition clock seed v")
    case (Inl e)
    then show ?thesis by (auto simp: normalizeCondition_def split: if_splits)
  next
    case (Inr r)
    then have v: "v \<noteq> Null" by (auto simp: normalizeCondition_def split: if_splits)
    obtain c seed1 where "r = (c, seed1)" by fastforce
    then show ?thesis using Inr Cons.IH [of seed1] v by (auto split: sum.splits)
  qed
qed simp

lemma normalizeOperation_error:
  "normalizeOperation clock seed v = Inl err \<longleftrightarrow> err = TypeError \<and> null_inside v"
proof (cases "v = Null")
  case False
  define conds where "conds = (case own_prop v (js ''conditions'') of
      Arr items \<Rightarrow> normalize_conditions clock (Suc seed) items | _ \<Rightarrow> Inr ([], Suc seed))"
  have "normalizeOperation clock seed v = Inl err \<longleftrightarrow> conds = Inl err"
    using False unfolding normalizeOperation_def nextLocalId_eq Let_def prod.case conds_def [symmetric]
    by (simp split: sum.split)
  also have "\<dots> \<longleftrightarrow> err = TypeError \<and> null_inside v"
    using False unfolding conds_def null_inside_def
    by (simp add: normalize_conditions_error split: jsval.split)
  finally show ?thesis .
qed (auto simp: normalizeOperation_def nextLocalId_eq null_inside_def)

lemma normalize_operations_error:
  "normalize_operations clock seed items = Inl err \<longleftrightarrow> err = TypeError \<and> list_ex null_inside items"
proof (induction items arbitrary: seed)
  case (Cons v vs)
  show ?case
  proof (cases "normalizeOperation clock seed v")
    case (Inl e)
    then show ?thesis using normalizeOperation_error [of clock seed v e] by auto
  next
    case (Inr r)
    have v: "\<not> null_inside v" using normalizeOperation_error [of clock seed v TypeError] Inr by auto
    obtain x seed1 where "r = (x, seed1)" by fastforce
    then show ?thesis using Inr Cons.IH [of seed1] v by (auto split: sum.splits)
  qed
qed simp

text \<open>Opening the modal on a text throws exactly when the text is an operations object with a
  \<open>null\<close> among its operations or among the conditions of one of them; every other text, valid JSON or
  not, opens.\<close>

theorem open_throws_iff:
  "parseInitialState clock seed (Str s) = Inl err \<longleftrightarrow>
     err = TypeError \<and> (\<exists>v items. json_parse (trim s) = Some v \<and> operations_of v = Some items \<and> trim s \<noteq> [] \<and>
       list_ex null_inside items)"
proof (cases "trim s = [] \<or> json_parse (trim s) = None")
  case True
  then show ?thesis by (auto simp: parseInitialState_def string_or_empty_def Let_def split: prod.split)
next
  case False
  then obtain v where v: "json_parse (trim s) = Some v" "trim s \<noteq> []" by auto
  show ?thesis
  proof (cases "operations_of v")
    case None
    then show ?thesis using v by (auto simp: parseInitialState_def string_or_empty_def Let_def split: prod.split)
  next
    case (Some items)
    have "load_operations clock seed items = Inl err \<longleftrightarrow> err = TypeError \<and> list_ex null_inside items"
      using normalize_operations_error [of clock seed items err]
      by (cases items) (auto simp: load_operations_def split: prod.splits)
    then show ?thesis using v Some
      by (auto simp: parseInitialState_def string_or_empty_def Let_def split: prod.split sum.split)
  qed
qed

text \<open>A header copy or move that passes validation has both its names; the path that the payload
  would use in their place is therefore never used.\<close>

theorem header_alias_unused:
  assumes "validate_one op = None" "m_pathAlias (MODE_META (op_mode op))"
  shows "trim (op_from op) \<noteq> [] \<and> trim (op_to op) \<noteq> [] \<and>
    operation_payload (op\<lparr>op_path := p\<rparr>) = operation_payload op"
proof -
  have v: "trim (op_from op) \<noteq> []" "trim (op_to op) \<noteq> []"
    using assms alias_meta [OF assms(2)] by (auto simp: validate_one_def Let_def split: if_splits)
  have "operation_payload (op\<lparr>op_path := p\<rparr>) = operation_payload op"
    using assms(2) v unfolding operation_payload_def Let_def falsy_at_def own_prop_Obj
    by (cases "op_mode op") (simp_all add: no_meta_def assign_if_False prop_assign_if)
  with v show ?thesis by blast
qed

theorem header_alias_unused_witness:
  "let op = (default_operation [])\<lparr>op_mode := M_copy_header, op_from := js ''A'', op_to := js ''B''\<rparr>
   in operation_payload (op\<lparr>op_path := js ''C''\<rparr>) = operation_payload op"
proof -
  let ?op = "(default_operation [])\<lparr>op_mode := M_copy_header, op_from := js ''A'', op_to := js ''B''\<rparr>"
  have "validate_one ?op = None" "m_pathAlias (MODE_META (op_mode ?op))" by code_simp+
  from header_alias_unused [OF this, of "js ''C''"] show ?thesis by (simp add: Let_def)
qed

section \<open>Reordering\<close>

lemma find_index_Some:
  "find_index P xs = Some i \<Longrightarrow> i < length xs \<and> P (xs ! i) \<and> (\<forall>j < i. \<not> P (xs ! j))"
proof (induction xs arbitrary: i)
  case (Cons x xs)
  then show ?case by (cases i) (auto simp: less_Suc_eq_0_disj split: if_splits)
qed simp

lemma find_index_None: "find_index P xs = None \<longleftrightarrow> (\<forall>x \<in> set xs. \<not> P x)"
  by (induction xs) auto

lemma split_found:
  assumes "find_index P xs = Some i"
  shows "xs = take i xs @ xs ! i # drop (Suc i) xs" "P (xs ! i)"
  using find_index_Some [OF assms] by (auto simp: id_take_nth_drop)

lemma reorder_cases:
  obtains "reorderOperations ops a b pos = ops" "a = [] \<or> b = [] \<or> a = b \<or> a \<notin> op_id ` set ops \<or> b \<notin> op_id ` set ops"
  | u u' v v' x y where "ops = u @ x # v" "u @ v = u' @ y # v'" "op_id x = a" "op_id y = b"
    "reorderOperations ops a b pos = u' @ (if pos = Before then [x, y] else [y, x]) @ v'"
proof (cases "a = [] \<or> b = [] \<or> a = b \<or> a \<notin> op_id ` set ops \<or> b \<notin> op_id ` set ops")
  case True
  have "find_index (\<lambda>x. op_id x = b) (take i ops @ drop (Suc i) ops) = None" if "b \<notin> op_id ` set ops" for i
    using that by (auto simp: find_index_None dest: in_set_takeD in_set_dropD)
  moreover have "find_index (\<lambda>x. op_id x = a) ops = None" if "a \<notin> op_id ` set ops"
    using that by (auto simp: find_index_None)
  ultimately have "reorderOperations ops a b pos = ops"
    using True by (auto simp: reorderOperations_def Let_def split: option.split)
  then show ?thesis using that(1) True by blast
next
  case False
  then obtain i where i: "find_index (\<lambda>x. op_id x = a) ops = Some i"
    using find_index_None [of "\<lambda>x. op_id x = a" ops] by fastforce
  note ops = split_found [OF i]
  define rest where "rest = take i ops @ drop (Suc i) ops"
  have "b \<in> op_id ` set (take i ops @ ops ! i # drop (Suc i) ops)" using False ops(1) by metis
  then have "b \<in> op_id ` set rest" using ops(2) False by (auto simp: rest_def)
  then obtain j where j: "find_index (\<lambda>x. op_id x = b) rest = Some j"
    using find_index_None [of "\<lambda>x. op_id x = b" rest] by fastforce
  note rest = split_found [OF j]
  have "reorderOperations ops a b pos =
      take j rest @ (if pos = Before then [ops ! i, rest ! j] else [rest ! j, ops ! i]) @ drop (Suc j) rest"
    using False i j find_index_Some [OF j] unfolding reorderOperations_def
    by (cases pos) (simp_all add: Let_def rest_def [symmetric] take_Suc_conv_app_nth Cons_nth_drop_Suc)
  then show ?thesis using that(2) [OF ops(1) _ ops(2) rest(2)] rest(1) unfolding rest_def [symmetric] by blast
qed

lemma mset_reorder: "mset (reorderOperations ops a b pos) = mset ops"
proof (cases rule: reorder_cases [of ops a b pos])
  case (2 u u' v v' x y)
  show ?thesis using arg_cong [OF 2(2), of mset] unfolding 2(5) by (simp add: 2(1))
qed simp

text \<open>C12: Dragging an operation onto another moves it directly before or behind the other and keeps the
  order of all remaining operations.\<close>

theorem reorder_moves:
  assumes "a \<in> op_id ` set ops" "b \<in> op_id ` set ops" "a \<noteq> b" "a \<noteq> []" "b \<noteq> []"
  shows "\<exists>u v x y. op_id x = a \<and> op_id y = b \<and>
    reorderOperations ops a b pos = u @ (if pos = Before then [x, y] else [y, x]) @ v \<and>
    mset (reorderOperations ops a b pos) = mset ops \<and>
    filter (\<lambda>z. op_id z \<noteq> a) (reorderOperations ops a b pos) = filter (\<lambda>z. op_id z \<noteq> a) ops"
proof (cases rule: reorder_cases [of ops a b pos])
  case (2 u u' v v' x y)
  have "filter (\<lambda>z. op_id z \<noteq> a) (reorderOperations ops a b pos) = filter (\<lambda>z. op_id z \<noteq> a) ops"
    using arg_cong [OF 2(2), of "filter (\<lambda>z. op_id z \<noteq> a)"] 2(3) unfolding 2(5) by (simp add: 2(1))
  then show ?thesis using 2 mset_reorder by blast
qed (use assms in auto)

theorem reorder_moves_witness:
  "\<exists>u v x y. op_id x = js ''a'' \<and> op_id y = js ''c'' \<and>
     reorderOperations (map default_operation [js ''a'', js ''b'', js ''c'']) (js ''a'') (js ''c'') After = u @ [y, x] @ v"
  using reorder_moves [of "js ''a''" "map default_operation [js ''a'', js ''b'', js ''c'']" "js ''c''" After]
  by (simp add: js_def default_operation_def) blast

end
