(* ===== verification/Param_Editor.thy ===== *)
theory Param_Editor
  imports Param_Modal Param_Rules State_Machine
begin

text \<open>
  The parameter override modal as a state machine: every event of the user, followed by the effects React
  runs, keeps the invariant \<open>modal_ok\<close>.
\<close>

section \<open>Fresh ids\<close>

text \<open>\<open>issued clock a b xs\<close>: the ids \<open>xs\<close> are distinct and were issued by the calls \<open>a, \<dots>, b - 1\<close>.\<close>

definition issued :: "(nat \<Rightarrow> int) \<Rightarrow> nat \<Rightarrow> nat \<Rightarrow> jsstr list \<Rightarrow> bool" where
  "issued clock a b xs \<longleftrightarrow> a \<le> b \<and> distinct xs \<and> set xs \<subseteq> local_id clock ` {a..<b}"

lemma issued_append:
  assumes "issued clock a b xs" "issued clock b c ys"
  shows "issued clock a c (xs @ ys)"
proof -
  have "local_id clock ` {a..<b} \<inter> local_id clock ` {b..<c} = {}" by auto
  then have "set xs \<inter> set ys = {}" using assms unfolding issued_def by blast
  then show ?thesis using assms unfolding issued_def by (fastforce simp: subset_iff image_iff)
qed

lemma issued_mono: "issued clock a b xs \<Longrightarrow> b \<le> c \<Longrightarrow> issued clock a c xs"
  by (fastforce simp: issued_def image_iff)

lemma issued_sub: "issued clock a b xs \<Longrightarrow> distinct ys \<Longrightarrow> set ys \<subseteq> set xs \<Longrightarrow> issued clock a b ys"
  by (auto simp: issued_def)

lemma issued_Nil: "issued clock a b [] \<longleftrightarrow> a \<le> b"
  by (simp add: issued_def)

lemma issued_one: "issued clock a (Suc a) [local_id clock a]"
  by (simp add: issued_def)

lemma issued_Cons: "issued clock (Suc a) b xs \<Longrightarrow> issued clock a b (local_id clock a # xs)"
  using issued_append [OF issued_one] by fastforce

lemma issued_permute: "issued clock a b xs \<Longrightarrow> mset ys = mset xs \<Longrightarrow> issued clock a b ys"
  by (auto simp: issued_def dest: mset_eq_setD mset_eq_imp_distinct_iff)

lemma issued_not_empty: "issued clock a b xs \<Longrightarrow> [] \<notin> set xs"
  by (auto simp: issued_def local_id_def nextLocalId_def js_def)

definition op_ids :: "operation \<Rightarrow> jsstr list" where
  "op_ids op = op_id op # map c_id (op_conditions op)"

definition all_ids :: "operation list \<Rightarrow> jsstr list" where
  "all_ids ops = concat (map op_ids ops)"

lemma all_ids_simps [simp]: "all_ids [] = []" "all_ids (op # ops) = op_ids op @ all_ids ops"
  "all_ids (ops @ ops') = all_ids ops @ all_ids ops'"
  by (simp_all add: all_ids_def)

lemma op_id_all_ids: "op_id ` set ops \<subseteq> set (all_ids ops)"
  by (induction ops) (auto simp: op_ids_def)

lemma distinct_op_id: "distinct (all_ids ops) \<Longrightarrow> distinct (map op_id ops)"
proof (induction ops)
  case (Cons op ops)
  then show ?case using op_id_all_ids [of ops] by (auto simp: op_ids_def)
qed simp

lemma mset_all_ids: "mset ops = mset ops' \<Longrightarrow> mset (all_ids ops) = mset (all_ids ops')"
  unfolding all_ids_def mset_concat map_map o_def mset_map [symmetric]
  by (metis mset_map sum_mset_sum_list)

lemma all_ids_map: "(\<And>op. op_ids (f op) = op_ids op) \<Longrightarrow> all_ids (map f ops) = all_ids ops"
  by (simp add: all_ids_def o_def)

lemma all_ids_filter: "distinct (all_ids ops) \<Longrightarrow> distinct (all_ids (filter P ops)) \<and> set (all_ids (filter P ops)) \<subseteq> set (all_ids ops)"
  by (induction ops) (auto simp: all_ids_def)

lemma issued_filter: "issued clock a b (all_ids ops) \<Longrightarrow> issued clock a b (all_ids (filter P ops))"
  using all_ids_filter [of ops P] by (auto simp: issued_def)

lemma normalize_conditions_issued:
  "normalize_conditions clock seed items = Inr (cs, seed') \<Longrightarrow> issued clock seed seed' (map c_id cs)"
proof (induction items arbitrary: seed cs)
  case (Cons v vs)
  then obtain c cs1 where c: "normalizeCondition clock seed v = Inr (c, Suc seed)" "cs = c # cs1" "c_id c = local_id clock seed"
      "normalize_conditions clock (Suc seed) vs = Inr (cs1, seed')"
    by (auto simp: normalizeCondition_def normalize_fields_def nextLocalId_eq split: if_splits sum.splits prod.splits)
  then show ?case using issued_Cons [OF Cons.IH [OF c(4)]] by simp
qed (simp add: issued_Nil)

lemma normalizeOperation_issued:
  assumes "normalizeOperation clock seed v = Inr (op, seed')"
  shows "issued clock seed seed' (op_ids op)"
proof -
  define conds where "conds = (case own_prop v (js ''conditions'') of
      Arr items \<Rightarrow> normalize_conditions clock (Suc seed) items | _ \<Rightarrow> Inr ([], Suc seed))"
  from assms obtain cs where c: "conds = Inr (cs, seed')" "op_conditions op = cs" "op_id op = local_id clock seed"
    unfolding normalizeOperation_def nextLocalId_eq Let_def prod.case conds_def [symmetric]
    by (auto split: if_splits sum.splits)
  have "issued clock (Suc seed) seed' (map c_id cs)"
    using c(1) normalize_conditions_issued unfolding conds_def by (auto simp: issued_Nil split: jsval.splits)
  then show ?thesis using issued_Cons c by (simp add: op_ids_def)
qed

lemma normalize_operations_issued:
  "normalize_operations clock seed items = Inr (ops, seed') \<Longrightarrow>
     issued clock seed seed' (all_ids ops) \<and> length ops = length items"
proof (induction items arbitrary: seed ops)
  case (Cons v vs)
  then obtain op seed1 ops1 where o: "normalizeOperation clock seed v = Inr (op, seed1)" "ops = op # ops1"
      "normalize_operations clock seed1 vs = Inr (ops1, seed')"
    by (auto split: sum.splits)
  show ?case using issued_append [OF normalizeOperation_issued [OF o(1)]] Cons.IH [OF o(3)] o(2) by simp
qed (simp add: issued_Nil)

lemma default_ids [simp]: "op_ids (default_operation i) = [i]" "op_id (default_operation i) = i"
  by (simp_all add: op_ids_def default_operation_def)

lemma createDefault_fresh [simp]:
  "createDefaultOperation clock seed = (default_operation (local_id clock seed), Suc seed)"
  by (simp add: createDefaultOperation_def nextLocalId_eq)

lemma load_operations_issued:
  "load_operations clock seed items = Inr (ops, seed') \<Longrightarrow> issued clock seed seed' (all_ids ops) \<and> ops \<noteq> []"
  using normalize_operations_issued [of clock seed items ops seed']
  by (auto simp: load_operations_def issued_one split: if_splits)

lemma parseInitialState_issued:
  assumes "parseInitialState clock seed v = Inr (st, seed')"
  shows "issued clock seed seed' (all_ids (i_operations st)) \<and> i_operations st \<noteq> []"
  using assms load_operations_issued issued_one unfolding parseInitialState_def Let_def createDefault_fresh prod.case
  by (auto split: if_splits option.splits sum.splits)

lemma prune_rules_issued: "prune_rules clock seed vs = (rs, seed') \<Longrightarrow> issued clock seed seed' (map c_id rs)"
proof (induction vs arbitrary: seed rs)
  case (Cons v vs)
  then obtain r rs1 where r: "rs = r # rs1" "c_id r = local_id clock seed" "prune_rules clock (Suc seed) vs = (rs1, seed')"
    by (auto simp: normalizePruneRule_def normalize_fields_def nextLocalId_eq split: prod.splits)
  then show ?case using issued_Cons [OF Cons.IH [OF r(3)]] by simp
qed (simp add: issued_Nil)

lemma parsePruneObjectsDraft_issued:
  "parsePruneObjectsDraft clock seed s = (d, seed') \<Longrightarrow> issued clock seed seed' (map c_id (pd_rules d))"
  unfolding parsePruneObjectsDraft_def Let_def
  by (auto simp: prune_defaults_def issued_Nil split: if_splits option.splits jsval.splits prod.splits
      dest!: prune_rules_issued)

section \<open>The state machine\<close>

definition settle_modal :: "modal \<Rightarrow> modal" where
  "settle_modal st = preset_effect (selection_effect st)"

text \<open>
  Steps: an event, then the effects.  \<open>ids\<close> covers the calls of \<open>nextLocalId\<close> whose result is dropped: the
  default operation that \<open>useState\<close> evaluates with every render, the draft of a rendered prune operation,
  and the ids of a handler that throws.
\<close>

inductive modal_step :: "translate \<Rightarrow> (nat \<Rightarrow> int) \<Rightarrow> modal \<Rightarrow> modal \<Rightarrow> bool"
  for t :: translate and clock :: "nat \<Rightarrow> int" where
  open_modal: "open_effect clock v st = Inr st' \<Longrightarrow> modal_step t clock st (settle_modal st')"
| to_json: "modal_step t clock st (settle_modal (fst (switchToJsonMode t st)))"
| to_visual: "switchToVisualMode t clock st = Inr (st', os) \<Longrightarrow> modal_step t clock st (settle_modal st')"
| fill: "fillTemplateFromLibrary clock st = Inr st' \<Longrightarrow> modal_step t clock st (settle_modal st')"
| append_template: "appendTemplateFromLibrary t clock st = Inr (st', os) \<Longrightarrow> modal_step t clock st (settle_modal st')"
| reset: "modal_step t clock st (settle_modal (resetEditorState clock st))"
| builtin: "modal_step t clock st (settle_modal (fst (applyBuiltinField t fieldKey target st)))"
| guide: "modal_step t clock st (settle_modal (openFieldGuide target st))"
| update: "modal_step t clock st (settle_modal (updateOperation oid patch st))"
| format_value: "modal_step t clock st (settle_modal (fst (formatSelectedOperationValueAsJson t st)))"
| error_draft: "modal_step t clock st (settle_modal (updateReturnErrorDraft oid error_patch st))"
| prune_draft: "modal_step t clock st (settle_modal (updatePruneObjectsDraft clock oid (patch_prune prune_patch) st))"
| add_rule: "modal_step t clock st (settle_modal (addPruneRule clock oid st))"
| update_rule: "modal_step t clock st (settle_modal (updatePruneRule clock oid rid cond_patch st))"
| remove_rule: "modal_step t clock st (settle_modal (removePruneRule clock oid rid st))"
| add: "modal_step t clock st (settle_modal (addOperation clock st))"
| drag_start: "modal_step t clock st (settle_modal (handleOperationDragStart oid st))"
| drag_over: "modal_step t clock st (settle_modal (handleOperationDragOver oid lower_half st))"
| drop: "modal_step t clock st (settle_modal (handleOperationDrop transferred oid st))"
| drag_end: "modal_step t clock st (settle_modal (resetOperationDragState st))"
| duplicate: "duplicateOperation clock eager oid st = Inr st' \<Longrightarrow> modal_step t clock st (settle_modal st')"
| remove: "modal_step t clock st (settle_modal (removeOperation clock oid st))"
| add_condition: "modal_step t clock st (settle_modal (addCondition clock oid st))"
| update_condition: "modal_step t clock st (settle_modal (updateCondition oid cid cond_patch st))"
| remove_condition: "modal_step t clock st (settle_modal (removeCondition oid cid st))"
| collapse: "modal_step t clock st (settle_modal (handleConditionCollapseChange oid ids st))"
| expand_all: "modal_step t clock st (settle_modal (expandAllSelectedConditions st))"
| collapse_all: "modal_step t clock st (settle_modal (collapseAllSelectedConditions st))"
| json_change: "modal_step t clock st (settle_modal (handleJsonChange t text' st))"
| format_json: "modal_step t clock st (settle_modal (fst (formatJson t st)))"
| select: "modal_step t clock st (settle_modal (st\<lparr>selectedOperationId := oid\<rparr>))"
| search: "modal_step t clock st (settle_modal (st\<lparr>operationSearch := text'\<rparr>))"
| legacy: "modal_step t clock st (settle_modal (st\<lparr>legacyValue := text'\<rparr>))"
| template_group: "modal_step t clock st (settle_modal (st\<lparr>templateGroupKey := g\<rparr>))"
| template_preset: "modal_step t clock st (settle_modal (st\<lparr>templatePresetKey := key\<rparr>))"
| example: "modal_step t clock st (settle_modal (st\<lparr>headerValueExampleVisible := b\<rparr>))"
| guide_state: "modal_step t clock st (settle_modal (st\<lparr>fieldGuideVisible := b, fieldGuideTarget := target, fieldGuideKeyword := text'\<rparr>))"
| ids: "localIdSeed st \<le> n \<Longrightarrow> modal_step t clock st (st\<lparr>localIdSeed := n\<rparr>)"

definition modal_start :: "(nat \<Rightarrow> int) \<Rightarrow> modal \<Rightarrow> bool" where
  "modal_start clock st \<longleftrightarrow> (\<exists>seed. st = settle_modal (init_modal clock seed))"

definition modal_base :: "(nat \<Rightarrow> int) \<Rightarrow> modal \<Rightarrow> bool" where
  "modal_base clock st \<longleftrightarrow> operations st \<noteq> [] \<and> issued clock 0 (localIdSeed st) (all_ids (operations st))"

definition modal_ok :: "(nat \<Rightarrow> int) \<Rightarrow> modal \<Rightarrow> bool" where
  "modal_ok clock st \<longleftrightarrow> modal_base clock st \<and> selectedOperationId st \<in> op_id ` set (operations st) \<and>
     templatePresetKey st \<in> fst ` set (templatePresetOptions (templateGroupKey st))"

lemma preset_options: "templatePresetOptions g \<noteq> []"
  by (cases g) (simp_all add: templatePresetOptions_def TEMPLATE_PRESET_CONFIG_def)

lemma settle_ok: "modal_base clock st \<Longrightarrow> modal_ok clock (settle_modal st)"
  using preset_options [of "templateGroupKey st"]
  by (auto simp: modal_ok_def modal_base_def settle_modal_def selection_effect_def preset_effect_def Let_def
      list_ex_iff intro: rev_image_eqI)

lemma base_same: "modal_base clock st \<Longrightarrow> operations st' = operations st \<Longrightarrow> localIdSeed st \<le> localIdSeed st' \<Longrightarrow>
    modal_base clock st'"
  using issued_mono by (auto simp: modal_base_def)

lemma base_loaded: "issued clock a (localIdSeed st') (all_ids (operations st')) \<Longrightarrow> operations st' \<noteq> [] \<Longrightarrow> modal_base clock st'"
  by (fastforce simp: modal_base_def issued_def)

lemma base_mapped:
  "modal_base clock st \<Longrightarrow> operations st' = map f (operations st) \<Longrightarrow> (\<And>op. op_ids (f op) = op_ids op) \<Longrightarrow>
     localIdSeed st \<le> localIdSeed st' \<Longrightarrow> modal_base clock st'"
  using issued_mono all_ids_map [of f] by (auto simp: modal_base_def)

lemma op_ids_patch [simp]: "op_ids (patch_operation patch op) = op_ids op"
  by (cases patch) (auto simp: op_ids_def)

lemma base_update [simp]: "modal_base clock st \<Longrightarrow> modal_base clock (updateOperation oid patch st)"
  by (rule base_mapped [where f = "\<lambda>op. if op_id op = oid then patch_operation patch op else op"])
    (auto simp: updateOperation_def)

lemma base_default: "modal_base clock (set_default_operation clock st)"
  by (rule base_loaded [of _ "localIdSeed st"]) (simp_all add: set_default_operation_def issued_one)

lemma default_operations [simp]: "operations (set_default_operation clock st) = [default_operation (local_id clock (localIdSeed st))]"
  "localIdSeed (set_default_operation clock st) = Suc (localIdSeed st)"
  by (simp_all add: set_default_operation_def)

lemma base_loaded_one:
  "operations st' = [default_operation (local_id clock n)] \<Longrightarrow> localIdSeed st' = Suc n \<Longrightarrow> modal_base clock st'"
  by (rule base_loaded [of _ n]) (simp_all add: issued_one)

section \<open>Every handler keeps the ids\<close>

lemma base_open: "open_effect clock v st = Inr st' \<Longrightarrow> modal_base clock st'"
  by (auto simp: open_effect_def split: sum.splits dest!: parseInitialState_issued intro: base_loaded)

lemma base_to_json: "modal_base clock st \<Longrightarrow> modal_base clock (fst (switchToJsonMode t st))"
  by (erule base_same) (auto simp: switchToJsonMode_def split: sum.splits)

lemma base_to_visual:
  assumes "modal_base clock st" "switchToVisualMode t clock st = Inr (st', os)"
  shows "modal_base clock st'"
  using assms unfolding switchToVisualMode_def Let_def
  by (auto split: if_splits option.splits sum.splits dest!: load_operations_issued
      intro: base_loaded base_loaded_one)

lemma base_fill:
  assumes "fillTemplateFromLibrary clock st = Inr st'"
  shows "modal_base clock st'"
  using assms unfolding fillTemplateFromLibrary_def fillOperationsTemplate_def fillLegacyTemplate_def Let_def
  by (auto split: if_splits sum.splits dest!: load_operations_issued intro: base_loaded base_loaded_one)

lemma preset_operations: "p_kind (getSelectedTemplatePreset st) = K_operations \<Longrightarrow>
    payload_operations (p_payload (getSelectedTemplatePreset st)) \<noteq> []"
proof -
  have "list_all (\<lambda>(k, c). p_kind c = K_operations \<longrightarrow> payload_operations (p_payload c) \<noteq> []) TEMPLATE_PRESET_CONFIG"
    by (simp add: TEMPLATE_PRESET_CONFIG_def payload_operations_def OPERATION_TEMPLATE_def HEADER_PASSTHROUGH_TEMPLATE_def
        GEMINI_IMAGE_4K_TEMPLATE_def AWS_BEDROCK_ANTHROPIC_COMPAT_TEMPLATE_def buildPassHeadersTemplate_def
        CODEX_CLI_HEADER_PASSTHROUGH_TEMPLATE_def CLAUDE_CLI_HEADER_PASSTHROUGH_TEMPLATE_def own_prop_def get_def)
  moreover have "\<exists>k. (k, getSelectedTemplatePreset st) \<in> set TEMPLATE_PRESET_CONFIG"
  proof (cases "get TEMPLATE_PRESET_CONFIG (templatePresetKey st)")
    case None
    then show ?thesis
      by (auto simp: getSelectedTemplatePreset_def TEMPLATE_PRESET_CONFIG_def)
  next
    case (Some c)
    then show ?thesis by (auto simp: getSelectedTemplatePreset_def get_def dest: map_of_SomeD)
  qed
  ultimately show "p_kind (getSelectedTemplatePreset st) = K_operations \<Longrightarrow> ?thesis"
    by (fastforce simp: list_all_iff)
qed

lemma base_append_operations:
  assumes "modal_base clock st" "appendOperationsTemplate clock items st = Inr st'" "items \<noteq> []"
  shows "modal_base clock st'"
proof -
  obtain ops seed1 where n: "normalize_operations clock (localIdSeed st) items = Inr (ops, seed1)"
    using assms(2) by (auto simp: appendOperationsTemplate_def split: sum.splits)
  define kept where "kept = (if visualMode st = Visual_operations
    then filter (\<lambda>op. \<not> isOperationBlank op) (operations st) else [])"
  have k: "issued clock 0 (localIdSeed st) (all_ids kept)"
    using assms(1) issued_filter by (auto simp: kept_def modal_base_def issued_Nil)
  have "operations st' = kept @ ops" "localIdSeed st' = seed1"
    using assms(2) n by (auto simp: appendOperationsTemplate_def Let_def kept_def)
  then show ?thesis
    using normalize_operations_issued [OF n] issued_append [OF k] assms(3) by (auto simp: modal_base_def)
qed

lemma base_append:
  assumes "modal_base clock st" "appendTemplateFromLibrary t clock st = Inr (st', os)"
  shows "modal_base clock st'"
proof (cases "p_kind (getSelectedTemplatePreset st)")
  case K_operations
  then show ?thesis
    using assms base_append_operations [OF assms(1) _ preset_operations]
    by (auto simp: appendTemplateFromLibrary_def Let_def split: sum.splits)
next
  case K_legacy
  then show ?thesis
    using assms by (auto simp: appendTemplateFromLibrary_def appendLegacyTemplate_def Let_def split: sum.splits
        intro: base_loaded_one)
qed

lemma base_prune:
  assumes "modal_base clock st" "\<And>seed d. seed \<le> snd (updater seed d)"
  shows "modal_base clock (updatePruneObjectsDraft clock oid updater st)"
proof (cases "find (\<lambda>op. op_id op = oid) (operations st)")
  case (Some op)
  obtain d seed1 where d: "parsePruneObjectsDraft clock (localIdSeed st) (op_value_text op) = (d, seed1)" by fastforce
  have "localIdSeed st \<le> seed1" using parsePruneObjectsDraft_issued [OF d] by (simp add: issued_def)
  then have seed: "localIdSeed st \<le> snd (updater seed1 d)" using assms(2) le_trans by blast
  let ?text = "buildPruneObjectsValueText (fst (updater seed1 d))"
  have "updatePruneObjectsDraft clock oid updater st =
      (updateOperation oid (Op_value_text ?text) st)\<lparr>localIdSeed := snd (updater seed1 d)\<rparr>"
    using d Some by (simp add: updatePruneObjectsDraft_def split: prod.splits)
  then show ?thesis
    using seed base_same [OF base_update [OF assms(1), of oid "Op_value_text ?text"]] by (simp add: updateOperation_def)
qed (use assms in \<open>simp add: updatePruneObjectsDraft_def\<close>)

lemma base_conditions:
  assumes "modal_base clock st" "\<And>cs. map c_id (f cs) = map c_id cs"
  shows "modal_base clock (update_conditions oid f st)"
  by (rule base_mapped [OF assms(1), where f = "\<lambda>op. if op_id op = oid then op\<lparr>op_conditions := f (op_conditions op)\<rparr> else op"])
    (auto simp: update_conditions_def op_ids_def assms(2))

lemma base_drop: "modal_base clock st \<Longrightarrow> modal_base clock (handleOperationDrop transferred oid st)"
proof -
  have ne: "reorderOperations ops a b pos \<noteq> []" if "ops \<noteq> []" for ops a b pos
    using that mset_reorder [of ops a b pos] by auto
  have "issued clock 0 n (all_ids (reorderOperations ops a b pos))" if "issued clock 0 n (all_ids ops)" for ops a b pos n
    using issued_permute [OF that mset_all_ids [OF mset_reorder]] .
  with ne show "modal_base clock st \<Longrightarrow> modal_base clock (handleOperationDrop transferred oid st)"
    by (auto simp: modal_base_def handleOperationDrop_def moveOperation_def resetOperationDragState_def Let_def)
qed

lemma base_duplicate:
  assumes "modal_base clock st" "duplicateOperation clock eager oid st = Inr st'"
  shows "modal_base clock st'"
proof (cases "find_index (\<lambda>op. op_id op = oid) (operations st)")
  case (Some i)
  obtain op seed1 where n: "normalizeOperation clock (localIdSeed st) (operation_source (operations st ! i)) = Inr (op, seed1)"
    using assms(2) Some by (auto simp: duplicateOperation_def split: sum.splits)
  have s: "operations st' = take (Suc i) (operations st) @ [op] @ drop (Suc i) (operations st)" "localIdSeed st' = seed1"
    using assms(2) Some n by (auto simp: duplicateOperation_def)
  have "issued clock 0 seed1 (all_ids (operations st @ [op]))"
    using issued_append [OF _ normalizeOperation_issued [OF n]] assms(1) by (simp add: modal_base_def)
  moreover have "mset (operations st') = mset (operations st @ [op])"
    using arg_cong [OF append_take_drop_id [of "Suc i" "operations st"], of mset]
    unfolding s(1) mset_append by simp
  ultimately have "issued clock 0 (localIdSeed st') (all_ids (operations st'))"
    using issued_permute [OF _ mset_all_ids] s(2) by blast
  then show ?thesis using s(1) by (simp add: modal_base_def)
qed (use assms in \<open>simp add: duplicateOperation_def\<close>)

lemma base_remove:
  assumes "modal_base clock st"
  shows "modal_base clock (removeOperation clock oid st)"
proof (cases "length (operations st) \<le> 1")
  case True
  then show ?thesis by (auto simp: removeOperation_def intro: base_loaded_one)
next
  case False
  have "distinct (map op_id (operations st))" using assms distinct_op_id by (auto simp: modal_base_def issued_def)
  moreover have "\<exists>a b ops. operations st = a # b # ops"
    using False by (metis One_nat_def Suc_le_mono le_SucI length_0_conv length_Cons list.exhaust zero_le le_refl)
  ultimately have "filter (\<lambda>op. op_id op \<noteq> oid) (operations st) \<noteq> []"
    by (auto split: if_splits)
  then show ?thesis using assms issued_filter False by (auto simp: removeOperation_def modal_base_def)
qed

lemma base_add: "modal_base clock st \<Longrightarrow> modal_base clock (addOperation clock st)"
  using issued_append [OF _ issued_one, of clock 0 "localIdSeed st" "all_ids (operations st)"]
  by (simp add: modal_base_def addOperation_def)

lemma add_condition_ids:
  assumes "issued clock 0 n (all_ids ops)" "c_id c = local_id clock n"
  shows "issued clock 0 (Suc n) (all_ids (map (\<lambda>op. if op_id op = oid then op\<lparr>op_conditions := op_conditions op @ [c]\<rparr> else op) ops))"
proof (cases "oid \<in> op_id ` set ops")
  case True
  then obtain us op vs where ops: "ops = us @ op # vs" "op_id op = oid" by (auto dest!: split_list)
  have "distinct (map op_id ops)" using assms(1) distinct_op_id by (auto simp: issued_def)
  then have "oid \<notin> op_id ` set us" "oid \<notin> op_id ` set vs" unfolding ops(1) ops(2) [symmetric] by auto
  then have "map (\<lambda>op. if op_id op = oid then op\<lparr>op_conditions := op_conditions op @ [c]\<rparr> else op) us = us"
      "map (\<lambda>op. if op_id op = oid then op\<lparr>op_conditions := op_conditions op @ [c]\<rparr> else op) vs = vs"
    by (auto intro!: map_idI)
  then have rest: "map (\<lambda>op. if op_id op = oid then op\<lparr>op_conditions := op_conditions op @ [c]\<rparr> else op) ops =
      us @ op\<lparr>op_conditions := op_conditions op @ [c]\<rparr> # vs"
    using ops(2) unfolding ops(1) by simp
  have "issued clock 0 (Suc n) (all_ids ops @ [c_id c])" using issued_append [OF assms(1) issued_one] assms(2) by simp
  then show ?thesis unfolding rest
    by (rule issued_permute) (simp add: ops(1) op_ids_def)
next
  case False
  then have "map (\<lambda>op. if op_id op = oid then op\<lparr>op_conditions := op_conditions op @ [c]\<rparr> else op) ops = ops"
    by (auto intro!: map_idI)
  then show ?thesis using issued_mono [OF assms(1)] by simp
qed

lemma base_add_condition:
  assumes "modal_base clock st"
  shows "modal_base clock (addCondition clock oid st)"
proof -
  obtain c where c: "createDefaultCondition clock (localIdSeed st) = (c, Suc (localIdSeed st))"
      "c_id c = local_id clock (localIdSeed st)"
    by (simp add: createDefaultCondition_def normalize_fields_def nextLocalId_eq)
  then show ?thesis
    using assms add_condition_ids [OF _ c(2)] by (simp add: modal_base_def addCondition_def update_conditions_def)
qed

lemma all_ids_shrink:
  assumes "\<And>op. distinct (op_ids op) \<Longrightarrow> distinct (op_ids (f op)) \<and> set (op_ids (f op)) \<subseteq> set (op_ids op)"
  shows "distinct (all_ids ops) \<Longrightarrow> distinct (all_ids (map f ops)) \<and> set (all_ids (map f ops)) \<subseteq> set (all_ids ops)"
proof (induction ops)
  case (Cons op ops)
  have "distinct (op_ids op)" "set (op_ids op) \<inter> set (all_ids ops) = {}" "distinct (all_ids ops)"
    using Cons.prems by auto
  note f = assms [OF this(1)] and ih = Cons.IH [OF this(3)] and d = this(2)
  have "set (op_ids (f op)) \<inter> set (all_ids (map f ops)) = {}" using f ih d by blast
  then show ?case using f ih by auto
qed simp

lemma remove_condition_ids:
  fixes op :: operation
  assumes "distinct (op_ids op)"
  shows "distinct (op_ids (op\<lparr>op_conditions := filter P (op_conditions op)\<rparr>)) \<and>
    set (op_ids (op\<lparr>op_conditions := filter P (op_conditions op)\<rparr>)) \<subseteq> set (op_ids op)"
  using assms by (auto simp: op_ids_def distinct_map inj_on_def)

lemma base_remove_condition:
  assumes "modal_base clock st"
  shows "modal_base clock (removeCondition oid cid st)"
proof -
  define f :: "operation \<Rightarrow> operation" where "f = (\<lambda>op. if op_id op = oid then op\<lparr>op_conditions := filter (\<lambda>c. c_id c \<noteq> cid) (op_conditions op)\<rparr> else op)"
  have "distinct (op_ids (f op)) \<and> set (op_ids (f op)) \<subseteq> set (op_ids op)" if "distinct (op_ids op)" for op
    using that remove_condition_ids [OF that] by (simp add: f_def)
  from all_ids_shrink [of f, OF this] have "issued clock 0 (localIdSeed st) (all_ids (map f (operations st)))"
    using assms unfolding modal_base_def issued_def by blast
  then show ?thesis
    using assms by (simp add: modal_base_def removeCondition_def update_conditions_def f_def)
qed

lemma patch_conditions_ids [simp]: "map c_id (patch_conditions cid patch cs) = map c_id cs"
proof -
  have "c_id (patch_condition patch c) = c_id c" for c by (cases patch) auto
  then show ?thesis by (simp add: patch_conditions_def)
qed

lemma base_pure:
  assumes "modal_base clock st"
  shows "modal_base clock (fst (applyBuiltinField t key target st))"
    "modal_base clock (fst (formatSelectedOperationValueAsJson t st))"
    "modal_base clock (updateReturnErrorDraft oid e st)"
    "modal_base clock (updatePruneObjectsDraft clock oid (patch_prune p) st)"
    "modal_base clock (addPruneRule clock oid st)"
    "modal_base clock (updatePruneRule clock oid rid cp st)"
    "modal_base clock (removePruneRule clock oid rid st)"
    "modal_base clock (updateCondition oid cid cp st)"
proof -
  show "modal_base clock (updatePruneObjectsDraft clock oid (patch_prune p) st)"
    by (rule base_prune [OF assms]) (cases p, auto)
  show "modal_base clock (addPruneRule clock oid st)"
    unfolding addPruneRule_def
    by (rule base_prune [OF assms]) (simp add: normalizePruneRule_def normalize_fields_def nextLocalId_eq)
  show "modal_base clock (updatePruneRule clock oid rid cp st)" "modal_base clock (removePruneRule clock oid rid st)"
    unfolding updatePruneRule_def removePruneRule_def by (rule base_prune [OF assms], simp)+
  show "modal_base clock (updateCondition oid cid cp st)"
    unfolding updateCondition_def by (rule base_conditions [OF assms]) simp
qed (use assms in \<open>auto simp: applyBuiltinField_def formatSelectedOperationValueAsJson_def updateReturnErrorDraft_def
    Let_def split: option.splits\<close>)

lemma base_display:
  assumes "modal_base clock st"
  shows "modal_base clock (openFieldGuide target st)" "modal_base clock (handleOperationDragStart oid st)"
    "modal_base clock (handleOperationDragOver oid b st)" "modal_base clock (resetOperationDragState st)"
    "modal_base clock (handleConditionCollapseChange oid ids st)" "modal_base clock (expandAllSelectedConditions st)"
    "modal_base clock (collapseAllSelectedConditions st)" "modal_base clock (handleJsonChange t s st)"
    "modal_base clock (fst (formatJson t st))"
  using assms by (simp_all add: modal_base_def openFieldGuide_def handleOperationDragStart_def
      handleOperationDragOver_def resetOperationDragState_def handleConditionCollapseChange_def
      expandAllSelectedConditions_def collapseAllSelectedConditions_def handleJsonChange_def formatJson_def Let_def
      split: option.split)

lemma base_reset: "modal_base clock (resetEditorState clock st)"
  by (rule base_loaded_one [of _ _ "localIdSeed st"]) (simp_all add: resetEditorState_def clearValue_def)

section \<open>Invariant\<close>

lemmas base_handlers = base_open base_to_json base_to_visual base_fill base_append base_reset base_pure base_display
  base_update base_add base_drop base_duplicate base_remove base_add_condition base_remove_condition

lemma modal_ok_base: "modal_ok clock st \<Longrightarrow> modal_base clock st"
  by (simp add: modal_ok_def)

lemma base_fields:
  assumes "modal_base clock st"
  shows "modal_base clock (st\<lparr>selectedOperationId := s\<rparr>)" "modal_base clock (st\<lparr>operationSearch := s\<rparr>)"
    "modal_base clock (st\<lparr>legacyValue := s\<rparr>)" "modal_base clock (st\<lparr>templateGroupKey := g\<rparr>)"
    "modal_base clock (st\<lparr>templatePresetKey := s\<rparr>)" "modal_base clock (st\<lparr>headerValueExampleVisible := b\<rparr>)"
    "modal_base clock (st\<lparr>fieldGuideVisible := b, fieldGuideTarget := target, fieldGuideKeyword := s\<rparr>)"
  using assms by (simp_all add: modal_base_def)

lemma step_ok: "modal_step t clock st st' \<Longrightarrow> modal_ok clock st \<Longrightarrow> modal_ok clock st'"
proof (induction rule: modal_step.induct)
  case (ids st n)
  then show ?case using issued_mono by (auto simp: modal_ok_def modal_base_def)
qed (blast intro: settle_ok modal_ok_base base_handlers base_fields)+

lemma init_ok: "modal_ok clock (settle_modal (init_modal clock seed))"
  by (rule settle_ok, rule base_loaded_one [of _ _ seed]) (simp_all add: init_modal_def)

interpretation modals: invariant_machine "modal_start clock" "modal_step t clock" "modal_ok clock" for t clock
  by unfold_locales (auto simp: modal_start_def init_ok intro: step_ok)

text \<open>C9: In every state the modal can reach there is at least one operation, the ids of operations and
  conditions are pairwise different and none will be issued again, the selected operation exists, and the
  selected template belongs to the selected group.\<close>

theorem modal_invariant: "reach (modal_start clock) (modal_step t clock) st \<Longrightarrow> modal_ok clock st"
  by (rule modals.reach_inv)

theorem modal_invariant_witness:
  "modal_ok (\<lambda>_. 0) (settle_modal (removeOperation (\<lambda>_. 0) (local_id (\<lambda>_. 0) 5)
     (settle_modal (addOperation (\<lambda>_. 0) (settle_modal (init_modal (\<lambda>_. 0) 5))))))"
proof (rule modal_invariant)
  have "modal_start (\<lambda>_. 0) (settle_modal (init_modal (\<lambda>_. 0) 5))" by (auto simp: modal_start_def)
  then have "reach (modal_start (\<lambda>_. 0)) (modal_step (\<lambda>s _. s) (\<lambda>_. 0)) (settle_modal (init_modal (\<lambda>_. 0) 5))"
    by (rule reach_start)
  from reach_step [OF reach_step [OF this modal_step.add] modal_step.remove]
  show "reach (modal_start (\<lambda>_. 0)) (modal_step (\<lambda>s _. s) (\<lambda>_. 0)) (settle_modal (removeOperation (\<lambda>_. 0)
    (local_id (\<lambda>_. 0) 5) (settle_modal (addOperation (\<lambda>_. 0) (settle_modal (init_modal (\<lambda>_. 0) 5))))))" .
qed

text \<open>Editing or deleting a rule of a prune operation through the id it was rendered with changes nothing:
  the handler parses the value text again, and no parsed rule has an id issued before.\<close>

theorem prune_rule_edits_lost:
  assumes "n < localIdSeed st"
  shows "updatePruneRule clock oid (local_id clock n) patch st = updatePruneObjectsDraft clock oid (\<lambda>seed d. (d, seed)) st \<and>
    removePruneRule clock oid (local_id clock n) st = updatePruneObjectsDraft clock oid (\<lambda>seed d. (d, seed)) st"
proof (cases "find (\<lambda>op. op_id op = oid) (operations st)")
  case (Some op)
  obtain d seed1 where d: "parsePruneObjectsDraft clock (localIdSeed st) (op_value_text op) = (d, seed1)" by fastforce
  have "\<forall>r \<in> set (pd_rules d). c_id r \<noteq> local_id clock n"
    using parsePruneObjectsDraft_issued [OF d] assms by (auto simp: issued_def)
  then have "patch_conditions (local_id clock n) patch (pd_rules d) = pd_rules d"
      "filter (\<lambda>r. c_id r \<noteq> local_id clock n) (pd_rules d) = pd_rules d"
    by (auto simp: patch_conditions_def intro!: map_idI)
  then show ?thesis
    using Some d by (simp add: updatePruneRule_def removePruneRule_def updatePruneObjectsDraft_def)
qed (simp add: updatePruneRule_def removePruneRule_def updatePruneObjectsDraft_def)

definition demo_prune :: modal where
  "demo_prune = (init_modal (\<lambda>_. 0) 5)\<lparr>operations := [(default_operation (js ''p''))\<lparr>op_mode := M_prune_objects,
     op_value_text := json_ser [] [] (Obj [(js ''conditions'', Arr [Obj [(js ''path'', Str (js ''a''))]])])\<rparr>]\<rparr>"

theorem prune_rule_edits_lost_witness:
  "removePruneRule (\<lambda>_. 0) (js ''p'') (local_id (\<lambda>_. 0) 3) demo_prune =
     updatePruneObjectsDraft (\<lambda>_. 0) (js ''p'') (\<lambda>seed d. (d, seed)) demo_prune"
proof -
  have "3 < localIdSeed demo_prune" by (simp add: demo_prune_def init_modal_def)
  from prune_rule_edits_lost [OF this, of "\<lambda>_. 0"] show ?thesis by blast
qed





end
