(* ===== verification/Sidebar.thy ===== *)
theory Sidebar
  imports Js_Json Js_Object State_Machine
begin

text \<open>
  The sidebar of the console: \<open>hooks/common/useSidebar.js\<close> merges the configuration of the administrator with
  that of the user, \<open>hooks/common/useUserPermissions.js\<close> answers what the server permits.  Configurations are
  values of the language; property names of \<open>Object.prototype\<close> do not occur in them.  The response of
  \<open>API.get\<close> is a parameter: an error, or the value it resolves to.
\<close>

section \<open>The configuration of the administrator\<close>

definition DEFAULT_ADMIN_CONFIG :: jsval where
  "DEFAULT_ADMIN_CONFIG =
     Obj [(js ''chat'', Obj [(js ''enabled'', Bool True), (js ''chat'', Bool True)]),
       (js ''console'', Obj [(js ''enabled'', Bool True), (js ''detail'', Bool True), (js ''token'', Bool True),
         (js ''playground'', Bool True), (js ''log'', Bool True), (js ''midjourney'', Bool True), (js ''task'', Bool True)]),
       (js ''personal'', Obj [(js ''enabled'', Bool True), (js ''topup'', Bool True), (js ''personal'', Bool True)]),
       (js ''admin'', Obj [(js ''enabled'', Bool True), (js ''channel'', Bool True), (js ''models'', Bool True),
         (js ''model-verify'', Bool True), (js ''deployment'', Bool True), (js ''redemption'', Bool True),
         (js ''user'', Bool True), (js ''subscription'', Bool True), (js ''setting'', Bool True)])]"

text \<open>\<open>JSON.parse(JSON.stringify(value))\<close>; the code calls it on the default configuration only.\<close>

definition deepClone :: "jsval \<Rightarrow> jsval" where
  "deepClone v = (case json_parse (json_ser [] [] v) of Some w \<Rightarrow> w | None \<Rightarrow> Undef)"

definition merge_section :: "jsstr \<times> jsval \<Rightarrow> (jsstr, jsval) store \<Rightarrow> (jsstr, jsval) store" where
  "merge_section kv merged =
     (let (sectionKey, sectionConfig) = kv; current = own_prop (Obj merged) sectionKey in
      if \<not> truthy sectionConfig \<or> \<not> is_object_type sectionConfig then merged
      else if \<not> truthy current then put sectionKey (Obj (spread_over [] sectionConfig)) merged
      else put sectionKey (Obj (spread_over (spread_over [] current) sectionConfig)) merged)"

definition mergeAdminConfig :: "jsval \<Rightarrow> jsval" where
  "mergeAdminConfig savedConfig =
     (let merged = deepClone DEFAULT_ADMIN_CONFIG in
      if \<not> truthy savedConfig \<or> \<not> is_object_type savedConfig then merged
      else Obj (fold merge_section (entries savedConfig) (case merged of Obj kvs \<Rightarrow> kvs | _ \<Rightarrow> [])))"

text \<open>\<open>raw\<close> is \<open>statusState?.status?.SidebarModulesAdmin\<close>.\<close>

definition adminConfig :: "jsval \<Rightarrow> jsval" where
  "adminConfig raw =
     (if truthy raw then
        (case json_parse (to_str raw) of Some config \<Rightarrow> mergeAdminConfig config | None \<Rightarrow> mergeAdminConfig Null)
      else mergeAdminConfig Null)"

section \<open>The configuration of the user\<close>

definition default_section :: "jsval \<Rightarrow> jsval" where
  "default_section section' =
     Obj (fold (\<lambda>m acc. if m \<noteq> js ''enabled'' \<and> truthy (own_prop section' m) then put m (Bool True) acc else acc)
       (obj_keys section') [(js ''enabled'', Bool True)])"

definition default_user_config :: "jsval \<Rightarrow> jsval" where
  "default_user_config admin =
     Obj (fold (\<lambda>s acc. if truthy (own_prop (own_prop admin s) (js ''enabled''))
         then put s (default_section (own_prop admin s)) acc else acc) (obj_keys admin) [])"

text \<open>
  What \<open>loadUserConfig\<close> sets.  A property read on \<open>undefined\<close> or \<open>null\<close> on the way to \<open>sidebar_modules\<close>
  throws, and so does an invalid text; the handler of both sets the default, as the branch without
  modules does.
\<close>

definition loaded_config :: "jsval \<Rightarrow> js_error + jsval \<Rightarrow> jsval" where
  "loaded_config admin response =
     (case response of
        Inl _ \<Rightarrow> default_user_config admin
      | Inr res \<Rightarrow>
          (let body = own_prop res (js ''data'');
               modules = own_prop (own_prop body (js ''data'')) (js ''sidebar_modules'')
           in if truthy (own_prop body (js ''success'')) \<and> truthy modules then
                (case modules of
                   Str s \<Rightarrow> (case json_parse s of Some config \<Rightarrow> config | None \<Rightarrow> default_user_config admin)
                 | _ \<Rightarrow> modules)
              else default_user_config admin))"

section \<open>What is shown\<close>

definition section_enabled :: "jsval \<Rightarrow> bool" where
  "section_enabled userSection = (truthy userSection \<longrightarrow> own_prop userSection (js ''enabled'') \<noteq> Bool False)"

definition module_value :: "jsval \<Rightarrow> jsval \<Rightarrow> jsstr \<Rightarrow> jsval" where
  "module_value adminSection userSection moduleKey =
     (let adminAllowed = own_prop adminSection moduleKey;
          userAllowed = (truthy userSection \<longrightarrow> own_prop userSection moduleKey \<noteq> Bool False)
      in if \<not> truthy adminAllowed then adminAllowed
         else if \<not> userAllowed then Bool False
         else Bool (section_enabled userSection))"

definition final_section :: "jsval \<Rightarrow> jsval \<Rightarrow> jsval" where
  "final_section adminSection userSection =
     (if \<not> truthy (own_prop adminSection (js ''enabled'')) then Obj [(js ''enabled'', Bool False)]
      else Obj (fold (\<lambda>m. put m (module_value adminSection userSection m))
        (filter (\<lambda>m. m \<noteq> js ''enabled'') (obj_keys adminSection))
        [(js ''enabled'', Bool (section_enabled userSection))]))"

definition finalConfig :: "jsval \<Rightarrow> jsval \<Rightarrow> jsval" where
  "finalConfig admin user =
     (if \<not> truthy admin \<or> length (obj_keys admin) = 0 then Obj []
      else if \<not> truthy user then Obj []
      else Obj (fold (\<lambda>s. put s (final_section (own_prop admin s) (own_prop user s))) (obj_keys admin) []))"

text \<open>\<open>moduleKey\<close> is \<open>null\<close> when the caller asks for the section.\<close>

definition isModuleVisible :: "jsval \<Rightarrow> jsstr \<Rightarrow> jsstr option \<Rightarrow> bool" where
  "isModuleVisible final sectionKey moduleKey =
     (case moduleKey of
        Some (c # m) \<Rightarrow> own_prop (own_prop final sectionKey) (c # m) = Bool True
      | _ \<Rightarrow> own_prop (own_prop final sectionKey) (js ''enabled'') = Bool True)"

definition getVisibleModules :: "jsval \<Rightarrow> jsstr \<Rightarrow> jsstr list" where
  "getVisibleModules final sectionKey =
     (let section' = own_prop final sectionKey in
      if \<not> truthy (own_prop section' (js ''enabled'')) then []
      else filter (\<lambda>k. k \<noteq> js ''enabled'' \<and> own_prop section' k = Bool True) (obj_keys section'))"

definition hasSectionVisibleModules :: "jsval \<Rightarrow> jsstr \<Rightarrow> bool" where
  "hasSectionVisibleModules final sectionKey =
     (let section' = own_prop final sectionKey in
      if \<not> truthy (own_prop section' (js ''enabled'')) then False
      else list_ex (\<lambda>k. k \<noteq> js ''enabled'' \<and> own_prop section' k = Bool True) (obj_keys section'))"

section \<open>Permissions from the server\<close>

text \<open>\<open>permissions\<close> is the value the hook stored, \<open>null\<close> before the first answer.\<close>

definition hasSidebarSettingsPermission :: "jsval \<Rightarrow> bool" where
  "hasSidebarSettingsPermission permissions = (own_prop permissions (js ''sidebar_settings'') = Bool True)"

definition isSidebarSectionAllowed :: "jsval \<Rightarrow> jsstr \<Rightarrow> bool" where
  "isSidebarSectionAllowed permissions sectionKey =
     (let modules = own_prop permissions (js ''sidebar_modules'') in
      if \<not> truthy modules then True else own_prop modules sectionKey \<noteq> Bool False)"

definition isSidebarModuleAllowed :: "jsval \<Rightarrow> jsstr \<Rightarrow> jsstr \<Rightarrow> bool" where
  "isSidebarModuleAllowed permissions sectionKey moduleKey =
     (let modules = own_prop permissions (js ''sidebar_modules'') in
      if \<not> truthy modules then True
      else
        (let sectionPerms = own_prop modules sectionKey in
         if sectionPerms = Bool False then False
         else if truthy sectionPerms \<and> own_prop sectionPerms moduleKey = Bool False then False
         else True))"

definition getAllowedSidebarSections :: "jsval \<Rightarrow> jsstr list" where
  "getAllowedSidebarSections permissions =
     (let modules = own_prop permissions (js ''sidebar_modules'') in
      if \<not> truthy modules then [] else filter (isSidebarSectionAllowed permissions) (obj_keys modules))"

definition getAllowedSidebarModules :: "jsval \<Rightarrow> jsstr \<Rightarrow> jsstr list" where
  "getAllowedSidebarModules permissions sectionKey =
     (let modules = own_prop permissions (js ''sidebar_modules''); sectionPerms = own_prop modules sectionKey in
      if \<not> truthy modules then []
      else if sectionPerms = Bool False then []
      else if \<not> truthy sectionPerms \<or> \<not> is_object_type sectionPerms then []
      else filter (\<lambda>m. m \<noteq> js ''enabled'' \<and> own_prop sectionPerms m = Bool True) (obj_keys sectionPerms))"

record permission_state =
  permissions :: jsval
  p_loading :: bool
  p_error :: jsval

definition init_permissions :: permission_state where
  "init_permissions = \<lparr>permissions = Null, p_loading = True, p_error = Null\<rparr>"

definition txt_permission_failed :: jsstr where "txt_permission_failed = [33719, 21462, 26435, 38480, 22833, 36133]"
definition txt_network_retry :: jsstr where "txt_network_retry = [32593, 32476, 38169, 35823, 65292, 35831, 37325, 35797]"

text \<open>\<open>loadPermissions\<close>, from its start to the answer of the server.\<close>

definition loadPermissions :: "js_error + jsval \<Rightarrow> permission_state \<Rightarrow> permission_state" where
  "loadPermissions response st =
     (let failed = st\<lparr>p_loading := False, p_error := Str txt_network_retry\<rparr> in
      case response of
        Inl _ \<Rightarrow> failed
      | Inr res \<Rightarrow>
          (let body = own_prop res (js ''data'') in
           if nullish body then failed
           else if truthy (own_prop body (js ''success'')) then
             (let d = own_prop body (js ''data'') in
              if nullish d then failed
              else st\<lparr>permissions := own_prop d (js ''permissions''), p_loading := False, p_error := Null\<rparr>)
           else st\<lparr>p_loading := False,
             p_error := js_or (own_prop body (js ''message'')) (Str txt_permission_failed)\<rparr>))"

section \<open>Lookups\<close>

definition sections :: "(jsstr, jsval) store \<Rightarrow> bool" where
  "sections kvs \<longleftrightarrow> (\<forall>k. own_prop (Obj kvs) k = Undef \<or> (\<exists>sec. own_prop (Obj kvs) k = Obj sec))"

lemma sections_merge: "sections merged \<Longrightarrow> sections (merge_section kv merged)"
  by (cases kv) (auto simp: sections_def merge_section_def Let_def)

lemma sections_fold: "sections merged \<Longrightarrow> sections (fold merge_section kvs merged)"
  by (induction kvs arbitrary: merged) (auto simp: sections_merge)

lemma merge_section_prop:
  assumes "sections merged"
  shows "own_prop (own_prop (Obj (merge_section (k, c) merged)) s) m =
    (if s = k \<and> truthy c \<and> is_object_type c \<and> m \<in> set (obj_keys c) then own_prop c m
     else own_prop (own_prop (Obj merged) s) m)"
proof -
  consider "own_prop (Obj merged) k = Undef" | sec where "own_prop (Obj merged) k = Obj sec"
    using assms by (auto simp: sections_def)
  then show ?thesis
    by cases (auto simp: merge_section_def Let_def own_prop_spread own_prop_not_key)
qed

lemma fold_merge_prop:
  assumes "sections merged"
  shows "own_prop (own_prop (Obj (fold merge_section (map (\<lambda>k. (k, own_prop cfg k)) ks) merged)) s) m =
    (if s \<in> set ks \<and> truthy (own_prop cfg s) \<and> is_object_type (own_prop cfg s) \<and> m \<in> set (obj_keys (own_prop cfg s))
     then own_prop (own_prop cfg s) m else own_prop (own_prop (Obj merged) s) m)"
  using assms
proof (induction ks arbitrary: merged)
  case (Cons k ks)
  have "sections (merge_section (k, own_prop cfg k) merged)" using Cons.prems by (rule sections_merge)
  from Cons.IH [OF this] show ?case using merge_section_prop [OF Cons.prems, of k "own_prop cfg k"] by auto
qed simp

lemma deepClone_default [simp]: "deepClone DEFAULT_ADMIN_CONFIG = DEFAULT_ADMIN_CONFIG"
proof -
  have "json_canon DEFAULT_ADMIN_CONFIG"
    by (simp add: DEFAULT_ADMIN_CONFIG_def own_order_def js_def)
  from json_parse_stringify [OF this, of "[]" ] show ?thesis by (simp add: deepClone_def json_ws_def)
qed

lemma merge_eq:
  obtains kvs where "DEFAULT_ADMIN_CONFIG = Obj kvs" "sections kvs"
    "mergeAdminConfig cfg = Obj (if truthy cfg \<and> is_object_type cfg then fold merge_section (entries cfg) kvs else kvs)"
proof -
  obtain kvs where kvs: "DEFAULT_ADMIN_CONFIG = Obj kvs" "sections kvs"
    by (auto simp: DEFAULT_ADMIN_CONFIG_def sections_def own_prop_def get_def)
  have "mergeAdminConfig cfg = Obj (if truthy cfg \<and> is_object_type cfg then fold merge_section (entries cfg) kvs else kvs)"
    unfolding mergeAdminConfig_def deepClone_default by (simp add: kvs)
  with kvs show thesis by (rule that)
qed

text \<open>A setting the administrator saved is in force, and every setting the saved configuration does not
  mention keeps its default; saved sections that are no objects are ignored.\<close>

theorem saved_setting_wins:
  "own_prop (own_prop (mergeAdminConfig cfg) s) m =
     (if truthy cfg \<and> is_object_type cfg \<and> s \<in> set (obj_keys cfg) \<and> truthy (own_prop cfg s) \<and>
         is_object_type (own_prop cfg s) \<and> m \<in> set (obj_keys (own_prop cfg s))
      then own_prop (own_prop cfg s) m
      else own_prop (own_prop DEFAULT_ADMIN_CONFIG s) m)"
proof -
  obtain kvs where kvs: "DEFAULT_ADMIN_CONFIG = Obj kvs" "sections kvs"
      "mergeAdminConfig cfg = Obj (if truthy cfg \<and> is_object_type cfg then fold merge_section (entries cfg) kvs else kvs)"
    by (rule merge_eq)
  show ?thesis
    unfolding kvs(1,3) using fold_merge_prop [OF kvs(2), of cfg "obj_keys cfg" s m] by (simp add: entries_def)
qed

lemma admin_sections:
  obtains kvs where "adminConfig raw = Obj kvs" "sections kvs"
proof -
  have "\<exists>kvs. mergeAdminConfig cfg = Obj kvs \<and> sections kvs" for cfg
    by (rule merge_eq [of cfg]) (auto simp: sections_fold)
  moreover have "\<exists>cfg. adminConfig raw = mergeAdminConfig cfg" by (auto simp: adminConfig_def split: option.split)
  ultimately show thesis using that by metis
qed

section \<open>Visibility\<close>

lemma final_lookup:
  "own_prop (finalConfig (Obj kvs) user) s =
     (if truthy user \<and> s \<in> set (keys kvs) then final_section (own_prop (Obj kvs) s) (own_prop user s) else Undef)"
  by (auto simp: finalConfig_def own_prop_fold_put simp flip: set_obj_keys_Obj)

lemma section_lookup:
  assumes "m \<noteq> js ''enabled''"
  shows "own_prop (final_section (Obj sec) userSection) m =
    (if truthy (own_prop (Obj sec) (js ''enabled'')) \<and> m \<in> set (keys sec) then module_value (Obj sec) userSection m else Undef)"
  using assms by (auto simp: final_section_def own_prop_fold_put) (simp_all add: own_prop_def get_def)

lemma module_value_True: "module_value a u m = Bool True \<longleftrightarrow> truthy (own_prop a m) \<and>
    (truthy u \<longrightarrow> own_prop u m \<noteq> Bool False) \<and> section_enabled u"
proof -
  have "truthy (Bool True)" by (simp add: truthy_def)
  then show ?thesis by (auto simp: module_value_def Let_def)
qed

lemma visible_iff:
  assumes "m \<noteq> []" "m \<noteq> js ''enabled''"
  shows "isModuleVisible (finalConfig (adminConfig raw) user) s (Some m) \<longleftrightarrow>
    truthy user \<and> truthy (own_prop (own_prop (adminConfig raw) s) (js ''enabled'')) \<and>
    truthy (own_prop (own_prop (adminConfig raw) s) m) \<and>
    section_enabled (own_prop user s) \<and> (truthy (own_prop user s) \<longrightarrow> own_prop (own_prop user s) m \<noteq> Bool False)"
proof -
  obtain kvs where kvs: "adminConfig raw = Obj kvs" "sections kvs" by (rule admin_sections)
  have vis: "isModuleVisible f s (Some m) \<longleftrightarrow> own_prop (own_prop f s) m = Bool True" for f
    using assms(1) by (cases m) (simp_all add: isModuleVisible_def)
  consider "own_prop (Obj kvs) s = Undef" | sec where "own_prop (Obj kvs) s = Obj sec" "s \<in> set (keys kvs)"
    using kvs(2) own_prop_not_key [of s kvs] by (auto simp: sections_def)
  then show ?thesis
  proof cases
    case 1
    then show ?thesis by (simp add: vis kvs(1) final_lookup final_section_def) (simp add: own_prop_def get_def)
  next
    case (2 sec)
    then show ?thesis
      using own_prop_not_key [of m sec]
      by (auto simp: vis kvs(1) final_lookup section_lookup [OF assms(2)] module_value_True)
  qed
qed



lemma default_section_lookup:
  assumes "m \<noteq> js ''enabled''"
  shows "own_prop (default_section (Obj sec)) m = (if truthy (own_prop (Obj sec) m) then Bool True else Undef)"
    "own_prop (default_section (Obj sec)) (js ''enabled'') = Bool True"
proof -
  have f: "fold (\<lambda>m acc. if m \<noteq> js ''enabled'' \<and> truthy (own_prop (Obj sec) m) then put m (Bool True) acc else acc) ks acc =
      fold (\<lambda>m. put m (Bool True)) (filter (\<lambda>m. m \<noteq> js ''enabled'' \<and> truthy (own_prop (Obj sec) m)) ks) acc" for ks acc
    by (rule fold_if)
  show "own_prop (default_section (Obj sec)) m = (if truthy (own_prop (Obj sec) m) then Bool True else Undef)"
    using assms own_prop_not_key [of m sec] unfolding default_section_def f own_prop_fold_put
    by (auto simp: own_prop_def get_def)
  show "own_prop (default_section (Obj sec)) (js ''enabled'') = Bool True"
    unfolding default_section_def f own_prop_fold_put by (simp add: own_prop_def get_def)
qed

lemma default_config_lookup:
  "own_prop (default_user_config (Obj kvs)) s =
     (if s \<in> set (keys kvs) \<and> truthy (own_prop (own_prop (Obj kvs) s) (js ''enabled''))
      then default_section (own_prop (Obj kvs) s) else Undef)"
  unfolding default_user_config_def fold_if own_prop_fold_put by simp

text \<open>For a user without a configuration of their own, or when loading it fails, the sidebar shows exactly
  what the administrator enabled.\<close>

theorem default_config_shows_allowed:
  assumes "m \<noteq> []" "m \<noteq> js ''enabled''"
  shows "isModuleVisible (finalConfig (adminConfig raw) (loaded_config (adminConfig raw) (Inl err))) s (Some m) \<longleftrightarrow>
    truthy (own_prop (own_prop (adminConfig raw) s) (js ''enabled'')) \<and> truthy (own_prop (own_prop (adminConfig raw) s) m)"
proof -
  obtain kvs where kvs: "adminConfig raw = Obj kvs" "sections kvs" by (rule admin_sections)
  have u: "truthy (default_user_config (Obj kvs))" by (simp add: default_user_config_def)
  consider "own_prop (Obj kvs) s = Undef" | sec where "own_prop (Obj kvs) s = Obj sec" using kvs(2) by (auto simp: sections_def)
  then show ?thesis
  proof cases
    case 1
    then show ?thesis using visible_iff [OF assms, of raw] by (simp add: kvs(1))
  next
    case (2 sec)
    then have "truthy (own_prop (own_prop (Obj kvs) s) (js ''enabled'')) \<Longrightarrow>
        own_prop (default_user_config (Obj kvs)) s = default_section (Obj sec)"
      using own_prop_not_key [of s kvs] by (auto simp: default_config_lookup)
    then show ?thesis
      using visible_iff [OF assms, of raw] 2 u default_section_lookup [OF assms(2), of sec]
      by (auto simp: loaded_config_def kvs(1) section_enabled_def)
  qed
qed

theorem default_config_shows_allowed_witness:
  "isModuleVisible (finalConfig (adminConfig Undef) (loaded_config (adminConfig Undef) (Inl TypeError)))
     (js ''console'') (Some (js ''token''))"
proof -
  have a: "adminConfig Undef = DEFAULT_ADMIN_CONFIG"
    by (simp add: adminConfig_def mergeAdminConfig_def truthy_def)
  have "js ''token'' \<noteq> []" "js ''token'' \<noteq> js ''enabled''" by simp_all
  from default_config_shows_allowed [OF this, of Undef TypeError "js ''console''"] show ?thesis
    by (simp add: a DEFAULT_ADMIN_CONFIG_def own_prop_def get_def truthy_def)
qed

text \<open>The listed modules of a section are permitted modules of a permitted section.\<close>

lemma allowed_modules_sound:
  "m \<in> set (getAllowedSidebarModules p s) \<Longrightarrow> isSidebarModuleAllowed p s m \<and> isSidebarSectionAllowed p s"
  by (auto simp: getAllowedSidebarModules_def isSidebarModuleAllowed_def isSidebarSectionAllowed_def Let_def split: if_splits)

section \<open>Instances of the hook\<close>

text \<open>
  Several mounted components use the hook at once.  Each instance keeps its configuration, its loading flag
  and the reference \<open>hasLoadedOnceRef\<close>; \<open>s_pending\<close> lists its calls of \<open>loadUserConfig\<close> that wait for an
  answer: whether the call shows the loader, and whether it ends in the refresh event.
\<close>

record sidebar =
  s_userConfig :: jsval
  s_loading :: bool
  s_hasLoadedOnce :: bool
  s_pending :: "(bool \<times> bool) list"

text \<open>The first part of \<open>loadUserConfig\<close>, up to the request.\<close>

definition begin_load :: "bool option \<Rightarrow> bool \<Rightarrow> sidebar \<Rightarrow> sidebar" where
  "begin_load withLoading broadcast i =
     (let shouldShowLoader = (case withLoading of Some b \<Rightarrow> b | None \<Rightarrow> \<not> s_hasLoadedOnce i)
      in i\<lparr>s_loading := (if shouldShowLoader then True else s_loading i),
           s_pending := s_pending i @ [(shouldShowLoader, broadcast)]\<rparr>)"

text \<open>Its second part: the answer of the \<open>k\<close>th pending call.\<close>

definition finish_load :: "jsval \<Rightarrow> nat \<Rightarrow> js_error + jsval \<Rightarrow> sidebar \<Rightarrow> sidebar" where
  "finish_load admin k response i =
     (let (shouldShowLoader, _) = s_pending i ! k
      in i\<lparr>s_userConfig := loaded_config admin response,
           s_loading := (if shouldShowLoader then False else s_loading i),
           s_hasLoadedOnce := True,
           s_pending := take k (s_pending i) @ drop (Suc k) (s_pending i)\<rparr>)"

definition mount_sidebar :: sidebar where
  "mount_sidebar = begin_load None False
     \<lparr>s_userConfig = Null, s_loading = True, s_hasLoadedOnce = False, s_pending = []\<rparr>"

text \<open>The refresh event reaches every instance but its source.\<close>

definition broadcast_refresh :: "nat \<Rightarrow> sidebar list \<Rightarrow> sidebar list" where
  "broadcast_refresh source insts = map (\<lambda>(n, i). if n = source then i else begin_load (Some False) False i) (enumerate 0 insts)"

text \<open>
  An answer arrives: a pending load ends, and the event fires when the load belongs to
  \<open>refreshUserConfig\<close>.
\<close>

inductive sidebar_answer :: "jsval \<times> sidebar list \<Rightarrow> jsval \<times> sidebar list \<Rightarrow> bool" where
  finish: "sidebar_answer (raw, insts) (raw, (if snd (s_pending (insts ! n) ! k) then broadcast_refresh n else id)
      (insts[n := finish_load (adminConfig raw) k response (insts ! n)]))"
    if "n < length insts" "k < length (s_pending (insts ! n))"

text \<open>
  Steps of the page: an answer, a mount, a refresh, a change of the configuration of the administrator.
  The merged configuration is never empty, so the guards \<open>Object.keys(adminConfig).length > 0\<close> hold.
\<close>

inductive sidebar_step :: "jsval \<times> sidebar list \<Rightarrow> jsval \<times> sidebar list \<Rightarrow> bool" where
  answer: "sidebar_answer s s' \<Longrightarrow> sidebar_step s s'"
| mount: "sidebar_step (raw, insts) (raw, insts @ [mount_sidebar])"
| refresh: "sidebar_step (raw, insts) (raw, insts[n := begin_load (Some False) True (insts ! n)])" if "n < length insts"
| new_admin: "sidebar_step (raw, insts) (raw', map (begin_load None False) insts)"

definition sidebar_ok :: "sidebar \<Rightarrow> bool" where
  "sidebar_ok i \<longleftrightarrow> (s_loading i \<longrightarrow> (\<exists>b. (True, b) \<in> set (s_pending i))) \<and> (s_hasLoadedOnce i \<or> s_pending i \<noteq> [])"

lemma ok_begin: "sidebar_ok i \<Longrightarrow> sidebar_ok (begin_load w b i)"
  by (auto simp: sidebar_ok_def begin_load_def Let_def)

lemma ok_finish:
  assumes "sidebar_ok i" "k < length (s_pending i)"
  shows "sidebar_ok (finish_load admin k response i)"
proof -
  obtain w b where k: "s_pending i ! k = (w, b)" by fastforce
  have p: "s_pending i = take k (s_pending i) @ (w, b) # drop (Suc k) (s_pending i)"
    using id_take_nth_drop [OF assms(2)] k by simp
  then have "(True, c) \<in> set (take k (s_pending i) @ drop (Suc k) (s_pending i))" if "\<not> w" "(True, c) \<in> set (s_pending i)" for c
    using that by (metis (no_types, lifting) Un_iff set_ConsD set_append prod.inject)
  then show ?thesis using assms(1) k by (auto simp: sidebar_ok_def finish_load_def)
qed

lemma ok_broadcast: "list_all sidebar_ok insts \<Longrightarrow> list_all sidebar_ok (broadcast_refresh n insts)"
  by (auto simp: broadcast_refresh_def list_all_iff in_set_enumerate_eq ok_begin)

interpretation sidebars: invariant_machine "\<lambda>s. snd s = []" sidebar_step "\<lambda>s. list_all sidebar_ok (snd s)"
proof
  fix s s' assume ok: "list_all sidebar_ok (snd s)" and "sidebar_step s s'"
  from this(2) show "list_all sidebar_ok (snd s')"
  proof cases
    case answer
    then show ?thesis
    proof cases
      case (finish n insts k raw response)
      have "list_all sidebar_ok (insts[n := finish_load (adminConfig raw) k response (insts ! n)])"
        using ok finish(1,3,4) ok_finish by (auto simp: list_all_length nth_list_update)
      then show ?thesis unfolding finish(2) using ok_broadcast by (simp split: if_splits)
    qed
  next
    case (mount raw insts)
    have "sidebar_ok mount_sidebar" by (auto simp: mount_sidebar_def begin_load_def sidebar_ok_def)
    then show ?thesis using ok mount by simp
  next
    case (refresh n insts raw)
    then show ?thesis using ok ok_begin by (auto simp: list_all_length nth_list_update)
  next
    case (new_admin raw insts raw')
    then show ?thesis using ok ok_begin by (auto simp: list_all_iff)
  qed
qed simp

text \<open>An answer that fires the event starts at most one load per instance, and these fire no event.\<close>

definition load_weight :: "nat \<Rightarrow> sidebar \<Rightarrow> nat" where
  "load_weight n i = (\<Sum>(w, b) \<leftarrow> s_pending i. if b then Suc n else 1)"

definition load_measure :: "jsval \<times> sidebar list \<Rightarrow> nat" where
  "load_measure s = (\<Sum>i \<leftarrow> snd s. load_weight (length (snd s)) i)"

lemma weight_begin [simp]: "load_weight n (begin_load w b i) = load_weight n i + (if b then Suc n else 1)"
  by (simp add: load_weight_def begin_load_def Let_def)

lemma weight_finish:
  assumes "k < length (s_pending i)"
  shows "load_weight n i = load_weight n (finish_load admin k response i) + (if snd (s_pending i ! k) then Suc n else 1)"
proof -
  have "s_pending i = take k (s_pending i) @ s_pending i ! k # drop (Suc k) (s_pending i)"
    using assms by (simp add: id_take_nth_drop)
  then have "load_weight n i = (\<Sum>(w, b) \<leftarrow> take k (s_pending i) @ s_pending i ! k # drop (Suc k) (s_pending i). if b then Suc n else 1)"
    unfolding load_weight_def by simp
  then show ?thesis by (simp add: load_weight_def finish_load_def split: prod.splits)
qed

lemma weight_broadcast:
  "(\<Sum>i \<leftarrow> broadcast_refresh src insts. load_weight n i) \<le> (\<Sum>i \<leftarrow> insts. load_weight n i) + length insts"
proof -
  have "(\<Sum>i \<leftarrow> map (\<lambda>(n', i). if n' = src then i else begin_load (Some False) False i) (enumerate j xs). load_weight n i)
      \<le> (\<Sum>i \<leftarrow> xs. load_weight n i) + length xs" for j xs
  proof (induction xs arbitrary: j)
    case (Cons x xs)
    then show ?case using Cons [of "Suc j"] by (auto intro: le_SucI)
  qed simp
  then show ?thesis by (simp add: broadcast_refresh_def)
qed

lemma sum_list_update':
  fixes f :: "'a \<Rightarrow> nat"
  assumes "n < length xs"
  shows "(\<Sum>x \<leftarrow> xs[n := y]. f x) + f (xs ! n) = (\<Sum>x \<leftarrow> xs. f x) + f y"
  using assms by (induction xs arbitrary: n) (auto split: nat.splits)

lemma answer_decreases: "sidebar_answer s s' \<Longrightarrow> load_measure s' < load_measure s"
proof (induction rule: sidebar_answer.induct)
  case (finish n insts k raw response)
  let ?i = "insts ! n" and ?N = "length insts"
  let ?insts = "insts[n := finish_load (adminConfig raw) k response ?i]"
  have "(\<Sum>i \<leftarrow> ?insts. load_weight ?N i) + load_weight ?N ?i =
      (\<Sum>i \<leftarrow> insts. load_weight ?N i) + load_weight ?N (finish_load (adminConfig raw) k response ?i)"
    by (rule sum_list_update') (rule finish(1))
  then have "(\<Sum>i \<leftarrow> ?insts. load_weight ?N i) + (if snd (s_pending ?i ! k) then Suc ?N else 1) = (\<Sum>i \<leftarrow> insts. load_weight ?N i)"
    using weight_finish [OF finish(2), of ?N "adminConfig raw" response] by simp
  then show ?case
    using weight_broadcast [of ?N n ?insts] by (auto simp: load_measure_def broadcast_refresh_def)
qed



end
