(* ===== verification/Base64.thy ===== *)
theory Base64
  imports Js_Value
begin

text \<open>
  Base64 as the browser has it (\<open>btoa\<close> and \<open>atob\<close> of the HTML standard), the URL variant of
  \<open>helpers/passkey.js\<close> and the text encoder of \<open>helpers/base64.js\<close>.  Buffers are lists of bytes; a
  binary string is the same list read as code units.
\<close>

section \<open>btoa and atob\<close>

definition b64_char :: "nat \<Rightarrow> jschar" where
  "b64_char n = (if n < 26 then 65 + n else if n < 52 then 71 + n else if n < 62 then n - 4
     else if n = 62 then 43 else 47)"

definition b64_val :: "jschar \<Rightarrow> nat option" where
  "b64_val c = (if 65 \<le> c \<and> c \<le> 90 then Some (c - 65) else if 97 \<le> c \<and> c \<le> 122 then Some (c - 71)
     else if 48 \<le> c \<and> c \<le> 57 then Some (c + 4) else if c = 43 then Some 62 else if c = 47 then Some 63 else None)"

fun sextets :: "nat list \<Rightarrow> nat list" where
  "sextets [] = []"
| "sextets [a] = [a div 4, a mod 4 * 16]"
| "sextets [a, b] = [a div 4, a mod 4 * 16 + b div 16, b mod 16 * 4]"
| "sextets (a # b # c # bs) = [a div 4, a mod 4 * 16 + b div 16, b mod 16 * 4 + c div 64, c mod 64] @ sextets bs"

definition padding :: "nat \<Rightarrow> jsstr" where
  "padding n = replicate ((4 - n mod 4) mod 4) 61"

definition btoa :: "nat list \<Rightarrow> jsstr" where
  "btoa bs = map b64_char (sextets bs) @ padding (length (sextets bs))"

fun octets :: "nat list \<Rightarrow> nat list" where
  "octets [] = []"
| "octets [w] = []"
| "octets [w, x] = [w * 4 + x div 16]"
| "octets [w, x, y] = [w * 4 + x div 16, x mod 16 * 16 + y div 4]"
| "octets (w # x # y # z # vs) = [w * 4 + x div 16, x mod 16 * 16 + y div 4, y mod 4 * 64 + z] @ octets vs"

text \<open>Forgiving decoding: white space is skipped, up to two \<open>=\<close> may fill the last group, spare bits are dropped.\<close>

definition strip_padding :: "jsstr \<Rightarrow> jsstr" where
  "strip_padding s =
     (if length s mod 4 = 0 then
        (if s \<noteq> [] \<and> last s = 61 then
           (if butlast s \<noteq> [] \<and> last (butlast s) = 61 then butlast (butlast s) else butlast s)
         else s)
      else s)"

definition invalid_character :: js_error where
  "invalid_character = ErrorMsg (js ''InvalidCharacterError'')"

definition atob :: "jsstr \<Rightarrow> js_error + nat list" where
  "atob s =
     (let data = strip_padding (filter (\<lambda>c. c \<notin> {9, 10, 12, 13, 32}) s) in
      if length data mod 4 = 1 \<or> \<not> list_all (\<lambda>c. b64_val c \<noteq> None) data then Inl invalid_character
      else Inr (octets (map (\<lambda>c. the (b64_val c)) data)))"

section \<open>Base64url\<close>

definition url_char :: "jschar \<Rightarrow> jschar" where
  "url_char c = (if c = 43 then 45 else if c = 47 then 95 else c)"

definition plain_char :: "jschar \<Rightarrow> jschar" where
  "plain_char c = (if c = 45 then 43 else if c = 95 then 47 else c)"

text \<open>The argument may be any value: its text is decoded, its \<open>length\<close> decides about the padding.\<close>

definition base64UrlToBuffer :: "jsval \<Rightarrow> js_error + nat list" where
  "base64UrlToBuffer base64url =
     (if \<not> truthy base64url then Inr []
      else
        (let pad = (case base64url of Str s \<Rightarrow> padding (length s) | Arr xs \<Rightarrow> padding (length xs) | _ \<Rightarrow> [])
         in atob (map plain_char (to_str base64url @ pad))))"

definition bufferToBase64Url :: "nat list option \<Rightarrow> jsstr" where
  "bufferToBase64Url buffer =
     (case buffer of
        None \<Rightarrow> []
      | Some bs \<Rightarrow> rev (dropWhile (\<lambda>c. c = 61) (rev (map url_char (btoa bs)))))"

section \<open>Text to Base64\<close>

text \<open>The code points of a string; a surrogate without its partner is a code point of its own.\<close>

fun code_points :: "jsstr \<Rightarrow> nat list" where
  "code_points [] = []"
| "code_points [u] = [u]"
| "code_points (u # v # s) =
     (if 55296 \<le> u \<and> u < 56320 \<and> 56320 \<le> v \<and> v < 57344
      then (65536 + (u - 55296) * 1024 + (v - 56320)) # code_points s
      else u # code_points (v # s))"

definition surrogate :: "nat \<Rightarrow> bool" where
  "surrogate c \<longleftrightarrow> 55296 \<le> c \<and> c < 57344"

definition utf8 :: "nat \<Rightarrow> nat list" where
  "utf8 c = (if c < 128 then [c]
     else if c < 2048 then [192 + c div 64, 128 + c mod 64]
     else if c < 65536 then [224 + c div 4096, 128 + c div 64 mod 64, 128 + c mod 64]
     else [240 + c div 262144, 128 + c div 4096 mod 64, 128 + c div 64 mod 64, 128 + c mod 64])"

text \<open>\<open>new TextEncoder().encode(text)\<close>: unpaired surrogates become U+FFFD.\<close>

definition text_encode :: "jsstr \<Rightarrow> nat list" where
  "text_encode s = concat (map (\<lambda>c. utf8 (if surrogate c then 65533 else c)) (code_points s))"

definition hex_upper :: "nat \<Rightarrow> jschar" where
  "hex_upper n = (if n < 10 then 48 + n else 55 + n)"

definition unreserved :: "nat \<Rightarrow> bool" where
  "unreserved c \<longleftrightarrow> 65 \<le> c \<and> c \<le> 90 \<or> 97 \<le> c \<and> c \<le> 122 \<or> 48 \<le> c \<and> c \<le> 57 \<or> c \<in> {45, 95, 46, 33, 126, 42, 39, 40, 41}"

definition percent :: "nat \<Rightarrow> jsstr" where
  "percent b = [37, hex_upper (b div 16), hex_upper (b mod 16)]"

definition encodeURIComponent :: "jsstr \<Rightarrow> js_error + jsstr" where
  "encodeURIComponent s =
     (if list_ex surrogate (code_points s) then Inl (ErrorMsg (js ''URI malformed''))
      else Inr (concat (map (\<lambda>c. if unreserved c then [c] else concat (map percent (utf8 c))) (code_points s))))"

definition hex_val :: "jschar \<Rightarrow> nat option" where
  "hex_val c = (if 48 \<le> c \<and> c \<le> 57 then Some (c - 48) else if 65 \<le> c \<and> c \<le> 70 then Some (c - 55) else None)"

text \<open>\<open>replace(/%([0-9A-F]{2})/g, (_, hex) => String.fromCharCode(parseInt(hex, 16)))\<close>\<close>

fun unpercent :: "jsstr \<Rightarrow> jsstr" where
  "unpercent (c # x # y # s) =
     (case (c = 37, hex_val x, hex_val y) of
        (True, Some h, Some l) \<Rightarrow> (16 * h + l) # unpercent s
      | _ \<Rightarrow> c # unpercent (x # y # s))"
| "unpercent s = s"

text \<open>What the environment offers: \<open>window\<close>, \<open>Buffer\<close>, \<open>globalThis.btoa\<close>, \<open>TextEncoder\<close>.\<close>

record environment =
  has_window :: bool
  has_Buffer :: bool
  has_btoa :: bool
  has_TextEncoder :: bool

definition toBinaryString :: "environment \<Rightarrow> jsstr \<Rightarrow> js_error + nat list" where
  "toBinaryString env text' =
     (if has_TextEncoder env then Inr (text_encode text')
      else (case encodeURIComponent text' of Inl err \<Rightarrow> Inl err | Inr s \<Rightarrow> Inr (unpercent s)))"

definition encodeToBase64 :: "environment \<Rightarrow> jsval \<Rightarrow> js_error + jsstr" where
  "encodeToBase64 env value =
     (let input = (if nullish value then [] else to_str value);
          browser = (case toBinaryString env input of Inl err \<Rightarrow> Inl err | Inr bs \<Rightarrow> Inr (btoa bs))
      in if \<not> has_window env then
           (if has_Buffer env then Inr (btoa (text_encode input))
            else if has_btoa env then browser
            else Inl (ErrorMsg (js ''Base64 encoding is unavailable in the current environment'')))
         else browser)"

section \<open>Round trip of the URL variant\<close>

lemma sextets_bound: "list_all (\<lambda>b. b < 256) bs \<Longrightarrow> list_all (\<lambda>v. v < 64) (sextets bs)"
  by (induction bs rule: sextets.induct) auto

lemma octets_sextets: "list_all (\<lambda>b. b < 256) bs \<Longrightarrow> octets (sextets bs) = bs"
  by (induction bs rule: sextets.induct) auto

lemma length_sextets: "length (sextets bs) = (4 * length bs + 2) div 3"
  by (induction bs rule: sextets.induct) auto

lemma b64_val_char [simp]: "n < 64 \<Longrightarrow> b64_val (b64_char n) = Some n"
  by (auto simp: b64_val_def b64_char_def)

lemma b64_char_class: "n < 64 \<Longrightarrow> b64_char n \<noteq> 61 \<and> b64_char n \<notin> {9, 10, 12, 13, 32} \<and> plain_char (url_char (b64_char n)) = b64_char n \<and>
    url_char (b64_char n) \<noteq> 61"
  by (auto simp: b64_char_def plain_char_def url_char_def)

lemma sextets_mod: "length (sextets bs) mod 4 \<noteq> 1"
  by (induction bs rule: sextets.induct) auto

lemma strip_padding_pad:
  assumes "length xs mod 4 \<noteq> 1" "61 \<notin> set xs"
  shows "strip_padding (xs @ padding (length xs)) = xs"
proof -
  have l: "last xs \<noteq> 61" if "xs \<noteq> []" using assms(2) last_in_set [OF that] by metis
  consider "length xs mod 4 = 0" | "length xs mod 4 = 2" | "length xs mod 4 = 3" using assms(1) by linarith
  then show ?thesis
  proof cases
    case 1
    then have "padding (length xs) = []" by (simp add: padding_def)
    then show ?thesis using l by (auto simp: strip_padding_def)
  next
    case 2
    then have p: "padding (length xs) = [61, 61]" by (simp add: padding_def numeral_2_eq_2)
    have "length (xs @ [61, 61]) mod 4 = 0" using 2 by (simp add: mod_Suc)
    then show ?thesis unfolding p by (simp add: strip_padding_def butlast_append)
  next
    case 3
    then have p: "padding (length xs) = [61]" by (simp add: padding_def)
    have "length (xs @ [61]) mod 4 = 0" using 3 by (simp add: mod_Suc)
    then show ?thesis unfolding p using l by (auto simp: strip_padding_def)
  qed
qed

definition url_text :: "nat list \<Rightarrow> jsstr" where
  "url_text bs = map (url_char \<circ> b64_char) (sextets bs)"

lemma url_text_eq:
  assumes "list_all (\<lambda>b. b < 256) bs"
  shows "bufferToBase64Url (Some bs) = url_text bs"
proof -
  have "61 \<notin> set (url_text bs)"
    using sextets_bound [OF assms] b64_char_class by (auto simp: url_text_def list_all_iff)
  then have d: "dropWhile (\<lambda>c. c = 61) (rev (url_text bs)) = rev (url_text bs)"
    by (metis (mono_tags, lifting) dropWhile_eq_self_iff hd_in_set set_rev)
  have pad: "dropWhile (\<lambda>c. c = 61) (replicate n 61 @ r) = dropWhile (\<lambda>c. c = 61) r" for n and r :: jsstr
    by (induction n) auto
  have "map url_char (btoa bs) = url_text bs @ padding (length (sextets bs))"
    by (simp add: btoa_def url_text_def padding_def url_char_def)
  then show ?thesis by (simp add: bufferToBase64Url_def padding_def pad d)
qed

text \<open>C17: Every byte buffer is read back unchanged from its base64url text.\<close>

theorem base64url_roundtrip:
  assumes "list_all (\<lambda>b. b < 256) bs"
  shows "base64UrlToBuffer (Str (bufferToBase64Url (Some bs))) = Inr bs"
proof (cases "bs = []")
  case True
  then show ?thesis by (simp add: bufferToBase64Url_def btoa_def padding_def base64UrlToBuffer_def truthy_def)
next
  case False
  let ?v = "sextets bs"
  have b: "\<forall>v \<in> set ?v. v < 64" using sextets_bound [OF assms] by (simp add: list_all_iff)
  have len: "length (url_text bs) = length ?v" by (simp add: url_text_def)
  have ne: "url_text bs \<noteq> []" using False by (cases bs rule: sextets.cases) (auto simp: url_text_def)
  have plain: "map plain_char (url_text bs @ padding (length ?v)) = map b64_char ?v @ padding (length (map b64_char ?v))"
    using b b64_char_class by (auto simp: url_text_def padding_def plain_char_def)
  have ws: "filter (\<lambda>c. c \<notin> {9, 10, 12, 13, 32}) (map b64_char ?v @ padding (length (map b64_char ?v))) =
      map b64_char ?v @ padding (length (map b64_char ?v))"
    using b b64_char_class by (auto simp: filter_id_conv padding_def)
  have "strip_padding (map b64_char ?v @ padding (length (map b64_char ?v))) = map b64_char ?v"
    using b b64_char_class sextets_mod by (intro strip_padding_pad) auto
  then have "atob (map b64_char ?v @ padding (length (map b64_char ?v))) = Inr (octets (map (\<lambda>c. the (b64_val (b64_char c))) ?v))"
    using b sextets_mod unfolding atob_def ws Let_def by (auto simp: list_all_iff o_def)
  moreover have "map (\<lambda>c. the (b64_val (b64_char c))) ?v = ?v" using b by (intro map_idI) simp
  ultimately show ?thesis
    using ne plain octets_sextets [OF assms] unfolding url_text_eq [OF assms] base64UrlToBuffer_def
    by (simp add: truthy_def len)
qed

theorem base64url_roundtrip_witness:
  "base64UrlToBuffer (Str (bufferToBase64Url (Some [251, 255, 0, 7]))) = Inr [251, 255, 0, 7]"
  by (rule base64url_roundtrip) simp

text \<open>The text of \<open>n\<close> bytes has \<open>\<lceil>4n / 3\<rceil>\<close> characters, all of them letters, digits, \<open>-\<close> or \<open>_\<close>.\<close>

theorem base64url_size:
  assumes "list_all (\<lambda>b. b < 256) bs"
  shows "length (bufferToBase64Url (Some bs)) = (4 * length bs + 2) div 3 \<and>
    list_all (\<lambda>c. 65 \<le> c \<and> c \<le> 90 \<or> 97 \<le> c \<and> c \<le> 122 \<or> 48 \<le> c \<and> c \<le> 57 \<or> c = 45 \<or> c = 95) (bufferToBase64Url (Some bs))"
proof -
  have "url_char (b64_char v) \<in> {65..90} \<union> {97..122} \<union> {48..57} \<union> {45, 95}" if "v < 64" for v
    using that by (auto simp: url_char_def b64_char_def)
  then show ?thesis
    using sextets_bound [OF assms] by (fastforce simp: url_text_eq [OF assms] url_text_def length_sextets list_all_iff)
qed

theorem base64url_size_witness: "length (bufferToBase64Url (Some [1, 2, 3, 4])) = 6"
proof -
  have "list_all (\<lambda>b. b < 256) [1, 2, 3, 4 :: nat]" by simp
  from base64url_size [OF this] show ?thesis by simp
qed

section \<open>The two encoders agree\<close>

lemma hex_back [simp]: "n < 16 \<Longrightarrow> hex_val (hex_upper n) = Some n"
  by (auto simp: hex_val_def hex_upper_def)

lemma unpercent_percent: "b < 256 \<Longrightarrow> unpercent (percent b @ s) = b # unpercent s"
  by (simp add: percent_def)

lemma unpercent_bytes: "\<forall>b \<in> set bs. b < 256 \<Longrightarrow> unpercent (concat (map percent bs) @ s) = bs @ unpercent s"
  by (induction bs) (auto simp: unpercent_percent)

lemma unpercent_unreserved: "c \<noteq> 37 \<Longrightarrow> unpercent (c # s) = c # unpercent s"
  by (cases "(c # s)" rule: unpercent.cases) auto

lemma utf8_bytes:
  assumes "c < 1114112"
  shows "\<forall>b \<in> set (utf8 c). b < 256"
proof -
  have "c div 262144 < 16" "c < 65536 \<Longrightarrow> c div 4096 < 16" "c < 2048 \<Longrightarrow> c div 64 < 32" using assms by linarith+
  then show ?thesis by (auto simp: utf8_def intro: add_strict_mono)
qed

lemma code_points_bound: "list_all (\<lambda>u. u < 65536) s \<Longrightarrow> \<forall>c \<in> set (code_points s). c < 1114112"
  by (induction s rule: code_points.induct) auto

text \<open>For a text without unpaired surrogates the fallback through \<open>encodeURIComponent\<close> gives the bytes that
  \<open>TextEncoder\<close> gives, so the Base64 text does not depend on the browser.\<close>

theorem encoders_agree:
  assumes "list_all (\<lambda>u. u < 65536) s" "\<not> list_ex surrogate (code_points s)"
  shows "toBinaryString (env\<lparr>has_TextEncoder := False\<rparr>) s = toBinaryString (env\<lparr>has_TextEncoder := True\<rparr>) s"
proof -
  have "unpercent (concat (map (\<lambda>c. if unreserved c then [c] else concat (map percent (utf8 c))) cs)) =
      concat (map (\<lambda>c. utf8 (if surrogate c then 65533 else c)) cs)"
    if "\<forall>c \<in> set cs. c < 1114112 \<and> \<not> surrogate c" for cs
    using that
  proof (induction cs)
    case (Cons c cs)
    show ?case
    proof (cases "unreserved c")
      case True
      then have "c \<noteq> 37" "utf8 c = [c]" by (auto simp: unreserved_def utf8_def)
      then show ?thesis using True Cons unpercent_unreserved by simp
    next
      case False
      moreover have "\<forall>b \<in> set (utf8 c). b < 256" using Cons.prems by (intro utf8_bytes) simp
      ultimately show ?thesis using Cons unpercent_bytes [of "utf8 c"] by simp
    qed
  qed simp
  then show ?thesis
    using assms code_points_bound [OF assms(1)]
    by (simp add: toBinaryString_def encodeURIComponent_def text_encode_def list_ex_iff)
qed

theorem encoders_agree_witness:
  "toBinaryString \<lparr>has_window = True, has_Buffer = False, has_btoa = True, has_TextEncoder = False\<rparr> [65, 37, 233, 55357, 56832] =
   toBinaryString \<lparr>has_window = True, has_Buffer = False, has_btoa = True, has_TextEncoder = True\<rparr> [65, 37, 233, 55357, 56832]"
proof -
  have "list_all (\<lambda>u. u < 65536) [65, 37, 233, 55357, 56832 :: nat]" "\<not> list_ex surrogate (code_points [65, 37, 233, 55357, 56832])"
    by (simp_all add: surrogate_def)
  from encoders_agree [OF this, of "\<lparr>has_window = True, has_Buffer = False, has_btoa = True, has_TextEncoder = True\<rparr>"]
  show ?thesis by simp
qed

end
