(* ===== verification/Http.thy ===== *)
theory Http
  imports Js_Object
begin

text \<open>
  Requests to the server.  The server is a parameter: a function that answers a request in its own state
  with an error object or a response object.  The world keeps that state and the requests sent so far.
\<close>

datatype request = Get_req jsstr jsval | Post_req jsstr jsval | Put_req jsstr jsval | Delete_req jsstr jsval

record 's world =
  w_log :: "request list"
  w_srv :: 's

type_synonym 's server = "request \<Rightarrow> 's \<Rightarrow> (jsval + jsval) \<times> 's"

definition call :: "'s server \<Rightarrow> request \<Rightarrow> 's world \<Rightarrow> (jsval + jsval) \<times> 's world" where
  "call server req w =
     (let (answer, srv) = server req (w_srv w) in (answer, w\<lparr>w_log := w_log w @ [req], w_srv := srv\<rparr>))"

text \<open>\<open>new Error(message)\<close> and \<open>res.data\<close>, \<open>res.data?.success\<close>.\<close>

definition new_Error :: "jsstr \<Rightarrow> jsval" where
  "new_Error message = Obj [(js ''name'', Str (js ''Error'')), (js ''message'', Str message)]"

definition type_error :: jsval where
  "type_error = Obj [(js ''name'', Str (js ''TypeError'')), (js ''message'', Str (js ''TypeError''))]"

definition body_of :: "jsval \<Rightarrow> jsval" where
  "body_of res = own_prop res (js ''data'')"

definition succeeded :: "jsval \<Rightarrow> bool" where
  "succeeded res \<longleftrightarrow> truthy (own_prop (body_of res) (js ''success''))"

text \<open>\<open>res.data?.message || fallback\<close>\<close>

definition message_or :: "jsval \<Rightarrow> jsstr \<Rightarrow> jsstr" where
  "message_or res fallback = to_str (js_or (own_prop (body_of res) (js ''message'')) (Str fallback))"

lemma call_log: "call server req w = (x, w') \<Longrightarrow> w_log w' = w_log w @ [req] \<and> server req (w_srv w) = (x, w_srv w')"
  by (auto simp: call_def split: prod.splits)

end
