(* ===== verification/Passkey.thy ===== *)
theory Passkey
  imports Base64 Http
begin

text \<open>
  \<open>helpers/passkey.js\<close>: options for the authenticator from the answer of the server, and the answers of the
  authenticator for the server.  In option objects a buffer is the array of its bytes.
\<close>

definition buffer_val :: "nat list \<Rightarrow> jsval" where
  "buffer_val bs = Arr (map (\<lambda>b. Num (Fin False (of_nat b))) bs)"

definition passkey_options :: "jsval \<Rightarrow> jsval" where
  "passkey_options payload =
     js_or (own_prop payload (js ''publicKey'')) (js_or (own_prop payload (js ''PublicKey''))
       (js_or (own_prop payload (js ''response'')) (own_prop payload (js ''Response''))))"

definition txt_no_creation_options :: jsstr where "txt_no_creation_options = [26080, 27861, 20174, 26381, 21153, 31471, 21709, 24212, 20013, 35299, 26512, 32, 80,
     97, 115, 115, 107, 101, 121, 32, 27880, 20876, 21442, 25968]"
definition txt_no_request_options :: jsstr where "txt_no_request_options = [26080, 27861, 20174, 26381, 21153, 31471, 21709, 24212, 20013, 35299, 26512, 32, 80,
     97, 115, 115, 107, 101, 121, 32, 30331, 24405, 21442, 25968]"

text \<open>\<open>items.map((item) => ({...item, id: base64UrlToBuffer(item.id)}))\<close>\<close>

fun decode_ids :: "jsval list \<Rightarrow> js_error + jsval list" where
  "decode_ids [] = Inr []"
| "decode_ids (item # items) =
     (if nullish item then Inl TypeError
      else
        (case base64UrlToBuffer (own_prop item (js ''id'')) of
           Inl err \<Rightarrow> Inl err
         | Inr bs \<Rightarrow>
             (case decode_ids items of
                Inl err \<Rightarrow> Inl err
              | Inr vs \<Rightarrow> Inr (Obj (put (js ''id'') (buffer_val bs) (spread_over [] item)) # vs))))"

definition decode_list :: "jsval \<Rightarrow> string \<Rightarrow> (jsstr, jsval) store \<Rightarrow> js_error + (jsstr, jsval) store" where
  "decode_list options key publicKey =
     (case own_prop options (js key) of
        Arr items \<Rightarrow>
          (case decode_ids items of Inl err \<Rightarrow> Inl err | Inr vs \<Rightarrow> Inr (put (js key) (Arr vs) publicKey))
      | _ \<Rightarrow> Inr publicKey)"

definition prepareCredentialCreationOptions :: "jsval \<Rightarrow> js_error + jsval" where
  "prepareCredentialCreationOptions payload =
     (let options = passkey_options payload; user = own_prop options (js ''user'') in
      if \<not> truthy options then Inl (ErrorMsg txt_no_creation_options)
      else
        (case base64UrlToBuffer (own_prop options (js ''challenge'')) of
           Inl err \<Rightarrow> Inl err
         | Inr challenge \<Rightarrow>
             (case base64UrlToBuffer (own_prop user (js ''id'')) of
                Inl err \<Rightarrow> Inl err
              | Inr userId \<Rightarrow>
                  (let publicKey = put (js ''user'') (Obj (put (js ''id'') (buffer_val userId) (spread_over [] user)))
                         (put (js ''challenge'') (buffer_val challenge) (spread_over [] options))
                   in case decode_list options ''excludeCredentials'' publicKey of
                        Inl err \<Rightarrow> Inl err
                      | Inr publicKey' \<Rightarrow>
                          Inr (Obj (if own_prop options (js ''attestationFormats'') = Arr []
                            then del (js ''attestationFormats'') publicKey' else publicKey'))))))"

definition prepareCredentialRequestOptions :: "jsval \<Rightarrow> js_error + jsval" where
  "prepareCredentialRequestOptions payload =
     (let options = passkey_options payload in
      if \<not> truthy options then Inl (ErrorMsg txt_no_request_options)
      else
        (case base64UrlToBuffer (own_prop options (js ''challenge'')) of
           Inl err \<Rightarrow> Inl err
         | Inr challenge \<Rightarrow>
             (case decode_list options ''allowCredentials'' (put (js ''challenge'') (buffer_val challenge) (spread_over [] options)) of
                Inl err \<Rightarrow> Inl err
              | Inr publicKey \<Rightarrow> Inr (Obj publicKey))))"

section \<open>Answers of the authenticator\<close>

text \<open>The fields of \<open>PublicKeyCredential\<close> the code reads; \<open>cr_extensions\<close> is \<open>undefined\<close> without the method.\<close>

record credential =
  cr_id :: jsstr
  cr_rawId :: "nat list option"
  cr_type :: jsstr
  cr_attachment :: jsval
  cr_extensions :: jsval
  cr_clientDataJSON :: "nat list option"
  cr_attestationObject :: "nat list option"
  cr_transports :: jsval
  cr_authenticatorData :: "nat list option"
  cr_signature :: "nat list option"
  cr_userHandle :: "nat list option"

definition extension_results :: "credential \<Rightarrow> jsval" where
  "extension_results c = (if nullish (cr_extensions c) then Obj [] else cr_extensions c)"

definition buildRegistrationResult :: "credential option \<Rightarrow> jsval" where
  "buildRegistrationResult cred =
     (case cred of
        None \<Rightarrow> Null
      | Some c \<Rightarrow>
          Obj [(js ''id'', Str (cr_id c)), (js ''rawId'', Str (bufferToBase64Url (cr_rawId c))), (js ''type'', Str (cr_type c)),
            (js ''authenticatorAttachment'', cr_attachment c),
            (js ''response'', Obj [(js ''attestationObject'', Str (bufferToBase64Url (cr_attestationObject c))),
              (js ''clientDataJSON'', Str (bufferToBase64Url (cr_clientDataJSON c))), (js ''transports'', cr_transports c)]),
            (js ''clientExtensionResults'', extension_results c)])"

definition buildAssertionResult :: "credential option \<Rightarrow> jsval" where
  "buildAssertionResult assertion =
     (case assertion of
        None \<Rightarrow> Null
      | Some c \<Rightarrow>
          Obj [(js ''id'', Str (cr_id c)), (js ''rawId'', Str (bufferToBase64Url (cr_rawId c))), (js ''type'', Str (cr_type c)),
            (js ''authenticatorAttachment'', cr_attachment c),
            (js ''response'', Obj [(js ''authenticatorData'', Str (bufferToBase64Url (cr_authenticatorData c))),
              (js ''clientDataJSON'', Str (bufferToBase64Url (cr_clientDataJSON c))),
              (js ''signature'', Str (bufferToBase64Url (cr_signature c))),
              (js ''userHandle'', (case cr_userHandle c of None \<Rightarrow> Null | Some h \<Rightarrow> Str (bufferToBase64Url (Some h))))]),
            (js ''clientExtensionResults'', extension_results c)])"

section \<open>Support\<close>

text \<open>What the browser offers; the two tests resolve to a value or reject, and may be missing.\<close>

record passkey_browser =
  pb_credential :: bool
  pb_conditional :: "(jsval + jsval) option"
  pb_platform :: "(jsval + jsval) option"

definition isPasskeySupported :: "passkey_browser \<Rightarrow> jsval" where
  "isPasskeySupported b =
     (if \<not> pb_credential b then Bool False
      else if (case pb_conditional b of Some (Inr available) \<Rightarrow> truthy available | _ \<Rightarrow> False) then Bool True
      else
        (case pb_platform b of
           Some (Inr available) \<Rightarrow> available
         | Some (Inl _) \<Rightarrow> Bool False
         | None \<Rightarrow> Bool True))"

end
