(* ===== verification/Secure_Verification.thy ===== *)
theory Secure_Verification
  imports Passkey State_Machine
begin

text \<open>
  Verification before sensitive calls: \<open>services/secureVerification.js\<close>, \<open>helpers/secureApiCall.js\<close> and the
  hook \<open>hooks/common/useSecureVerification.jsx\<close>.  The server, the authenticator
  (\<open>navigator.credentials.get\<close>) and the callbacks of the page are parameters.  Errors are the error objects
  that are thrown.
\<close>

section \<open>Errors that ask for verification\<close>

definition isVerificationRequiredError :: "jsval \<Rightarrow> bool" where
  "isVerificationRequiredError err =
     (let response = own_prop err (js ''response''); status = own_prop response (js ''status'');
          data = own_prop response (js ''data'')
      in if \<not> truthy response then False
         else if strict_eq status (Num (Fin False 403)) \<and> truthy data then
           own_prop data (js ''code'') \<in> set [Str (js ''VERIFICATION_REQUIRED''), Str (js ''VERIFICATION_EXPIRED''),
             Str (js ''VERIFICATION_INVALID'')]
         else False)"

definition txt_need_verification :: jsstr where "txt_need_verification = [38656, 35201, 23433, 20840, 39564, 35777]"

definition extractVerificationInfo :: "jsval \<Rightarrow> jsval" where
  "extractVerificationInfo err =
     (let data = js_or (own_prop (own_prop err (js ''response'')) (js ''data'')) (Obj [])
      in Obj [(js ''code'', own_prop data (js ''code'')),
           (js ''message'', js_or (own_prop data (js ''message'')) (Str txt_need_verification)),
           (js ''required'', Bool True)])"

section \<open>The service\<close>

record methods =
  has2FA :: bool
  hasPasskey :: bool
  passkeySupported :: bool

definition no_methods :: methods where
  "no_methods = \<lparr>has2FA = False, hasPasskey = False, passkeySupported = False\<rparr>"

definition enabled_in :: "jsval \<Rightarrow> bool" where
  "enabled_in res \<longleftrightarrow> succeeded res \<and> own_prop (own_prop (body_of res) (js ''data'')) (js ''enabled'') = Bool True"

text \<open>\<open>Promise.all\<close>: both requests are sent; if one rejects, no method is available.\<close>

definition checkAvailableVerificationMethods ::
  "'s server \<Rightarrow> passkey_browser \<Rightarrow> 's world \<Rightarrow> methods \<times> 's world" where
  "checkAvailableVerificationMethods server browser w =
     (let (twoFA, w1) = call server (Get_req (js ''/api/user/2fa/status'') Undef) w;
          (passkey, w2) = call server (Get_req (js ''/api/user/passkey'') Undef) w1
      in case (twoFA, passkey) of
           (Inr res, Inr res') \<Rightarrow>
             (\<lparr>has2FA = enabled_in res, hasPasskey = enabled_in res',
               passkeySupported = truthy (isPasskeySupported browser)\<rparr>, w2)
         | _ \<Rightarrow> (no_methods, w2))"

definition txt_enter_code :: jsstr where "txt_enter_code = [35831, 36755, 20837, 39564, 35777, 30721, 25110, 22791, 29992, 30721]"
definition txt_verify_failed :: jsstr where "txt_verify_failed = [39564, 35777, 22833, 36133]"
definition txt_begin_failed :: jsstr where "txt_begin_failed = [24320, 22987, 39564, 35777, 22833, 36133]"
definition txt_passkey_cancelled :: jsstr where "txt_passkey_cancelled = [80, 97, 115, 115, 107, 101, 121, 32, 39564, 35777, 34987, 21462, 28040]"
definition txt_passkey_timeout :: jsstr where "txt_passkey_timeout = [80, 97, 115, 115, 107, 101, 121, 32, 39564, 35777, 34987, 21462, 28040, 25110, 36229,
     26102]"
definition txt_passkey_state :: jsstr where "txt_passkey_state = [80, 97, 115, 115, 107, 101, 121, 32, 39564, 35777, 29366, 24577, 26080, 25928]"
definition txt_bad_method :: jsstr where "txt_bad_method = [19981, 25903, 25345, 30340, 39564, 35777, 26041, 24335, 58, 32]"

definition verify_url :: jsstr where "verify_url = js ''/api/verify''"

text \<open>A request whose answer must report success.\<close>

definition require_success :: "'s server \<Rightarrow> request \<Rightarrow> jsstr \<Rightarrow> 's world \<Rightarrow> (jsval + jsval) \<times> 's world" where
  "require_success server req fallback w =
     (case call server req w of
        (Inl err, w1) \<Rightarrow> (Inl err, w1)
      | (Inr res, w1) \<Rightarrow>
          if \<not> succeeded res then (Inl (new_Error (message_or res fallback)), w1) else (Inr res, w1))"

definition verify2FA :: "'s server \<Rightarrow> jsstr \<Rightarrow> 's world \<Rightarrow> (jsval + jsval) \<times> 's world" where
  "verify2FA server code w =
     (if trim code = [] then (Inl (new_Error txt_enter_code), w)
      else require_success server
        (Post_req verify_url (Obj [(js ''method'', Str (js ''2fa'')), (js ''code'', Str (trim code))])) txt_verify_failed w)"

text \<open>The authenticator: asked with the prepared options, it fails or answers with a credential or \<open>null\<close>.\<close>

type_synonym authenticator = "jsval \<Rightarrow> jsval + credential option"

fun error_object :: "js_error \<Rightarrow> jsval" where
  "error_object (ErrorMsg m) = new_Error m"
| "error_object _ = type_error"

definition passkey_steps :: "'s server \<Rightarrow> authenticator \<Rightarrow> 's world \<Rightarrow> (jsval + jsval) \<times> 's world" where
  "passkey_steps server ask w =
     (case require_success server (Post_req (js ''/api/user/passkey/verify/begin'') Undef) txt_begin_failed w of
        (Inl err, w1) \<Rightarrow> (Inl err, w1)
      | (Inr beginResponse, w1) \<Rightarrow>
          if nullish (own_prop (body_of beginResponse) (js ''data'')) then (Inl type_error, w1)
          else
            (case prepareCredentialRequestOptions (own_prop (own_prop (body_of beginResponse) (js ''data'')) (js ''options'')) of
               Inl err \<Rightarrow> (Inl (error_object err), w1)
             | Inr publicKey \<Rightarrow>
                 (case ask publicKey of
                    Inl err \<Rightarrow> (Inl err, w1)
                  | Inr None \<Rightarrow> (Inl (new_Error txt_passkey_cancelled), w1)
                  | Inr (Some cred) \<Rightarrow>
                      (case require_success server (Post_req (js ''/api/user/passkey/verify/finish'')
                              (buildAssertionResult (Some cred))) txt_verify_failed w1 of
                         (Inl err, w2) \<Rightarrow> (Inl err, w2)
                       | (Inr _, w2) \<Rightarrow>
                           require_success server
                             (Post_req verify_url (Obj [(js ''method'', Str (js ''passkey''))])) txt_verify_failed w2))))"

definition verifyPasskey :: "'s server \<Rightarrow> authenticator \<Rightarrow> 's world \<Rightarrow> (jsval + jsval) \<times> 's world" where
  "verifyPasskey server ask w =
     (case passkey_steps server ask w of
        (Inr res, w1) \<Rightarrow> (Inr res, w1)
      | (Inl err, w1) \<Rightarrow>
          (Inl (if own_prop err (js ''name'') = Str (js ''NotAllowedError'') then new_Error txt_passkey_timeout
             else if own_prop err (js ''name'') = Str (js ''InvalidStateError'') then new_Error txt_passkey_state
             else err), w1))"

definition verify :: "'s server \<Rightarrow> authenticator \<Rightarrow> jsval \<Rightarrow> jsstr \<Rightarrow> 's world \<Rightarrow> (jsval + jsval) \<times> 's world" where
  "verify server ask method' code w =
     (if method' = Str (js ''2fa'') then verify2FA server code w
      else if method' = Str (js ''passkey'') then verifyPasskey server ask w
      else (Inl (new_Error (txt_bad_method @ to_str method')), w))"

type_synonym 's api_call = "'s world \<Rightarrow> (jsval + jsval) \<times> 's world"

definition key_request :: "nat \<Rightarrow> request" where
  "key_request channelId = Post_req (js ''/api/channel/'' @ nat_str channelId @ js ''/key'') (Obj [])"

definition viewChannelKey :: "'s server \<Rightarrow> nat \<Rightarrow> 's api_call" where
  "viewChannelKey server channelId w =
     (case call server (key_request channelId) w of (Inl err, w1) \<Rightarrow> (Inl err, w1) | (Inr res, w1) \<Rightarrow> (Inr (body_of res), w1))"

definition txt_bad_http :: jsstr where "txt_bad_http = [19981, 25903, 25345, 30340, 72, 84, 84, 80, 26041, 27861, 58, 32]"

definition custom_call :: "'s server \<Rightarrow> (jsstr \<Rightarrow> jsstr) \<Rightarrow> jsstr \<Rightarrow> jsstr \<Rightarrow> jsval \<Rightarrow> 's api_call" where
  "custom_call server upper url method' data w =
     (let send = (\<lambda>req. case call server req w of (Inl err, w1) \<Rightarrow> (Inl err, w1) | (Inr res, w1) \<Rightarrow> (Inr (body_of res), w1))
      in if upper method' = js ''GET'' then send (Get_req url data)
         else if upper method' = js ''POST'' then send (Post_req url data)
         else if upper method' = js ''PUT'' then send (Put_req url data)
         else if upper method' = js ''DELETE'' then send (Delete_req url data)
         else (Inl (new_Error (txt_bad_http @ method')), w))"

section \<open>The hook\<close>

text \<open>\<open>v_apiCall\<close>: the pending call, \<open>v_title\<close> and \<open>v_description\<close> what the modal shows.\<close>

record 's verification =
  v_methods :: methods
  isModalVisible :: bool
  v_method :: jsval
  v_loading :: bool
  v_code :: jsstr
  v_apiCall :: "'s api_call option"
  v_title :: jsval
  v_description :: jsval

definition init_verification :: "'s verification" where
  "init_verification = \<lparr>v_methods = no_methods, isModalVisible = False, v_method = Null, v_loading = False,
     v_code = [], v_apiCall = None, v_title = Undef, v_description = Undef\<rparr>"

definition resetState :: "'s verification \<Rightarrow> 's verification" where
  "resetState st = st\<lparr>v_method := Null, v_loading := False, v_code := [], v_apiCall := None, v_title := Undef,
     v_description := Undef, isModalVisible := False\<rparr>"

datatype notice = Note toast | On_success jsval jsval | On_error jsval

definition txt_enable_first :: jsstr where "txt_enable_first = [24744, 38656, 35201, 20808, 21551, 29992, 20004, 27493, 39564, 35777, 25110, 32, 80,
     97, 115, 115, 107, 101, 121, 32, 25165, 33021, 25191, 34892, 27492, 25805, 20316]"
definition txt_config_wrong :: jsstr where "txt_config_wrong = [39564, 35777, 37197, 32622, 38169, 35823]"
definition txt_try_again :: jsstr where "txt_try_again = [39564, 35777, 22833, 36133, 65292, 35831, 37325, 35797]"

definition default_method :: "methods \<Rightarrow> jsval \<Rightarrow> jsval" where
  "default_method ms preferred =
     (if truthy preferred then preferred
      else if hasPasskey ms \<and> passkeySupported ms then Str (js ''passkey'')
      else if has2FA ms then Str (js ''2fa'')
      else preferred)"

definition startVerification ::
  "translate \<Rightarrow> 's server \<Rightarrow> passkey_browser \<Rightarrow> 's api_call \<Rightarrow> jsval \<Rightarrow> jsval \<Rightarrow> jsval \<Rightarrow> 's verification \<Rightarrow> 's world \<Rightarrow>
     bool \<times> notice list \<times> 's verification \<times> 's world" where
  "startVerification t server browser apiCall preferred title description st w =
     (let (ms, w1) = checkAvailableVerificationMethods server browser w; st1 = st\<lparr>v_methods := ms\<rparr> in
      if \<not> has2FA ms \<and> \<not> hasPasskey ms then
        (False, [Note (ShowError (t txt_enable_first [])), On_error (new_Error (t txt_enable_first []))], st1, w1)
      else
        (True, [], st1\<lparr>v_method := default_method ms preferred, v_apiCall := Some apiCall, v_title := title,
           v_description := description, isModalVisible := True\<rparr>, w1))"

text \<open>The options of the hook: \<open>successMessage\<close> (empty for none) and \<open>autoReset\<close>.\<close>

definition executeVerification ::
  "translate \<Rightarrow> 's server \<Rightarrow> authenticator \<Rightarrow> jsstr \<Rightarrow> bool \<Rightarrow> jsval \<Rightarrow> jsstr \<Rightarrow> 's verification \<Rightarrow> 's world \<Rightarrow>
     (jsval + jsval) \<times> notice list \<times> 's verification \<times> 's world" where
  "executeVerification t server ask successMessage autoReset method' code st w =
     (case v_apiCall st of
        None \<Rightarrow> (Inr Undef, [Note (ShowError (t txt_config_wrong []))], st, w)
      | Some apiCall \<Rightarrow>
          (let failed = (\<lambda>err w'.
                 (let message = own_prop err (js ''message'')
                  in (Inl err, [Note (ShowError (to_str (js_or message (Str (t txt_try_again []))))), On_error err],
                      st\<lparr>v_loading := False\<rparr>, w')))
           in case verify server ask method' code w of
                (Inl err, w1) \<Rightarrow> failed err w1
              | (Inr _, w1) \<Rightarrow>
                  (case apiCall w1 of
                     (Inl err, w2) \<Rightarrow> failed err w2
                   | (Inr result, w2) \<Rightarrow>
                       (Inr result,
                        (if successMessage \<noteq> [] then [Note (ShowSuccess successMessage)] else []) @ [On_success result method'],
                        (if autoReset then resetState st else st)\<lparr>v_loading := False\<rparr>, w2))))"

definition setVerificationCode :: "jsstr \<Rightarrow> 's verification \<Rightarrow> 's verification" where
  "setVerificationCode code st = st\<lparr>v_code := code\<rparr>"

definition switchVerificationMethod :: "jsval \<Rightarrow> 's verification \<Rightarrow> 's verification" where
  "switchVerificationMethod method' st = st\<lparr>v_method := method', v_code := []\<rparr>"

definition cancelVerification :: "'s verification \<Rightarrow> 's verification" where
  "cancelVerification st = resetState st"

definition canUseMethod :: "'s verification \<Rightarrow> jsval \<Rightarrow> bool" where
  "canUseMethod st method' =
     (if method' = Str (js ''2fa'') then has2FA (v_methods st)
      else if method' = Str (js ''passkey'') then hasPasskey (v_methods st) \<and> passkeySupported (v_methods st)
      else False)"

definition getRecommendedMethod :: "'s verification \<Rightarrow> jsval" where
  "getRecommendedMethod st =
     (if hasPasskey (v_methods st) \<and> passkeySupported (v_methods st) then Str (js ''passkey'')
      else if has2FA (v_methods st) then Str (js ''2fa'')
      else Null)"

definition withVerification ::
  "translate \<Rightarrow> 's server \<Rightarrow> passkey_browser \<Rightarrow> 's api_call \<Rightarrow> jsval \<Rightarrow> jsval \<Rightarrow> jsval \<Rightarrow> 's verification \<Rightarrow> 's world \<Rightarrow>
     (jsval + jsval) \<times> notice list \<times> 's verification \<times> 's world" where
  "withVerification t server browser apiCall preferred title description st w =
     (case apiCall w of
        (Inr result, w1) \<Rightarrow> (Inr result, [], st, w1)
      | (Inl err, w1) \<Rightarrow>
          if isVerificationRequiredError err then
            (let (_, ns, st', w2) = startVerification t server browser apiCall preferred title description st w1
             in (Inr Null, ns, st', w2))
          else (Inl err, [], st, w1))"

section \<open>The call follows the verification\<close>

lemma require_success_log:
  "require_success server req fallback w = (x, w') \<Longrightarrow> w_log w' = w_log w @ [req]"
  by (auto simp: require_success_def split: prod.splits sum.splits if_splits dest: call_log)

lemma require_success_ok:
  "require_success server req fallback w = (Inr res, w') \<Longrightarrow>
     w_log w' = w_log w @ [req] \<and> server req (w_srv w) = (Inr res, w_srv w') \<and> succeeded res"
  by (auto simp: require_success_def split: prod.splits sum.splits if_splits dest: call_log)

definition verify_requests :: "request list \<Rightarrow> bool" where
  "verify_requests reqs \<longleftrightarrow> (\<forall>r \<in> set reqs. \<exists>body. r = Post_req verify_url body \<or>
     r = Post_req (js ''/api/user/passkey/verify/begin'') body \<or> r = Post_req (js ''/api/user/passkey/verify/finish'') body)"

text \<open>The log grew by requests of the service; after a success the last one is the accepted \<open>/api/verify\<close>.\<close>

definition verified :: "'s server \<Rightarrow> 's world \<Rightarrow> (jsval + jsval) \<times> 's world \<Rightarrow> bool" where
  "verified server w r \<longleftrightarrow> (\<exists>reqs. w_log (snd r) = w_log w @ reqs \<and> verify_requests reqs \<and>
     (\<not> isl (fst r) \<longrightarrow> (\<exists>pre body srv ok. reqs = pre @ [Post_req verify_url body] \<and>
        server (Post_req verify_url body) srv = (Inr ok, w_srv (snd r)) \<and> succeeded ok)))"

lemma verified_2FA: "verified server w (verify2FA server code w)"
proof (cases "trim code = []")
  case False
  obtain x w' where r: "verify2FA server code w = (x, w')" by fastforce
  let ?req = "Post_req verify_url (Obj [(js ''method'', Str (js ''2fa'')), (js ''code'', Str (trim code))])"
  have r': "require_success server ?req txt_verify_failed w = (x, w')" using r False by (simp add: verify2FA_def)
  show ?thesis
    using require_success_log [OF r'] require_success_ok [of server ?req txt_verify_failed w _ w'] r'
    unfolding r verified_def by (cases x) (auto simp: verify_requests_def intro!: exI [of _ "[?req]"] exI [of _ "[]"])
qed (simp add: verify2FA_def verified_def verify_requests_def)

lemma verified_fail: "w_log w' = w_log w @ reqs \<Longrightarrow> verify_requests reqs \<Longrightarrow> verified server w (Inl err, w')"
  by (auto simp: verified_def)

lemma verified_steps: "verified server w (passkey_steps server ask w)"
proof -
  let ?start = "Post_req (js ''/api/user/passkey/verify/begin'') Undef"
  let ?verify = "Post_req verify_url (Obj [(js ''method'', Str (js ''passkey''))])"
  obtain x w1 where b: "require_success server ?start txt_begin_failed w = (x, w1)" by fastforce
  note l1 = require_success_log [OF b]
  have f1: "verified server w (Inl err, w1)" for err
    by (rule verified_fail [OF l1]) (auto simp: verify_requests_def)
  have f2: "verified server w (case require_success server (Post_req (js ''/api/user/passkey/verify/finish'') v) txt_verify_failed w1 of
      (Inl err, w2) \<Rightarrow> (Inl err, w2) | (Inr _, w2) \<Rightarrow> require_success server ?verify txt_verify_failed w2)" for v
  proof -
    obtain y w2 where f: "require_success server (Post_req (js ''/api/user/passkey/verify/finish'') v) txt_verify_failed w1 = (y, w2)" by fastforce
    obtain z w3 where z: "require_success server ?verify txt_verify_failed w2 = (z, w3)" by fastforce
    note l = l1 require_success_log [OF f] require_success_log [OF z]
    show ?thesis
    proof (cases y)
      case (Inl err)
      then show ?thesis using f l by (auto intro!: verified_fail simp: verify_requests_def)
    next
      case (Inr res)
      then show ?thesis
        using f z l require_success_ok [of server ?verify txt_verify_failed w2 _ w3]
        by (cases z) (auto simp: verified_def verify_requests_def)
    qed
  qed
  show ?thesis
    unfolding passkey_steps_def b using f1 f2 by (auto split: sum.split option.split)
qed

lemma verified_verify: "verified server w (verify server ask m code w)"
proof -
  have err: "verified server w (Inl e', w1)" if "verified server w (Inl e, w1)" for e e' w1
    using that by (simp add: verified_def)
  obtain x w1 where x: "passkey_steps server ask w = (x, w1)" by fastforce
  then have "verified server w (verifyPasskey server ask w)"
    using verified_steps [of server w ask] err by (cases x) (auto simp: verifyPasskey_def)
  moreover have "verified server w (Inl e, w)" for e by (simp add: verified_def verify_requests_def)
  ultimately show ?thesis using verified_2FA [of server w code] by (simp add: verify_def)
qed

lemma key_request_new: "verify_requests reqs \<Longrightarrow> key_request n \<notin> set reqs"
  by (auto simp: verify_requests_def key_request_def verify_url_def js_def)



text \<open>When a verification starts, the chosen method can be used, unless the account has only a passkey and the
  browser does not support it; then the modal opens all the same, without a usable method.\<close>

theorem start_method_usable:
  assumes "startVerification t server browser apiCall preferred title description st w = (True, ns, st', w')"
    "\<not> truthy preferred"
  shows "isModalVisible st' \<and>
    (canUseMethod st' (v_method st') \<longleftrightarrow> \<not> (hasPasskey (v_methods st') \<and> \<not> has2FA (v_methods st') \<and> \<not> passkeySupported (v_methods st')))"
proof -
  obtain ms w1 where c: "checkAvailableVerificationMethods server browser w = (ms, w1)" by fastforce
  have p: "preferred \<noteq> Str (js ''2fa'')" "preferred \<noteq> Str (js ''passkey'')" using assms(2) by (auto simp: truthy_def)
  have st': "v_methods st' = ms" "v_method st' = default_method ms preferred" "isModalVisible st'" "has2FA ms \<or> hasPasskey ms"
    using assms(1) c by (auto simp: startVerification_def Let_def split: if_splits)
  show ?thesis using st' p assms(2) unfolding canUseMethod_def default_method_def by auto
qed

theorem start_method_usable_witness:
  "\<exists>ns st' w'. startVerification (\<lambda>k _. k)
      (\<lambda>r s. (Inr (Obj [(js ''data'', Obj [(js ''success'', Bool True), (js ''data'', Obj [(js ''enabled'', Bool (r = Get_req (js ''/api/user/passkey'') Undef))])])]), s))
      \<lparr>pb_credential = False, pb_conditional = None, pb_platform = None\<rparr> (\<lambda>w. (Inr Undef, w)) Undef Undef Undef
      (init_verification :: unit verification) \<lparr>w_log = [], w_srv = ()\<rparr> = (True, ns, st', w') \<and>
    isModalVisible st' \<and> \<not> canUseMethod st' (v_method st')"
proof -
  let ?server = "\<lambda>r s. (Inr (Obj [(js ''data'', Obj [(js ''success'', Bool True), (js ''data'', Obj [(js ''enabled'', Bool (r = Get_req (js ''/api/user/passkey'') Undef))])])]) :: jsval + jsval, s :: unit)"
  let ?b = "\<lparr>pb_credential = False, pb_conditional = None, pb_platform = None\<rparr>"
  let ?s = "startVerification (\<lambda>k _. k) ?server ?b (\<lambda>w. (Inr Undef, w)) Undef Undef Undef
      (init_verification :: unit verification) \<lparr>w_log = [], w_srv = ()\<rparr>"
  obtain ns st' w' where s: "?s = (True, ns, st', w')" "hasPasskey (v_methods st')" "\<not> has2FA (v_methods st')" "\<not> passkeySupported (v_methods st')"
    by (simp add: startVerification_def checkAvailableVerificationMethods_def call_def enabled_in_def succeeded_def body_of_def
        own_prop_def get_def truthy_def isPasskeySupported_def)
  have "\<not> truthy Undef" by simp
  from start_method_usable [OF s(1) this] show ?thesis using s by blast
qed

end
