(* ===== verification/Upstream_Updates.thy ===== *)
theory Upstream_Updates
  imports Js_Json Http State_Machine
begin

text \<open>
  Model updates of upstream channels: \<open>hooks/channels/upstreamUpdateUtils.js\<close> and
  \<open>hooks/channels/useChannelUpstreamUpdates.jsx\<close>.  A handler that awaits the server is split at the await:
  what it does before, and what it does with the answer.  \<open>u_jobs\<close> lists the handlers that are waiting.
\<close>

section \<open>Lists of models\<close>

text \<open>\<open>models\<close> may be any value; \<open>map\<close> on a value that is no array is no function.\<close>

definition normalizeModelList :: "jsval \<Rightarrow> js_error + jsstr list" where
  "normalizeModelList models =
     (case js_or models (Arr []) of
        Arr items \<Rightarrow> Inr (nub (filter (\<lambda>s. s \<noteq> []) (map (\<lambda>v. trim (str_or_empty v)) items)))
      | _ \<Rightarrow> Inl TypeError)"

definition normalize_names :: "jsstr list \<Rightarrow> jsstr list" where
  "normalize_names names = nub (filter (\<lambda>s. s \<noteq> []) (map trim names))"

lemma normalizeModelList_names: "normalizeModelList (Arr (map Str names)) = Inr (normalize_names names)"
proof -
  have "str_or_empty (Str s) = s" for s by (simp add: str_or_empty_def truthy_def)
  moreover have "truthy (Arr xs)" for xs by (simp add: truthy_def)
  ultimately show ?thesis by (simp add: normalizeModelList_def normalize_names_def js_or_def o_def)
qed

text \<open>Settings are stored as an object or as its JSON text.\<close>

definition parse_settings :: "jsval \<Rightarrow> jsval" where
  "parse_settings settings =
     (if truthy settings \<and> is_object_type settings then settings
      else (case settings of Str s \<Rightarrow> (case json_parse s of Some v \<Rightarrow> v | None \<Rightarrow> Null) | _ \<Rightarrow> Null))"

record update_meta =
  m_enabled :: bool
  m_pendingAdd :: "jsstr list"
  m_pendingRemove :: "jsstr list"

definition parseUpstreamUpdateMeta :: "jsval \<Rightarrow> js_error + update_meta" where
  "parseUpstreamUpdateMeta settings =
     (let parsed = parse_settings settings in
      if \<not> truthy parsed \<or> \<not> is_object_type parsed then
        Inr \<lparr>m_enabled = False, m_pendingAdd = [], m_pendingRemove = []\<rparr>
      else
        (case normalizeModelList (own_prop parsed (js ''upstream_model_update_last_detected_models'')) of
           Inl err \<Rightarrow> Inl err
         | Inr adds \<Rightarrow>
             (case normalizeModelList (own_prop parsed (js ''upstream_model_update_last_removed_models'')) of
                Inl err \<Rightarrow> Inl err
              | Inr removes \<Rightarrow>
                  Inr \<lparr>m_enabled = (own_prop parsed (js ''upstream_model_update_check_enabled'') = Bool True),
                    m_pendingAdd = adds, m_pendingRemove = removes\<rparr>)))"

definition getManualIgnoredModelCountFromSettings :: "jsval \<Rightarrow> js_error + nat" where
  "getManualIgnoredModelCountFromSettings settings =
     (let parsed = parse_settings settings in
      if \<not> truthy parsed \<or> \<not> is_object_type parsed then Inr 0
      else (case normalizeModelList (own_prop parsed (js ''upstream_model_update_ignored_models'')) of
              Inl err \<Rightarrow> Inl err | Inr names \<Rightarrow> Inr (length names)))"

section \<open>State\<close>

datatype job = Apply | Apply_all | Detect | Detect_all

text \<open>A waiting handler: for the answer of the server (\<open>Posting\<close>, with the models it reports as ignored), or
  for \<open>refresh()\<close>.\<close>

datatype stage = Posting "jsstr list" | Refreshing

datatype tab = Tab_add | Tab_remove

record upstream =
  u_showModal :: bool
  u_channel :: jsval
  u_addModels :: "jsstr list"
  u_removeModels :: "jsstr list"
  u_preferredTab :: tab
  u_loading :: "job \<Rightarrow> bool"
  u_inFlight :: "job \<Rightarrow> bool"
  u_jobs :: "(job \<times> stage) list"

definition init_upstream :: upstream where
  "init_upstream = \<lparr>u_showModal = False, u_channel = Null, u_addModels = [], u_removeModels = [],
     u_preferredTab = Tab_add, u_loading = (\<lambda>_. False), u_inFlight = (\<lambda>_. False), u_jobs = []\<rparr>"

section \<open>The modal\<close>

definition txt_nothing_pending :: jsstr where "txt_nothing_pending = [35813, 28192, 36947, 26242, 26080, 21487, 22788, 29702, 30340, 19978, 28216, 27169,
     22411, 26356, 26032]"
definition txt_busy :: jsstr where "txt_busy = [27491, 22312, 22788, 29702, 65292, 35831, 31245, 20505]"
definition txt_busy_all :: jsstr where "txt_busy_all = [27491, 22312, 25209, 37327, 22788, 29702, 65292, 35831, 31245, 20505]"
definition txt_detecting :: jsstr where "txt_detecting = [27491, 22312, 26816, 27979, 65292, 35831, 31245, 20505]"
definition txt_detecting_all :: jsstr where "txt_detecting_all = [27491, 22312, 25209, 37327, 26816, 27979, 65292, 35831, 31245, 20505]"
definition txt_apply_failed :: jsstr where "txt_apply_failed = [25805, 20316, 22833, 36133]"
definition txt_apply_all_failed :: jsstr where "txt_apply_all_failed = [25209, 37327, 22788, 29702, 22833, 36133]"
definition txt_detect_failed :: jsstr where "txt_detect_failed = [26816, 27979, 22833, 36133]"
definition txt_detect_all_failed :: jsstr where "txt_detect_all_failed = [25209, 37327, 26816, 27979, 22833, 36133]"
definition txt_updates_applied :: jsstr where "txt_updates_applied = [24050, 22788, 29702, 19978, 28216, 27169, 22411, 26356, 26032, 65306, 21152, 20837, 32,
     123, 123, 97, 100, 100, 101, 100, 125, 125, 32, 20010, 65292, 21024, 38500, 32,
     123, 123, 114, 101, 109, 111, 118, 101, 100, 125, 125, 32, 20010, 65292, 26412,
     27425, 24573, 30053, 32, 123, 123, 105, 103, 110, 111, 114, 101, 100, 125, 125,
     32, 20010, 65292, 24403, 21069, 24050, 24573, 30053, 27169, 22411, 32, 123, 123,
     116, 111, 116, 97, 108, 73, 103, 110, 111, 114, 101, 100, 125, 125, 32, 20010]"
definition txt_applied_all :: jsstr where "txt_applied_all = [24050, 25209, 37327, 22788, 29702, 19978, 28216, 27169, 22411, 26356, 26032, 65306,
     28192, 36947, 32, 123, 123, 99, 104, 97, 110, 110, 101, 108, 115, 125, 125, 32,
     20010, 65292, 21152, 20837, 32, 123, 123, 97, 100, 100, 101, 100, 125, 125, 32,
     20010, 65292, 21024, 38500, 32, 123, 123, 114, 101, 109, 111, 118, 101, 100, 125,
     125, 32, 20010, 65292, 22833, 36133, 32, 123, 123, 102, 97, 105, 108, 115, 125,
     125, 32, 20010]"
definition txt_detected :: jsstr where "txt_detected = [26816, 27979, 23436, 25104, 65306, 26032, 22686, 32, 123, 123, 97, 100, 100, 125, 125,
     32, 20010, 65292, 21024, 38500, 32, 123, 123, 114, 101, 109, 111, 118, 101, 125,
     125, 32, 20010]"
definition txt_detected_all :: jsstr where "txt_detected_all = [25209, 37327, 26816, 27979, 23436, 25104, 65306, 28192, 36947, 32, 123, 123, 99, 104,
     97, 110, 110, 101, 108, 115, 125, 125, 32, 20010, 65292, 26032, 22686, 32, 123,
     123, 97, 100, 100, 125, 125, 32, 20010, 65292, 21024, 38500, 32, 123, 123, 114,
     101, 109, 111, 118, 101, 125, 125, 32, 20010, 65292, 22833, 36133, 32, 123, 123,
     102, 97, 105, 108, 115, 125, 125, 32, 20010]"

definition openUpstreamUpdateModal ::
  "translate \<Rightarrow> jsval \<Rightarrow> jsstr list \<Rightarrow> jsstr list \<Rightarrow> tab \<Rightarrow> upstream \<Rightarrow> upstream \<times> toast list" where
  "openUpstreamUpdateModal t record' pendingAdd pendingRemove preferredTab st =
     (let adds = normalize_names pendingAdd; removes = normalize_names pendingRemove in
      if \<not> truthy (own_prop record' (js ''id'')) \<or> (length adds = 0 \<and> length removes = 0) then
        (st, [ShowInfo (t txt_nothing_pending [])])
      else
        (st\<lparr>u_channel := record', u_addModels := adds, u_removeModels := removes, u_preferredTab := preferredTab,
           u_showModal := True\<rparr>, []))"

definition closeUpstreamUpdateModal :: "upstream \<Rightarrow> upstream" where
  "closeUpstreamUpdateModal st =
     st\<lparr>u_showModal := False, u_channel := Null, u_addModels := [], u_removeModels := [], u_preferredTab := Tab_add\<rparr>"

section \<open>Up to the request\<close>

text \<open>Setting the reference and the loading flag; \<open>detectChannelUpstreamUpdates\<close> has no flag.\<close>

definition enter :: "job \<Rightarrow> stage \<Rightarrow> upstream \<Rightarrow> upstream" where
  "enter j stage st =
     st\<lparr>u_inFlight := (u_inFlight st)(j := True),
        u_loading := (if j = Detect then u_loading st else (u_loading st)(j := True)),
        u_jobs := u_jobs st @ [(j, stage)]\<rparr>"

definition ignored_models :: "upstream \<Rightarrow> jsstr list \<Rightarrow> jsstr list" where
  "ignored_models st selected = filter (\<lambda>m. m \<notin> set (normalize_names selected)) (u_addModels st)"

definition apply_request :: "upstream \<Rightarrow> jsstr list \<Rightarrow> jsstr list \<Rightarrow> request" where
  "apply_request st selectedAdd selectedRemove =
     Post_req (js ''/api/channel/upstream_updates/apply'')
       (Obj [(js ''id'', own_prop (u_channel st) (js ''id'')),
         (js ''add_models'', Arr (map Str (normalize_names selectedAdd))),
         (js ''ignore_models'', Arr (map Str (ignored_models st selectedAdd))),
         (js ''remove_models'', Arr (map Str (normalize_names selectedRemove)))])"

definition applyUpstreamUpdates ::
  "translate \<Rightarrow> jsstr list \<Rightarrow> jsstr list \<Rightarrow> upstream \<Rightarrow> upstream \<times> toast list \<times> request list" where
  "applyUpstreamUpdates t selectedAdd selectedRemove st =
     (if u_inFlight st Apply then (st, [ShowInfo (t txt_busy [])], [])
      else if \<not> truthy (own_prop (u_channel st) (js ''id'')) then (closeUpstreamUpdateModal st, [], [])
      else (enter Apply (Posting (ignored_models st selectedAdd)) st, [], [apply_request st selectedAdd selectedRemove]))"

definition applyAllUpstreamUpdates :: "translate \<Rightarrow> upstream \<Rightarrow> upstream \<times> toast list \<times> request list" where
  "applyAllUpstreamUpdates t st =
     (if u_inFlight st Apply_all then (st, [ShowInfo (t txt_busy_all [])], [])
      else (enter Apply_all (Posting []) st, [], [Post_req (js ''/api/channel/upstream_updates/apply_all'') (Obj [])]))"

definition detectChannelUpstreamUpdates :: "translate \<Rightarrow> jsval \<Rightarrow> upstream \<Rightarrow> upstream \<times> toast list \<times> request list" where
  "detectChannelUpstreamUpdates t channel st =
     (if u_inFlight st Detect then (st, [ShowInfo (t txt_detecting [])], [])
      else if \<not> truthy (own_prop channel (js ''id'')) then (st, [], [])
      else (enter Detect (Posting []) st, [],
        [Post_req (js ''/api/channel/upstream_updates/detect'') (Obj [(js ''id'', own_prop channel (js ''id''))])]))"

definition detectAllUpstreamUpdates :: "translate \<Rightarrow> upstream \<Rightarrow> upstream \<times> toast list \<times> request list" where
  "detectAllUpstreamUpdates t st =
     (if u_inFlight st Detect_all then (st, [ShowInfo (t txt_detecting_all [])], [])
      else (enter Detect_all (Posting []) st, [], [Post_req (js ''/api/channel/upstream_updates/detect_all'') (Obj [])]))"

section \<open>From the answer on\<close>

definition fail_text :: "job \<Rightarrow> jsstr" where
  "fail_text j = (case j of Apply \<Rightarrow> txt_apply_failed | Apply_all \<Rightarrow> txt_apply_all_failed
     | Detect \<Rightarrow> txt_detect_failed | Detect_all \<Rightarrow> txt_detect_all_failed)"

text \<open>\<open>error?.response?.data?.message || error?.message || t(...)\<close>\<close>

definition error_toast :: "translate \<Rightarrow> job \<Rightarrow> jsval \<Rightarrow> toast" where
  "error_toast t j err =
     ShowError (to_str (js_or (own_prop (own_prop (own_prop err (js ''response'')) (js ''data'')) (js ''message''))
       (js_or (own_prop err (js ''message'')) (Str (t (fail_text j) [])))))"

text \<open>\<open>finally\<close>: the reference and the flag are cleared, the handler is done.\<close>

definition leave :: "nat \<Rightarrow> upstream \<Rightarrow> upstream" where
  "leave n st =
     (let j = fst (u_jobs st ! n) in
      st\<lparr>u_inFlight := (u_inFlight st)(j := False),
         u_loading := (if j = Detect then u_loading st else (u_loading st)(j := False)),
         u_jobs := take n (u_jobs st) @ drop (Suc n) (u_jobs st)\<rparr>)"

text \<open>Lengths and counts of the answer: \<open>data?.added_models?.length || 0\<close>, \<open>data?.processed_channels || 0\<close>,
  \<open>(data?.failed_channel_ids || []).length\<close>.\<close>

definition zero :: jsval where "zero = Num (Fin False 0)"

definition length_or_0 :: "jsval \<Rightarrow> string \<Rightarrow> jsval" where
  "length_or_0 data k = js_or (own_prop (own_prop data (js k)) (js ''length'')) zero"

definition value_or_0 :: "jsval \<Rightarrow> string \<Rightarrow> jsval" where
  "value_or_0 data k = js_or (own_prop data (js k)) zero"

definition fails_of :: "jsval \<Rightarrow> jsval" where
  "fails_of data = own_prop (js_or (own_prop data (js ''failed_channel_ids'')) (Arr [])) (js ''length'')"

definition count_val :: "nat \<Rightarrow> jsval" where
  "count_val n = Num (Fin False (of_nat n))"

definition success_toast :: "translate \<Rightarrow> job \<Rightarrow> jsstr list \<Rightarrow> jsval \<Rightarrow> js_error + toast" where
  "success_toast t j ignored data =
     (case j of
        Apply \<Rightarrow>
          (case getManualIgnoredModelCountFromSettings (own_prop data (js ''settings'')) of
             Inl err \<Rightarrow> Inl err
           | Inr totalIgnored \<Rightarrow>
               Inr (ShowSuccess (t txt_updates_applied [(js ''added'', length_or_0 data ''added_models''),
                 (js ''removed'', length_or_0 data ''removed_models''),
                 (js ''ignored'', count_val (length (normalize_names ignored))), (js ''totalIgnored'', count_val totalIgnored)])))
      | Apply_all \<Rightarrow>
          Inr (ShowSuccess (t txt_applied_all [(js ''channels'', value_or_0 data ''processed_channels''),
            (js ''added'', value_or_0 data ''added_models''), (js ''removed'', value_or_0 data ''removed_models''),
            (js ''fails'', fails_of data)]))
      | Detect \<Rightarrow>
          Inr (ShowSuccess (t txt_detected [(js ''add'', length_or_0 data ''add_models''),
            (js ''remove'', length_or_0 data ''remove_models'')]))
      | Detect_all \<Rightarrow>
          Inr (ShowSuccess (t txt_detected_all [(js ''channels'', value_or_0 data ''processed_channels''),
            (js ''add'', value_or_0 data ''detected_add_models''), (js ''remove'', value_or_0 data ''detected_remove_models''),
            (js ''fails'', fails_of data)])))"

text \<open>The answer for the \<open>n\<close>th waiting handler.  After a success the handler waits for \<open>refresh()\<close>.\<close>

definition answer_job :: "translate \<Rightarrow> nat \<Rightarrow> jsval + jsval \<Rightarrow> upstream \<Rightarrow> upstream \<times> toast list" where
  "answer_job t n response st =
     (case (u_jobs st ! n, response) of
        ((j, Posting ignored), Inl err) \<Rightarrow> (leave n st, [error_toast t j err])
      | ((j, Posting ignored), Inr res) \<Rightarrow>
          if \<not> succeeded res then (leave n st, [ShowError (message_or res (t (fail_text j) []))])
          else
            (case success_toast t j ignored (own_prop (body_of res) (js ''data'')) of
               Inl err \<Rightarrow> (leave n st, [error_toast t j type_error])
             | Inr toast' \<Rightarrow>
                 ((if j = Apply then closeUpstreamUpdateModal st else st)\<lparr>u_jobs := (u_jobs st)[n := (j, Refreshing)]\<rparr>, [toast']))
      | _ \<Rightarrow> (st, []))"

definition refreshed :: "translate \<Rightarrow> nat \<Rightarrow> jsval option \<Rightarrow> upstream \<Rightarrow> upstream \<times> toast list" where
  "refreshed t n failure st =
     (leave n st, (case failure of None \<Rightarrow> [] | Some err \<Rightarrow> [error_toast t (fst (u_jobs st ! n)) err]))"

section \<open>The hook as a state machine\<close>

inductive upstream_step :: "translate \<Rightarrow> upstream \<Rightarrow> upstream \<Rightarrow> bool" for t :: translate where
  open_modal: "upstream_step t st (fst (openUpstreamUpdateModal t record' adds removes preferred st))"
| close_modal: "upstream_step t st (closeUpstreamUpdateModal st)"
| apply_selected: "upstream_step t st (fst (applyUpstreamUpdates t adds removes st))"
| apply_all: "upstream_step t st (fst (applyAllUpstreamUpdates t st))"
| detect: "upstream_step t st (fst (detectChannelUpstreamUpdates t channel st))"
| detect_all: "upstream_step t st (fst (detectAllUpstreamUpdates t st))"
| answer: "upstream_step t st (fst (answer_job t n response st))"
    if "n < length (u_jobs st)"
| refresh_done: "upstream_step t st (fst (refreshed t n failure st))"
    if "n < length (u_jobs st)" "snd (u_jobs st ! n) = Refreshing"

definition upstream_ok :: "upstream \<Rightarrow> bool" where
  "upstream_ok st \<longleftrightarrow> distinct (map fst (u_jobs st)) \<and> (\<forall>j. u_inFlight st j \<longleftrightarrow> j \<in> fst ` set (u_jobs st)) \<and>
     (\<forall>j. j \<noteq> Detect \<longrightarrow> u_loading st j = u_inFlight st j)"

lemma ok_enter: "upstream_ok st \<Longrightarrow> \<not> u_inFlight st j \<Longrightarrow> upstream_ok (enter j stage st)"
  by (auto simp: upstream_ok_def enter_def)

lemma ok_fields: "upstream_ok st \<Longrightarrow> u_jobs st' = u_jobs st \<Longrightarrow> u_inFlight st' = u_inFlight st \<Longrightarrow> u_loading st' = u_loading st \<Longrightarrow> upstream_ok st'"
  by (simp add: upstream_ok_def)

lemma ok_leave:
  assumes "upstream_ok st" "n < length (u_jobs st)"
  shows "upstream_ok (leave n st)"
proof -
  have "u_jobs st = take n (u_jobs st) @ u_jobs st ! n # drop (Suc n) (u_jobs st)" using id_take_nth_drop [OF assms(2)] .
  then obtain x us vs where j: "u_jobs st = us @ x # vs" "u_jobs st ! n = x" "take n (u_jobs st) = us" "drop (Suc n) (u_jobs st) = vs"
    by blast
  have "distinct (map fst (us @ x # vs))" "\<forall>i. u_inFlight st i \<longleftrightarrow> i \<in> fst ` set (us @ x # vs)"
      "\<forall>i. i \<noteq> Detect \<longrightarrow> u_loading st i = u_inFlight st i"
    using assms(1) unfolding upstream_ok_def j(1) by blast+
  then show ?thesis by (auto simp: upstream_ok_def leave_def Let_def j(2-4))
qed

lemma ok_answer:
  assumes "upstream_ok st" "n < length (u_jobs st)"
  shows "upstream_ok (fst (answer_job t n response st))"
proof -
  have adv: "upstream_ok (st'\<lparr>u_jobs := (u_jobs st)[n := (j, Refreshing)]\<rparr>)"
    if "u_jobs st ! n = (j, stage)" "u_inFlight st' = u_inFlight st" "u_loading st' = u_loading st" for j stage st'
  proof -
    have "map fst ((u_jobs st)[n := (j, Refreshing)]) = map fst (u_jobs st)"
      using that(1) assms(2) by (metis fst_conv list_update_id map_update nth_map)
    then have "distinct (map fst ((u_jobs st)[n := (j, Refreshing)])) = distinct (map fst (u_jobs st))"
        "fst ` set ((u_jobs st)[n := (j, Refreshing)]) = fst ` set (u_jobs st)"
      by (simp, metis set_map)
    then show ?thesis using assms(1) that by (simp add: upstream_ok_def)
  qed
  obtain j stage where j: "u_jobs st ! n = (j, stage)" by fastforce
  show ?thesis
    using assms ok_leave [OF assms] adv [OF j] j
    by (auto simp: answer_job_def closeUpstreamUpdateModal_def split: stage.splits sum.splits)
qed

interpretation updates: invariant_machine "\<lambda>st. st = init_upstream" "upstream_step t" upstream_ok for t
proof
  fix st st' assume ok: "upstream_ok st" and "upstream_step t st st'"
  from this(2) show "upstream_ok st'"
  proof cases
    case (answer n response)
    then show ?thesis using ok_answer [OF ok] by simp
  next
    case (refresh_done n failure)
    then show ?thesis using ok_leave [OF ok] by (simp add: refreshed_def)
  qed (use ok ok_enter ok_fields [OF ok] in \<open>auto simp: openUpstreamUpdateModal_def closeUpstreamUpdateModal_def
      applyUpstreamUpdates_def applyAllUpstreamUpdates_def detectChannelUpstreamUpdates_def
      detectAllUpstreamUpdates_def Let_def\<close>)
qed (simp add: upstream_ok_def init_upstream_def)



lemma normalize_names_id: "set xs \<subseteq> {s. s \<noteq> [] \<and> trim s = s} \<Longrightarrow> distinct xs \<Longrightarrow> normalize_names xs = xs"
proof -
  assume a: "set xs \<subseteq> {s. s \<noteq> [] \<and> trim s = s}" "distinct xs"
  then have "map trim xs = xs" by (intro map_idI) auto
  then show "normalize_names xs = xs" using a by (simp add: normalize_names_def filter_id_conv subset_iff)
qed

lemma set_normalize_names: "set (normalize_names xs) = trim ` set xs - {[]}"
  by (auto simp: normalize_names_def)

text \<open>The request that applies a selection names every pending model exactly once: as added when it was
  selected, otherwise as ignored; nothing else is ignored, and no model is both.\<close>

theorem apply_request_partition:
  assumes "openUpstreamUpdateModal t record' pending removes preferred st0 = (st, [])"
    "set selected \<subseteq> set (u_addModels st)"
  shows "set (normalize_names selected) \<union> set (ignored_models st selected) = set (normalize_names pending) \<and>
    set (normalize_names selected) \<inter> set (ignored_models st selected) = {} \<and>
    distinct (normalize_names selected) \<and> distinct (ignored_models st selected)"
proof -
  have a: "u_addModels st = normalize_names pending"
    using assms(1) by (auto simp: openUpstreamUpdateModal_def Let_def split: if_splits)
  then have "\<forall>s \<in> set selected. s \<noteq> [] \<and> trim s = s" using assms(2) by (auto simp: set_normalize_names)
  then have "set (normalize_names selected) = set selected" by (force simp: set_normalize_names)
  moreover have "distinct (normalize_names xs)" for xs by (simp add: normalize_names_def)
  ultimately show ?thesis using assms(2) a by (auto simp: ignored_models_def)
qed

theorem apply_request_partition_witness:
  "\<exists>st. openUpstreamUpdateModal (\<lambda>k _. k) (Obj [(js ''id'', Str (js ''3''))]) [js '' a '', js ''b'', js ''a''] [] Tab_add init_upstream = (st, []) \<and>
     set (normalize_names [js ''b'']) \<union> set (ignored_models st [js ''b'']) = set (normalize_names [js '' a '', js ''b'', js ''a''])"
proof -
  have n: "normalize_names [js '' a '', js ''b'', js ''a''] = [js ''a'', js ''b'']" by code_simp
  obtain st where st: "openUpstreamUpdateModal (\<lambda>k _. k) (Obj [(js ''id'', Str (js ''3''))]) [js '' a '', js ''b'', js ''a''] [] Tab_add init_upstream = (st, [])"
      "u_addModels st = [js ''a'', js ''b'']"
    by (simp add: openUpstreamUpdateModal_def n own_prop_def get_def truthy_def)
  have "set [js ''b''] \<subseteq> set (u_addModels st)" using st by simp
  from apply_request_partition [OF st(1) this] st(1) show ?thesis by blast
qed

end
