(* ===== verification/Api_Client.thy ===== *)
theory Api_Client
  imports Js_Json Http State_Machine "HOL-Library.Multiset"
begin

text \<open>
  \<open>helpers/api.js\<close> with \<open>showError\<close> of \<open>helpers/utils.jsx\<close>: sharing of equal \<open>GET\<close> requests in flight, the error
  handler of the client, payloads, groups and models, the start of an OAuth login, cached channel models.
\<close>

section \<open>Reporting errors\<close>

datatype ui = Ui_toast toast | Ui_remove jsstr | Ui_navigate jsstr | Ui_open jsstr

definition txt_error :: jsstr where "txt_error = [38169, 35823, 65306]"
definition txt_error_429 :: jsstr where "txt_error_429 = [38169, 35823, 65306, 35831, 27714, 27425, 25968, 36807, 22810, 65292, 35831, 31245,
     21518, 20877, 35797, 65281]"
definition txt_error_500 :: jsstr where "txt_error_500 = [38169, 35823, 65306, 26381, 21153, 22120, 20869, 37096, 38169, 35823, 65292, 35831,
     32852, 31995, 31649, 29702, 21592, 65281]"
definition txt_error_405 :: jsstr where "txt_error_405 = [26412, 31449, 20165, 20316, 28436, 31034, 20043, 29992, 65292, 26080, 26381, 21153,
     31471, 65281]"

definition is_code :: "jsval \<Rightarrow> nat \<Rightarrow> bool" where
  "is_code v n = strict_eq v (Num (Fin False (of_nat n)))"

definition showError :: "jsval \<Rightarrow> js_error + ui list" where
  "showError err =
     (if nullish err then Inl TypeError
      else
        (let message = own_prop err (js ''message'') in
         if truthy message then
           (if own_prop err (js ''name'') = Str (js ''AxiosError'') then
              (let response = own_prop err (js ''response''); status = own_prop response (js ''status'') in
               if nullish response then Inl TypeError
               else if is_code status 401 then Inr [Ui_remove (js ''user''), Ui_navigate (js ''/login?expired=true'')]
               else if is_code status 429 then Inr [Ui_toast (ShowError txt_error_429)]
               else if is_code status 500 then Inr [Ui_toast (ShowError txt_error_500)]
               else if is_code status 405 then Inr [Ui_toast (ShowInfo txt_error_405)]
               else Inr [Ui_toast (ShowError (txt_error @ to_str message))])
            else Inr [Ui_toast (ShowError (txt_error @ to_str message))])
         else Inr [Ui_toast (ShowError (txt_error @ to_str err))]))"

text \<open>An object without a message is shown the way a plain object is converted to a string.

  The error handler of the client: what is shown, and the value the promise rejects with.\<close>

definition rejected :: "jsval \<Rightarrow> ui list \<times> jsval" where
  "rejected err =
     (if truthy (own_prop err (js ''config'')) \<and> truthy (own_prop (own_prop err (js ''config'')) (js ''skipErrorHandler''))
      then ([], err)
      else (case showError err of Inl _ \<Rightarrow> ([], type_error) | Inr events \<Rightarrow> (events, err)))"

text \<open>An error that reached the client without a response (the network is down, the request timed out) is not
  shown: \<open>showError\<close> itself throws, and the caller gets that error instead of the original one.  Every
  other error object is shown and passed on.\<close>

theorem showError_throws_iff:
  assumes "truthy err" "\<not> truthy (own_prop (own_prop err (js ''config'')) (js ''skipErrorHandler''))"
  shows "rejected err = ([], type_error) \<longleftrightarrow> truthy (own_prop err (js ''message'')) \<and>
    own_prop err (js ''name'') = Str (js ''AxiosError'') \<and> nullish (own_prop err (js ''response''))"
proof -
  have "\<not> nullish err" using assms(1) by (auto simp: nullish_def truthy_def)
  then show ?thesis using assms(2) by (auto simp: rejected_def showError_def Let_def split: sum.splits)
qed

theorem showError_throws_iff_witness:
  "rejected (Obj [(js ''name'', Str (js ''AxiosError'')), (js ''message'', Str (js ''Network Error''))]) = ([], type_error)"
proof -
  let ?e = "Obj [(js ''name'', Str (js ''AxiosError'')), (js ''message'', Str (js ''Network Error''))]"
  have "truthy ?e" "\<not> truthy (own_prop (own_prop ?e (js ''config'')) (js ''skipErrorHandler''))"
    by (simp_all add: own_prop_def get_def)
  from showError_throws_iff [OF this] show ?thesis
    by (simp add: own_prop_def get_def nullish_def truthy_def)
qed

section \<open>Equal requests in flight\<close>

text \<open>A promise is the number of its request.  \<open>c_pending\<close>: the requests without an answer, each with the key
  under which it is shared; \<open>c_interceptor\<close>: whether the error handler is installed.\<close>

record client =
  c_inFlight :: "(jsstr, nat) store"
  c_pending :: "(nat \<times> jsstr option) list"
  c_sent :: nat
  c_interceptor :: bool

definition genKey :: "jsstr \<Rightarrow> jsval \<Rightarrow> jsstr" where
  "genKey url config =
     (let params = own_prop config (js ''params'') in
      url @ [63] @ (if truthy params then json_ser [] [] params else js ''{}''))"

definition send :: "jsstr option \<Rightarrow> client \<Rightarrow> nat \<times> client" where
  "send key c = (c_sent c, c\<lparr>c_sent := Suc (c_sent c), c_pending := c_pending c @ [(c_sent c, key)]\<rparr>)"

definition client_get :: "jsstr \<Rightarrow> jsval \<Rightarrow> client \<Rightarrow> nat \<times> client" where
  "client_get url config c =
     (if truthy (own_prop config (js ''disableDuplicate'')) then send None c
      else
        (let key = genKey url config in
         case get (c_inFlight c) key of
           Some p \<Rightarrow> (p, c)
         | None \<Rightarrow>
             (let (p, c') = send (Some key) c in (p, c'\<lparr>c_inFlight := put key p (c_inFlight c')\<rparr>))))"

text \<open>The \<open>n\<close>th pending request gets its answer; \<open>finally\<close> removes the shared entry.\<close>

definition client_answer :: "nat \<Rightarrow> client \<Rightarrow> client" where
  "client_answer n c =
     (let (p, key) = c_pending c ! n in
      c\<lparr>c_pending := take n (c_pending c) @ drop (Suc n) (c_pending c),
        c_inFlight := (case key of None \<Rightarrow> c_inFlight c | Some k \<Rightarrow> del k (c_inFlight c))\<rparr>)"

definition new_client :: "bool \<Rightarrow> client" where
  "new_client handler = \<lparr>c_inFlight = [], c_pending = [], c_sent = 0, c_interceptor = handler\<rparr>"

text \<open>The client of the module, with the error handler installed; \<open>updateAPI\<close> replaces it by a new one and does
  not install the handler again.\<close>

definition first_client :: client where
  "first_client = new_client True"

definition updateAPI :: "client \<Rightarrow> client" where
  "updateAPI c = new_client False"

definition on_failure :: "client \<Rightarrow> jsval \<Rightarrow> ui list \<times> jsval" where
  "on_failure c err = (if c_interceptor c then rejected err else ([], err))"

inductive client_step :: "client \<Rightarrow> client \<Rightarrow> bool" where
  get_request: "client_step c (snd (client_get url config c))"
| answered: "client_step c (client_answer n c)" if "n < length (c_pending c)"
| replaced: "client_step c (updateAPI c)"

definition client_ok :: "client \<Rightarrow> bool" where
  "client_ok c \<longleftrightarrow> distinct (map fst (c_pending c)) \<and> (\<forall>p k. (p, k) \<in> set (c_pending c) \<longrightarrow> p < c_sent c) \<and>
     (\<forall>k p. get (c_inFlight c) k = Some p \<longleftrightarrow> (p, Some k) \<in> set (c_pending c))"

lemma ok_get:
  assumes "client_ok c"
  shows "client_ok (snd (client_get url config c))"
proof (cases "truthy (own_prop config (js ''disableDuplicate''))")
  case True
  then show ?thesis using assms by (fastforce simp: client_get_def send_def client_ok_def)
next
  case False
  then show ?thesis
  proof (cases "get (c_inFlight c) (genKey url config)")
    case None
    then have "\<forall>p. (p, Some (genKey url config)) \<notin> set (c_pending c)"
      using assms unfolding client_ok_def by (metis option.distinct(1))
    moreover have "\<forall>k. (c_sent c, k) \<notin> set (c_pending c)" using assms by (auto simp: client_ok_def)
    moreover have "c_sent c \<notin> fst ` set (c_pending c)" using assms by (auto simp: client_ok_def)
    ultimately show ?thesis using assms False None
      by (auto simp: client_get_def send_def Let_def client_ok_def get_put less_Suc_eq)
  qed (use assms False in \<open>simp add: client_get_def Let_def\<close>)
qed

lemma ok_client_answer:
  assumes "client_ok c" "n < length (c_pending c)"
  shows "client_ok (client_answer n c)"
proof -
  obtain p key where pk: "c_pending c ! n = (p, key)" by fastforce
  obtain us vs where j: "c_pending c = us @ (p, key) # vs" "take n (c_pending c) = us" "drop (Suc n) (c_pending c) = vs"
    using id_take_nth_drop [OF assms(2)] pk by metis
  have ok: "distinct (map fst (us @ (p, key) # vs))" "\<forall>q k. (q, k) \<in> set (us @ (p, key) # vs) \<longrightarrow> q < c_sent c"
      "\<forall>k q. get (c_inFlight c) k = Some q \<longleftrightarrow> (q, Some k) \<in> set (us @ (p, key) # vs)"
    using assms(1) unfolding client_ok_def j(1) by blast+
  have others: "(q, Some k) \<notin> set (us @ vs)" if "key = Some k" for q k
  proof
    assume q: "(q, Some k) \<in> set (us @ vs)"
    then have "get (c_inFlight c) k = Some q" "get (c_inFlight c) k = Some p" using ok(3) that by auto
    then show False using q ok(1) by (force simp: image_iff)
  qed
  have new: "get (case key of None \<Rightarrow> c_inFlight c | Some k \<Rightarrow> del k (c_inFlight c)) k = Some q \<longleftrightarrow> (q, Some k) \<in> set (us @ vs)" for k q
    using ok(3) others by (cases key) (auto simp: get_del)
  show ?thesis using ok(1,2) new by (auto simp: client_ok_def client_answer_def pk j(2,3))
qed

lemma ok_new: "client_ok (new_client handler)"
  by (simp add: client_ok_def new_client_def)

interpretation clients: invariant_machine "\<lambda>c. c = first_client" client_step client_ok
proof
  fix c c' assume "client_ok c" "client_step c c'"
  from this(2,1) show "client_ok c'"
    by cases (simp_all add: ok_get ok_client_answer updateAPI_def ok_new)
qed (simp add: first_client_def ok_new)

text \<open>C19: Of all shared requests with one key at most one is in flight.  While it is, the same \<open>GET\<close> gets its
  promise and sends nothing; once it is answered, the next \<open>GET\<close> sends a request of its own.\<close>

theorem shared_requests:
  assumes "reach (\<lambda>c. c = first_client) client_step c" "\<not> truthy (own_prop config (js ''disableDuplicate''))"
  shows "(if \<exists>p. (p, Some (genKey url config)) \<in> set (c_pending c)
      then \<exists>p. {q. (q, Some (genKey url config)) \<in> set (c_pending c)} = {p} \<and> client_get url config c = (p, c)
      else fst (client_get url config c) = c_sent c \<and>
        c_pending (snd (client_get url config c)) = c_pending c @ [(c_sent c, Some (genKey url config))])"
proof -
  have ok: "get (c_inFlight c) k = Some q \<longleftrightarrow> (q, Some k) \<in> set (c_pending c)" for k q
    using clients.reach_inv [OF assms(1)] by (simp add: client_ok_def)
  show ?thesis using assms(2)
    by (auto simp: client_get_def send_def Let_def simp flip: ok split: option.split)
qed

theorem shared_requests_witness:
  "client_get (js ''/api/user/self'') Undef (snd (client_get (js ''/api/user/self'') Undef first_client)) =
     (0, snd (client_get (js ''/api/user/self'') Undef first_client))"
proof -
  let ?c = "snd (client_get (js ''/api/user/self'') Undef first_client)"
  have "reach (\<lambda>c. c = first_client) client_step ?c"
    by (rule reach_step, rule reach_start, rule refl, rule get_request)
  note shared = shared_requests [OF this, where config = Undef and url = "js ''/api/user/self''"]
  have "c_pending ?c = [(0, Some (genKey (js ''/api/user/self'') Undef))]"
    by (simp add: client_get_def send_def first_client_def new_client_def Let_def)
  then show ?thesis using shared by auto
qed

text \<open>The contract of the client, seen from outside: the keys of the requests the server is working on (\<open>None\<close>
  for a request that is never shared).  A request for a key already there is not sent.\<close>

inductive flight_step :: "jsstr option multiset \<Rightarrow> jsstr option multiset \<Rightarrow> bool" where
  sent_shared: "flight_step M (add_mset (Some k) M)" if "Some k \<notin># M"
| joined: "flight_step M M" if "Some k \<in># M"
| sent_alone: "flight_step M (add_mset None M)"
| settled: "flight_step (add_mset k M) M"
| emptied: "flight_step M {#}"

definition in_flight :: "client \<Rightarrow> jsstr option multiset" where
  "in_flight c = mset (map snd (c_pending c))"

lemma flight_get:
  assumes "client_ok c"
  shows "flight_step (in_flight c) (in_flight (snd (client_get url config c)))"
proof -
  have in_flight_iff: "Some k \<in># in_flight c \<longleftrightarrow> get (c_inFlight c) k \<noteq> None" for k
    using assms by (force simp: client_ok_def in_flight_def image_iff)
  show ?thesis
  proof (cases "truthy (own_prop config (js ''disableDuplicate''))")
    case True
    then show ?thesis by (simp add: client_get_def send_def in_flight_def sent_alone)
  next
    case False
    then show ?thesis using sent_shared [of "genKey url config" "in_flight c"] joined [of "genKey url config" "in_flight c"]
      by (auto simp: in_flight_iff client_get_def send_def Let_def split: option.split) (auto simp: in_flight_def)
  qed
qed

lemma flight_answer:
  assumes "n < length (c_pending c)"
  shows "flight_step (in_flight c) (in_flight (client_answer n c))"
proof -
  have "in_flight c = add_mset (snd (c_pending c ! n)) (in_flight (client_answer n c))"
    using arg_cong [OF id_take_nth_drop [OF assms], of "\<lambda>xs. mset (map snd xs)"]
    by (simp add: in_flight_def client_answer_def split: prod.split)
  then show ?thesis using settled [of "snd (c_pending c ! n)" "in_flight (client_answer n c)"] by simp
qed

lemma in_flight_new [simp]: "in_flight (new_client handler) = {#}"
  by (simp add: in_flight_def new_client_def)

interpretation flights: refinement "\<lambda>c. c = first_client" client_step client_ok "\<lambda>M. M = {#}" flight_step in_flight
proof
  fix c c' assume "client_ok c" "client_step c c'"
  from this(2,1) show "flight_step (in_flight c) (in_flight c')"
    by cases (simp_all add: flight_get flight_answer emptied updateAPI_def)
qed (simp add: first_client_def)



section \<open>Starting an OAuth login\<close>

type_synonym storage = "(jsstr, jsstr) store"

definition getOAuthState :: "'s server \<Rightarrow> client \<Rightarrow> storage \<Rightarrow> 's world \<Rightarrow> (jsval + jsval) \<times> ui list \<times> 's world" where
  "getOAuthState server c storage w =
     (let path = js ''/api/oauth/state'' @
            (case get storage (js ''aff'') of None \<Rightarrow> [] | Some aff \<Rightarrow> if aff = [] then [] else js ''?aff='' @ aff);
          (answer, w') = call server (Get_req path Undef) w
      in case answer of
           Inl err \<Rightarrow> (let (events, reason) = on_failure c err in (Inl reason, events, w'))
         | Inr res \<Rightarrow>
             if nullish (body_of res) then (Inl type_error, [], w')
             else if succeeded res then (Inr (own_prop (body_of res) (js ''data'')), [], w')
             else
               (case showError (own_prop (body_of res) (js ''message'')) of
                  Inl _ \<Rightarrow> (Inl type_error, [], w')
                | Inr events \<Rightarrow> (Inr (Str []), events, w')))"

definition logout_request :: request where
  "logout_request = Get_req (js ''/api/user/logout'') (Obj [(js ''skipErrorHandler'', Bool True)])"

record 's login =
  l_client :: client
  l_storage :: storage
  l_world :: "'s world"

definition prepareOAuthState :: "'s server \<Rightarrow> bool \<Rightarrow> 's login \<Rightarrow> (jsval + jsval) \<times> ui list \<times> 's login" where
  "prepareOAuthState server shouldLogout l =
     (let l1 =
            (if shouldLogout then
               l\<lparr>l_world := snd (call server logout_request (l_world l)),
                 l_storage := del (js ''user'') (l_storage l), l_client := updateAPI (l_client l)\<rparr>
             else l);
          (state, events, w) = getOAuthState server (l_client l1) (l_storage l1) (l_world l1)
      in (state, events, l1\<lparr>l_world := w\<rparr>))"

definition open_with_state :: "(jsstr \<Rightarrow> jsstr) \<Rightarrow> (jsval + jsval) \<times> ui list \<times> 's login \<Rightarrow> (jsval + unit) \<times> ui list \<times> 's login" where
  "open_with_state url = (\<lambda>(state, events, l).
     case state of
       Inl reason \<Rightarrow> (Inl reason, events, l)
     | Inr v \<Rightarrow> (Inr (), if truthy v then events @ [Ui_open (url (to_str v))] else events, l))"

definition onDiscordOAuthClicked ::
    "'s server \<Rightarrow> jsstr \<Rightarrow> jsstr \<Rightarrow> bool \<Rightarrow> 's login \<Rightarrow> (jsval + unit) \<times> ui list \<times> 's login" where
  "onDiscordOAuthClicked server origin client_id shouldLogout l =
     open_with_state (\<lambda>state. js ''https://discord.com/oauth2/authorize?client_id='' @ client_id @ js ''&redirect_uri='' @
         origin @ js ''/oauth/discord'' @ js ''&response_type='' @ js ''code'' @ js ''&scope='' @ js ''identify+openid'' @
         js ''&state='' @ state)
       (prepareOAuthState server shouldLogout l)"

definition onGitHubOAuthClicked ::
    "'s server \<Rightarrow> jsstr \<Rightarrow> bool \<Rightarrow> 's login \<Rightarrow> (jsval + unit) \<times> ui list \<times> 's login" where
  "onGitHubOAuthClicked server github_client_id shouldLogout l =
     open_with_state (\<lambda>state. js ''https://github.com/login/oauth/authorize?client_id='' @ github_client_id @
         js ''&state='' @ state @ js ''&scope=user:email'')
       (prepareOAuthState server shouldLogout l)"

definition onLinuxDOOAuthClicked ::
    "'s server \<Rightarrow> jsstr \<Rightarrow> bool \<Rightarrow> 's login \<Rightarrow> (jsval + unit) \<times> ui list \<times> 's login" where
  "onLinuxDOOAuthClicked server linuxdo_client_id shouldLogout l =
     open_with_state (\<lambda>state. js ''https://connect.linux.do/oauth2/authorize?response_type=code&client_id='' @
         linuxdo_client_id @ js ''&state='' @ state)
       (prepareOAuthState server shouldLogout l)"

text \<open>Neither reporting an error nor the error handler opens a page.\<close>

lemma showError_opens_nothing: "showError err = Inr events \<Longrightarrow> Ui_open u \<notin> set events"
  by (auto simp: showError_def Let_def split: if_splits)

lemma getOAuthState_facts:
  assumes "getOAuthState server c storage w = (state, events, w')"
  shows "\<exists>path. w_log w' = w_log w @ [Get_req path Undef]"
    and "\<not> c_interceptor c \<Longrightarrow> state = Inl reason \<Longrightarrow> events = []"
    and "Ui_open u \<notin> set events"
  using assms
  by (auto simp: getOAuthState_def on_failure_def rejected_def Let_def showError_opens_nothing
      split: prod.splits sum.splits if_splits dest!: call_log)

text \<open>A login that logs out first sends the logout before it asks for the state and removes the stored user
  whatever the server answers.  It opens no page when the state could not be obtained; but then nothing is
  shown either, since the client that replaced the old one has no error handler.\<close>

theorem logout_then_login:
  assumes "onGitHubOAuthClicked server client_id True l = (result, events, l')"
  shows "get (l_storage l') (js ''user'') = None \<and>
    (\<exists>path. w_log (l_world l') = w_log (l_world l) @ [logout_request, Get_req path Undef]) \<and>
    (\<forall>reason. result = Inl reason \<longrightarrow> events = [])"
proof -
  define l1 where "l1 = l\<lparr>l_world := snd (call server logout_request (l_world l)),
    l_storage := del (js ''user'') (l_storage l), l_client := updateAPI (l_client l)\<rparr>"
  obtain state evs w where g: "getOAuthState server (l_client l1) (l_storage l1) (l_world l1) = (state, evs, w)"
    by (metis prod_cases3)
  note facts = getOAuthState_facts [OF g]
  have l1: "w_log (l_world l1) = w_log (l_world l) @ [logout_request]" "\<not> c_interceptor (l_client l1)"
      "get (l_storage l1) (js ''user'') = None"
    by (auto simp: l1_def call_def updateAPI_def new_client_def get_del split: prod.split)
  have r: "l' = l1\<lparr>l_world := w\<rparr>" "result = Inl reason \<Longrightarrow> state = Inl reason \<and> events = evs" for reason
    using assms g
    by (auto simp: onGitHubOAuthClicked_def open_with_state_def prepareOAuthState_def Let_def l1_def split: sum.splits)
  show ?thesis using facts(1,2) l1 r by fastforce
qed

theorem logout_then_login_witness:
  "fst (snd (onGitHubOAuthClicked (\<lambda>_ s. (Inl (new_Error (js ''down'')), s)) (js ''id'') True
     \<lparr>l_client = first_client, l_storage = [(js ''user'', js ''{}'')], l_world = \<lparr>w_log = [], w_srv = ()\<rparr>\<rparr>)) = []"
proof -
  let ?server = "\<lambda>_ s. (Inl (new_Error (js ''down'')), s)"
  let ?l = "\<lparr>l_client = first_client, l_storage = [(js ''user'', js ''{}'')], l_world = \<lparr>w_log = [], w_srv = ()\<rparr>\<rparr>"
  obtain r ev l' where x: "onGitHubOAuthClicked ?server (js ''id'') True ?l = (r, ev, l')" by (metis prod_cases3)
  have "r = Inl (new_Error (js ''down''))" using x
    by (auto simp: onGitHubOAuthClicked_def open_with_state_def prepareOAuthState_def Let_def getOAuthState_def call_def
        on_failure_def updateAPI_def new_client_def)
  then show ?thesis using logout_then_login [OF x] x by simp
qed

section \<open>Models of the channel types\<close>

text \<open>The variable \<open>channelModels\<close> (\<open>Undef\<close> until it is loaded) and the copy in the storage.\<close>

record models_cache =
  m_models :: jsval
  m_storage :: storage

definition loadChannelModels :: "jsval \<Rightarrow> models_cache \<Rightarrow> models_cache" where
  "loadChannelModels res c =
     (if succeeded res then
        (let data = own_prop (body_of res) (js ''data'') in
         \<lparr>m_models = data, m_storage = put (js ''channel_models'') (if data = Undef then js ''undefined'' else json_ser [] [] data) (m_storage c)\<rparr>)
      else c)"

definition getChannelModels :: "jsstr \<Rightarrow> models_cache \<Rightarrow> js_error + jsval \<times> models_cache" where
  "getChannelModels typ' c =
     (if m_models c \<noteq> Undef \<and> (nullish (m_models c) \<or> \<not> is_object_type (m_models c)) then Inl TypeError
      else if m_models c \<noteq> Undef \<and> typ' \<in> set (obj_keys (m_models c)) then
        (let v = own_prop (m_models c) typ' in Inr (if truthy v then v else Arr [], c))
      else
        (case get (m_storage c) (js ''channel_models'') of
           None \<Rightarrow> Inr (Arr [], c)
         | Some models \<Rightarrow>
             if models = [] then Inr (Arr [], c)
             else
               (case json_parse models of
                  None \<Rightarrow> Inl SyntaxError
                | Some v \<Rightarrow>
                    if nullish v \<or> \<not> is_object_type v then Inl TypeError
                    else Inr (if typ' \<in> set (obj_keys v) then own_prop v typ' else Arr [], c\<lparr>m_models := v\<rparr>))))"

end
