(* ===== verification/Model_Price.thy ===== *)
theory Model_Price
  imports Js_Json Js_Object
begin

text \<open>
  The prices of a model on the pricing page: \<open>calculateModelPrice\<close> and \<open>getModelPriceItems\<close> of
  \<open>helpers/utils.jsx\<close>, and \<open>displayPrice\<close> of \<open>hooks/model-pricing/useModelPricingData.jsx\<close>.
\<close>

section \<open>The group\<close>

text \<open>\<open>v < w\<close>: strings compare by code units, everything else as numbers.\<close>

fun js_less :: "jsval \<Rightarrow> jsval \<Rightarrow> bool" where
  "js_less (Str s) (Str t) = str_less s t"
| "js_less v w = num_less (to_num v) (to_num w)"

text \<open>The loop over the groups of a model: the least ratio so far, the group and the ratio in use.\<close>

definition group_loop :: "jsval \<Rightarrow> jsval list \<Rightarrow> jsval \<times> jsval \<times> jsval \<Rightarrow> jsval \<times> jsval \<times> jsval" where
  "group_loop groupRatio = fold (\<lambda>g (minRatio, usedGroup, usedGroupRatio).
     let r = own_prop groupRatio (to_str g) in
     if r \<noteq> Undef \<and> js_less r minRatio then (r, g, r) else (minRatio, usedGroup, usedGroupRatio))"

definition one :: jsval where "one = Num (Fin False 1)"

definition used_group :: "jsval \<Rightarrow> jsval \<Rightarrow> jsval \<Rightarrow> jsval \<times> jsval" where
  "used_group record' selectedGroup groupRatio =
     (let ratio = own_prop groupRatio (to_str selectedGroup) in
      if selectedGroup = Str (js ''all'') \<or> ratio = Undef then
        (let (_, g, r) =
           (case own_prop record' (js ''enable_groups'') of
              Arr groups \<Rightarrow> group_loop groupRatio groups (Num (Infty False), selectedGroup, ratio)
            | _ \<Rightarrow> (Num (Infty False), selectedGroup, ratio))
         in (g, if r = Undef then one else r))
      else (selectedGroup, ratio))"

section \<open>The prices\<close>

definition hasRatioValue :: "jsval \<Rightarrow> bool" where
  "hasRatioValue v \<longleftrightarrow> v \<noteq> Undef \<and> v \<noteq> Null \<and> v \<noteq> Str [] \<and> is_finite (to_num v)"

definition formatRatio :: "jsval \<Rightarrow> jsval" where
  "formatRatio v = (if hasRatioValue v then Num (to_number (to_fixed 6 (to_num v))) else Null)"

text \<open>The symbol; \<open>status\<close> is the item of that name in the local storage.\<close>

definition price_symbol :: "jsstr \<Rightarrow> jsstr option \<Rightarrow> jsstr" where
  "price_symbol currency status =
     (if currency = js ''CNY'' then [165]
      else if currency = js ''CUSTOM'' then
        (case status of
           None \<Rightarrow> [164]
         | Some s \<Rightarrow>
             if s = [] then [164]
             else (case json_parse s of None \<Rightarrow> [164]
               | Some v \<Rightarrow> to_str (js_or (own_prop v (js ''custom_currency_symbol'')) (Str [164]))))
      else [36])"

definition formatTokenPrice :: "(jsnum \<Rightarrow> jsstr) \<Rightarrow> jsstr \<Rightarrow> jsnum \<Rightarrow> nat \<Rightarrow> jsnum \<Rightarrow> jsstr" where
  "formatTokenPrice displayPrice symbol unitDivisor precision priceUSD =
     (let numericPrice = num_div (parse_float (filter (\<lambda>c. is_digit c \<or> c = 46) (displayPrice priceUSD))) unitDivisor
      in symbol @ to_fixed precision numericPrice)"

text \<open>What the page passes: the selected group and the ratios, the unit, the conversion to a text, the
  currency, the display type, the decimals (4 unless given) and the stored status.\<close>

record price_args =
  a_selectedGroup :: jsval
  a_groupRatio :: jsval
  a_tokenUnit :: jsstr
  a_displayPrice :: "jsnum \<Rightarrow> jsstr"
  a_currency :: jsstr
  a_quotaDisplayType :: jsstr
  a_precision :: nat
  a_status :: "jsstr option"

definition field :: "string \<Rightarrow> jsval \<Rightarrow> (jsstr \<times> jsval)" where
  "field k v = (js k, v)"

definition ratio_fields :: "jsval \<Rightarrow> (jsstr \<times> jsval) list" where
  "ratio_fields record' =
     [field ''inputRatio'' (formatRatio (own_prop record' (js ''model_ratio''))),
      field ''completionRatio'' (formatRatio (own_prop record' (js ''completion_ratio''))),
      field ''cacheRatio'' (formatRatio (own_prop record' (js ''cache_ratio''))),
      field ''createCacheRatio'' (formatRatio (own_prop record' (js ''create_cache_ratio''))),
      field ''imageRatio'' (formatRatio (own_prop record' (js ''image_ratio''))),
      field ''audioInputRatio'' (formatRatio (own_prop record' (js ''audio_ratio''))),
      field ''audioOutputRatio'' (formatRatio (own_prop record' (js ''audio_completion_ratio''))),
      field ''isPerToken'' (Bool True), field ''isTokensDisplay'' (Bool True)]"

definition token_fields :: "price_args \<Rightarrow> jsval \<Rightarrow> jsval \<Rightarrow> (jsstr \<times> jsval) list" where
  "token_fields a record' ratio =
     (let base = num_mul (num_mul (to_num (own_prop record' (js ''model_ratio''))) (Fin False 2)) (to_num ratio);
          unitDivisor = (if a_tokenUnit a = js ''K'' then Fin False 1000 else Fin False 1);
          unitLabel = (if a_tokenUnit a = js ''K'' then js ''K'' else js ''M'');
          symbol = price_symbol (a_currency a) (a_status a);
          fmt = (\<lambda>p. Str (formatTokenPrice (a_displayPrice a) symbol unitDivisor (a_precision a) p));
          r = own_prop record';
          times = (\<lambda>k. num_mul base (to_num (r (js k))));
          optional = (\<lambda>k. if hasRatioValue (r (js k)) then fmt (times k) else Null);
          audioInputPrice = optional ''audio_ratio''
      in [field ''inputPrice'' (fmt base), field ''completionPrice'' (fmt (times ''completion_ratio'')),
          field ''cachePrice'' (optional ''cache_ratio''), field ''createCachePrice'' (optional ''create_cache_ratio''),
          field ''imagePrice'' (optional ''image_ratio''), field ''audioInputPrice'' audioInputPrice,
          field ''audioOutputPrice''
            (if truthy audioInputPrice \<and> hasRatioValue (r (js ''audio_completion_ratio''))
             then fmt (num_mul (times ''audio_ratio'') (to_num (r (js ''audio_completion_ratio'')))) else Null),
          field ''unitLabel'' (Str unitLabel), field ''isPerToken'' (Bool True), field ''isTokensDisplay'' (Bool False)])"

definition fixed_fields :: "jsval \<Rightarrow> (jsstr \<times> jsval) list" where
  "fixed_fields price' =
     [field ''price'' price', field ''isPerToken'' (Bool False), field ''isTokensDisplay'' (Bool False)]"

text \<open>The record and the ratios must not be \<open>null\<close> or \<open>undefined\<close>.\<close>

definition calculateModelPrice :: "price_args \<Rightarrow> jsval \<Rightarrow> js_error + jsval" where
  "calculateModelPrice a record' =
     (if nullish (a_groupRatio a) \<or> nullish record' then Inl TypeError
      else
        (let (usedGroup, usedGroupRatio) = used_group record' (a_selectedGroup a) (a_groupRatio a);
             quota_type = own_prop record' (js ''quota_type'');
             fields' =
               (if strict_eq quota_type (Num (Fin False 0)) then
                  (if a_quotaDisplayType a = js ''TOKENS'' then ratio_fields record'
                   else token_fields a record' usedGroupRatio)
                else if strict_eq quota_type (Num (Fin False 1)) then
                  fixed_fields (Str (a_displayPrice a
                    (num_mul (parse_float (to_str (own_prop record' (js ''model_price'')))) (to_num usedGroupRatio))))
                else fixed_fields (Str (js ''-'')))
         in Inr (Obj (fields' @ [field ''usedGroup'' usedGroup, field ''usedGroupRatio'' usedGroupRatio]))))"

section \<open>The items shown\<close>

record price_item =
  i_key :: jsstr
  i_label :: jsstr
  i_value :: jsval
  i_suffix :: jsstr

definition shown_items :: "price_item list \<Rightarrow> price_item list" where
  "shown_items = filter (\<lambda>i. i_value i \<noteq> Null \<and> i_value i \<noteq> Undef \<and> i_value i \<noteq> Str [])"

definition item :: "translate \<Rightarrow> jsval \<Rightarrow> jsstr \<Rightarrow> string \<times> jsstr \<times> string \<Rightarrow> price_item" where
  "item t priceData suffix = (\<lambda>(k, label, f). \<lparr>i_key = js k, i_label = t label [], i_value = own_prop priceData (js f), i_suffix = suffix\<rparr>)"

definition ratio_items :: "(string \<times> jsstr \<times> string) list" where
  "ratio_items =
     [(''input-ratio'', [36755, 20837, 20493, 29575], ''inputRatio''),
      (''completion-ratio'', [34917, 20840, 20493, 29575], ''completionRatio''),
      (''cache-ratio'', [32531, 23384, 35835, 21462, 20493, 29575], ''cacheRatio''),
      (''create-cache-ratio'', [32531, 23384, 21019, 24314, 20493, 29575], ''createCacheRatio''),
      (''image-ratio'', [22270, 29255, 36755, 20837, 20493, 29575], ''imageRatio''),
      (''audio-input-ratio'', [38899, 39057, 36755, 20837, 20493, 29575], ''audioInputRatio''),
      (''audio-output-ratio'', [38899, 39057, 34917, 20840, 20493, 29575], ''audioOutputRatio'')]"

definition token_items :: "(string \<times> jsstr \<times> string) list" where
  "token_items =
     [(''input'', [36755, 20837, 20215, 26684], ''inputPrice''),
      (''completion'', [34917, 20840, 20215, 26684], ''completionPrice''),
      (''cache'', [32531, 23384, 35835, 21462, 20215, 26684], ''cachePrice''),
      (''create-cache'', [32531, 23384, 21019, 24314, 20215, 26684], ''createCachePrice''),
      (''image'', [22270, 29255, 36755, 20837, 20215, 26684], ''imagePrice''),
      (''audio-input'', [38899, 39057, 36755, 20837, 20215, 26684], ''audioInputPrice''),
      (''audio-output'', [38899, 39057, 34917, 20840, 20215, 26684], ''audioOutputPrice'')]"

definition getModelPriceItems :: "jsval \<Rightarrow> translate \<Rightarrow> jsstr \<Rightarrow> price_item list" where
  "getModelPriceItems priceData t quotaDisplayType =
     (if truthy (own_prop priceData (js ''isPerToken'')) then
        (if quotaDisplayType = js ''TOKENS'' \<or> truthy (own_prop priceData (js ''isTokensDisplay''))
         then shown_items (map (item t priceData [120]) ratio_items)
         else shown_items (map (item t priceData
           (js '' / 1'' @ to_str (own_prop priceData (js ''unitLabel'')) @ js '' Tokens'')) token_items))
      else shown_items [item t priceData (js '' / '' @ t [27425] [])
        (''fixed'', [27169, 22411, 20215, 26684], ''price'')])"

section \<open>Texts of prices\<close>

text \<open>\<open>displayPrice\<close> of the page: the rates and the symbol come from the status, the switch includes the
  recharge price.\<close>

record money =
  y_currency :: jsstr
  y_showWithRecharge :: bool
  y_priceRate :: jsval
  y_usdExchangeRate :: jsval
  y_customExchangeRate :: jsval
  y_customCurrencySymbol :: jsval

definition displayPrice :: "money \<Rightarrow> jsnum \<Rightarrow> jsstr" where
  "displayPrice y usdPrice =
     (let priceInUSD = (if y_showWithRecharge y
            then num_div (num_mul usdPrice (to_num (y_priceRate y))) (to_num (y_usdExchangeRate y)) else usdPrice)
      in if y_currency y = js ''CNY'' then [165] @ to_fixed 3 (num_mul priceInUSD (to_num (y_usdExchangeRate y)))
         else if y_currency y = js ''CUSTOM'' then
           to_str (y_customCurrencySymbol y) @ to_fixed 3 (num_mul priceInUSD (to_num (y_customExchangeRate y)))
         else [36] @ to_fixed 3 priceInUSD)"

section \<open>The cheapest group\<close>

definition plain_ratio :: "jsval \<Rightarrow> bool" where
  "plain_ratio v \<longleftrightarrow> v = Undef \<or> (\<exists>s q. v = Num (Fin s q))"

definition plain_ratios :: "jsval \<Rightarrow> jsval list \<Rightarrow> bool" where
  "plain_ratios groupRatio groups \<longleftrightarrow> (\<forall>g \<in> set groups. plain_ratio (own_prop groupRatio (to_str g)))"

lemma js_less_plain:
  assumes "plain_ratio u" "plain_ratio v" "plain_ratio w"
  shows "\<not> js_less v v" "js_less v w \<Longrightarrow> \<not> js_less u w \<Longrightarrow> \<not> js_less u v" "v \<noteq> Undef \<Longrightarrow> js_less v (Num (Infty False))"
    "\<not> js_less Undef w'"
  using assms by (auto simp: plain_ratio_def)

lemma group_loop_least:
  assumes "plain_ratios gr groups"
  shows "(\<forall>g \<in> set groups. own_prop gr (to_str g) = Undef) \<and> group_loop gr groups (Num (Infty False), u, Undef) = (Num (Infty False), u, Undef) \<or>
    (\<exists>g \<in> set groups. own_prop gr (to_str g) \<noteq> Undef \<and>
      group_loop gr groups (Num (Infty False), u, Undef) = (own_prop gr (to_str g), g, own_prop gr (to_str g)) \<and>
      (\<forall>g' \<in> set groups. \<not> js_less (own_prop gr (to_str g')) (own_prop gr (to_str g))))"
  using assms
proof (induction groups rule: rev_induct)
  case Nil
  then show ?case by (simp add: group_loop_def)
next
  case (snoc x xs)
  define R where "R = (\<lambda>g. own_prop gr (to_str g))"
  define s where "s = group_loop gr xs (Num (Infty False), u, Undef)"
  have plain: "plain_ratio (R g)" if "g \<in> set (xs @ [x])" for g
    using snoc.prems that by (auto simp: plain_ratios_def R_def)
  have R: "own_prop gr (to_str g) = R g" for g by (simp add: R_def)
  have loop: "group_loop gr (xs @ [x]) (Num (Infty False), u, Undef) =
      (case s of (m, g, r) \<Rightarrow> if R x \<noteq> Undef \<and> js_less (R x) m then (R x, x, R x) else (m, g, r))"
    by (simp add: group_loop_def s_def R_def Let_def split: prod.split)
  have "plain_ratios gr xs" using snoc.prems by (simp add: plain_ratios_def)
  then consider (none) "\<forall>g \<in> set xs. R g = Undef" "s = (Num (Infty False), u, Undef)"
    | (some) g where "g \<in> set xs" "R g \<noteq> Undef" "s = (R g, g, R g)" "\<forall>g' \<in> set xs. \<not> js_less (R g') (R g)"
    using snoc.IH unfolding R_def s_def by blast
  then show ?case
  proof cases
    case none
    show ?thesis
    proof (cases "R x = Undef")
      case True
      then have "\<forall>g \<in> set (xs @ [x]). R g = Undef" using none(1) by simp
      then show ?thesis unfolding loop R using none(2) True by simp
    next
      case False
      then have "\<forall>g \<in> set (xs @ [x]). \<not> js_less (R g) (R x)"
        using none(1) js_less_plain(1,4) [OF plain plain plain] by auto
      moreover have "js_less (R x) (Num (Infty False))" using js_less_plain(3) [OF plain plain plain, of x x x] False by simp
      ultimately show ?thesis unfolding loop R using none(2) False by auto
    qed
  next
    case (some g)
    show ?thesis
    proof (cases "R x \<noteq> Undef \<and> js_less (R x) (R g)")
      case True
      then have "\<forall>g' \<in> set (xs @ [x]). \<not> js_less (R g') (R x)"
        using some(1,4) js_less_plain(1,2) plain by (metis Un_iff list.set_intros(1) set_ConsD set_append append_Nil2 empty_iff empty_set)
      then show ?thesis unfolding loop R using some(3) True by auto
    next
      case False
      then have "\<forall>g' \<in> set (xs @ [x]). \<not> js_less (R g') (R g)"
        using some(4) js_less_plain(4) plain by fastforce
      then show ?thesis unfolding loop R using some(1-3) False by auto
    qed
  qed
qed

lemma own_prop_append:
  "own_prop (Obj (kvs @ rest)) k = (if k \<in> set (map fst kvs) then own_prop (Obj kvs) k else own_prop (Obj rest) k)"
proof (cases "map_of kvs k")
  case None
  moreover from None have "k \<notin> set (map fst kvs)" by (simp add: map_of_eq_None_iff)
  ultimately show ?thesis by (simp add: own_prop_def get_def map_add_def)
next
  case (Some v)
  moreover from Some have "k \<in> set (map fst kvs)" by (metis list.set_map map_of_eq_None_iff option.distinct(1))
  ultimately show ?thesis by (simp add: own_prop_def get_def map_add_def)
qed

lemma field_names:
  "map fst (ratio_fields r) = map js [''inputRatio'', ''completionRatio'', ''cacheRatio'', ''createCacheRatio'', ''imageRatio'',
     ''audioInputRatio'', ''audioOutputRatio'', ''isPerToken'', ''isTokensDisplay'']"
  "map fst (token_fields a r v) = map js [''inputPrice'', ''completionPrice'', ''cachePrice'', ''createCachePrice'', ''imagePrice'',
     ''audioInputPrice'', ''audioOutputPrice'', ''unitLabel'', ''isPerToken'', ''isTokensDisplay'']"
  "map fst (fixed_fields w) = map js [''price'', ''isPerToken'', ''isTokensDisplay'']"
  by (simp_all add: ratio_fields_def token_fields_def fixed_fields_def field_def Let_def)

lemma used_props:
  assumes "calculateModelPrice a record' = Inr p"
  shows "own_prop p (js ''usedGroup'') = fst (used_group record' (a_selectedGroup a) (a_groupRatio a))"
    and "own_prop p (js ''usedGroupRatio'') = snd (used_group record' (a_selectedGroup a) (a_groupRatio a))"
proof -
  obtain fs where p: "p = Obj (fs @ [field ''usedGroup'' (fst (used_group record' (a_selectedGroup a) (a_groupRatio a))),
      field ''usedGroupRatio'' (snd (used_group record' (a_selectedGroup a) (a_groupRatio a)))])"
    and fs: "fs = ratio_fields record' \<or> (\<exists>v. fs = token_fields a record' v) \<or> (\<exists>v. fs = fixed_fields v)"
    using assms by (auto simp: calculateModelPrice_def Let_def split: if_splits prod.splits)
  have "js ''usedGroup'' \<notin> set (map fst fs)" "js ''usedGroupRatio'' \<notin> set (map fst fs)"
    using fs by (auto simp only: field_names list.map list.set) simp_all
  then show "own_prop p (js ''usedGroup'') = fst (used_group record' (a_selectedGroup a) (a_groupRatio a))"
      "own_prop p (js ''usedGroupRatio'') = snd (used_group record' (a_selectedGroup a) (a_groupRatio a))"
    unfolding p own_prop_append by (simp_all add: field_def own_prop_def get_def)
qed

text \<open>C21: In the view over all groups a model is priced with the least ratio among its groups, and the group shown
  is one with that ratio; a model none of whose groups has a ratio is priced with ratio 1.\<close>

theorem cheapest_group:
  assumes "calculateModelPrice a record' = Inr p" "a_selectedGroup a = Str (js ''all'')"
    and "own_prop (a_groupRatio a) (js ''all'') = Undef" "own_prop record' (js ''enable_groups'') = Arr groups"
    and "plain_ratios (a_groupRatio a) groups"
  shows "(if \<exists>g \<in> set groups. own_prop (a_groupRatio a) (to_str g) \<noteq> Undef
     then own_prop p (js ''usedGroup'') \<in> set groups \<and>
       own_prop p (js ''usedGroupRatio'') = own_prop (a_groupRatio a) (to_str (own_prop p (js ''usedGroup''))) \<and>
       (\<forall>g \<in> set groups. \<not> js_less (own_prop (a_groupRatio a) (to_str g)) (own_prop p (js ''usedGroupRatio'')))
     else own_prop p (js ''usedGroupRatio'') = one)"
  using group_loop_least [OF assms(5), of "a_selectedGroup a"] assms(2-4)
  by (auto simp: used_props [OF assms(1)] used_group_def)

theorem cheapest_group_witness:
  "let a = \<lparr>a_selectedGroup = Str (js ''all''), a_groupRatio = Obj [(js ''vip'', Num (Fin False 2)), (js ''pro'', Num (Fin False 1))],
       a_tokenUnit = js ''M'', a_displayPrice = (\<lambda>_. []), a_currency = js ''USD'', a_quotaDisplayType = js ''USD'',
       a_precision = 4, a_status = None\<rparr>
   in \<exists>p. calculateModelPrice a (Obj [(js ''enable_groups'', Arr [Str (js ''vip''), Str (js ''pro'')])]) = Inr p \<and>
     own_prop p (js ''usedGroup'') \<in> {Str (js ''vip''), Str (js ''pro'')} \<and>
     \<not> js_less (Num (Fin False 1)) (own_prop p (js ''usedGroupRatio''))"
proof -
  define gr where "gr = Obj [(js ''vip'', Num (Fin False 2)), (js ''pro'', Num (Fin False 1))]"
  define a where "a = \<lparr>a_selectedGroup = Str (js ''all''), a_groupRatio = gr, a_tokenUnit = js ''M'',
     a_displayPrice = (\<lambda>_. []), a_currency = js ''USD'', a_quotaDisplayType = js ''USD'', a_precision = 4, a_status = None\<rparr>"
  define r where "r = Obj [(js ''enable_groups'', Arr [Str (js ''vip''), Str (js ''pro'')])]"
  have g: "own_prop gr (js ''vip'') = Num (Fin False 2)" "own_prop gr (js ''pro'') = Num (Fin False 1)"
      "own_prop gr (js ''all'') = Undef" "own_prop r (js ''enable_groups'') = Arr [Str (js ''vip''), Str (js ''pro'')]"
    by (simp_all add: gr_def r_def own_prop_def get_def)
  have "\<exists>p. calculateModelPrice a r = Inr p"
    by (simp add: calculateModelPrice_def Let_def a_def r_def gr_def nullish_def split: prod.split)
  then obtain p where p: "calculateModelPrice a r = Inr p" ..
  have "plain_ratios gr [Str (js ''vip''), Str (js ''pro'')]" by (auto simp: plain_ratios_def plain_ratio_def g)
  with cheapest_group [OF p, of "[Str (js ''vip''), Str (js ''pro'')]"] g have
    "own_prop p (js ''usedGroup'') \<in> {Str (js ''vip''), Str (js ''pro'')} \<and>
     \<not> js_less (Num (Fin False 1)) (own_prop p (js ''usedGroupRatio''))" by (auto simp: a_def)
  with p show ?thesis unfolding Let_def a_def gr_def r_def by blast
qed

section \<open>The decimals shown\<close>

lemma shown_digits:
  assumes "0 \<le> m" "m < 10 ^ 10"
  shows "to_fixed 4 (num_div (parse_float (to_fixed 3 (Fin False m))) (Fin False 1)) = fixed_digits 4 (10 * \<lfloor>m * 1000 + 1 / 2\<rfloor>)"
proof -
  define k where "k = \<lfloor>m * 1000 + 1 / 2\<rfloor>"
  define q :: rat where "q = of_int k / 1000"
  define r where "r = rnd_mag q"
  have k: "0 \<le> k" using assms(1) by (simp add: k_def)
  have q: "0 \<le> q" "q < 10 ^ 10 + 1" using k fixed_err [of m 3] assms(2) by (auto simp: q_def k_def)
  have err: "\<bar>r - q\<bar> \<le> ulp * q"
  proof (cases "k = 0")
    case False
    have "(2 :: rat) powi (- 1022) \<le> 1 / 10 ^ 30" by (rule powi2_small) simp
    moreover have "1 / 1000 \<le> q" using k False by (simp add: q_def)
    ultimately have "2 powi (- 1022) \<le> q" by simp
    then show ?thesis unfolding r_def by (rule rnd_mag_rel)
  qed (simp add: r_def q_def)
  then have e: "\<bar>r - q\<bar> < 1 / 20000" using q by simp
  then have "r < q + 1" by linarith
  then have "r < 10 ^ 17" using q by simp
  with e have r: "0 \<le> r" "r < 10 ^ 17" "\<bar>r - of_int (10 * k) / 10 ^ 4\<bar> < 1 / 2 / 10 ^ 4"
    using rnd_mag_nonneg [OF q(1)] by (auto simp: r_def q_def)
  have p: "parse_float (to_fixed 3 (Fin False m)) = Fin False r"
    using parse_to_fixed [of m 3 False] assms double_mag_rnd [OF q(1), of False] r(2)
    by (simp add: r_def q_def k_def)
  have "double_mag r" using double_mag_rnd [OF q(1), of False] r(2) by (simp add: r_def wf_num_def)
  then have "num_div (Fin False r) (Fin False 1) = Fin False r" by (simp add: mk_num_double)
  moreover have "\<lfloor>r * 10 ^ 4 + 1 / 2\<rfloor> = 10 * k" by (rule round_fixed [OF r(3)])
  moreover have "\<not> 10 ^ 21 \<le> r" using r(2) by simp
  ultimately show ?thesis unfolding p by (simp add: k_def)
qed

lemma strip_symbol:
  assumes "0 \<le> m" "m < 10 ^ 10" "\<forall>c \<in> set symbol. \<not> is_digit c \<and> c \<noteq> 46"
  shows "filter (\<lambda>c. is_digit c \<or> c = 46) (symbol @ to_fixed 3 (Fin False m)) = to_fixed 3 (Fin False m)"
proof -
  have "0 \<le> \<lfloor>m * 10 ^ 3 + 1 / 2\<rfloor>" "\<not> 10 ^ 21 \<le> m" using assms by auto
  then have "\<forall>c \<in> set (to_fixed 3 (Fin False m)). is_digit c \<or> c = 46"
    using fixed_digits_chars [of "\<lfloor>m * 10 ^ 3 + 1 / 2\<rfloor>" _ 3] by auto
  then show ?thesis using assms(3) by (auto simp: filter_empty_conv filter_id_conv)
qed

text \<open>C22: The input price of a model in dollars per million tokens is shown with four decimals of which the last is
  always 0: the amount was rounded to three decimals before.  What is shown differs from the price by at most
  half a mill, so any price below that is shown as free.\<close>

theorem input_price_shown:
  assumes "calculateModelPrice a record' = Inr p" "own_prop record' (js ''quota_type'') = Num (Fin False 0)"
    and "a_quotaDisplayType a = js ''USD''" "a_currency a = js ''USD''" "a_tokenUnit a = js ''M''" "a_precision a = 4"
    and "a_displayPrice a = displayPrice y" "y_currency y = js ''USD''" "\<not> y_showWithRecharge y"
    and "num_mul (num_mul (to_num (own_prop record' (js ''model_ratio''))) (Fin False 2))
      (to_num (own_prop p (js ''usedGroupRatio''))) = Fin False m" "0 \<le> m" "m < 10 ^ 10"
  shows "own_prop p (js ''inputPrice'') = Str (js ''$'' @ fixed_digits 4 (10 * \<lfloor>m * 1000 + 1 / 2\<rfloor>)) \<and>
    \<bar>of_int \<lfloor>m * 1000 + 1 / 2\<rfloor> / 1000 - m\<bar> \<le> 1 / 2000"
proof -
  have f: "formatTokenPrice (displayPrice y) [36] (Fin False 1) 4 (Fin False m) = [36] @ fixed_digits 4 (10 * \<lfloor>m * 1000 + 1 / 2\<rfloor>)"
    using strip_symbol [OF assms(11,12), of "[36]"] shown_digits [OF assms(11,12)] assms(8,9)
    by (simp add: formatTokenPrice_def displayPrice_def is_digit_def)
  define v where "v = snd (used_group record' (a_selectedGroup a) (a_groupRatio a))"
  have "\<exists>tail. p = Obj (token_fields a record' v @ tail)"
    using assms(1-3) unfolding v_def by (auto simp: calculateModelPrice_def Let_def split: if_splits prod.splits)
  moreover have "js ''inputPrice'' \<in> set (map fst (token_fields a record' v))" unfolding field_names by simp
  ultimately have "own_prop p (js ''inputPrice'') = own_prop (Obj (token_fields a record' v)) (js ''inputPrice'')"
    using own_prop_append by metis
  also have "\<dots> = Str (formatTokenPrice (displayPrice y) [36] (Fin False 1) 4 (Fin False m))"
    using assms(4-7,10) used_props(2) [OF assms(1)]
    by (simp add: token_fields_def Let_def v_def price_symbol_def field_def own_prop_def get_def)
  finally have "own_prop p (js ''inputPrice'') = Str (formatTokenPrice (displayPrice y) [36] (Fin False 1) 4 (Fin False m))" .
  moreover have "\<bar>of_int \<lfloor>m * 1000 + 1 / 2\<rfloor> / 1000 - m\<bar> \<le> 1 / 2000" using fixed_err [of m 3] by simp
  ultimately show ?thesis unfolding f by (simp add: js_def)
qed

theorem input_price_shown_witness:
  "let y = \<lparr>y_currency = js ''USD'', y_showWithRecharge = False, y_priceRate = one, y_usdExchangeRate = one,
         y_customExchangeRate = one, y_customCurrencySymbol = Undef\<rparr>;
       a = \<lparr>a_selectedGroup = Str (js ''all''), a_groupRatio = Obj [], a_tokenUnit = js ''M'', a_displayPrice = displayPrice y,
         a_currency = js ''USD'', a_quotaDisplayType = js ''USD'', a_precision = 4, a_status = None\<rparr>
   in \<exists>p. calculateModelPrice a (Obj [(js ''quota_type'', Num (Fin False 0)), (js ''model_ratio'', Num (Fin False 1))]) = Inr p \<and>
     own_prop p (js ''inputPrice'') = Str (js ''$'' @ fixed_digits 4 20000)"
proof -
  define y where "y = \<lparr>y_currency = js ''USD'', y_showWithRecharge = False, y_priceRate = one, y_usdExchangeRate = one,
    y_customExchangeRate = one, y_customCurrencySymbol = Undef\<rparr>"
  define a where "a = \<lparr>a_selectedGroup = Str (js ''all''), a_groupRatio = Obj [], a_tokenUnit = js ''M'', a_displayPrice = displayPrice y,
    a_currency = js ''USD'', a_quotaDisplayType = js ''USD'', a_precision = 4, a_status = None\<rparr>"
  define r where "r = Obj [(js ''quota_type'', Num (Fin False 0)), (js ''model_ratio'', Num (Fin False 1))]"
  have two: "double_mag 2" using double_mag_int [of 2] by simp
  have r: "own_prop r (js ''quota_type'') = Num (Fin False 0)" "own_prop r (js ''model_ratio'') = Num (Fin False 1)"
      "own_prop r (js ''enable_groups'') = Undef"
    by (simp_all add: r_def own_prop_def get_def)
  have "\<exists>p. calculateModelPrice a r = Inr p"
    by (simp add: calculateModelPrice_def Let_def a_def r_def nullish_def split: prod.split)
  then obtain p where p: "calculateModelPrice a r = Inr p" ..
  have "own_prop p (js ''usedGroupRatio'') = one"
    unfolding used_props(2) [OF p] by (simp add: used_group_def a_def r)
  then have m: "num_mul (num_mul (to_num (own_prop r (js ''model_ratio''))) (Fin False 2)) (to_num (own_prop p (js ''usedGroupRatio''))) = Fin False 2"
    by (simp add: r one_def mk_num_double [OF two])
  have "\<lfloor>(2 :: rat) * 1000 + 1 / 2\<rfloor> = 2000" by (simp add: floor_eq_iff)
  then have "own_prop p (js ''inputPrice'') = Str (js ''$'' @ fixed_digits 4 20000)"
    using input_price_shown [OF p r(1) _ _ _ _ _ _ _ m, of y] by (simp add: a_def y_def)
  with p show ?thesis unfolding Let_def y_def a_def r_def by blast
qed

text \<open>A currency symbol with a point is read as a part of the number.\<close>

lemma dotted_symbol_misread:
  "formatTokenPrice (\<lambda>_. js ''Rs.12.340'') (js ''Rs.'') (Fin False 1) 4 priceUSD = js ''Rs.0.1200''"
  by code_simp

end
