(* ===== verification/Model_Catalog.thy ===== *)
theory Model_Catalog
  imports Model_Price Http
begin

text \<open>
  The pricing page, \<open>hooks/model-pricing/useModelPricingData.jsx\<close>: loading and ordering the models, the filters
  and the search, the group, the currency and the modal with the details of a model.
\<close>

section \<open>State\<close>

text \<open>Filters hold \<open>'all'\<close> or a value.  \<open>statusState\<close> is the context of that name.\<close>

record catalog =
  searchValue :: jsstr
  isComposition :: bool
  selectedRowKeys :: "jsval list"
  cat_selectedGroup :: jsval
  showModelDetail :: bool
  cat_selectedModel :: jsval
  filterGroup :: jsval
  filterQuotaType :: jsval
  filterEndpointType :: jsval
  filterVendor :: jsval
  filterTag :: jsstr
  cat_pageSize :: nat
  cat_currentPage :: nat
  cat_currency :: jsstr
  showWithRecharge :: bool
  cat_tokenUnit :: jsstr
  cat_models :: "jsval list"
  vendorsMap :: jsval
  cat_loading :: bool
  cat_groupRatio :: jsval
  usableGroup :: jsval
  endpointMap :: jsval
  autoGroups :: jsval

definition all_of :: jsval where "all_of = Str (js ''all'')"

definition init_catalog :: catalog where
  "init_catalog = \<lparr>searchValue = [], isComposition = False, selectedRowKeys = [], cat_selectedGroup = all_of,
     showModelDetail = False, cat_selectedModel = Null, filterGroup = all_of, filterQuotaType = all_of,
     filterEndpointType = all_of, filterVendor = all_of, filterTag = js ''all'', cat_pageSize = 20, cat_currentPage = 1,
     cat_currency = js ''USD'', showWithRecharge = False, cat_tokenUnit = js ''M'', cat_models = [], vendorsMap = Obj [],
     cat_loading = True, cat_groupRatio = Obj [], usableGroup = Obj [], endpointMap = Obj [], autoGroups = Arr []\<rparr>"

section \<open>Rates\<close>

definition nullish_or :: "jsval \<Rightarrow> jsval \<Rightarrow> jsval" where
  "nullish_or v w = (if nullish v then w else v)"

definition status_of :: "jsval \<Rightarrow> string \<Rightarrow> jsval" where
  "status_of statusState k = own_prop (own_prop statusState (js ''status'')) (js k)"

definition priceRate :: "jsval \<Rightarrow> jsval" where
  "priceRate s = nullish_or (status_of s ''price'') one"

definition usdExchangeRate :: "jsval \<Rightarrow> jsval" where
  "usdExchangeRate s = nullish_or (status_of s ''usd_exchange_rate'') (priceRate s)"

definition customExchangeRate :: "jsval \<Rightarrow> jsval" where
  "customExchangeRate s = nullish_or (status_of s ''custom_currency_exchange_rate'') one"

definition customCurrencySymbol :: "jsval \<Rightarrow> jsval" where
  "customCurrencySymbol s = nullish_or (status_of s ''custom_currency_symbol'') (Str [164])"

definition siteDisplayType :: "jsval \<Rightarrow> jsval" where
  "siteDisplayType s = js_or (status_of s ''quota_display_type'') (Str (js ''USD''))"

definition money_of :: "jsval \<Rightarrow> catalog \<Rightarrow> money" where
  "money_of s c = \<lparr>y_currency = cat_currency c, y_showWithRecharge = showWithRecharge c, y_priceRate = priceRate s,
     y_usdExchangeRate = usdExchangeRate s, y_customExchangeRate = customExchangeRate s,
     y_customCurrencySymbol = customCurrencySymbol s\<rparr>"

text \<open>The two effects that follow the display type of the site.\<close>

definition display_effects :: "jsval \<Rightarrow> catalog \<Rightarrow> catalog" where
  "display_effects s c =
     (let c1 = (if siteDisplayType s \<in> {Str (js ''USD''), Str (js ''CNY''), Str (js ''CUSTOM'')}
            then c\<lparr>cat_currency := to_str (siteDisplayType s)\<rparr> else c)
      in if siteDisplayType s = Str (js ''TOKENS'') then c1\<lparr>showWithRecharge := False, cat_currency := js ''USD''\<rparr> else c1)"

section \<open>Filtering\<close>

text \<open>\<open>v.includes(x)\<close> on an array or a string; other values have no such method.\<close>

definition val_includes :: "jsval \<Rightarrow> jsval \<Rightarrow> js_error + bool" where
  "val_includes v x = (case v of Arr xs \<Rightarrow> Inr (list_ex (strict_eq x) xs) | Str s \<Rightarrow> Inr (str_includes s (to_str x)) | _ \<Rightarrow> Inl TypeError)"

fun filter_res :: "('a \<Rightarrow> js_error + bool) \<Rightarrow> 'a list \<Rightarrow> js_error + 'a list" where
  "filter_res P [] = Inr []"
| "filter_res P (x # xs) =
     (case P x of
        Inl e \<Rightarrow> Inl e
      | Inr b \<Rightarrow> (case filter_res P xs of Inl e \<Rightarrow> Inl e | Inr ys \<Rightarrow> Inr (if b then x # ys else ys)))"

definition then_filter :: "bool \<Rightarrow> (jsval \<Rightarrow> js_error + bool) \<Rightarrow> js_error + jsval list \<Rightarrow> js_error + jsval list" where
  "then_filter active P r =
     (case r of Inl e \<Rightarrow> Inl e
      | Inr xs \<Rightarrow> if active then filter_res (\<lambda>m. if nullish m then Inl TypeError else P m) xs else Inr xs)"

text \<open>Splitting at runs of \<open>,\<close>, \<open>;\<close> and \<open>|\<close>; the empty parts between them are dropped with the blank ones.\<close>

fun split_tags :: "jsstr \<Rightarrow> jsstr list" where
  "split_tags [] = [[]]"
| "split_tags (c # s) =
     (if c \<in> {44, 59, 124} then [] # split_tags s
      else (case split_tags s of [] \<Rightarrow> [[c]] | p # ps \<Rightarrow> (c # p) # ps))"

definition tag_matches :: "(jsstr \<Rightarrow> jsstr) \<Rightarrow> jsstr \<Rightarrow> jsval \<Rightarrow> js_error + bool" where
  "tag_matches lower tag m =
     (case own_prop m (js ''tags'') of
        Str tags \<Rightarrow> Inr (tags \<noteq> [] \<and> lower tag \<in> set (filter (\<lambda>p. p \<noteq> []) (map trim (split_tags (lower tags)))))
      | v \<Rightarrow> if truthy v then Inl TypeError else Inr False)"

text \<open>\<open>(model.k && model.k.toLowerCase().includes(searchTerm)) || ...\<close>\<close>

fun text_matches :: "(jsstr \<Rightarrow> jsstr) \<Rightarrow> jsstr \<Rightarrow> jsval \<Rightarrow> string list \<Rightarrow> js_error + bool" where
  "text_matches lower term' m [] = Inr False"
| "text_matches lower term' m (k # ks) =
     (case own_prop m (js k) of
        Str v \<Rightarrow> if v \<noteq> [] \<and> str_includes (lower v) term' then Inr True else text_matches lower term' m ks
      | v \<Rightarrow> if truthy v then Inl TypeError else text_matches lower term' m ks)"

definition endpoint_matches :: "jsval \<Rightarrow> jsval \<Rightarrow> js_error + bool" where
  "endpoint_matches wanted m =
     (let endpoints = own_prop m (js ''supported_endpoint_types'')
      in if truthy endpoints then val_includes endpoints wanted else Inr False)"

definition vendor_matches :: "jsval \<Rightarrow> jsval \<Rightarrow> js_error + bool" where
  "vendor_matches wanted m =
     (let vendor_name = own_prop m (js ''vendor_name'')
      in Inr (if wanted = Str (js ''unknown'') then \<not> truthy vendor_name else strict_eq vendor_name wanted))"

definition cat_filteredModels :: "(jsstr \<Rightarrow> jsstr) \<Rightarrow> catalog \<Rightarrow> js_error + jsval list" where
  "cat_filteredModels lower c =
     then_filter (searchValue c \<noteq> []) (\<lambda>m. text_matches lower (lower (searchValue c)) m
         [''model_name'', ''description'', ''tags'', ''vendor_name''])
       (then_filter (filterTag c \<noteq> js ''all'') (tag_matches lower (filterTag c))
         (then_filter (filterVendor c \<noteq> all_of) (vendor_matches (filterVendor c))
           (then_filter (filterEndpointType c \<noteq> all_of) (endpoint_matches (filterEndpointType c))
             (then_filter (filterQuotaType c \<noteq> all_of) (\<lambda>m. Inr (strict_eq (own_prop m (js ''quota_type'')) (filterQuotaType c)))
               (then_filter (filterGroup c \<noteq> all_of) (\<lambda>m. val_includes (own_prop m (js ''enable_groups'')) (filterGroup c))
                 (Inr (cat_models c)))))))"

section \<open>Loading\<close>

definition set_prop :: "string \<Rightarrow> jsval \<Rightarrow> jsval \<Rightarrow> jsval" where
  "set_prop k v m = (case m of Obj kvs \<Rightarrow> Obj (put (js k) v kvs) | _ \<Rightarrow> m)"

text \<open>One round of the loop of \<open>setModelsFormat\<close>, on a model object.\<close>

definition format_model :: "jsval \<Rightarrow> jsval \<Rightarrow> jsval \<Rightarrow> jsval" where
  "format_model groupRatio vendorMap m =
     (let m1 = set_prop ''key'' (own_prop m (js ''model_name'')) m;
          m2 = set_prop ''group_ratio'' (own_prop groupRatio (to_str (own_prop m (js ''model_name'')))) m1;
          vendor = own_prop vendorMap (to_str (own_prop m (js ''vendor_id'')))
      in if truthy (own_prop m (js ''vendor_id'')) \<and> truthy vendor
         then set_prop ''vendor_description'' (own_prop vendor (js ''description''))
           (set_prop ''vendor_icon'' (own_prop vendor (js ''icon''))
             (set_prop ''vendor_name'' (own_prop vendor (js ''name'')) m2))
         else m2)"

definition sign_of :: "jsnum \<Rightarrow> int" where
  "sign_of x = (if num_less x (Fin False 0) then - 1 else if num_less (Fin False 0) x then 1 else 0)"

definition quota_cmp :: "jsval \<Rightarrow> jsval \<Rightarrow> int" where
  "quota_cmp a b = sign_of (num_sub (to_num (own_prop a (js ''quota_type''))) (to_num (own_prop b (js ''quota_type''))))"

definition model_name_of :: "jsval \<Rightarrow> jsstr" where
  "model_name_of m = to_str (own_prop m (js ''model_name''))"

definition is_gpt :: "jsval \<Rightarrow> bool" where
  "is_gpt m \<longleftrightarrow> starts_with (model_name_of m) (js ''gpt'')"

definition name_cmp :: "(jsstr \<Rightarrow> jsstr \<Rightarrow> int) \<Rightarrow> jsval \<Rightarrow> jsval \<Rightarrow> int" where
  "name_cmp localeCompare a b =
     (if is_gpt a \<and> \<not> is_gpt b then - 1
      else if \<not> is_gpt a \<and> is_gpt b then 1
      else localeCompare (model_name_of a) (model_name_of b))"

text \<open>The models are objects with a name; other values make the loop or the comparison throw.\<close>

definition good_model :: "jsval \<Rightarrow> bool" where
  "good_model m \<longleftrightarrow> (case m of Obj kvs \<Rightarrow> (\<exists>s. get kvs (js ''model_name'') = Some (Str s)) | _ \<Rightarrow> False)"

definition setModelsFormat :: "(jsstr \<Rightarrow> jsstr \<Rightarrow> int) \<Rightarrow> jsval \<Rightarrow> jsval \<Rightarrow> jsval list \<Rightarrow> jsval list" where
  "setModelsFormat localeCompare groupRatio vendorMap models =
     js_sort (name_cmp localeCompare) (js_sort quota_cmp (map (format_model groupRatio vendorMap) models))"

definition vendor_map :: "jsval list \<Rightarrow> jsval" where
  "vendor_map vendors = Obj (fold (\<lambda>v. put (to_str (own_prop v (js ''id''))) v) vendors [])"

definition begin_loadPricing :: "catalog \<Rightarrow> catalog" where
  "begin_loadPricing c = c\<lparr>cat_loading := True\<rparr>"

text \<open>The answer of the server; a rejected request or a body that cannot be read leaves the function at the
  \<open>await\<close> or where it throws.\<close>

definition answer_loadPricing :: "(jsstr \<Rightarrow> jsstr \<Rightarrow> int) \<Rightarrow> jsval + jsval \<Rightarrow> catalog \<Rightarrow> (jsval + toast list) \<times> catalog" where
  "answer_loadPricing localeCompare answer c =
     (case answer of
        Inl err \<Rightarrow> (Inl err, c)
      | Inr res \<Rightarrow>
          (let body = body_of res; p = (\<lambda>k. own_prop body (js k)) in
           if nullish body then (Inl type_error, c)
           else if truthy (p ''success'') then
             (let vendors = (case p ''vendors'' of Arr vs \<Rightarrow> vs | _ \<Rightarrow> []);
                  c1 = c\<lparr>cat_groupRatio := p ''group_ratio'', usableGroup := p ''usable_group'', cat_selectedGroup := all_of\<rparr>;
                  c2 = c1\<lparr>vendorsMap := vendor_map vendors, endpointMap := js_or (p ''supported_endpoint'') (Obj []),
                    autoGroups := js_or (p ''auto_groups'') (Arr [])\<rparr>
              in if \<exists>v \<in> set vendors. nullish v then (Inl type_error, c1)
                 else
                   (case p ''data'' of
                      Arr models \<Rightarrow>
                        if nullish (p ''group_ratio'') \<and> models \<noteq> [] \<or> (\<exists>m \<in> set models. \<not> good_model m)
                        then (Inl type_error, c2)
                        else (Inr [], c2\<lparr>cat_models := setModelsFormat localeCompare (p ''group_ratio'') (vendor_map vendors) models,
                          cat_loading := False\<rparr>)
                    | _ \<Rightarrow> (Inl type_error, c2)))
           else (Inr [ShowError (to_str (p ''message''))], c\<lparr>cat_loading := False\<rparr>)))"

section \<open>Handlers\<close>

text \<open>The page goes back to the first one with every change of a filter or of the search.\<close>

definition page_reset :: "catalog \<Rightarrow> catalog \<Rightarrow> catalog" where
  "page_reset c c' =
     (if (filterGroup c, filterQuotaType c, filterEndpointType c, filterVendor c, filterTag c, searchValue c) =
         (filterGroup c', filterQuotaType c', filterEndpointType c', filterVendor c', filterTag c', searchValue c')
      then c' else c'\<lparr>cat_currentPage := 1\<rparr>)"

definition handleChange :: "jsval \<Rightarrow> catalog \<Rightarrow> catalog" where
  "handleChange value' c = page_reset c (c\<lparr>searchValue := (if truthy value' then to_str value' else [])\<rparr>)"

definition handleCompositionStart :: "catalog \<Rightarrow> catalog" where
  "handleCompositionStart c = c\<lparr>isComposition := True\<rparr>"

definition handleCompositionEnd :: "jsval \<Rightarrow> catalog \<Rightarrow> catalog" where
  "handleCompositionEnd value' c = handleChange value' (c\<lparr>isComposition := False\<rparr>)"

definition txt_best_ratio :: jsstr where
  "txt_best_ratio = [24050, 20999, 25442, 33267, 26368, 20248, 20493, 29575, 35270, 22270, 65292, 27599,
     20010, 27169, 22411, 20351, 29992, 20854, 26368, 20302, 20493, 29575, 20998, 32452]"
definition txt_group_ratio :: jsstr where
  "txt_group_ratio = [24403, 21069, 26597, 30475, 30340, 20998, 32452, 20026, 65306, 123, 123, 103, 114, 111,
     117, 112, 125, 125, 65292, 20493, 29575, 20026, 65306, 123, 123, 114, 97, 116,
     105, 111, 125, 125]"

definition handleGroupClick :: "translate \<Rightarrow> jsval \<Rightarrow> catalog \<Rightarrow> toast \<times> catalog" where
  "handleGroupClick t g c =
     (let c' = page_reset c (c\<lparr>cat_selectedGroup := g, filterGroup := g\<rparr>) in
      if g = all_of then (ShowInfo (t txt_best_ratio []), c')
      else (ShowInfo (t txt_group_ratio [(js ''group'', g),
        (js ''ratio'', nullish_or (own_prop (cat_groupRatio c) (to_str g)) one)]), c'))"

definition openModelDetail :: "jsval \<Rightarrow> catalog \<Rightarrow> catalog" where
  "openModelDetail m c = c\<lparr>cat_selectedModel := m, showModelDetail := True\<rparr>"

text \<open>The model is cleared by a timer after the modal has closed.\<close>

definition closeModelDetail :: "catalog \<Rightarrow> catalog" where
  "closeModelDetail c = c\<lparr>showModelDetail := False\<rparr>"

definition close_timeout :: "catalog \<Rightarrow> catalog" where
  "close_timeout c = c\<lparr>cat_selectedModel := Null\<rparr>"

section \<open>Order of the models\<close>

text \<open>What \<open>localeCompare\<close> promises.\<close>

definition consistent_compare :: "(jsstr \<Rightarrow> jsstr \<Rightarrow> int) \<Rightarrow> bool" where
  "consistent_compare cmp \<longleftrightarrow> (\<forall>a b. (cmp a b < 0 \<longleftrightarrow> 0 < cmp b a)) \<and> (\<forall>a b c. cmp a b \<le> 0 \<longrightarrow> cmp b c \<le> 0 \<longrightarrow> cmp a c \<le> 0)"

lemma name_cmp_comparator:
  assumes "consistent_compare cmp"
  shows "comparator (name_cmp cmp)"
proof
  fix x y z
  have c1: "cmp a b < 0 \<longleftrightarrow> 0 < cmp b a" and c2: "cmp a b \<le> 0 \<Longrightarrow> cmp b c \<le> 0 \<Longrightarrow> cmp a c \<le> 0" for a b c
    using assms unfolding consistent_compare_def by blast+
  show "name_cmp cmp x y < 0 \<Longrightarrow> 0 < name_cmp cmp y x"
    by (cases "is_gpt x"; cases "is_gpt y") (simp_all add: name_cmp_def c1)
  show "0 \<le> name_cmp cmp x y \<Longrightarrow> name_cmp cmp y x \<le> 0"
    using c1 [of "model_name_of x" "model_name_of y"] by (cases "is_gpt x"; cases "is_gpt y") (simp_all add: name_cmp_def)
  show "\<lbrakk>name_cmp cmp x y \<le> 0; name_cmp cmp y z \<le> 0\<rbrakk> \<Longrightarrow> name_cmp cmp x z \<le> 0"
    using c2 [of "model_name_of x" "model_name_of y" "model_name_of z"]
    by (cases "is_gpt x"; cases "is_gpt y"; cases "is_gpt z") (simp_all add: name_cmp_def)
qed

lemma own_prop_set_prop: "js k \<noteq> k' \<Longrightarrow> own_prop (set_prop k v m) k' = own_prop m k'"
  by (cases m) (auto simp: set_prop_def)

lemma model_name_format: "model_name_of (format_model gr vm m) = model_name_of m"
  by (simp add: model_name_of_def format_model_def Let_def own_prop_set_prop)

text \<open>A successful answer shows every model of the answer exactly once: first those whose name starts with
  \<open>gpt\<close>, then the others, each part in the order of the names; and the page is no longer loading.\<close>

theorem loaded_models_ordered:
  assumes "consistent_compare localeCompare"
    and "answer_loadPricing localeCompare (Inr res) c = (Inr [], c')" "own_prop (body_of res) (js ''data'') = Arr models"
  shows "mset (map model_name_of (cat_models c')) = mset (map model_name_of models) \<and>
    sorted_wrt (\<lambda>a b. is_gpt b \<longrightarrow> is_gpt a) (cat_models c') \<and>
    sorted_wrt (\<lambda>a b. is_gpt a = is_gpt b \<longrightarrow> localeCompare (model_name_of a) (model_name_of b) \<le> 0) (cat_models c') \<and>
    \<not> cat_loading c'"
proof -
  define vm where "vm = vendor_map (case own_prop (body_of res) (js ''vendors'') of Arr vs \<Rightarrow> vs | _ \<Rightarrow> [])"
  define gr where "gr = own_prop (body_of res) (js ''group_ratio'')"
  have c': "cat_models c' = setModelsFormat localeCompare gr vm models" "\<not> cat_loading c'"
    using assms(2,3) by (simp_all add: answer_loadPricing_def Let_def gr_def vm_def split: if_splits) (drule sym, simp)+
  have "mset (cat_models c') = mset (map (format_model gr vm) models)"
    unfolding c' setModelsFormat_def by (simp only: mset_js_sort)
  then have "mset (map model_name_of (cat_models c')) = mset (map model_name_of models)"
    by (simp add: image_mset.compositionality comp_def model_name_format)
  moreover have s: "sorted_wrt (\<lambda>a b. name_cmp localeCompare a b \<le> 0) (cat_models c')"
    unfolding c' setModelsFormat_def by (rule comparator.js_sort_sorted [OF name_cmp_comparator [OF assms(1)]])
  moreover have "sorted_wrt (\<lambda>a b. is_gpt b \<longrightarrow> is_gpt a) (cat_models c')"
    by (rule sorted_wrt_mono_rel [OF _ s]) (auto simp: name_cmp_def split: if_splits)
  moreover have "sorted_wrt (\<lambda>a b. is_gpt a = is_gpt b \<longrightarrow> localeCompare (model_name_of a) (model_name_of b) \<le> 0) (cat_models c')"
    by (rule sorted_wrt_mono_rel [OF _ s]) (auto simp: name_cmp_def split: if_splits)
  ultimately show ?thesis using c'(2) by blast
qed

theorem loaded_models_ordered_witness:
  "let c' = snd (answer_loadPricing (\<lambda>a b. int (length a) - int (length b))
     (Inr (Obj [(js ''data'', Obj [(js ''success'', Bool True), (js ''group_ratio'', Obj []),
       (js ''data'', Arr [Obj [(js ''model_name'', Str (js ''o3''))], Obj [(js ''model_name'', Str (js ''gpt-4''))]])])])) init_catalog)
   in mset (map model_name_of (cat_models c')) = {#js ''o3'', js ''gpt-4''#} \<and> \<not> cat_loading c'"
proof -
  define cmp where "cmp = (\<lambda>(a :: jsstr) (b :: jsstr). int (length a) - int (length b))"
  define ms where "ms = [Obj [(js ''model_name'', Str (js ''o3''))], Obj [(js ''model_name'', Str (js ''gpt-4''))]]"
  define res where "res = Obj [(js ''data'', Obj [(js ''success'', Bool True), (js ''group_ratio'', Obj []), (js ''data'', Arr ms)])]"
  obtain r c' where a: "answer_loadPricing cmp (Inr res) init_catalog = (r, c')" by fastforce
  have k: "consistent_compare cmp" by (auto simp: consistent_compare_def cmp_def)
  have b: "own_prop (body_of res) (js ''data'') = Arr ms" "own_prop (body_of res) (js ''success'') = Bool True"
      "own_prop (body_of res) (js ''group_ratio'') = Obj []" "own_prop (body_of res) (js ''vendors'') = Undef" "\<not> nullish (body_of res)"
    by (simp_all add: res_def body_of_def own_prop_def get_def nullish_def)
  have "\<forall>m \<in> set ms. good_model m" by (simp add: ms_def good_model_def get_def)
  then have r: "r = Inr []" using a b by (auto simp: answer_loadPricing_def Let_def nullish_def truthy_def split: if_splits)
  have "map model_name_of ms = [js ''o3'', js ''gpt-4'']" by (simp add: ms_def model_name_of_def own_prop_def get_def)
  then show ?thesis
    using loaded_models_ordered [OF k a [unfolded r] b(1)] a unfolding Let_def cmp_def res_def ms_def by simp
qed

text \<open>A request that fails leaves the page loading.\<close>

lemma failed_load_keeps_loading:
  "cat_loading (snd (answer_loadPricing localeCompare (Inl err) (begin_loadPricing c)))"
  by (simp add: answer_loadPricing_def begin_loadPricing_def)

end
