(* ===== verification/Status_Code_Guard.thy ===== *)
theory Status_Code_Guard
  imports Js_Json Js_Object
begin

text \<open>
  \<open>components/table/channels/modals/statusCodeRiskGuard.js\<close>: the checks on the status code mapping of a channel
  before it is saved.
\<close>

section \<open>Definitions\<close>

definition NON_REDIRECTABLE_STATUS_CODES :: "nat list" where
  "NON_REDIRECTABLE_STATUS_CODES = [504, 524]"

text \<open>\<open>/^[1-5]\d{2}$/\<close>\<close>

definition code_text :: "jsstr \<Rightarrow> bool" where
  "code_text s = (case s of [a, b, c] \<Rightarrow> 49 \<le> a \<and> a \<le> 53 \<and> is_digit b \<and> is_digit c | _ \<Rightarrow> False)"

definition parseStatusCodeKey :: "jsstr \<Rightarrow> nat option" where
  "parseStatusCodeKey rawKey =
     (let normalized = trim rawKey in if code_text normalized then Some (digits_val normalized) else None)"

definition parseStatusCodeMappingTarget :: "jsval \<Rightarrow> nat option" where
  "parseStatusCodeMappingTarget rawValue =
     (case rawValue of
        Num (Fin s q) \<Rightarrow>
          if of_int \<lfloor>q\<rfloor> = q \<and> num_le (Fin False 100) (Fin s q) \<and> num_le (Fin s q) (Fin False 599) then Some (nat \<lfloor>q\<rfloor>) else None
      | Str s \<Rightarrow>
          (let normalized = trim s in
           if \<not> code_text normalized then None
           else (let code = digits_val normalized in if 100 \<le> code \<and> code \<le> 599 then Some code else None))
      | _ \<Rightarrow> None)"

text \<open>The entries of the mapping text; a text that is no JSON object has none.\<close>

definition mapping_entries :: "jsval \<Rightarrow> (jsstr \<times> jsval) list" where
  "mapping_entries statusCodeMappingStr =
     (case statusCodeMappingStr of
        Str s \<Rightarrow>
          if trim s = [] then []
          else (case json_parse s of Some (Obj kvs) \<Rightarrow> entries (Obj kvs) | _ \<Rightarrow> [])
      | _ \<Rightarrow> [])"

definition collectInvalidStatusCodeEntries :: "jsval \<Rightarrow> jsstr list" where
  "collectInvalidStatusCodeEntries mapping =
     List.map_filter (\<lambda>(rawKey, rawValue).
       if parseStatusCodeKey rawKey = None \<or> parseStatusCodeMappingTarget rawValue = None
       then Some (rawKey @ [32, 8594, 32] @ to_str rawValue) else None) (mapping_entries mapping)"

definition redirect_text :: "nat \<Rightarrow> nat \<Rightarrow> jsstr" where
  "redirect_text fromCode toCode = nat_str fromCode @ js '' -> '' @ nat_str toCode"

definition risky_mapping :: "jsstr \<times> jsval \<Rightarrow> jsstr option" where
  "risky_mapping = (\<lambda>(rawFrom, rawTo).
     case (parseStatusCodeKey rawFrom, parseStatusCodeMappingTarget rawTo) of
       (Some fromCode, Some toCode) \<Rightarrow>
         if fromCode \<notin> set NON_REDIRECTABLE_STATUS_CODES then None
         else if fromCode = toCode then None
         else Some (redirect_text fromCode toCode)
     | _ \<Rightarrow> None)"

definition collectDisallowedStatusCodeRedirects :: "jsval \<Rightarrow> jsstr list" where
  "collectDisallowedStatusCodeRedirects mapping =
     js_sort str_cmp (nub (List.map_filter risky_mapping (mapping_entries mapping)))"

definition collectNewDisallowedStatusCodeRedirects :: "jsval \<Rightarrow> jsval \<Rightarrow> jsstr list" where
  "collectNewDisallowedStatusCodeRedirects original current =
     (let currentRisky = collectDisallowedStatusCodeRedirects current in
      if currentRisky = [] then []
      else filter (\<lambda>m. m \<notin> set (collectDisallowedStatusCodeRedirects original)) currentRisky)"

section \<open>What is reported\<close>

text \<open>The redirects a mapping text stands for.\<close>

definition redirects :: "jsval \<Rightarrow> (nat \<times> nat) set" where
  "redirects mapping = {(f, t). \<exists>k v. (k, v) \<in> set (mapping_entries mapping) \<and>
     parseStatusCodeKey k = Some f \<and> parseStatusCodeMappingTarget v = Some t}"

lemma nat_str_inj: "nat_str a = nat_str b \<Longrightarrow> a = b"
  by (metis digits_val_nat_str)

lemma redirect_text_inj: "redirect_text a b = redirect_text c d \<longleftrightarrow> a = c \<and> b = d"
proof
  assume eq: "redirect_text a b = redirect_text c d"
  have tw: "takeWhile is_digit (redirect_text x y) = nat_str x" for x y
    using nat_str_digits [of x] by (simp add: redirect_text_def js_def takeWhile_append is_digit_def)
  have "nat_str a = nat_str c" using arg_cong [OF eq, of "takeWhile is_digit"] tw by simp
  moreover from this have "nat_str b = nat_str d" using eq by (simp add: redirect_text_def)
  ultimately show "a = c \<and> b = d" using nat_str_inj by blast
qed simp

lemma set_map_filter: "set (List.map_filter f xs) = {y. \<exists>x \<in> set xs. f x = Some y}"
  by (induction xs) (auto simp: List.map_filter_simps split: option.splits)

lemma map_filter_empty: "List.map_filter f xs = [] \<longleftrightarrow> (\<forall>x \<in> set xs. f x = None)"
  by (induction xs) (auto simp: List.map_filter_simps split: option.splits)

lemma no_invalid_entries:
  "collectInvalidStatusCodeEntries mapping = [] \<longleftrightarrow>
     (\<forall>(k, v) \<in> set (mapping_entries mapping). parseStatusCodeKey k \<noteq> None \<and> parseStatusCodeMappingTarget v \<noteq> None)"
  by (auto simp: collectInvalidStatusCodeEntries_def map_filter_empty split: if_splits)

lemma sorted_strictly: "sorted_wrt (\<lambda>a b. str_cmp a b \<le> 0) xs \<Longrightarrow> distinct xs \<Longrightarrow> sorted_wrt str_less xs"
  by (induction xs) (auto simp: str_cmp_def split: if_splits)

lemma risky_mapping_Some:
  "risky_mapping (k, v) = Some m \<longleftrightarrow> (\<exists>f t. parseStatusCodeKey k = Some f \<and> parseStatusCodeMappingTarget v = Some t \<and>
     f \<in> {504, 524} \<and> f \<noteq> t \<and> m = redirect_text f t)"
  by (auto simp: risky_mapping_def NON_REDIRECTABLE_STATUS_CODES_def split: option.splits if_splits)

lemma set_disallowed:
  "set (collectDisallowedStatusCodeRedirects mapping) = {redirect_text f t | f t. (f, t) \<in> redirects mapping \<and> f \<in> {504, 524} \<and> f \<noteq> t}"
  unfolding collectDisallowedStatusCodeRedirects_def set_js_sort set_nub set_map_filter redirects_def
  by (force simp: risky_mapping_Some)

lemma new_redirect_listed:
  assumes "(f, t) \<in> redirects current - redirects original" "f \<in> {504, 524}" "f \<noteq> t"
  shows "redirect_text f t \<in> set (collectNewDisallowedStatusCodeRedirects original current)"
  using assms by (auto simp: collectNewDisallowedStatusCodeRedirects_def Let_def set_disallowed redirect_text_inj simp flip: set_empty)

text \<open>Exactly those redirects of a gateway timeout (504, 524) to another code are reported that the new mapping
  has and the saved one had not; they are reported once, in the order of their texts.\<close>

theorem new_redirects_exact:
  "(redirect_text f t \<in> set (collectNewDisallowedStatusCodeRedirects original current) \<longleftrightarrow>
      (f, t) \<in> redirects current - redirects original \<and> f \<in> {504, 524} \<and> f \<noteq> t) \<and>
   sorted_wrt (\<lambda>a b. str_less a b) (collectNewDisallowedStatusCodeRedirects original current)"
proof
  have "set (collectNewDisallowedStatusCodeRedirects original current) =
      set (collectDisallowedStatusCodeRedirects current) - set (collectDisallowedStatusCodeRedirects original)"
    by (auto simp: collectNewDisallowedStatusCodeRedirects_def Let_def)
  then show "redirect_text f t \<in> set (collectNewDisallowedStatusCodeRedirects original current) \<longleftrightarrow>
      (f, t) \<in> redirects current - redirects original \<and> f \<in> {504, 524} \<and> f \<noteq> t"
    by (auto simp: set_disallowed redirect_text_inj)
  have "sorted_wrt (\<lambda>a b. str_cmp a b \<le> 0) (collectDisallowedStatusCodeRedirects current)"
    unfolding collectDisallowedStatusCodeRedirects_def by (rule str_order.js_sort_sorted)
  moreover have "distinct (collectDisallowedStatusCodeRedirects current)"
    unfolding collectDisallowedStatusCodeRedirects_def by (simp add: distinct_js_sort)
  ultimately have "sorted_wrt (\<lambda>a b. str_less a b) (collectDisallowedStatusCodeRedirects current)"
    by (rule sorted_strictly)
  then show "sorted_wrt (\<lambda>a b. str_less a b) (collectNewDisallowedStatusCodeRedirects original current)"
    by (simp add: collectNewDisallowedStatusCodeRedirects_def Let_def sorted_wrt_filter)
qed

end
