(* ===== verification/Channel_Submit.thy ===== *)
theory Channel_Submit
  imports Status_Code_Guard Http
begin

text \<open>
  Saving a channel, \<open>submit\<close> of \<open>components/table/channels/modals/EditChannelModal.jsx\<close>: the checks and the changes
  to the form values in the order of the source, the request, and what follows its answer.  The values of the
  form and the answers to the two confirmations are parameters.
\<close>

section \<open>State\<close>

type_synonym inputs = "(jsstr, jsval) store"

text \<open>What the handler reads besides the form.  A vertex file is its text, or \<open>None\<close> when the list item
  carries no file.\<close>

record submit_state =
  s_isEdit :: bool
  s_channelId :: jsval
  s_batch :: bool
  s_multiToSingle :: bool
  s_multiKeyMode :: jsval
  s_isMultiKeyChannel :: bool
  s_keyMode :: jsval
  s_useManualInput :: bool
  s_vertexKeys :: "jsval list"
  s_vertexFileList :: "jsstr option list"
  s_param_override :: jsval
  s_initialModels :: "jsstr list"
  s_initialModelMapping :: jsstr
  s_initialStatusCodeMapping :: jsval

text \<open>How the handler can end before the request: with a message, because a confirmation was refused, or with
  an exception.\<close>

datatype stop = Told toast | Gave_up | Threw js_error

definition inputs_prop :: "inputs \<Rightarrow> string \<Rightarrow> jsval" where
  "inputs_prop s k = own_prop (Obj s) (js k)"

definition is_type :: "nat \<Rightarrow> inputs \<Rightarrow> bool" where
  "is_type n s = strict_eq (inputs_prop s ''type'') (Num (Fin False (of_nat n)))"

fun or_throw :: "js_error + 'a \<Rightarrow> stop + 'a" where
  "or_throw (Inl e) = Inl (Threw e)"
| "or_throw (Inr x) = Inr x"

definition info :: "translate \<Rightarrow> jsstr \<Rightarrow> stop + 'a" where
  "info t text' = Inl (Told (ShowInfo (t text' [])))"

definition stringify :: "jsval \<Rightarrow> jsval" where
  "stringify v = Str (json_ser [] [] v)"

section \<open>The key\<close>

definition txt_codex_batch :: jsstr where "txt_codex_batch = [67, 111, 100, 101, 120, 32, 28192, 36947, 19981, 25903, 25345, 25209, 37327, 21019,
     24314]"
definition txt_enter_key :: jsstr where "txt_enter_key = [35831, 36755, 20837, 23494, 38053, 65281]"
definition txt_key_json :: jsstr where "txt_key_json = [23494, 38053, 24517, 39035, 26159, 21512, 27861, 30340, 32, 74, 83, 79, 78, 32, 26684,
     24335, 65281]"
definition txt_key_object :: jsstr where "txt_key_object = [23494, 38053, 24517, 39035, 26159, 32, 74, 83, 79, 78, 32, 23545, 35937]"
definition txt_key_token :: jsstr where "txt_key_token = [23494, 38053, 32, 74, 83, 79, 78, 32, 24517, 39035, 21253, 21547, 32, 97, 99, 99, 101,
     115, 115, 95, 116, 111, 107, 101, 110]"
definition txt_key_account :: jsstr where "txt_key_account = [23494, 38053, 32, 74, 83, 79, 78, 32, 24517, 39035, 21253, 21547, 32, 97, 99, 99, 111,
     117, 110, 116, 95, 105, 100]"
definition txt_key_invalid :: jsstr where "txt_key_invalid = [23494, 38053, 26684, 24335, 26080, 25928, 65292, 35831, 36755, 20837, 26377, 25928,
     30340, 32, 74, 83, 79, 78, 32, 26684, 24335, 23494, 38053]"
definition txt_key_file :: jsstr where "txt_key_file = [35299, 26512, 23494, 38053, 25991, 20214, 22833, 36133, 58, 32, 123, 123, 109, 115,
     103, 125, 125]"
definition txt_upload_key :: jsstr where "txt_upload_key = [35831, 19978, 20256, 23494, 38053, 25991, 20214, 65281]"

text \<open>\<open>(v || '').trim()\<close>, and \<open>!v || v.trim() === ''\<close>.\<close>

definition trim_or_empty :: "jsval \<Rightarrow> js_error + jsstr" where
  "trim_or_empty v = (if truthy v then trim_val v else Inr [])"

definition codex_object :: "translate \<Rightarrow> jsval \<Rightarrow> inputs \<Rightarrow> stop + inputs" where
  "codex_object t parsed s =
     (case parsed of
        Obj kvs \<Rightarrow>
          if trim (str_or_empty (own_prop parsed (js ''access_token''))) = [] then info t txt_key_token
          else if trim (str_or_empty (own_prop parsed (js ''account_id''))) = [] then info t txt_key_account
          else Inr (put (js ''key'') (stringify parsed) s)
      | _ \<Rightarrow> info t txt_key_object)"

definition codex_key :: "translate \<Rightarrow> submit_state \<Rightarrow> inputs \<Rightarrow> stop + inputs" where
  "codex_key t st s =
     (if \<not> is_type 57 s then Inr s
      else if s_batch st then info t txt_codex_batch
      else and_then (or_throw (trim_or_empty (inputs_prop s ''key''))) (\<lambda>rawKey.
        if \<not> s_isEdit st \<and> rawKey = [] then info t txt_enter_key
        else if rawKey = [] then Inr s
        else (case json_parse rawKey of None \<Rightarrow> info t txt_key_json | Some parsed \<Rightarrow> codex_object t parsed s)))"

text \<open>The uploaded files: the parsed keys, or those read now.  \<open>message\<close> is the text of a syntax error; of
  several unreadable files the first is reported.\<close>

fun parse_files :: "jsstr option list \<Rightarrow> jsstr + jsval list" where
  "parse_files [] = Inr []"
| "parse_files (None # fs) = parse_files fs"
| "parse_files (Some text' # fs) =
     (case json_parse text' of
        None \<Rightarrow> Inl text'
      | Some v \<Rightarrow> and_then (parse_files fs) (\<lambda>vs. Inr (if truthy v then v # vs else vs)))"

definition uploaded_key :: "translate \<Rightarrow> (jsstr \<Rightarrow> jsstr) \<Rightarrow> submit_state \<Rightarrow> inputs \<Rightarrow> stop + inputs" where
  "uploaded_key t message st s =
     (let keys = (if s_vertexKeys st = [] \<and> s_vertexFileList st \<noteq> [] then parse_files (s_vertexFileList st) else Inr (s_vertexKeys st)) in
      case keys of
        Inl text' \<Rightarrow> Inl (Told (ShowError (t txt_key_file [(js ''msg'', Str (message text'))])))
      | Inr ks \<Rightarrow>
          if ks = [] then (if \<not> s_isEdit st then info t txt_upload_key else Inr (del (js ''key'') s))
          else Inr (put (js ''key'') (stringify (if s_batch st then Arr ks else hd ks)) s))"

definition manual_key :: "translate \<Rightarrow> submit_state \<Rightarrow> inputs \<Rightarrow> stop + inputs" where
  "manual_key t st s =
     and_then (or_throw (trim_or_empty (inputs_prop s ''key''))) (\<lambda>rawKey.
       if rawKey \<noteq> [] then
         (case json_parse (to_str (inputs_prop s ''key'')) of
            None \<Rightarrow> Inl (Told (ShowError (t txt_key_invalid [])))
          | Some parsed \<Rightarrow> Inr (put (js ''key'') (stringify parsed) s))
       else if \<not> s_isEdit st then info t txt_enter_key
       else Inr s)"

definition vertex_key :: "translate \<Rightarrow> (jsstr \<Rightarrow> jsstr) \<Rightarrow> submit_state \<Rightarrow> inputs \<Rightarrow> stop + inputs" where
  "vertex_key t message st s =
     (if \<not> is_type 41 s then Inr s
      else if js_or (inputs_prop s ''vertex_key_type'') (Str (js ''json'')) = Str (js ''api_key'') then
        (if s_isEdit st then Inr s
         else and_then (or_throw (trim_or_empty (inputs_prop s ''key'')))
           (\<lambda>rawKey. if rawKey = [] then info t txt_enter_key else Inr s))
      else if s_useManualInput st then manual_key t st s
      else uploaded_key t message st s)"

text \<open>An edit without a key keeps the saved one.\<close>

definition keep_old_key :: "submit_state \<Rightarrow> inputs \<Rightarrow> stop + inputs" where
  "keep_old_key st s =
     and_then (if s_isEdit st then and_then (or_throw (trim_or_empty (inputs_prop s ''key'')))
         (\<lambda>rawKey. Inr (if rawKey = [] then del (js ''key'') s else s)) else Inr s)
       (\<lambda>s1. Inr (del (js ''vertex_files'') s1))"

section \<open>Required fields and models\<close>

definition txt_name_key :: jsstr where "txt_name_key = [35831, 22635, 20889, 28192, 36947, 21517, 31216, 21644, 28192, 36947, 23494, 38053,
     65281]"
definition txt_one_model :: jsstr where "txt_one_model = [35831, 33267, 23569, 36873, 25321, 19968, 20010, 27169, 22411, 65281]"
definition txt_enter_url :: jsstr where "txt_enter_url = [35831, 36755, 20837, 65, 80, 73, 22320, 22336, 65281]"
definition txt_mapping_json :: jsstr where "txt_mapping_json = [27169, 22411, 26144, 23556, 24517, 39035, 26159, 21512, 27861, 30340, 32, 74, 83, 79,
     78, 32, 26684, 24335, 65281]"

definition required_fields :: "translate \<Rightarrow> submit_state \<Rightarrow> inputs \<Rightarrow> stop + jsval list" where
  "required_fields t st s =
     (if \<not> s_isEdit st \<and> (\<not> truthy (inputs_prop s ''name'') \<or> \<not> truthy (inputs_prop s ''key'')) then info t txt_name_key
      else
        (case inputs_prop s ''models'' of
           Arr (m # ms) \<Rightarrow>
             if is_type 45 s then
               and_then (or_throw (trim_or_empty (inputs_prop s ''base_url'')))
                 (\<lambda>url. if url = [] then info t txt_enter_url else Inr (m # ms))
             else Inr (m # ms)
         | _ \<Rightarrow> info t txt_one_model))"

definition parsed_mapping :: "translate \<Rightarrow> inputs \<Rightarrow> stop + jsval" where
  "parsed_mapping t s =
     (case inputs_prop s ''model_mapping'' of
        Str m \<Rightarrow>
          if trim m = [] then Inr Null
          else (case json_parse m of None \<Rightarrow> info t txt_mapping_json | Some v \<Rightarrow> Inr v)
      | _ \<Rightarrow> Inr Null)"

fun normalized_models :: "jsval list \<Rightarrow> js_error + jsstr list" where
  "normalized_models [] = Inr []"
| "normalized_models (m # ms) =
     and_then (trim_or_empty m) (\<lambda>s. and_then (normalized_models ms) (\<lambda>ss. Inr (if s = [] then ss else s # ss)))"

definition missing_models :: "jsval \<Rightarrow> jsstr list \<Rightarrow> jsstr list" where
  "missing_models mapping models =
     (case mapping of
        Obj kvs \<Rightarrow> filter (\<lambda>k. k \<noteq> [] \<and> k \<notin> set models) (map trim (obj_keys mapping))
      | _ \<Rightarrow> [])"

definition hasModelConfigChanged :: "submit_state \<Rightarrow> jsstr list \<Rightarrow> jsval \<Rightarrow> js_error + bool" where
  "hasModelConfigChanged st models modelMappingStr =
     (if \<not> s_isEdit st then Inr True
      else if models \<noteq> s_initialModels st then Inr True
      else and_then (trim_or_empty modelMappingStr) (\<lambda>m. Inr (m \<noteq> trim (s_initialModelMapping st))))"

datatype missing_answer = Cancel | Submit_anyway | Add_missing

definition str_list :: "jsstr list \<Rightarrow> jsval" where
  "str_list ss = Arr (map Str ss)"

text \<open>The list of models; the second part is what \<open>handleInputChange('models', \<dots>)\<close> is called with.\<close>

definition list_models ::
    "submit_state \<Rightarrow> (jsstr list \<Rightarrow> missing_answer) \<Rightarrow> jsval \<Rightarrow> jsval list \<Rightarrow> inputs \<Rightarrow> stop + inputs \<times> jsstr list option" where
  "list_models st confirmMissing mapping models s =
     and_then (or_throw (normalized_models models)) (\<lambda>ms.
       let s1 = put (js ''models'') (str_list ms) s; missing = missing_models mapping ms in
       if missing = [] then Inr (s1, None)
       else and_then (or_throw (hasModelConfigChanged st ms (inputs_prop s1 ''model_mapping''))) (\<lambda>changed.
         if \<not> changed then Inr (s1, None)
         else (case confirmMissing missing of
             Cancel \<Rightarrow> Inl Gave_up
           | Submit_anyway \<Rightarrow> Inr (s1, None)
           | Add_missing \<Rightarrow>
               (let updated = nub (ms @ missing) in Inr (put (js ''models'') (str_list updated) s1, Some updated)))))"

section \<open>Status codes and addresses\<close>

definition txt_bad_status :: jsstr where "txt_bad_status = [29366, 24577, 30721, 22797, 20889, 21253, 21547, 26080, 25928, 30340, 29366, 24577,
     30721]"

definition check_status :: "translate \<Rightarrow> submit_state \<Rightarrow> (jsstr list \<Rightarrow> bool) \<Rightarrow> inputs \<Rightarrow> stop + inputs" where
  "check_status t st confirmRisk s =
     (let mapping = inputs_prop s ''status_code_mapping''; invalid = collectInvalidStatusCodeEntries mapping;
          risky = collectNewDisallowedStatusCodeRedirects (s_initialStatusCodeMapping st) mapping
      in if invalid \<noteq> [] then Inl (Told (ShowError (t txt_bad_status [] @ js '': '' @ join (js '', '') invalid)))
         else if risky \<noteq> [] \<and> \<not> confirmRisk risky then Inl Gave_up
         else Inr s)"

definition tidy_address :: "inputs \<Rightarrow> stop + inputs" where
  "tidy_address s =
     and_then (case inputs_prop s ''base_url'' of
         Str url \<Rightarrow> Inr (if url \<noteq> [] \<and> ends_with url (js ''/'') then put (js ''base_url'') (Str (butlast url)) s else s)
       | v \<Rightarrow> if truthy v then Inl (Threw TypeError) else Inr s)
       (\<lambda>s1. Inr (if is_type 18 s1 \<and> inputs_prop s1 ''other'' = Str [] then put (js ''other'') (Str (js ''v2.1'')) s1 else s1))"

section \<open>Settings\<close>

definition channelExtraSettings :: "inputs \<Rightarrow> jsval" where
  "channelExtraSettings s =
     (let flag = (\<lambda>k. (js k, js_or (inputs_prop s k) (Bool False))); text' = (\<lambda>k. (js k, js_or (inputs_prop s k) (Str [])))
      in Obj [flag ''force_format'', flag ''thinking_to_content'', text' ''proxy'', flag ''pass_through_body_enabled'',
        text' ''system_prompt'', flag ''system_prompt_override''])"

definition set_true :: "string \<Rightarrow> string \<Rightarrow> inputs \<Rightarrow> inputs \<Rightarrow> inputs" where
  "set_true k field' s = put (js k) (Bool (inputs_prop s field' = Bool True))"

definition type_settings :: "inputs \<Rightarrow> inputs \<Rightarrow> inputs" where
  "type_settings s kvs =
     (let k1 = (if is_type 20 s then set_true ''openrouter_enterprise'' ''is_enterprise_account'' s kvs else kvs);
          k2 = (if is_type 33 s then put (js ''aws_key_type'') (js_or (inputs_prop s ''aws_key_type'') (Str (js ''ak_sk''))) k1 else k1);
          k3 = (if is_type 41 s then put (js ''vertex_key_type'') (js_or (inputs_prop s ''vertex_key_type'') (Str (js ''json''))) k2
                else del (js ''vertex_key_type'') k2);
          k4 = (if is_type 1 s \<or> is_type 14 s then set_true ''allow_service_tier'' ''allow_service_tier'' s k3 else k3);
          k5 = (if is_type 1 s then set_true ''allow_include_obfuscation'' ''allow_include_obfuscation'' s
                  (set_true ''allow_safety_identifier'' ''allow_safety_identifier'' s (set_true ''disable_store'' ''disable_store'' s k4))
                else k4)
      in if is_type 14 s then set_true ''claude_beta_query'' ''claude_beta_query'' s
           (set_true ''allow_inference_geo'' ''allow_inference_geo'' s k5) else k5)"

definition ignored_list :: "inputs \<Rightarrow> jsval" where
  "ignored_list s =
     str_list (nub (filter (\<lambda>m. m \<noteq> []) (map trim (split_on 44 (str_or_empty (inputs_prop s ''upstream_model_update_ignored_models''))))))"

definition upstream_settings :: "inputs \<Rightarrow> inputs \<Rightarrow> inputs" where
  "upstream_settings s kvs =
     (let check = inputs_prop s ''upstream_model_update_check_enabled'' = Bool True;
          k1 = put (js ''upstream_model_update_check_enabled'') (Bool check) kvs;
          k2 = put (js ''upstream_model_update_auto_sync_enabled'')
            (Bool (check \<and> inputs_prop s ''upstream_model_update_auto_sync_enabled'' = Bool True)) k1;
          k3 = put (js ''upstream_model_update_ignored_models'') (ignored_list s) k2;
          k4 = (case inputs_prop k3 ''upstream_model_update_last_detected_models'' of
              Arr _ \<Rightarrow> if check then k3 else put (js ''upstream_model_update_last_detected_models'') (Arr []) k3
            | _ \<Rightarrow> put (js ''upstream_model_update_last_detected_models'') (Arr []) k3)
      in case inputs_prop k4 ''upstream_model_update_last_check_time'' of
           Num _ \<Rightarrow> k4
         | _ \<Rightarrow> put (js ''upstream_model_update_last_check_time'') (Num (Fin False 0)) k4)"

text \<open>The saved settings, changed.  Properties set on an array do not reach its JSON text; setting one on any
  other value throws.\<close>

definition new_settings :: "inputs \<Rightarrow> stop + jsval" where
  "new_settings s =
     (let saved = inputs_prop s ''settings'';
          settings = (if truthy saved then (case json_parse (to_str saved) of None \<Rightarrow> Obj [] | Some v \<Rightarrow> v) else Obj [])
      in case settings of
           Obj kvs \<Rightarrow> Inr (Obj (upstream_settings s (type_settings s kvs)))
         | Arr xs \<Rightarrow> Inr (Arr xs)
         | _ \<Rightarrow> Inl (Threw TypeError))"

section \<open>The request\<close>

definition form_only :: "string list" where
  "form_only = [''force_format'', ''thinking_to_content'', ''proxy'', ''pass_through_body_enabled'', ''system_prompt'',
     ''system_prompt_override'', ''is_enterprise_account'', ''vertex_key_type'', ''aws_key_type'', ''allow_service_tier'',
     ''disable_store'', ''allow_safety_identifier'', ''allow_include_obfuscation'', ''allow_inference_geo'', ''claude_beta_query'',
     ''upstream_model_update_check_enabled'', ''upstream_model_update_auto_sync_enabled'', ''upstream_model_update_last_check_time'',
     ''upstream_model_update_last_detected_models'', ''upstream_model_update_ignored_models'']"

definition zero_one :: "jsval \<Rightarrow> jsval" where
  "zero_one v = Num (Fin False (if truthy v then 1 else 0))"

text \<open>\<open>v.join(',')\<close>\<close>

definition join_val :: "jsval \<Rightarrow> js_error + jsval" where
  "join_val v = (case v of Arr xs \<Rightarrow> Inr (Str (to_str (Arr xs))) | _ \<Rightarrow> Inl TypeError)"

definition finish_inputs :: "inputs \<Rightarrow> stop + inputs" where
  "finish_inputs s =
     and_then (new_settings s) (\<lambda>settings.
       let s1 = put (js ''setting'') (stringify (channelExtraSettings s)) s;
           s2 = put (js ''settings'') (stringify settings) s1;
           s3 = fold (\<lambda>k. del (js k)) form_only s2;
           s4 = put (js ''auto_ban'') (zero_one (inputs_prop s3 ''auto_ban'')) s3;
           s5 = put (js ''auto_verify'') (zero_one (inputs_prop s4 ''auto_verify'')) s4
       in and_then (or_throw (join_val (inputs_prop s5 ''models''))) (\<lambda>models.
         let s6 = put (js ''models'') models s5 in
         and_then (or_throw (join_val (js_or (inputs_prop s6 ''groups'') (Arr [])))) (\<lambda>g. Inr (put (js ''group'') g s6))))"

definition channel_request :: "submit_state \<Rightarrow> inputs \<Rightarrow> request" where
  "channel_request st s =
     (let mode = (if s_batch st then (if s_multiToSingle st then js ''multi_to_single'' else js ''batch'') else js ''single'') in
      if s_isEdit st then
        Put_req (js ''/api/channel/'') (Obj (put (js ''key_mode'') (if s_isMultiKeyChannel st then s_keyMode st else Undef)
          (put (js ''id'') (Num (parse_int True (to_str (s_channelId st)))) s)))
      else Post_req (js ''/api/channel/'') (Obj [(js ''mode'', Str mode),
        (js ''multi_key_mode'', if mode = js ''multi_to_single'' then s_multiKeyMode st else Undef), (js ''channel'', Obj s)]))"

definition submit_inputs ::
    "translate \<Rightarrow> (jsstr \<Rightarrow> jsstr) \<Rightarrow> (jsstr list \<Rightarrow> missing_answer) \<Rightarrow> (jsstr list \<Rightarrow> bool) \<Rightarrow> submit_state \<Rightarrow> inputs \<Rightarrow>
     stop + inputs \<times> jsstr list option" where
  "submit_inputs t message confirmMissing confirmRisk st formValues =
     and_then (codex_key t st (put (js ''param_override'') (s_param_override st) formValues)) (\<lambda>s1.
     and_then (vertex_key t message st s1) (\<lambda>s2.
     and_then (keep_old_key st s2) (\<lambda>s3.
     and_then (required_fields t st s3) (\<lambda>models.
     and_then (parsed_mapping t s3) (\<lambda>mapping.
     and_then (list_models st confirmMissing mapping models s3) (\<lambda>(s4, added).
     and_then (check_status t st confirmRisk s4) (\<lambda>s5.
     and_then (tidy_address s5) (\<lambda>s6.
     and_then (finish_inputs s6) (\<lambda>s7. Inr (s7, added))))))))))"

definition submit ::
    "translate \<Rightarrow> (jsstr \<Rightarrow> jsstr) \<Rightarrow> (jsstr list \<Rightarrow> missing_answer) \<Rightarrow> (jsstr list \<Rightarrow> bool) \<Rightarrow> submit_state \<Rightarrow> inputs \<Rightarrow>
     stop + request" where
  "submit t message confirmMissing confirmRisk st formValues =
     and_then (submit_inputs t message confirmMissing confirmRisk st formValues) (\<lambda>(s, added). Inr (channel_request st s))"

text \<open>After the answer.\<close>

definition txt_updated :: jsstr where "txt_updated = [28192, 36947, 26356, 26032, 25104, 21151, 65281]"
definition txt_created :: jsstr where "txt_created = [28192, 36947, 21019, 24314, 25104, 21151, 65281]"

datatype submit_event = Tell toast | Reset_inputs | Refresh_table | Close_modal

definition submit_answer :: "translate \<Rightarrow> submit_state \<Rightarrow> jsval \<Rightarrow> js_error + submit_event list" where
  "submit_answer t st res =
     (if nullish (body_of res) then Inl TypeError
      else if succeeded res then
        Inr ((if s_isEdit st then [Tell (ShowSuccess (t txt_updated []))] else [Tell (ShowSuccess (t txt_created [])), Reset_inputs]) @
          [Refresh_table, Close_modal])
      else Inr [Tell (ShowError (to_str (own_prop (body_of res) (js ''message''))))])"

section \<open>What the steps keep\<close>

named_theorems channel_frame

lemma inputs_prop_put [simp]: "inputs_prop (put (js k) v s) k' = (if k' = k then v else inputs_prop s k')"
  by (simp add: inputs_prop_def)

lemma inputs_prop_del [simp]: "inputs_prop (del (js k) s) k' = (if k' = k then Undef else inputs_prop s k')"
  by (simp add: inputs_prop_def)

lemma inputs_prop_fold_del: "inputs_prop (fold (\<lambda>k. del (js k)) ks s) k' = (if k' \<in> set ks then Undef else inputs_prop s k')"
  by (induction ks arbitrary: s) auto

lemma list_models_frame [channel_frame]:
  "list_models st confirm mapping models s = Inr (s', added) \<Longrightarrow> k \<noteq> ''models'' \<Longrightarrow> inputs_prop s' k = inputs_prop s k"
  by (auto simp: list_models_def Let_def and_then_Inr_iff split: if_splits missing_answer.splits)

lemma check_status_frame [channel_frame]: "check_status t st confirm s = Inr s' \<Longrightarrow> s' = s"
  by (auto simp: check_status_def Let_def split: if_splits)

lemma tidy_address_frame [channel_frame]:
  "tidy_address s = Inr s' \<Longrightarrow> k \<notin> {''base_url'', ''other''} \<Longrightarrow> inputs_prop s' k = inputs_prop s k"
  by (auto simp: tidy_address_def and_then_Inr_iff split: if_splits jsval.splits)

lemma finish_inputs_frame [channel_frame]:
  assumes "finish_inputs s = Inr s'" "k \<notin> {''setting'', ''settings'', ''auto_ban'', ''auto_verify'', ''models'', ''group''}" "k \<notin> set form_only"
  shows "inputs_prop s' k = inputs_prop s k"
  using assms by (auto simp: finish_inputs_def Let_def and_then_Inr_iff inputs_prop_fold_del)

lemma submit_inputsE:
  assumes "submit_inputs t message confirmMissing confirmRisk st formValues = Inr (s, added)"
  obtains s1 s2 s3 models mapping s4 s6 where
    "codex_key t st (put (js ''param_override'') (s_param_override st) formValues) = Inr s1" "vertex_key t message st s1 = Inr s2"
    "keep_old_key st s2 = Inr s3" "required_fields t st s3 = Inr models" "parsed_mapping t s3 = Inr mapping"
    "list_models st confirmMissing mapping models s3 = Inr (s4, added)" "check_status t st confirmRisk s4 = Inr s4"
    "tidy_address s4 = Inr s6" "finish_inputs s6 = Inr s"
  using assms check_status_frame unfolding submit_inputs_def and_then_Inr_iff by (auto simp: and_then_Inr_iff) metis

text \<open>The channel a request carries.\<close>

definition sent_channel :: "request \<Rightarrow> jsval" where
  "sent_channel req = (case req of Put_req _ body \<Rightarrow> body | Post_req _ body \<Rightarrow> own_prop body (js ''channel'') | _ \<Rightarrow> Undef)"

lemma sent_prop:
  "k \<notin> {''id'', ''key_mode''} \<Longrightarrow> own_prop (sent_channel (channel_request st s)) (js k) = inputs_prop s k"
  by (simp add: sent_channel_def channel_request_def Let_def inputs_prop_def)
    (simp add: own_prop_def get_def)

lemma submit_sent:
  assumes "submit t message confirmMissing confirmRisk st formValues = Inr req"
  obtains s added where "submit_inputs t message confirmMissing confirmRisk st formValues = Inr (s, added)" "req = channel_request st s"
  using assms by (auto simp: submit_def and_then_Inr_iff)

section \<open>Properties of the request\<close>

lemma keep_old_key_key:
  assumes "keep_old_key st s = Inr s'" "s_isEdit st"
  shows "inputs_prop s' ''key'' = Undef \<or> (\<exists>text'. inputs_prop s' ''key'' = Str text' \<and> trim text' \<noteq> [])"
  using assms
  by (cases "inputs_prop s ''key''")
    (auto simp: keep_old_key_def and_then_Inr_iff trim_or_empty_def trim_val_def split: if_splits)

text \<open>C23: An update never overwrites the saved key with a blank one: its request carries no key, or one that is not
  blank.\<close>

theorem blank_key_not_sent:
  assumes "submit t message confirmMissing confirmRisk st formValues = Inr req" "s_isEdit st"
  shows "own_prop (sent_channel req) (js ''key'') = Undef \<or>
    (\<exists>text'. own_prop (sent_channel req) (js ''key'') = Str text' \<and> trim text' \<noteq> [])"
proof -
  obtain s added where s: "submit_inputs t message confirmMissing confirmRisk st formValues = Inr (s, added)" "req = channel_request st s"
    using submit_sent [OF assms(1)] .
  from s(1) obtain s2 s3 models mapping s4 s6 where steps: "keep_old_key st s2 = Inr s3"
    "list_models st confirmMissing mapping models s3 = Inr (s4, added)" "tidy_address s4 = Inr s6" "finish_inputs s6 = Inr s"
    by (rule submit_inputsE)
  have "inputs_prop s ''key'' = inputs_prop s3 ''key''"
    using steps(2-) by (simp add: channel_frame form_only_def)
  then show ?thesis using keep_old_key_key [OF steps(1) assms(2)] by (simp add: s(2) sent_prop)
qed

text \<open>An update of the channel 7 with a blank key, one model and a redirect, and the same form for a new channel.\<close>

definition demo_submit :: "bool \<Rightarrow> submit_state" where
  "demo_submit edit = \<lparr>s_isEdit = edit, s_channelId = Num (Fin False 7), s_batch = False, s_multiToSingle = False,
     s_multiKeyMode = Str (js ''random''), s_isMultiKeyChannel = False, s_keyMode = Str (js ''append''), s_useManualInput = False,
     s_vertexKeys = [], s_vertexFileList = [], s_param_override = Str [], s_initialModels = [], s_initialModelMapping = [],
     s_initialStatusCodeMapping = Undef\<rparr>"

definition demo_form :: "jsstr \<Rightarrow> jsstr \<Rightarrow> jsstr \<Rightarrow> inputs" where
  "demo_form key mapping codes = [(js ''name'', Str (js ''a'')), (js ''key'', Str key), (js ''models'', Arr [Str (js ''m'')]),
     (js ''model_mapping'', Str mapping), (js ''status_code_mapping'', Str codes), (js ''groups'', Arr [Str (js ''g'')])]"

definition is_sent :: "stop + request \<Rightarrow> bool" where
  "is_sent r = (case r of Inl _ \<Rightarrow> False | Inr _ \<Rightarrow> True)"

lemma is_sentE: "is_sent r \<Longrightarrow> (\<And>req. r = Inr req \<Longrightarrow> P) \<Longrightarrow> P"
  by (cases r) (auto simp: is_sent_def)

lemma demo_prop [simp]:
  "inputs_prop (demo_form key mapping codes) k =
    (if k = ''name'' then Str (js ''a'') else if k = ''key'' then Str key else if k = ''models'' then Arr [Str (js ''m'')]
     else if k = ''model_mapping'' then Str mapping else if k = ''status_code_mapping'' then Str codes
     else if k = ''groups'' then Arr [Str (js ''g'')] else Undef)"
  by (simp add: inputs_prop_def own_prop_def get_def demo_form_def)

lemma trim_m: "trim (js ''m'') = js ''m''" "trim [32] = []"
  by code_simp+

lemmas submit_defs = submit_def submit_inputs_def demo_submit_def is_sent_def codex_key_def vertex_key_def is_type_def keep_old_key_def
  trim_or_empty_def trim_val_def required_fields_def parsed_mapping_def list_models_def missing_models_def trim_m
  check_status_def tidy_address_def finish_inputs_def new_settings_def join_val_def js_or_def truthy_def Let_def
  inputs_prop_fold_del form_only_def str_list_def hasModelConfigChanged_def

lemmas status_defs = collectInvalidStatusCodeEntries_def collectNewDisallowedStatusCodeRedirects_def
  collectDisallowedStatusCodeRedirects_def mapping_entries_def

theorem blank_key_not_sent_witness:
  "\<exists>req. submit (\<lambda>s _. s) (\<lambda>s. s) (\<lambda>_. Add_missing) (\<lambda>_. True) (demo_submit True) (demo_form [32] [] []) = Inr req \<and>
    (own_prop (sent_channel req) (js ''key'') = Undef \<or>
     (\<exists>text'. own_prop (sent_channel req) (js ''key'') = Str text' \<and> trim text' \<noteq> []))"
proof -
  have "is_sent (submit (\<lambda>s _. s) (\<lambda>s. s) (\<lambda>_. Add_missing) (\<lambda>_. True) (demo_submit True) (demo_form [32] [] []))"
    by (simp add: submit_defs status_defs)
  then show ?thesis
    by (rule is_sentE) (use blank_key_not_sent [of "\<lambda>s _. s" "\<lambda>s. s" "\<lambda>_. Add_missing" "\<lambda>_. True" "demo_submit True"]
      in \<open>auto simp: demo_submit_def\<close>)
qed

lemma finish_inputsE:
  assumes "finish_inputs s = Inr s'"
  obtains settings ms gs s3 where
    "s3 = fold (\<lambda>k. del (js k)) form_only (put (js ''settings'') (stringify settings) (put (js ''setting'') (stringify (channelExtraSettings s)) s))"
    "new_settings s = Inr settings" "join_val (inputs_prop s3 ''models'') = Inr ms" "join_val (js_or (inputs_prop s3 ''groups'') (Arr [])) = Inr gs"
    "s' = put (js ''group'') gs (put (js ''models'') ms (put (js ''auto_verify'') (zero_one (inputs_prop s3 ''auto_verify''))
       (put (js ''auto_ban'') (zero_one (inputs_prop s3 ''auto_ban'')) s3)))"
proof -
  have or: "or_throw r = Inr x \<longleftrightarrow> r = Inr x" for r and x :: jsval by (cases r) auto
  obtain settings where n: "new_settings s = Inr settings" using assms unfolding finish_inputs_def and_then_Inr_iff by blast
  define s3 where "s3 = fold (\<lambda>k. del (js k)) form_only (put (js ''settings'') (stringify settings) (put (js ''setting'') (stringify (channelExtraSettings s)) s))"
  have "\<exists>ms. join_val (inputs_prop s3 ''models'') = Inr ms \<and> (\<exists>gs. join_val (js_or (inputs_prop s3 ''groups'') (Arr [])) = Inr gs \<and>
      s' = put (js ''group'') gs (put (js ''models'') ms (put (js ''auto_verify'') (zero_one (inputs_prop s3 ''auto_verify''))
       (put (js ''auto_ban'') (zero_one (inputs_prop s3 ''auto_ban'')) s3))))"
    using assms unfolding finish_inputs_def n and_then.simps(2) Let_def s3_def [symmetric] and_then_Inr_iff or by auto
  then show ?thesis using that [OF s3_def n] by blast
qed

lemma join_val_Str: "join_val v = Inr w \<Longrightarrow> \<exists>text'. w = Str text'"
  by (cases v) (auto simp: join_val_def)

lemma finish_shape:
  assumes "finish_inputs s = Inr s'"
  shows "k \<in> set form_only \<Longrightarrow> inputs_prop s' k = Undef"
    and "k \<in> {''models'', ''group'', ''setting'', ''settings''} \<Longrightarrow> \<exists>text'. inputs_prop s' k = Str text'"
    and "k \<in> {''auto_ban'', ''auto_verify''} \<Longrightarrow> inputs_prop s' k \<in> {Num (Fin False 0), Num (Fin False 1)}"
proof -
  obtain settings ms gs s3 where s3:
    "s3 = fold (\<lambda>k. del (js k)) form_only (put (js ''settings'') (stringify settings) (put (js ''setting'') (stringify (channelExtraSettings s)) s))"
    and j: "join_val (inputs_prop s3 ''models'') = Inr ms" "join_val (js_or (inputs_prop s3 ''groups'') (Arr [])) = Inr gs"
    and s': "s' = put (js ''group'') gs (put (js ''models'') ms (put (js ''auto_verify'') (zero_one (inputs_prop s3 ''auto_verify''))
       (put (js ''auto_ban'') (zero_one (inputs_prop s3 ''auto_ban'')) s3)))"
    using assms by (rule finish_inputsE)
  have nf: "''setting'' \<notin> set form_only" "''settings'' \<notin> set form_only" "''models'' \<notin> set form_only" "''group'' \<notin> set form_only"
      "''auto_ban'' \<notin> set form_only" "''auto_verify'' \<notin> set form_only"
    by (simp_all add: form_only_def)
  show "inputs_prop s' k = Undef" if "k \<in> set form_only"
  proof -
    have "k \<notin> {''models'', ''group'', ''auto_ban'', ''auto_verify''}" using that nf by blast
    then show ?thesis using that by (simp add: s' s3 inputs_prop_fold_del)
  qed
  have "inputs_prop s' ''models'' = ms" "inputs_prop s' ''group'' = gs" by (simp_all add: s')
  moreover have "inputs_prop s' ''setting'' = stringify (channelExtraSettings s)" "inputs_prop s' ''settings'' = stringify settings"
    using nf by (simp_all add: s' s3 inputs_prop_fold_del)
  ultimately show "k \<in> {''models'', ''group'', ''setting'', ''settings''} \<Longrightarrow> \<exists>text'. inputs_prop s' k = Str text'"
    using join_val_Str [OF j(1)] join_val_Str [OF j(2)] by (auto simp: stringify_def)
  show "k \<in> {''auto_ban'', ''auto_verify''} \<Longrightarrow> inputs_prop s' k \<in> {Num (Fin False 0), Num (Fin False 1)}"
    by (auto simp: s' zero_one_def)
qed

lemma finish_models:
  assumes "finish_inputs s = Inr s'" "inputs_prop s ''models'' = str_list ms"
  shows "inputs_prop s' ''models'' = Str (join [44] ms)"
proof -
  have *: "map (\<lambda>v. if nullish v then [] else to_str v) (map Str ms) = ms" by (simp add: nullish_def map_idI)
  from assms(1) show ?thesis
    by (rule finish_inputsE) (use assms(2) * in \<open>simp add: inputs_prop_fold_del form_only_def str_list_def join_val_def\<close>)
qed

lemma list_models_all:
  assumes "mapping = Obj kvs" "list_models st (\<lambda>_. Add_missing) mapping models s = Inr (s', added)" "\<not> s_isEdit st"
    and "k \<in> set (keys kvs)" "trim k \<noteq> []"
  obtains ms where "inputs_prop s' ''models'' = str_list ms" "trim k \<in> set ms"
proof -
  have k: "trim k \<in> set ms \<or> trim k \<in> set (missing_models mapping ms)" for ms
    using assms(1,4,5) by (auto simp: missing_models_def)
  obtain ms where ms: "or_throw (normalized_models models) = Inr ms" using assms(2) by (auto simp: list_models_def and_then_Inr_iff)
  show ?thesis
  proof (cases "missing_models mapping ms = []")
    case True
    then show ?thesis using assms(2) ms k [of ms] by (intro that [of ms]) (auto simp: list_models_def)
  next
    case False
    then show ?thesis using assms(2,3) ms k [of ms]
      by (intro that [of "nub (ms @ missing_models mapping ms)"]) (auto simp: list_models_def hasModelConfigChanged_def Let_def)
  qed
qed



text \<open>C25: A mapping that is sent has only valid status codes, and when it redirects a gateway timeout in a way the saved
  mapping did not, the user has confirmed a list that names this redirect.\<close>

theorem risky_redirect_confirmed:
  assumes "submit t message confirmMissing confirmRisk st formValues = Inr req"
  defines "mapping \<equiv> own_prop (sent_channel req) (js ''status_code_mapping'')"
  shows "(\<forall>(k, v) \<in> set (mapping_entries mapping). parseStatusCodeKey k \<noteq> None \<and> parseStatusCodeMappingTarget v \<noteq> None) \<and>
    (\<forall>(f, to) \<in> redirects mapping - redirects (s_initialStatusCodeMapping st). f \<in> {504, 524} \<longrightarrow> f \<noteq> to \<longrightarrow>
      (\<exists>items. redirect_text f to \<in> set items \<and> confirmRisk items))"
proof -
  obtain s added where s: "submit_inputs t message confirmMissing confirmRisk st formValues = Inr (s, added)" "req = channel_request st s"
    using submit_sent [OF assms(1)] .
  from s(1) obtain s4 s6 where steps: "check_status t st confirmRisk s4 = Inr s4" "tidy_address s4 = Inr s6" "finish_inputs s6 = Inr s"
    by (rule submit_inputsE)
  have m: "mapping = inputs_prop s4 ''status_code_mapping''"
    using steps(2,3) by (simp add: mapping_def s(2) sent_prop channel_frame form_only_def)
  have ok: "collectInvalidStatusCodeEntries mapping = []"
      "collectNewDisallowedStatusCodeRedirects (s_initialStatusCodeMapping st) mapping \<noteq> [] \<Longrightarrow>
       confirmRisk (collectNewDisallowedStatusCodeRedirects (s_initialStatusCodeMapping st) mapping)"
    using steps(1) unfolding m by (auto simp: check_status_def Let_def split: if_splits)
  have "\<exists>items. redirect_text f to \<in> set items \<and> confirmRisk items"
    if "(f, to) \<in> redirects mapping - redirects (s_initialStatusCodeMapping st)" "f \<in> {504, 524}" "f \<noteq> to" for f to
    using new_redirect_listed [OF that] ok(2) by (metis empty_iff list.set(1))
  then show ?thesis using ok(1) no_invalid_entries by blast
qed

definition demo_codes :: jsstr where
  "demo_codes = json_ser [] [] (Obj [(js ''504'', Str (js ''200''))])"

lemma demo_codes_entries: "mapping_entries (Str demo_codes) = [(js ''504'', Str (js ''200''))]"
proof -
  have "json_parse demo_codes = Some (Obj [(js ''504'', Str (js ''200''))])"
    unfolding demo_codes_def by (rule json_parse_stringify) (simp_all add: own_order_def)
  moreover have "trim demo_codes \<noteq> []" unfolding demo_codes_def trim_json_Obj using json_ser_Obj_hd by blast
  moreover have "entries (Obj [(js ''504'', Str (js ''200''))]) = [(js ''504'', Str (js ''200''))]"
    by (simp add: entries_def obj_keys_def own_order_def own_prop_def get_def)
  ultimately show ?thesis by (simp add: mapping_entries_def)
qed

lemma demo_codes_read: "parseStatusCodeKey (js ''504'') = Some 504" "parseStatusCodeMappingTarget (Str (js ''200'')) = Some 200"
  by (simp_all add: parseStatusCodeKey_def parseStatusCodeMappingTarget_def trim_no_ws code_text_def is_digit_def is_ws_def
      digits_val_def js_def)

lemma demo_no_invalid: "collectInvalidStatusCodeEntries (Str demo_codes) = []"
  by (simp add: no_invalid_entries demo_codes_entries demo_codes_read)

theorem risky_redirect_confirmed_witness:
  "\<exists>req. submit (\<lambda>s _. s) (\<lambda>s. s) (\<lambda>_. Add_missing) (\<lambda>items. redirect_text 504 200 \<in> set items) (demo_submit True) (demo_form [32] [] demo_codes) = Inr req \<and>
    (\<forall>(k, v) \<in> set (mapping_entries (own_prop (sent_channel req) (js ''status_code_mapping''))). parseStatusCodeKey k \<noteq> None)"
proof -
  have "(504, 200) \<in> redirects (Str demo_codes) - redirects Undef"
    by (simp add: redirects_def demo_codes_entries demo_codes_read) (simp add: mapping_entries_def)
  from new_redirect_listed [OF this] have "redirect_text 504 200 \<in> set (collectNewDisallowedStatusCodeRedirects Undef (Str demo_codes))"
    by simp
  then have "is_sent (submit (\<lambda>s _. s) (\<lambda>s. s) (\<lambda>_. Add_missing) (\<lambda>items. redirect_text 504 200 \<in> set items) (demo_submit True)
      (demo_form [32] [] demo_codes))"
    by (simp add: submit_defs demo_no_invalid)
  then obtain req where r: "submit (\<lambda>s _. s) (\<lambda>s. s) (\<lambda>_. Add_missing) (\<lambda>items. redirect_text 504 200 \<in> set items) (demo_submit True)
      (demo_form [32] [] demo_codes) = Inr req" by (rule is_sentE)
  then show ?thesis using risky_redirect_confirmed [OF r] by blast
qed

text \<open>C26: When the user lets the missing models be added, every model that the mapping of a new channel redirects is
  among the models sent.\<close>

theorem mapped_models_sent:
  assumes "submit t message (\<lambda>_. Add_missing) confirmRisk st formValues = Inr req" "\<not> s_isEdit st"
    and "own_prop (sent_channel req) (js ''model_mapping'') = Str text'" "json_parse text' = Some (Obj kvs)"
    and "trim text' \<noteq> []" "k \<in> set (keys kvs)" "trim k \<noteq> []"
  shows "\<exists>ms. own_prop (sent_channel req) (js ''models'') = Str (join [44] ms) \<and> trim k \<in> set ms"
proof -
  obtain s added where s: "submit_inputs t message (\<lambda>_. Add_missing) confirmRisk st formValues = Inr (s, added)" "req = channel_request st s"
    using submit_sent [OF assms(1)] .
  from s(1) obtain s3 mapping models s4 s6 where steps: "parsed_mapping t s3 = Inr mapping"
    "list_models st (\<lambda>_. Add_missing) mapping models s3 = Inr (s4, added)" "tidy_address s4 = Inr s6" "finish_inputs s6 = Inr s"
    by (rule submit_inputsE)
  have "inputs_prop s3 ''model_mapping'' = Str text'"
    using assms(3) steps(2-) by (simp add: s(2) sent_prop channel_frame form_only_def)
  then have "mapping = Obj kvs" using steps(1) assms(4,5) by (simp add: parsed_mapping_def)
  then obtain ms where ms: "inputs_prop s4 ''models'' = str_list ms" "trim k \<in> set ms"
    using steps(2) assms(2,6,7) by (rule list_models_all)
  have "inputs_prop s6 ''models'' = str_list ms" using steps(3) ms(1) by (simp add: channel_frame)
  then have "inputs_prop s ''models'' = Str (join [44] ms)" by (rule finish_models [OF steps(4)])
  then show ?thesis using ms(2) by (auto simp: s(2) sent_prop)
qed

definition demo_mapping :: jsstr where
  "demo_mapping = json_ser [] [] (Obj [(js ''x'', Str (js ''m''))])"

lemma demo_mapping_read: "json_parse demo_mapping = Some (Obj [(js ''x'', Str (js ''m''))])" "trim demo_mapping \<noteq> []"
proof -
  show "json_parse demo_mapping = Some (Obj [(js ''x'', Str (js ''m''))])"
    unfolding demo_mapping_def by (rule json_parse_stringify) (simp_all add: own_order_def)
  show "trim demo_mapping \<noteq> []" unfolding demo_mapping_def trim_json_Obj using json_ser_Obj_hd by blast
qed

theorem mapped_models_sent_witness:
  "\<exists>req ms. submit (\<lambda>s _. s) (\<lambda>s. s) (\<lambda>_. Add_missing) (\<lambda>_. True) (demo_submit False) (demo_form (js ''k'') demo_mapping []) = Inr req \<and>
    own_prop (sent_channel req) (js ''models'') = Str (join [44] ms) \<and> js ''x'' \<in> set ms"
proof -
  have x: "trim (js ''x'') = js ''x''" by code_simp
  have "obj_keys (Obj [(js ''x'', Str (js ''m''))]) = [js ''x'']" by (simp add: obj_keys_def own_order_def)
  then have i: "is_sent (submit (\<lambda>s _. s) (\<lambda>s. s) (\<lambda>_. Add_missing) (\<lambda>_. True) (demo_submit False) (demo_form (js ''k'') demo_mapping []))"
    by (simp add: submit_defs status_defs demo_mapping_read x)
  then obtain req where r: "submit (\<lambda>s _. s) (\<lambda>s. s) (\<lambda>_. Add_missing) (\<lambda>_. True) (demo_submit False) (demo_form (js ''k'') demo_mapping []) = Inr req"
    by (rule is_sentE)
  obtain s added where s: "submit_inputs (\<lambda>s _. s) (\<lambda>s. s) (\<lambda>_. Add_missing) (\<lambda>_. True) (demo_submit False) (demo_form (js ''k'') demo_mapping []) =
      Inr (s, added)" "req = channel_request (demo_submit False) s" using submit_sent [OF r] .
  have "inputs_prop s ''model_mapping'' = Str demo_mapping" by (rule submit_inputsE [OF s(1)])
    (auto simp: channel_frame form_only_def codex_key_def vertex_key_def is_type_def keep_old_key_def demo_submit_def)
  then have "own_prop (sent_channel req) (js ''model_mapping'') = Str demo_mapping" by (simp add: s(2) sent_prop)
  from mapped_models_sent [OF r _ this demo_mapping_read, of "js ''x''"] r show ?thesis
    by (auto simp: demo_submit_def keys_def x)
qed

text \<open>A list of blank models passes the check for at least one model; the channel is then sent without any.\<close>

lemma blank_models_sent:
  assumes "finish_inputs s6 = Inr s7" "list_models st confirm Null [Str [32]] s = Inr (s6, added)"
  shows "inputs_prop s7 ''models'' = Str []"
proof -
  have "inputs_prop s6 ''models'' = str_list []"
    using assms(2) by (auto simp: list_models_def missing_models_def Let_def trim_or_empty_def trim_val_def truthy_def trim_m and_then_Inr_iff)
  from finish_models [OF assms(1) this] show ?thesis by simp
qed

end
