(* ===== verification/Compat_Form.thy ===== *)
theory Compat_Form
  imports Js_Object State_Machine
begin

text \<open>
  The form component that replaces the one of the UI library, \<open>components/compat/Form.jsx\<close>: the form object with
  its mutable reference and its React state, which can be one and the same object, and the controls with what
  each of them does when the user changes it.
\<close>

section \<open>The form object\<close>

type_synonym vals = "(jsstr, jsval) store"

text \<open>The functions passed to \<open>setValues\<close> of React, which run at the next rendering.\<close>

datatype updater = Set_field jsstr jsval | Merge vals | Unset_fields "jsstr list" | Clear

fun run_updater :: "updater \<Rightarrow> vals \<Rightarrow> vals" where
  "run_updater (Set_field f v) prev = put f v prev"
| "run_updater (Merge new) prev = spread_over prev (Obj new)"
| "run_updater (Unset_fields fs) prev = fold (\<lambda>f. put f Undef) fs prev"
| "run_updater Clear prev = []"

text \<open>Objects are kept by address: \<open>f_ref\<close> is the one \<open>valuesRef.current\<close> points to, \<open>f_values\<close> the state of
  the last rendering.  \<open>f_effect\<close> holds while the effect that synchronises the two has still to run.\<close>

record form =
  f_objects :: "vals list"
  f_ref :: nat
  f_values :: nat
  f_queue :: "updater list"
  f_effect :: bool

text \<open>\<open>initValues || {}\<close> is evaluated twice: an object that is given is shared by both.\<close>

definition new_form :: "vals option \<Rightarrow> form" where
  "new_form initValues =
     (case initValues of
        Some init \<Rightarrow> \<lparr>f_objects = [init], f_ref = 0, f_values = 0, f_queue = [], f_effect = True\<rparr>
      | None \<Rightarrow> \<lparr>f_objects = [[], []], f_ref = 1, f_values = 0, f_queue = [], f_effect = True\<rparr>)"

definition getValues :: "form \<Rightarrow> vals" where
  "getValues st = f_objects st ! f_ref st"

definition getValue :: "form \<Rightarrow> jsstr \<Rightarrow> jsval" where
  "getValue st field' = own_prop (Obj (getValues st)) field'"

definition setValue :: "jsstr \<Rightarrow> jsval \<Rightarrow> form \<Rightarrow> form" where
  "setValue field' v st =
     st\<lparr>f_objects := (f_objects st)[f_ref st := put field' v (getValues st)], f_queue := f_queue st @ [Set_field field' v]\<rparr>"

definition setValues :: "vals \<Rightarrow> form \<Rightarrow> form" where
  "setValues newValues st =
     st\<lparr>f_objects := (f_objects st)[f_ref st := spread_over (getValues st) (Obj newValues)],
        f_queue := f_queue st @ [Merge newValues]\<rparr>"

definition reset :: "jsstr list option \<Rightarrow> form \<Rightarrow> form" where
  "reset fields' st =
     (case fields' of
        Some fs \<Rightarrow> st\<lparr>f_objects := (f_objects st)[f_ref st := fold (\<lambda>f. put f Undef) fs (getValues st)],
            f_queue := f_queue st @ [Unset_fields fs]\<rparr>
      | None \<Rightarrow> st\<lparr>f_objects := f_objects st @ [[]], f_ref := length (f_objects st), f_queue := f_queue st @ [Clear]\<rparr>)"

text \<open>The validation accepts everything: the rules of the controls are never consulted.\<close>

definition form_validate :: "form \<Rightarrow> unit + vals" where
  "form_validate st = Inr (getValues st)"

datatype call = Set_value jsstr jsval | Set_values vals | Reset "jsstr list option"

fun form_call :: "call \<Rightarrow> form \<Rightarrow> form" where
  "form_call (Set_value f v) st = setValue f v st"
| "form_call (Set_values new) st = setValues new st"
| "form_call (Reset fs) st = reset fs st"

text \<open>What \<open>onValueChange\<close> is called with.\<close>

fun reported :: "call \<Rightarrow> form \<Rightarrow> (vals \<times> vals) option" where
  "reported (Set_value f v) st = Some ([(f, v)], getValues (setValue f v st))"
| "reported (Set_values new) st = Some (new, getValues (setValues new st))"
| "reported (Reset fs) st = None"

text \<open>A rendering runs the queued updates; the effect then points the reference to the new state.\<close>

definition render :: "form \<Rightarrow> form" where
  "render st =
     (if f_queue st = [] then st
      else st\<lparr>f_objects := f_objects st @ [fold run_updater (f_queue st) (f_objects st ! f_values st)],
              f_values := length (f_objects st), f_queue := [], f_effect := True\<rparr>)"

definition sync_ref :: "form \<Rightarrow> form" where
  "sync_ref st = (if f_effect st then st\<lparr>f_ref := f_values st, f_effect := False\<rparr> else st)"

datatype form_event = Call call | Render | Effect

fun form_do :: "form_event \<Rightarrow> form \<Rightarrow> form" where
  "form_do (Call c) st = form_call c st"
| "form_do Render st = render st"
| "form_do Effect st = sync_ref st"

definition form_step :: "form \<Rightarrow> form \<Rightarrow> bool" where
  "form_step st st' \<longleftrightarrow> (\<exists>e. st' = form_do e st)"

section \<open>The form is a store\<close>

fun writes :: "updater \<Rightarrow> jsstr \<Rightarrow> jsval option option" where
  "writes (Set_field f v) k = (if k = f then Some (Some v) else None)"
| "writes (Merge new) k = (if k \<in> set (keys new) then Some (Some (own_prop (Obj new) k)) else None)"
| "writes (Unset_fields fs) k = (if k \<in> set fs then Some (Some Undef) else None)"
| "writes Clear k = Some None"

lemma get_run_updater: "get (run_updater u m) k = (case writes u k of None \<Rightarrow> get m k | Some r \<Rightarrow> r)"
  by (cases u) (auto simp: js_store get_spread_over store.fold_insert_mem store.fold_insert_other)

lemma get_updaters_cong: "get m k = get m' k \<Longrightarrow> get (fold run_updater us m) k = get (fold run_updater us m') k"
  by (induction us arbitrary: m m') (auto simp: get_run_updater split: option.splits)

text \<open>Writing an update into the object that is already queued to receive it changes nothing in the end.\<close>

lemma write_ahead:
  "get (run_updater u (fold run_updater us (run_updater u m))) k = get (run_updater u (fold run_updater us m)) k"
proof (cases "writes u k")
  case None
  then have "get (run_updater u m) k = get m k" by (simp add: get_run_updater)
  from get_updaters_cong [OF this] show ?thesis using None by (simp add: get_run_updater)
qed (simp add: get_run_updater)

fun spec_call :: "call \<Rightarrow> (jsstr \<rightharpoonup> jsval) \<Rightarrow> (jsstr \<rightharpoonup> jsval)" where
  "spec_call (Set_value f v) m = m(f \<mapsto> v)"
| "spec_call (Set_values new) m = (\<lambda>k. if k \<in> set (keys new) then Some (own_prop (Obj new) k) else m k)"
| "spec_call (Reset (Some fs)) m = (\<lambda>k. if k \<in> set fs then Some Undef else m k)"
| "spec_call (Reset None) m = Map.empty"

fun spec_event :: "form_event \<Rightarrow> (jsstr \<rightharpoonup> jsval) \<Rightarrow> (jsstr \<rightharpoonup> jsval)" where
  "spec_event (Call c) m = spec_call c m"
| "spec_event Render m = m"
| "spec_event Effect m = m"

definition form_ok :: "form \<Rightarrow> bool" where
  "form_ok st \<longleftrightarrow> f_ref st < length (f_objects st) \<and> f_values st < length (f_objects st) \<and>
     (f_queue st = [] \<and> \<not> f_effect st \<longrightarrow> f_ref st = f_values st)"

definition shown :: "form \<Rightarrow> (jsstr \<rightharpoonup> jsval)" where
  "shown st = get (fold run_updater (f_queue st) (f_objects st ! f_values st))"

lemma form_ok_call: "form_ok st \<Longrightarrow> form_ok (form_call c st)"
proof (cases c)
  case (Reset fs)
  then show "form_ok st \<Longrightarrow> ?thesis" by (cases fs) (simp_all add: form_ok_def reset_def)
qed (simp_all add: form_ok_def setValue_def setValues_def)

lemma form_ok_new [simp]: "form_ok (new_form init)"
  by (cases init) (simp_all add: form_ok_def new_form_def)

lemma form_ok_do [simp]: "form_ok st \<Longrightarrow> form_ok (form_do e st)"
proof (cases e)
  case (Call c)
  then show "form_ok st \<Longrightarrow> ?thesis" by (simp add: form_ok_call)
qed (simp_all add: form_ok_def render_def sync_ref_def)

interpretation forms: invariant_machine "\<lambda>st. \<exists>init. st = new_form init" form_step form_ok
proof
  show "form_ok st" if "\<exists>init. st = new_form init" for st using that form_ok_new by blast
  show "form_ok st'" if "form_ok st" "form_step st st'" for st st' using that form_ok_do by (auto simp only: form_step_def)
qed

lemma shown_write:
  assumes "form_ok st"
  shows "get (fold run_updater (f_queue st @ [u]) ((f_objects st)[f_ref st := run_updater u (getValues st)] ! f_values st)) k =
    get (run_updater u (fold run_updater (f_queue st) (f_objects st ! f_values st))) k"
proof (cases "f_ref st = f_values st")
  case True
  then show ?thesis using assms by (simp add: form_ok_def getValues_def write_ahead)
qed (simp add: form_ok_def)

lemma shown_call: "form_ok st \<Longrightarrow> shown (form_call c st) = spec_call c (shown st)"
proof
  fix k assume ok: "form_ok st"
  note w = shown_write [OF ok]
  show "shown (form_call c st) k = spec_call c (shown st) k"
  proof (cases c)
    case (Set_value f v)
    then show ?thesis using w [of "Set_field f v" k] by (simp add: shown_def setValue_def js_store)
  next
    case (Set_values new)
    then show ?thesis using w [of "Merge new" k] by (simp add: shown_def setValues_def get_spread_over)
  next
    case (Reset fs)
    then show ?thesis
    proof (cases fs)
      case (Some xs)
      then show ?thesis using Reset w [of "Unset_fields xs" k] get_run_updater [of "Unset_fields xs" _ k]
        by (simp add: shown_def reset_def)
    qed (use ok in \<open>simp add: shown_def reset_def\<close>)
  qed
qed

lemma shown_event: "form_ok st \<Longrightarrow> shown (form_do e st) = spec_event e (shown st)"
proof (cases e)
  case (Call c)
  then show "form_ok st \<Longrightarrow> ?thesis" by (simp add: shown_call)
qed (simp_all add: shown_def render_def sync_ref_def)

lemma shown_events: "form_ok st \<Longrightarrow> shown (fold form_do es st) = fold spec_event es (shown st)"
  by (induction es arbitrary: st) (simp_all add: shown_event)

lemma shown_new: "shown (new_form init) = get (case init of None \<Rightarrow> [] | Some kvs \<Rightarrow> kvs)"
  by (simp add: shown_def new_form_def split: option.splits)

lemma settled_reads: "form_ok st \<Longrightarrow> get (getValues (sync_ref (render st))) = shown st"
  by (auto simp: form_ok_def shown_def getValues_def render_def sync_ref_def)

text \<open>C27: However calls, renderings and effects are interleaved, and although the reference and the React state may be
  one object that is written in place, the form behaves as a plain store: after a rendering and its effect it
  holds exactly what the calls wrote, in their order.\<close>

theorem form_is_store:
  "get (getValues (sync_ref (render (fold form_do es (new_form init))))) =
     fold spec_event es (get (case init of None \<Rightarrow> [] | Some kvs \<Rightarrow> kvs))"
proof -
  have "form_ok (fold form_do es st)" if "form_ok st" for st
    using that by (induction es arbitrary: st) simp_all
  then show ?thesis using settled_reads shown_events shown_new form_ok_new by metis
qed

text \<open>Between a rendering and its effect a written value can be invisible: the effect points the reference to a
  state that does not have it yet.\<close>

lemma write_before_effect_unseen:
  assumes "f \<noteq> g"
  shows "getValue (fold form_do [Effect, Call (Set_value g u), Render, Call (Set_value f v), Effect] (new_form None)) f = Undef"
  using assms by (simp add: getValue_def getValues_def new_form_def sync_ref_def render_def setValue_def own_prop_def get_def)

text \<open>The object given as \<open>initValues\<close> is written by the first calls.\<close>

lemma init_object_written: "f_objects (setValue f v (new_form (Some init))) ! 0 = put f v init"
  by (simp add: setValue_def new_form_def getValues_def)

section \<open>Controls\<close>

text \<open>What a control does when the user changes it: it sets a value of the form, or it calls the \<open>onChange\<close>
  handler it was given.\<close>

datatype field_call = Form_set jsstr jsval | Given_onChange jsval

definition set_call :: "jsstr \<Rightarrow> jsval \<Rightarrow> field_call list" where
  "set_call field' v = (if field' = [] then [] else [Form_set field' v])"

definition nullish_else :: "jsval \<Rightarrow> jsval \<Rightarrow> jsval" where
  "nullish_else v fallback = (if nullish v then fallback else v)"

text \<open>The effect that sets \<open>initValue\<close> when the field is mounted.\<close>

definition FormField_mount :: "jsstr \<Rightarrow> jsval \<Rightarrow> form \<Rightarrow> field_call list" where
  "FormField_mount fieldName initValue st =
     (if initValue \<noteq> Undef \<and> fieldName \<noteq> [] \<and> getValue st fieldName = Undef then [Form_set fieldName initValue] else [])"

definition FormField_change :: "jsstr \<Rightarrow> (jsval \<Rightarrow> jsval) option \<Rightarrow> jsval \<Rightarrow> field_call list" where
  "FormField_change fieldName convert v = set_call fieldName (case convert of None \<Rightarrow> v | Some f \<Rightarrow> f v)"

definition FormInput_change :: "jsstr \<Rightarrow> jsstr \<Rightarrow> field_call list" where
  "FormInput_change field' text' = set_call field' (Str text') @ [Given_onChange (Str text')]"

definition FormTextArea_change :: "jsstr \<Rightarrow> jsstr \<Rightarrow> field_call list" where
  "FormTextArea_change field' text' = set_call field' (Str text') @ [Given_onChange (Str text')]"

definition FormInputNumber_change :: "jsstr \<Rightarrow> jsstr \<Rightarrow> field_call list" where
  "FormInputNumber_change field' text' = set_call field' (if text' = [] then Undef else Num (to_number text'))"

definition FormSwitch_click :: "jsstr \<Rightarrow> vals \<Rightarrow> field_call list" where
  "FormSwitch_click field' shown_values =
     set_call field' (Bool (\<not> truthy (nullish_else (own_prop (Obj shown_values) field') (Bool False))))"

definition FormCheckbox_change :: "jsstr \<Rightarrow> bool \<Rightarrow> field_call list" where
  "FormCheckbox_change field' checked = set_call field' (Bool checked) @ [Given_onChange (Bool checked)]"

definition FormRadioGroup_change :: "jsstr \<Rightarrow> jsval \<Rightarrow> field_call list" where
  "FormRadioGroup_change field' opt =
     set_call field' (case opt of Str s \<Rightarrow> Str s | _ \<Rightarrow> own_prop opt (js ''value''))"

definition FormAutoComplete_change :: "jsstr \<Rightarrow> jsstr \<Rightarrow> field_call list" where
  "FormAutoComplete_change field' text' = set_call field' (Str text')"

subsection \<open>Selects\<close>

record select_option =
  so_value :: jsval
  so_label :: jsval

definition select_one :: "select_option list \<Rightarrow> jsstr \<Rightarrow> jsstr \<Rightarrow> field_call list" where
  "select_one opts field' strVal =
     (let valueTypeMap = fold (\<lambda>opt. put (to_str (so_value opt)) (so_value opt)) opts [];
          v = (case get valueTypeMap strVal of None \<Rightarrow> Str strVal | Some typed \<Rightarrow> typed)
      in set_call field' v @ [Given_onChange v])"

definition selected_of :: "jsval \<Rightarrow> jsval list" where
  "selected_of rawValue = (case rawValue of Arr vs \<Rightarrow> vs | _ \<Rightarrow> if truthy rawValue then [rawValue] else [])"

definition updateValue :: "jsstr \<Rightarrow> jsval list \<Rightarrow> field_call list" where
  "updateValue field' newArr = set_call field' (Arr newArr) @ [Given_onChange (Arr newArr)]"

definition toggled_option :: "jsval list \<Rightarrow> jsval \<Rightarrow> jsval list" where
  "toggled_option selected optValue =
     (let v = Str (to_str optValue) in if v \<in> set selected then filter (\<lambda>w. w \<noteq> v) selected else selected @ [v])"

definition toggleOption :: "jsstr \<Rightarrow> jsval list \<Rightarrow> jsval \<Rightarrow> field_call list" where
  "toggleOption field' selected optValue = updateValue field' (toggled_option selected optValue)"

definition removeTag :: "jsstr \<Rightarrow> jsval list \<Rightarrow> jsval \<Rightarrow> field_call list" where
  "removeTag field' selected v = updateValue field' (filter (\<lambda>w. \<not> strict_eq w v) selected)"

definition filteredOptions :: "(jsstr \<Rightarrow> jsstr) \<Rightarrow> jsval \<Rightarrow> jsstr \<Rightarrow> select_option list \<Rightarrow> select_option list" where
  "filteredOptions lower flt searchVal opts =
     (if searchVal \<noteq> [] \<and> flt \<noteq> Bool False
      then filter (\<lambda>opt. str_includes (lower (to_str (js_or (so_label opt) (so_value opt)))) (lower searchVal)) opts
      else opts)"

datatype key_press = Enter | Backspace | Other_key

text \<open>The keys of the search box.  The second part is the new content of the box.\<close>

definition select_keyDown ::
    "(jsstr \<Rightarrow> jsstr) \<Rightarrow> jsval \<Rightarrow> bool \<Rightarrow> bool \<Rightarrow> select_option list \<Rightarrow> jsstr \<Rightarrow> jsval list \<Rightarrow> jsstr \<Rightarrow> key_press \<Rightarrow>
     field_call list \<times> jsstr" where
  "select_keyDown lower flt create autoClear opts field' selected searchVal key =
     (let trimmed = trim searchVal in
      if key = Enter \<and> trimmed \<noteq> [] then
        (if create then (if Str trimmed \<notin> set selected then updateValue field' (selected @ [Str trimmed]) else [])
         else (case find (\<lambda>opt. Str (to_str (so_value opt)) \<notin> set selected) (filteredOptions lower flt searchVal opts) of
             None \<Rightarrow> []
           | Some opt \<Rightarrow> toggleOption field' selected (so_value opt)),
         if autoClear then [] else searchVal)
      else if key = Backspace \<and> searchVal = [] \<and> selected \<noteq> [] then (updateValue field' (butlast selected), searchVal)
      else ([], searchVal))"

subsection \<open>Tags and files\<close>

definition addTag :: "jsstr \<Rightarrow> jsval list \<Rightarrow> jsstr \<Rightarrow> field_call list" where
  "addTag field' tags v =
     (let trimmed = trim v in
      if trimmed = [] \<or> Str trimmed \<in> set tags then [] else [Form_set field' (Arr (tags @ [Str trimmed]))])"

definition drop_nth :: "nat \<Rightarrow> 'a list \<Rightarrow> 'a list" where
  "drop_nth i xs = take i xs @ drop (Suc i) xs"

definition removeTagAt :: "jsstr \<Rightarrow> jsval list \<Rightarrow> nat \<Rightarrow> field_call list" where
  "removeTagAt field' tags i = [Form_set field' (Arr (drop_nth i tags))]"

definition file_item :: "jsstr \<Rightarrow> nat \<times> jsval \<Rightarrow> jsval" where
  "file_item now = (\<lambda>(i, file). Obj
     [(js ''uid'', Str (now @ [45] @ nat_str i @ [45] @ to_str (own_prop file (js ''name'')))), (js ''name'', own_prop file (js ''name'')),
      (js ''size'', own_prop file (js ''size'')), (js ''status'', Str (js ''success'')), (js ''fileInstance'', file)])"

text \<open>The new list of files, with whether the component keeps it itself.\<close>

definition processFiles :: "jsstr \<Rightarrow> bool \<Rightarrow> jsstr \<Rightarrow> jsval list \<Rightarrow> jsval list \<Rightarrow> jsval list \<times> field_call list" where
  "processFiles now multiple field' fileList nativeFiles =
     (let items = map (file_item now) (List.enumerate 0 nativeFiles);
          newList = (if multiple then fileList @ items else drop (length items - 1) items)
      in (newList, set_call field' (Arr newList) @
          [Given_onChange (Obj [(js ''fileList'', Arr newList), (js ''currentFile'', if items = [] then Undef else List.last items)])]))"

definition removeFile :: "jsstr \<Rightarrow> jsval list \<Rightarrow> jsval \<Rightarrow> jsval list \<times> field_call list" where
  "removeFile field' fileList uid =
     (let newList = filter (\<lambda>f. \<not> strict_eq (own_prop f (js ''uid'')) uid) fileList
      in (newList, set_call field' (Arr newList) @ [Given_onChange (Obj [(js ''fileList'', Arr newList), (js ''currentFile'', Null)])]))"

section \<open>What the controls guarantee\<close>

text \<open>Choosing an option of a select gives back its value with its type, when no two options have the same text.\<close>

theorem select_recovers_type:
  assumes "distinct (map (to_str \<circ> so_value) opts)" "opt \<in> set opts" "field' \<noteq> []"
  shows "select_one opts field' (to_str (so_value opt)) = [Form_set field' (so_value opt), Given_onChange (so_value opt)]"
proof -
  have "get (fold (\<lambda>opt. put (to_str (so_value opt)) (so_value opt)) opts m) (to_str (so_value opt)) = Some (so_value opt)" for m
    using assms(1,2)
  proof (induction opts arbitrary: m)
    case (Cons opt1 os)
    have "get (fold (\<lambda>opt. put (to_str (so_value opt)) (so_value opt)) os m) k = get m k" if "k \<notin> (to_str \<circ> so_value) ` set os" for k m
      using that by (induction os arbitrary: m) (auto simp: js_store)
    then show ?case using Cons by (cases "opt = opt1") (auto simp: js_store)
  qed simp
  then show ?thesis using assms(3) by (simp add: select_one_def set_call_def Let_def)
qed

theorem select_recovers_type_witness:
  "select_one [\<lparr>so_value = Bool True, so_label = Undef\<rparr>, \<lparr>so_value = Num NaN, so_label = Undef\<rparr>] (js ''f'') (js ''true'') =
     [Form_set (js ''f'') (Bool True), Given_onChange (Bool True)]"
  using select_recovers_type [of "[\<lparr>so_value = Bool True, so_label = Undef\<rparr>, \<lparr>so_value = Num NaN, so_label = Undef\<rparr>]"
      "\<lparr>so_value = Bool True, so_label = Undef\<rparr>" "js ''f''"] by (simp add: js_def)

text \<open>Toggling an option twice restores the selection when it was selected at most once; selected values that are no
  texts are never matched, so an option with a number is added again as a text.\<close>

lemma toggle_twice: "Str (to_str v) \<notin> set selected \<Longrightarrow> toggled_option (toggled_option selected v) v = selected"
  by (auto simp: toggled_option_def Let_def filter_id_conv)

lemma toggle_number: "\<forall>w \<in> set selected. \<exists>x. w = Num x \<Longrightarrow> toggled_option selected (Num x) = selected @ [Str (num_str x)]"
  by (auto simp: toggled_option_def Let_def)

lemma tags_stay_distinct: "distinct tags \<Longrightarrow> Form_set f (Arr tags') \<in> set (addTag field' tags v) \<Longrightarrow> distinct tags'"
  by (auto simp: addTag_def Let_def split: if_splits)

text \<open>Switches, number inputs, radio groups and completions never call the handler they are given.\<close>

lemma silent_controls:
  "Given_onChange v \<notin> set (FormSwitch_click field' vs)" "Given_onChange v \<notin> set (FormInputNumber_change field' text')"
  "Given_onChange v \<notin> set (FormRadioGroup_change field' opt)" "Given_onChange v \<notin> set (FormAutoComplete_change field' text')"
  by (auto simp: FormSwitch_click_def FormInputNumber_change_def FormRadioGroup_change_def FormAutoComplete_change_def set_call_def)

end
