(* ===== verification/Channel_Form.thy ===== *)
theory Channel_Form
  imports Channel_Submit Compat_Form
begin

text \<open>
  The channel form, \<open>components/table/channels/modals/EditChannelModal.jsx\<close>: its state, the handlers that change it,
  loading a channel, the effects and the derived values.  A handler that reads the values of the rendering it
  was created in takes them as an argument of their own.
\<close>

section \<open>State\<close>

definition num_val' :: "nat \<Rightarrow> jsval" where
  "num_val' n = Num (Fin False (of_nat n))"

definition strs :: "string list \<Rightarrow> jsval" where
  "strs ss = Arr (map (Str \<circ> js) ss)"

definition originInputs :: inputs where
  "originInputs =
     [(js ''name'', Str []), (js ''type'', num_val' 1), (js ''key'', Str []), (js ''openai_organization'', Str []), (js ''max_input_tokens'', num_val' 0),
      (js ''base_url'', Str []), (js ''other'', Str []), (js ''model_mapping'', Str []), (js ''param_override'', Str []),
      (js ''status_code_mapping'', Str []), (js ''models'', Arr []), (js ''auto_ban'', num_val' 1), (js ''auto_verify'', num_val' 0),
      (js ''verify_model'', Str []), (js ''test_model'', Str []), (js ''groups'', strs [''default'']), (js ''priority'', num_val' 0),
      (js ''weight'', num_val' 0), (js ''tag'', Str []), (js ''multi_key_mode'', Str (js ''random'')), (js ''force_format'', Bool False),
      (js ''thinking_to_content'', Bool False), (js ''proxy'', Str []), (js ''pass_through_body_enabled'', Bool False),
      (js ''system_prompt'', Str []), (js ''system_prompt_override'', Bool False), (js ''settings'', Str []),
      (js ''vertex_key_type'', Str (js ''json'')), (js ''aws_key_type'', Str (js ''ak_sk'')), (js ''is_enterprise_account'', Bool False),
      (js ''allow_service_tier'', Bool False), (js ''disable_store'', Bool False), (js ''allow_safety_identifier'', Bool False),
      (js ''allow_include_obfuscation'', Bool False), (js ''allow_inference_geo'', Bool False), (js ''claude_beta_query'', Bool False),
      (js ''upstream_model_update_check_enabled'', Bool False), (js ''upstream_model_update_auto_sync_enabled'', Bool False),
      (js ''upstream_model_update_last_check_time'', num_val' 0), (js ''upstream_model_update_last_detected_models'', Arr []),
      (js ''upstream_model_update_ignored_models'', Str [])]"

text \<open>\<open>cf_confirm\<close> is the value of a base URL that waits for a confirmation.\<close>

record channel_form =
  cf_isEdit :: bool
  cf_inputs :: inputs
  cf_form :: form
  cf_loading :: bool
  cf_batch :: bool
  cf_multiToSingle :: bool
  cf_multiKeyMode :: jsval
  cf_autoBan :: bool
  cf_isMultiKeyChannel :: bool
  cf_keyMode :: jsval
  cf_useManualInput :: bool
  cf_vertexKeys :: "jsval list"
  cf_vertexFileList :: "jsval list"
  cf_isEnterpriseAccount :: jsval
  cf_basicModels :: jsval
  cf_channelSettings :: inputs
  cf_initialModels :: "jsstr list"
  cf_initialModelMapping :: jsval
  cf_initialStatusCodeMapping :: jsval
  cf_isIonet :: bool
  cf_ionetMetadata :: jsval
  cf_modelOptions :: "jsval list"
  cf_customModel :: jsstr
  cf_fetchedModels :: "jsval list"
  cf_modelModalVisible :: bool
  cf_doubaoUnlocked :: bool
  cf_clicks :: nat
  cf_section :: nat
  cf_confirm :: "jsval option"

definition cf_put :: "jsstr \<Rightarrow> jsval \<Rightarrow> channel_form \<Rightarrow> channel_form" where
  "cf_put name v st = st\<lparr>cf_inputs := put name v (cf_inputs st)\<rparr>"

definition form_put :: "jsstr \<Rightarrow> jsval \<Rightarrow> channel_form \<Rightarrow> channel_form" where
  "form_put name v st = st\<lparr>cf_form := setValue name v (cf_form st)\<rparr>"

section \<open>Changing an input\<close>

definition mj_models :: jsval where
  "mj_models = strs [''mj_imagine'', ''mj_variation'', ''mj_reroll'', ''mj_blend'', ''mj_upscale'', ''mj_describe'', ''mj_uploads'']"

definition mj_plus_models :: jsval where
  "mj_plus_models = strs [''swap_face'', ''mj_imagine'', ''mj_video'', ''mj_edits'', ''mj_variation'', ''mj_reroll'', ''mj_blend'', ''mj_upscale'',
     ''mj_describe'', ''mj_zoom'', ''mj_shorten'', ''mj_modal'', ''mj_inpaint'', ''mj_custom_zoom'', ''mj_high_variation'', ''mj_low_variation'',
     ''mj_pan'', ''mj_uploads'']"

definition local_models :: "(jsval \<Rightarrow> jsval) \<Rightarrow> jsval \<Rightarrow> jsval" where
  "local_models channelModels v =
     (if strict_eq v (num_val' 2) then mj_models else if strict_eq v (num_val' 5) then mj_plus_models
      else if strict_eq v (num_val' 36) then strs [''suno_music'', ''suno_lyrics''] else channelModels v)"

definition no_models :: "inputs \<Rightarrow> js_error + bool" where
  "no_models inputs =
     (case inputs_prop inputs ''models'' of
        Arr ms \<Rightarrow> Inr (ms = []) | Str s \<Rightarrow> Inr (s = []) | Undef \<Rightarrow> Inl TypeError | Null \<Rightarrow> Inl TypeError | _ \<Rightarrow> Inr False)"

text \<open>What a new type resets.\<close>

definition change_type :: "(jsval \<Rightarrow> jsval) \<Rightarrow> inputs \<Rightarrow> jsval \<Rightarrow> channel_form \<Rightarrow> channel_form \<times> js_error option" where
  "change_type channelModels inputs v st =
     (let models = local_models channelModels v;
          st1 = (if strict_eq v (num_val' 45) then cf_put (js ''base_url'') (Str (js ''https://ark.cn-beijing.volces.com'')) st else st)
      in case no_models inputs of
           Inl e \<Rightarrow> (st1, Some e)
         | Inr none \<Rightarrow>
             (let st2 = (if none then cf_put (js ''models'') models st1 else st1)\<lparr>cf_basicModels := models, cf_useManualInput := False\<rparr>
              in (if strict_eq v (num_val' 57)
                  then cf_put (js ''vertex_files'') (Arr []) (form_put (js ''vertex_files'') (Arr [])
                    (st2\<lparr>cf_batch := False, cf_multiToSingle := False, cf_multiKeyMode := Str (js ''random''), cf_vertexKeys := [],
                         cf_vertexFileList := []\<rparr>))
                  else st2, None)))"

fun trim_all :: "jsval list \<Rightarrow> js_error + jsstr list" where
  "trim_all [] = Inr []"
| "trim_all (m # ms) = and_then (trim_or_empty m) (\<lambda>s. and_then (trim_all ms) (\<lambda>ss. Inr (s # ss)))"

definition stored_value :: "jsstr \<Rightarrow> jsval \<Rightarrow> js_error + jsval" where
  "stored_value name v =
     (case v of
        Arr ms \<Rightarrow> if name = js ''models'' then and_then (trim_all ms) (\<lambda>ss. Inr (str_list (nub ss))) else Inr v
      | _ \<Rightarrow> Inr v)"

definition is_str :: "jsval \<Rightarrow> bool" where
  "is_str v = (case v of Str _ \<Rightarrow> True | _ \<Rightarrow> False)"

definition handleInputChange ::
    "(jsval \<Rightarrow> jsval) \<Rightarrow> inputs \<Rightarrow> jsstr \<Rightarrow> jsval \<Rightarrow> channel_form \<Rightarrow> channel_form \<times> js_error option" where
  "handleInputChange channelModels inputs name v0 st =
     (if cf_isIonet st \<and> cf_isEdit st \<and> name \<in> {js ''type'', js ''key'', js ''base_url''} then (st, None)
      else let st1 = form_put name v0 st in
        case stored_value name v0 of
          Inl e \<Rightarrow> (st1, Some e)
        | Inr v \<Rightarrow>
            if name = js ''base_url'' \<and> \<not> is_str v then (st1, Some TypeError)
            else if name = js ''base_url'' \<and> ends_with (to_str v) (js ''/v1'') then (st1\<lparr>cf_confirm := Some v\<rparr>, None)
            else if name = js ''type'' then change_type channelModels inputs v (cf_put name v st1)
            else (cf_put name v st1, None))"

definition confirm_base_url :: "channel_form \<Rightarrow> channel_form" where
  "confirm_base_url st =
     (case cf_confirm st of None \<Rightarrow> st | Some v \<Rightarrow> cf_put (js ''base_url'') v (st\<lparr>cf_confirm := None\<rparr>))"

text \<open>The effect on \<open>inputs\<close> writes all of them into the form.\<close>

definition inputs_effect :: "channel_form \<Rightarrow> channel_form" where
  "inputs_effect st = st\<lparr>cf_form := setValues (cf_inputs st) (cf_form st)\<rparr>"

section \<open>Settings, JSON fields and templates\<close>

definition handleChannelSettingsChange :: "(jsval \<Rightarrow> jsval) \<Rightarrow> jsstr \<Rightarrow> jsval \<Rightarrow> channel_form \<Rightarrow> channel_form \<times> js_error option" where
  "handleChannelSettingsChange channelModels key v st =
     (let newSettings = put key v (cf_channelSettings st);
          st1 = cf_put key v (form_put key v (st\<lparr>cf_channelSettings := newSettings\<rparr>))
      in handleInputChange channelModels (cf_inputs st) (js ''setting'') (stringify (Obj newSettings)) st1)"

definition saved_settings :: "inputs \<Rightarrow> jsval" where
  "saved_settings inputs =
     (let saved = inputs_prop inputs ''settings'' in
      if truthy saved then (case json_parse (to_str saved) of None \<Rightarrow> Obj [] | Some v \<Rightarrow> v) else Obj [])"

definition handleChannelOtherSettingsChange :: "(jsval \<Rightarrow> jsval) \<Rightarrow> jsstr \<Rightarrow> jsval \<Rightarrow> channel_form \<Rightarrow> channel_form \<times> js_error option" where
  "handleChannelOtherSettingsChange channelModels key v st =
     (let st1 = cf_put key v (form_put key v (st\<lparr>cf_channelSettings := put key v (cf_channelSettings st)\<rparr>)) in
      case saved_settings (cf_inputs st) of
        Obj kvs \<Rightarrow> handleInputChange channelModels (cf_inputs st) (js ''settings'') (stringify (Obj (put key v kvs))) st1
      | Arr xs \<Rightarrow> handleInputChange channelModels (cf_inputs st) (js ''settings'') (stringify (Arr xs)) st1
      | _ \<Rightarrow> (st1, Some TypeError))"

definition txt_json_error :: jsstr where "txt_json_error = [74, 83, 79, 78, 26684, 24335, 38169, 35823]"

definition two_spaces :: jsstr where "two_spaces = [32, 32]"

text \<open>\<open>formatJsonField\<close>: \<open>message\<close> is the text of a syntax error.\<close>

definition formatJsonField ::
    "translate \<Rightarrow> (jsstr \<Rightarrow> jsstr) \<Rightarrow> (jsval \<Rightarrow> jsval) \<Rightarrow> inputs \<Rightarrow> jsstr \<Rightarrow> channel_form \<Rightarrow> channel_form \<times> js_error option \<times> toast list" where
  "formatJsonField t message channelModels inputs fieldName st =
     (case nullish_else (own_prop (Obj inputs) fieldName) (Str []) of
        Str s \<Rightarrow>
          if trim s = [] then (st, None, [])
          else (case json_parse (trim s) of
              None \<Rightarrow> (st, None, [ShowError (t txt_json_error [] @ js '': '' @ message (trim s))])
            | Some v \<Rightarrow>
                (let (st', e) = handleInputChange channelModels inputs fieldName (Str (json_ser two_spaces [] v)) st in (st', e, [])))
      | _ \<Rightarrow> (st, Some TypeError, []))"

text \<open>Both calls see the inputs of the same rendering.\<close>

definition handleCodexOAuthGenerated ::
    "translate \<Rightarrow> (jsstr \<Rightarrow> jsstr) \<Rightarrow> (jsval \<Rightarrow> jsval) \<Rightarrow> jsval \<Rightarrow> channel_form \<Rightarrow> channel_form \<times> js_error option \<times> toast list" where
  "handleCodexOAuthGenerated t message channelModels key st =
     (let inputs = cf_inputs st; (st1, e) = handleInputChange channelModels inputs (js ''key'') key st in
      case e of Some err \<Rightarrow> (st1, Some err, []) | None \<Rightarrow> formatJsonField t message channelModels inputs (js ''key'') st1)"

definition PARAM_OVERRIDE_LEGACY_TEMPLATE :: jsval where
  "PARAM_OVERRIDE_LEGACY_TEMPLATE = Obj [(js ''temperature'', num_val' 0)]"

definition PARAM_OVERRIDE_OPERATIONS_TEMPLATE :: "jsval list" where
  "PARAM_OVERRIDE_OPERATIONS_TEMPLATE =
     [Obj [(js ''path'', Str (js ''temperature'')), (js ''mode'', Str (js ''set'')), (js ''value'', Num (mk_num False (7 / 10))),
       (js ''conditions'', Arr [Obj [(js ''path'', Str (js ''model'')), (js ''mode'', Str (js ''prefix'')), (js ''value'', Str (js ''openai/''))]]),
       (js ''logic'', Str (js ''AND''))]]"

definition raw_override :: "inputs \<Rightarrow> jsstr" where
  "raw_override inputs = (case inputs_prop inputs ''param_override'' of Str s \<Rightarrow> trim s | _ \<Rightarrow> [])"

definition txt_not_json :: jsstr where "txt_not_json = [24403, 21069, 21442, 25968, 35206, 30422, 19981, 26159, 21512, 27861, 30340, 32, 74,
     83, 79, 78]"

definition parseParamOverrideInput :: "translate \<Rightarrow> inputs \<Rightarrow> jsstr + jsval" where
  "parseParamOverrideInput t inputs =
     (let raw = raw_override inputs in
      if raw = [] then Inr Null
      else (case json_parse raw of None \<Rightarrow> Inl (t txt_not_json []) | Some v \<Rightarrow> Inr v))"

datatype template_type = Legacy | Operations
datatype apply_mode = Fill | Append

definition template_value :: "template_type \<Rightarrow> apply_mode \<Rightarrow> jsval \<Rightarrow> jsval" where
  "template_value templateType applyMode parsedCurrent =
     (let operations = own_prop parsedCurrent (js ''operations''); isObj = plain_object parsedCurrent in
      case templateType of
        Legacy \<Rightarrow>
          if applyMode = Fill then PARAM_OVERRIDE_LEGACY_TEMPLATE
          else Obj (spread_over (spread_over [] PARAM_OVERRIDE_LEGACY_TEMPLATE) (if isObj \<and> \<not> is_array operations then parsedCurrent else Obj []))
      | Operations \<Rightarrow>
          if applyMode = Fill then Obj [(js ''operations'', Arr PARAM_OVERRIDE_OPERATIONS_TEMPLATE)]
          else Obj [(js ''operations'', Arr ((case operations of Arr xs \<Rightarrow> if isObj then xs else [] | _ \<Rightarrow> []) @ PARAM_OVERRIDE_OPERATIONS_TEMPLATE))])"

definition txt_template_failed :: jsstr where "txt_template_failed = [27169, 26495, 24212, 29992, 22833, 36133]"

definition applyParamOverrideTemplate ::
    "translate \<Rightarrow> (jsval \<Rightarrow> jsval) \<Rightarrow> template_type \<Rightarrow> apply_mode \<Rightarrow> channel_form \<Rightarrow> channel_form \<times> toast list" where
  "applyParamOverrideTemplate t channelModels templateType applyMode st =
     (case parseParamOverrideInput t (cf_inputs st) of
        Inl message \<Rightarrow> (st, [ShowError (if message = [] then t txt_template_failed [] else message)])
      | Inr parsedCurrent \<Rightarrow>
          (fst (handleInputChange channelModels (cf_inputs st) (js ''param_override'')
             (Str (json_ser two_spaces [] (template_value templateType applyMode parsedCurrent))) st), []))"

definition clearParamOverride :: "(jsval \<Rightarrow> jsval) \<Rightarrow> channel_form \<Rightarrow> channel_form" where
  "clearParamOverride channelModels st = fst (handleInputChange channelModels (cf_inputs st) (js ''param_override'') (Str []) st)"

section \<open>Loading a channel\<close>

text \<open>The fields kept in \<open>setting\<close> and in \<open>settings\<close>, with their defaults.\<close>

definition extra_fields :: "(string \<times> jsval) list" where
  "extra_fields = [(''force_format'', Bool False), (''thinking_to_content'', Bool False), (''proxy'', Str []),
     (''pass_through_body_enabled'', Bool False), (''system_prompt'', Str []), (''system_prompt_override'', Bool False)]"

definition put_all :: "(string \<times> jsval) list \<Rightarrow> inputs \<Rightarrow> inputs" where
  "put_all kvs = fold (\<lambda>(k, v). put (js k) v) kvs"

text \<open>An object to read the properties from: what \<open>JSON.parse\<close> gives, or \<open>None\<close> when parsing or reading throws.\<close>

definition parsed_object :: "jsval \<Rightarrow> jsval option" where
  "parsed_object v = (case json_parse (to_str v) of None \<Rightarrow> None | Some p \<Rightarrow> if nullish p then None else Some p)"

definition load_setting :: "inputs \<Rightarrow> inputs" where
  "load_setting d =
     (let saved = inputs_prop d ''setting'' in
      case (if truthy saved then parsed_object saved else None) of
        None \<Rightarrow> put_all extra_fields d
      | Some p \<Rightarrow> put_all (map (\<lambda>(k, dflt). (k, js_or (own_prop p (js k)) dflt)) extra_fields) d)"

definition or_zero :: "jsnum \<Rightarrow> jsval" where
  "or_zero x = js_or (Num x) (num_val' 0)"

definition settings_values :: "jsval \<Rightarrow> (string \<times> jsval) list" where
  "settings_values p =
     (let field' = (\<lambda>k. own_prop p (js k)); flag = (\<lambda>k. (k, js_or (field' k) (Bool False)));
          is_true = (\<lambda>k. Bool (field' k = Bool True));
          ignored = field' ''upstream_model_update_ignored_models''; detected = field' ''upstream_model_update_last_detected_models''
      in [(''azure_responses_version'', js_or (field' ''azure_responses_version'') (Str [])),
          (''vertex_key_type'', js_or (field' ''vertex_key_type'') (Str (js ''json''))),
          (''aws_key_type'', js_or (field' ''aws_key_type'') (Str (js ''ak_sk''))),
          (''is_enterprise_account'', is_true ''openrouter_enterprise''), flag ''allow_service_tier'', flag ''disable_store'',
          flag ''allow_safety_identifier'', flag ''allow_include_obfuscation'', flag ''allow_inference_geo'', flag ''claude_beta_query'',
          (''upstream_model_update_check_enabled'', is_true ''upstream_model_update_check_enabled''),
          (''upstream_model_update_auto_sync_enabled'', is_true ''upstream_model_update_auto_sync_enabled''),
          (''upstream_model_update_last_check_time'', or_zero (to_num (field' ''upstream_model_update_last_check_time''))),
          (''upstream_model_update_last_detected_models'', if is_array detected then detected else Arr []),
          (''upstream_model_update_ignored_models'', Str (if is_array ignored then to_str ignored else []))])"

definition settings_defaults :: "(string \<times> jsval) list" where
  "settings_defaults =
     [(''vertex_key_type'', Str (js ''json'')), (''aws_key_type'', Str (js ''ak_sk'')), (''is_enterprise_account'', Bool False),
      (''allow_service_tier'', Bool False), (''disable_store'', Bool False), (''allow_safety_identifier'', Bool False),
      (''allow_include_obfuscation'', Bool False), (''allow_inference_geo'', Bool False), (''claude_beta_query'', Bool False),
      (''upstream_model_update_check_enabled'', Bool False), (''upstream_model_update_auto_sync_enabled'', Bool False),
      (''upstream_model_update_last_check_time'', num_val' 0), (''upstream_model_update_last_detected_models'', Arr []),
      (''upstream_model_update_ignored_models'', Str [])]"

definition load_settings :: "inputs \<Rightarrow> inputs" where
  "load_settings d =
     (let saved = inputs_prop d ''settings'' in
      if \<not> truthy saved then put_all settings_defaults d
      else (case parsed_object saved of
          None \<Rightarrow> put_all ([(''azure_responses_version'', Str []), (''region'', Str [])] @ settings_defaults) d
        | Some p \<Rightarrow> put_all (settings_values p) d))"

definition split_list :: "jsval \<Rightarrow> js_error + jsval" where
  "split_list v = (case v of Str s \<Rightarrow> Inr (if s = [] then Arr [] else str_list (split_on 44 s)) | _ \<Rightarrow> Inl TypeError)"

definition load_mapping :: "jsval \<Rightarrow> js_error + jsval" where
  "load_mapping v =
     (if v = Str [] then Inr v
      else (case json_parse (to_str v) of None \<Rightarrow> Inl SyntaxError | Some p \<Rightarrow> Inr (Str (json_ser two_spaces [] p))))"

definition is_multi_key :: "inputs \<Rightarrow> bool" where
  "is_multi_key d \<longleftrightarrow> own_prop (js_or (inputs_prop d ''channel_info'') (Obj [])) (js ''is_multi_key'') = Bool True"

definition multi_mode :: "inputs \<Rightarrow> jsval" where
  "multi_mode d = js_or (own_prop (js_or (inputs_prop d ''channel_info'') (Obj [])) (js ''multi_key_mode'')) (Str (js ''random''))"

definition load_base_url :: "inputs \<Rightarrow> inputs" where
  "load_base_url d =
     (let url = inputs_prop d ''base_url'' in
      if is_type 45 d \<and> (\<not> truthy url \<or> (case url of Str s \<Rightarrow> trim s = [] | _ \<Rightarrow> False))
      then put (js ''base_url'') (Str (js ''https://ark.cn-beijing.volces.com'')) d else d)"

text \<open>The changes to the answer before it becomes the inputs; they may throw, and then nothing is set.\<close>

definition loaded_data :: "inputs \<Rightarrow> js_error + inputs" where
  "loaded_data d =
     and_then (split_list (inputs_prop d ''models'')) (\<lambda>models. let d1 = put (js ''models'') models d in
     and_then (split_list (inputs_prop d1 ''group'')) (\<lambda>groups. let d2 = put (js ''groups'') groups d1 in
     and_then (load_mapping (inputs_prop d2 ''model_mapping'')) (\<lambda>mapping.
       let d3 = put (js ''model_mapping'') mapping d2; d4 = (if is_multi_key d3 then put (js ''multi_key_mode'') (multi_mode d3) d3 else d3)
       in Inr (load_base_url (load_settings (load_setting d4))))))"

definition ionet_meta :: "inputs \<Rightarrow> jsval" where
  "ionet_meta d =
     (let info' = inputs_prop d ''other_info'' in
      if \<not> truthy info' then Null
      else (case json_parse (to_str info') of
          None \<Rightarrow> Null
        | Some v \<Rightarrow> if is_object_type v \<and> truthy v \<and> own_prop v (js ''source'') = Str (js ''ionet'') then v else Null))"

definition show_channel :: "(jsval \<Rightarrow> jsval) \<Rightarrow> inputs \<Rightarrow> channel_form \<Rightarrow> channel_form" where
  "show_channel channelModels d st =
     (let multi = is_multi_key d in
      st\<lparr>cf_isMultiKeyChannel := multi, cf_batch := multi, cf_multiToSingle := multi,
         cf_multiKeyMode := if multi then multi_mode d else cf_multiKeyMode st,
         cf_inputs := d, cf_form := setValues d (cf_form st), cf_autoBan := \<not> strict_eq (inputs_prop d ''auto_ban'') (num_val' 0),
         cf_isEnterpriseAccount := js_or (inputs_prop d ''is_enterprise_account'') (Bool False),
         cf_basicModels := channelModels (inputs_prop d ''type''),
         cf_channelSettings := map (\<lambda>(k, _). (js k, if k = ''system_prompt_override'' then js_or (inputs_prop d k) (Bool False) else inputs_prop d k)) extra_fields,
         cf_initialModels := (case inputs_prop d ''models'' of Arr ms \<Rightarrow> filter (\<lambda>m. m \<noteq> []) (map (\<lambda>m. trim (to_str m)) ms) | _ \<Rightarrow> []),
         cf_initialModelMapping := js_or (inputs_prop d ''model_mapping'') (Str []),
         cf_initialStatusCodeMapping := js_or (inputs_prop d ''status_code_mapping'') (Str []),
         cf_isIonet := (ionet_meta d \<noteq> Null), cf_ionetMetadata := ionet_meta d\<rparr>)"

text \<open>After the answer to the request; a thrown error leaves the form loading.\<close>

definition loadChannel :: "(jsval \<Rightarrow> jsval) \<Rightarrow> jsval \<Rightarrow> channel_form \<Rightarrow> channel_form \<times> js_error option \<times> toast list" where
  "loadChannel channelModels res st =
     (let st1 = st\<lparr>cf_loading := True\<rparr>; body = body_of res in
      if res = Undef then (st1, None, [])
      else if nullish body then (st1, Some TypeError, [])
      else if \<not> succeeded res then (st1\<lparr>cf_loading := False\<rparr>, None, [ShowError (to_str (own_prop body (js ''message'')))])
      else (case own_prop body (js ''data'') of
          Obj d \<Rightarrow>
            (case loaded_data d of
               Inl e \<Rightarrow> (st1, Some e, [])
             | Inr d' \<Rightarrow> ((show_channel channelModels d' st1)\<lparr>cf_loading := False\<rparr>, None, []))
        | _ \<Rightarrow> (st1, Some TypeError, [])))"

section \<open>Models from the upstream\<close>

text \<open>The request, or \<open>None\<close> when a new channel has no key.\<close>

definition fetch_request :: "jsstr \<Rightarrow> channel_form \<Rightarrow> request option" where
  "fetch_request channelId st =
     (if cf_isEdit st then Some (Get_req (js ''/api/channel/fetch_models/'' @ channelId) Undef)
      else if \<not> truthy (inputs_prop (cf_inputs st) ''key'') then None
      else Some (Post_req (js ''/api/channel/fetch_models'')
        (Obj [(js ''base_url'', inputs_prop (cf_inputs st) ''base_url''), (js ''type'', inputs_prop (cf_inputs st) ''type''),
              (js ''key'', inputs_prop (cf_inputs st) ''key'')])))"

definition txt_fill_key :: jsstr where "txt_fill_key = [35831, 22635, 20889, 23494, 38053]"
definition txt_fetch_failed :: jsstr where "txt_fetch_failed = [33719, 21462, 27169, 22411, 21015, 34920, 22833, 36133]"

text \<open>After the request: \<open>answer\<close> is \<open>None\<close> when none was sent, and an error when it was rejected.  A rejected request for
  an existing channel, and models that cannot be spread, are thrown: the form stays loading.\<close>

definition fetched :: "jsval \<Rightarrow> js_error + jsval list option" where
  "fetched res =
     (if truthy res \<and> truthy (body_of res) \<and> succeeded res
      then (case own_prop (body_of res) (js ''data'') of Arr ms \<Rightarrow> Inr (Some ms) | Str s \<Rightarrow> Inr (Some (map (\<lambda>c. Str [c]) s)) | _ \<Rightarrow> Inl TypeError)
      else Inr None)"

definition fetchUpstreamModelList ::
    "translate \<Rightarrow> bool \<Rightarrow> (jsval + jsval) option \<Rightarrow> channel_form \<Rightarrow> channel_form \<times> jsval list option \<times> toast list \<times> bool" where
  "fetchUpstreamModelList t silent answer st =
     (let st1 = st\<lparr>cf_loading := True\<rparr>; st2 = st\<lparr>cf_loading := False\<rparr>;
          failed = (\<lambda>toasts. (st2, None, toasts @ [ShowError (t txt_fetch_failed [])], False))
      in case answer of
           None \<Rightarrow> failed [ShowError (t txt_fill_key [])]
         | Some (Inl err) \<Rightarrow> if cf_isEdit st then (st1, None, [], True) else failed []
         | Some (Inr res) \<Rightarrow>
             (case fetched res of
                Inl e \<Rightarrow> if cf_isEdit st then (st1, None, [], True) else failed []
              | Inr None \<Rightarrow> failed []
              | Inr (Some ms) \<Rightarrow>
                  (let uniqueModels = nub ms in
                   (st2\<lparr>cf_fetchedModels := uniqueModels, cf_modelModalVisible := if silent then cf_modelModalVisible st else True\<rparr>,
                    Some uniqueModels, [], False))))"

definition MODEL_FETCHABLE_CHANNEL_TYPES :: "nat list" where
  "MODEL_FETCHABLE_CHANNEL_TYPES = [1, 4, 14, 34, 17, 26, 27, 24, 47, 25, 20, 23, 31, 40, 42, 48, 43]"

definition txt_no_models :: jsstr where "txt_no_models = [26242, 26080, 27169, 22411]"

text \<open>The dialog for the value of a mapping: its models, the key and the selected value.  \<open>fetch\<close> is what fetching
  the models would give.\<close>

definition openModelMappingValueModal ::
    "translate \<Rightarrow> jsval list option \<Rightarrow> jsval \<Rightarrow> jsval \<Rightarrow> channel_form \<Rightarrow> (jsstr list \<times> jsstr \<times> jsstr) option \<times> toast list" where
  "openModelMappingValueModal t fetch pairKey v st =
     (let mappingKey = trim (str_nullish pairKey) in
      if mappingKey = [] \<or> \<not> (\<exists>n \<in> set MODEL_FETCHABLE_CHANNEL_TYPES. is_type n (cf_inputs st)) then (None, [])
      else let modelsToUse = (if cf_fetchedModels st = [] then (case fetch of None \<Rightarrow> [] | Some ms \<Rightarrow> ms) else cf_fetchedModels st);
             models = nub (filter (\<lambda>m. m \<noteq> []) (map (\<lambda>m. trim (str_nullish m)) modelsToUse)); current = trim (str_nullish v)
        in if modelsToUse = [] then (None, [ShowInfo (t txt_no_models [])])
           else (Some (models, mappingKey, if current \<in> set models then current else []), []))"

section \<open>Keys and models typed by hand\<close>

definition txt_key_first :: jsstr where "txt_key_first = [35831, 20808, 36755, 20837, 23494, 38053]"
definition txt_dedup_done :: jsstr where "txt_dedup_done = [21435, 37325, 23436, 25104, 65306, 21435, 37325, 21069, 32, 123, 123, 98, 101, 102,
     111, 114, 101, 125, 125, 32, 20010, 23494, 38053, 65292, 21435, 37325, 21518, 32,
     123, 123, 97, 102, 116, 101, 114, 125, 125, 32, 20010, 23494, 38053]"
definition txt_no_duplicates :: jsstr where "txt_no_duplicates = [26410, 21457, 29616, 37325, 22797, 23494, 38053]"

definition unique_lines :: "jsstr \<Rightarrow> jsstr list" where
  "unique_lines text' = nub (filter (\<lambda>l. l \<noteq> []) (map trim (split_on 10 text')))"

definition deduplicateKeys ::
    "translate \<Rightarrow> (jsval \<Rightarrow> jsval) \<Rightarrow> channel_form \<Rightarrow> channel_form \<times> js_error option \<times> toast list" where
  "deduplicateKeys t channelModels st =
     (case js_or (js_or (getValue (cf_form st) (js ''key'')) (inputs_prop (cf_inputs st) ''key'')) (Str []) of
        Str currentKey \<Rightarrow>
          if trim currentKey = [] then (st, None, [ShowInfo (t txt_key_first [])])
          else
            (let before' = length (split_on 10 currentKey); keys' = unique_lines currentKey; text' = Str (join [10] keys');
                 (st1, e) = handleInputChange channelModels (cf_inputs st) (js ''key'') text' (form_put (js ''key'') text' st)
             in (st1, e, if before' = length keys' then [ShowInfo (t txt_no_duplicates [])]
                  else [ShowSuccess (t txt_dedup_done [(js ''before'', num_val' before'), (js ''after'', num_val' (length keys'))])]))
      | _ \<Rightarrow> (st, Some TypeError, []))"

definition txt_models_added :: jsstr where "txt_models_added = [24050, 26032, 22686, 32, 123, 123, 99, 111, 117, 110, 116, 125, 125, 32, 20010, 27169,
     22411, 65306, 123, 123, 108, 105, 115, 116, 125, 125]"
definition txt_no_new_models :: jsstr where "txt_no_new_models = [26410, 21457, 29616, 26032, 22686, 27169, 22411]"

text \<open>The names that are added, in order.\<close>

fun new_names :: "jsval list \<Rightarrow> jsstr list \<Rightarrow> jsstr list" where
  "new_names have [] = []"
| "new_names have (m # ms) = (if m \<noteq> [] \<and> Str m \<notin> set have then m # new_names (have @ [Str m]) ms else new_names have ms)"

definition model_option :: "jsstr \<Rightarrow> jsval" where
  "model_option m = Obj [(js ''key'', Str m), (js ''label'', Str m), (js ''value'', Str m)]"

definition addCustomModels :: "translate \<Rightarrow> (jsval \<Rightarrow> jsval) \<Rightarrow> channel_form \<Rightarrow> channel_form \<times> js_error option \<times> toast list" where
  "addCustomModels t channelModels st =
     (if trim (cf_customModel st) = [] then (st, None, [])
      else (case inputs_prop (cf_inputs st) ''models'' of
          Arr have \<Rightarrow>
            (let added = new_names have (map trim (split_on 44 (cf_customModel st)));
                 st1 = st\<lparr>cf_modelOptions := cf_modelOptions st @ map model_option added, cf_customModel := []\<rparr>;
                 (st2, e) = handleInputChange channelModels (cf_inputs st) (js ''models'') (Arr (have @ map Str added)) st1
             in (st2, e, if e \<noteq> None then [] else if added = [] then [ShowInfo (t txt_no_new_models [])]
                  else [ShowSuccess (t txt_models_added [(js ''count'', num_val' (length added)), (js ''list'', Str (join (js '', '') added))])]))
        | _ \<Rightarrow> (st, Some TypeError, [])))"

section \<open>Key files and batch mode\<close>

text \<open>A file of the upload list: its item, its name and its text.\<close>

record key_file =
  kf_item :: jsval
  kf_name :: jsstr
  kf_text :: "jsstr option"

fun read_files :: "key_file list \<Rightarrow> (jsval \<times> jsval) list \<times> jsstr list" where
  "read_files [] = ([], [])"
| "read_files (f # fs) =
     (let (valid, bad) = read_files fs in
      case kf_text f of
        None \<Rightarrow> (valid, bad)
      | Some text' \<Rightarrow> (case json_parse text' of None \<Rightarrow> (valid, kf_name f # bad) | Some v \<Rightarrow> ((kf_item f, v) # valid, bad)))"

definition txt_bad_files :: jsstr where "txt_bad_files = [20197, 19979, 25991, 20214, 35299, 26512, 22833, 36133, 65292, 24050, 24573, 30053,
     65306, 123, 123, 108, 105, 115, 116, 125, 125]"

definition handleVertexUploadChange :: "translate \<Rightarrow> key_file list \<Rightarrow> channel_form \<Rightarrow> channel_form \<times> toast list" where
  "handleVertexUploadChange t fileList st =
     (let (valid, bad) = read_files fileList; errorNames = nub bad;
          kept = (if \<not> cf_batch st \<and> length valid > 1 then [List.last valid] else valid); files = Arr (map fst kept)
      in (cf_put (js ''vertex_files'') files (form_put (js ''vertex_files'') files
            (st\<lparr>cf_vertexKeys := map snd kept, cf_vertexFileList := map fst kept\<rparr>)),
          if errorNames = [] then [] else [ShowError (t txt_bad_files [(js ''list'', Str (join (js '', '') errorNames))])]))"

definition batchAllowed :: "channel_form \<Rightarrow> bool" where
  "batchAllowed st \<longleftrightarrow> (\<not> cf_isEdit st \<or> cf_isMultiKeyChannel st) \<and> \<not> is_type 57 (cf_inputs st)"

definition leave_batch :: "channel_form \<Rightarrow> channel_form" where
  "leave_batch st = st\<lparr>cf_batch := False, cf_multiToSingle := False, cf_multiKeyMode := Str (js ''random'')\<rparr>"

text \<open>The batch checkbox; leaving the mode with several files asks first, and \<open>answer\<close> is what the user says.\<close>

definition batch_change ::
    "(jsval \<Rightarrow> jsval) \<Rightarrow> bool \<Rightarrow> bool \<Rightarrow> channel_form \<Rightarrow> channel_form \<times> js_error option" where
  "batch_change channelModels answer checked st =
     (if \<not> checked \<and> length (cf_vertexFileList st) > 1 then
        (if \<not> answer then (st\<lparr>cf_batch := True\<rparr>, None)
         else let firstFile = [hd (cf_vertexFileList st)];
                firstKey = (case cf_vertexKeys st of k # _ \<Rightarrow> if truthy k then [k] else [] | [] \<Rightarrow> [])
           in (leave_batch (cf_put (js ''vertex_files'') (Arr firstFile) (form_put (js ''vertex_files'') (Arr firstFile)
                 (st\<lparr>cf_vertexFileList := firstFile, cf_vertexKeys := firstKey\<rparr>))), None))
      else if \<not> checked then (leave_batch st, None)
      else let st1 = st\<lparr>cf_batch := True, cf_useManualInput := False\<rparr> in
        if is_type 41 (cf_inputs st) then handleInputChange channelModels (cf_inputs st) (js ''key'') (Str []) (form_put (js ''key'') (Str []) st1)
        else (st1, None))"

definition multi_change :: "channel_form \<Rightarrow> channel_form" where
  "multi_change st =
     (let nextValue = \<not> cf_multiToSingle st in
      st\<lparr>cf_multiToSingle := nextValue,
         cf_inputs := if nextValue then put (js ''multi_key_mode'') (cf_multiKeyMode st) (cf_inputs st) else del (js ''multi_key_mode'') (cf_inputs st)\<rparr>)"

section \<open>Navigation, effects and derived values\<close>

datatype direction = Up | Down

text \<open>All five sections are available: the card of the API configuration is always shown.\<close>

definition navigateToSection :: "direction \<Rightarrow> channel_form \<Rightarrow> channel_form" where
  "navigateToSection d st =
     st\<lparr>cf_section :=
       (case d of
          Up \<Rightarrow> if cf_section st > 0 then cf_section st - 1 else 4
        | Down \<Rightarrow> if cf_section st < 4 then cf_section st + 1 else 0)\<rparr>"

definition txt_unlocked :: jsstr where "txt_unlocked = [24050, 35299, 38145, 35910, 21253, 33258, 23450, 20041, 32, 65, 80, 73, 32, 22320,
     22336, 32534, 36753]"

definition handleApiConfigSecretClick :: "translate \<Rightarrow> channel_form \<Rightarrow> channel_form \<times> toast list" where
  "handleApiConfigSecretClick t st =
     (if \<not> is_type 45 (cf_inputs st) then (st, [])
      else let st1 = st\<lparr>cf_clicks := cf_clicks st + 1\<rparr> in
        if cf_clicks st1 \<ge> 10 then (st1\<lparr>cf_doubaoUnlocked := True\<rparr>, if cf_doubaoUnlocked st then [] else [ShowInfo (t txt_unlocked [])])
        else (st1, []))"

definition type_effect :: "channel_form \<Rightarrow> channel_form" where
  "type_effect st = (if is_type 45 (cf_inputs st) then st else st\<lparr>cf_clicks := 0, cf_doubaoUnlocked := False\<rparr>)"

definition new_channel_effect :: "(jsval \<Rightarrow> jsval) \<Rightarrow> channel_form \<Rightarrow> channel_form" where
  "new_channel_effect channelModels st =
     (if cf_isEdit st then st
      else let localModels = channelModels (inputs_prop (cf_inputs st) ''type'') in
        st\<lparr>cf_inputs := put (js ''models'') localModels originInputs, cf_form := setValues originInputs (cf_form st), cf_basicModels := localModels\<rparr>)"

definition resetModalState :: "channel_form \<Rightarrow> channel_form" where
  "resetModalState st =
     st\<lparr>cf_form := setValue (js ''key_mode'') Undef (reset None (cf_form st)), cf_channelSettings := map (\<lambda>(k, v). (js k, v)) extra_fields,
        cf_keyMode := Str (js ''append''), cf_isEnterpriseAccount := Bool False, cf_doubaoUnlocked := False, cf_clicks := 0,
        cf_inputs := originInputs\<rparr>"

definition initial_effect :: "channel_form \<Rightarrow> channel_form" where
  "initial_effect st =
     (if cf_isEdit st then st else st\<lparr>cf_initialModels := [], cf_initialModelMapping := Str [], cf_initialStatusCodeMapping := Str []\<rparr>)"

definition redirectModelList :: "inputs \<Rightarrow> jsstr list" where
  "redirectModelList inputs =
     (case inputs_prop inputs ''model_mapping'' of
        Str s \<Rightarrow>
          (case (if trim s = [] then None else json_parse (trim s)) of
             Some (Obj kvs) \<Rightarrow>
               nub (filter (\<lambda>m. m \<noteq> []) (map (\<lambda>(k, v). case v of Str m \<Rightarrow> trim m | _ \<Rightarrow> []) (entries (Obj kvs))))
           | _ \<Rightarrow> [])
      | _ \<Rightarrow> [])"

definition upstreamDetectedModels :: "inputs \<Rightarrow> jsstr list" where
  "upstreamDetectedModels inputs =
     (case inputs_prop inputs ''upstream_model_update_last_detected_models'' of
        Arr ms \<Rightarrow> nub (filter (\<lambda>m. m \<noteq> []) (map (\<lambda>m. trim (str_or_empty m)) ms))
      | _ \<Rightarrow> [])"

definition upstreamDetectedModelsPreview :: "inputs \<Rightarrow> jsstr list" where
  "upstreamDetectedModelsPreview inputs = take 8 (upstreamDetectedModels inputs)"

definition upstreamDetectedModelsOmittedCount :: "inputs \<Rightarrow> nat" where
  "upstreamDetectedModelsOmittedCount inputs = length (upstreamDetectedModels inputs) - length (upstreamDetectedModelsPreview inputs)"

definition isIonetLocked :: "channel_form \<Rightarrow> bool" where
  "isIonetLocked st \<longleftrightarrow> cf_isIonet st \<and> cf_isEdit st"

definition txt_keep :: jsstr where "txt_keep = [19981, 26356, 25913]"
definition txt_override_hint :: jsstr where "txt_override_hint = [27492, 39033, 21487, 36873, 65292, 29992, 20110, 35206, 30422, 35831, 27714, 21442,
     25968, 12290, 19981, 25903, 25345, 35206, 30422, 32, 115, 116, 114, 101, 97, 109,
     32, 21442, 25968]"
definition txt_new_format :: jsstr where "txt_new_format = [26032, 26684, 24335, 27169, 26495]"
definition txt_old_format :: jsstr where "txt_old_format = [26087, 26684, 24335, 27169, 26495]"
definition txt_custom_json :: jsstr where "txt_custom_json = [33258, 23450, 20041, 32, 74, 83, 79, 78]"

text \<open>The label, its colour and the preview of the override.\<close>

definition paramOverrideMeta :: "translate \<Rightarrow> inputs \<Rightarrow> jsstr \<times> string \<times> jsstr" where
  "paramOverrideMeta t inputs =
     (let raw = raw_override inputs; count = (\<lambda>text' n. t text' [] @ js '' ('' @ nat_str n @ js '')'') in
      if raw = [] then (t txt_keep [], ''grey'', t txt_override_hint [])
      else (case json_parse raw of
          None \<Rightarrow> (t txt_json_error [], ''red'', raw)
        | Some parsed \<Rightarrow>
            (case (parsed, own_prop parsed (js ''operations'')) of
               (Obj _, Arr ops) \<Rightarrow> (count txt_new_format (length ops), ''cyan'', json_ser two_spaces [] parsed)
             | (Obj _, _) \<Rightarrow> (count txt_old_format (length (obj_keys parsed)), ''blue'', json_ser two_spaces [] parsed)
             | _ \<Rightarrow> (t txt_custom_json [], ''orange'', json_ser two_spaces [] parsed))))"

section \<open>Properties\<close>

lemma handleInputChange_text:
  assumes "name \<notin> {js ''type'', js ''base_url''}" "\<not> (isIonetLocked st \<and> name = js ''key'')"
  shows "handleInputChange channelModels inputs name (Str s) st = (cf_put name (Str s) (form_put name (Str s) st), None)"
  using assms by (auto simp: handleInputChange_def stored_value_def isIonetLocked_def Let_def)

lemma cf_put_simps [simp]: "cf_inputs (cf_put k v st) = put k v (cf_inputs st)" "cf_form (cf_put k v st) = cf_form st"
    "cf_inputs (form_put k v st) = cf_inputs st" "cf_form (form_put k v st) = setValue k v (cf_form st)"
    "cf_isIonet (cf_put k v st) = cf_isIonet st" "cf_isIonet (form_put k v st) = cf_isIonet st"
    "cf_isEdit (cf_put k v st) = cf_isEdit st" "cf_isEdit (form_put k v st) = cf_isEdit st"
  by (simp_all add: cf_put_def form_put_def)


definition demo_channel_form :: "inputs \<Rightarrow> channel_form" where
  "demo_channel_form inputs =
     \<lparr>cf_isEdit = True, cf_inputs = inputs, cf_form = new_form (Some originInputs), cf_loading = False, cf_batch = False, cf_multiToSingle = False,
      cf_multiKeyMode = Str [], cf_autoBan = True, cf_isMultiKeyChannel = False, cf_keyMode = Str [], cf_useManualInput = False, cf_vertexKeys = [],
      cf_vertexFileList = [], cf_isEnterpriseAccount = Bool False, cf_basicModels = Arr [], cf_channelSettings = [], cf_initialModels = [],
      cf_initialModelMapping = Str [], cf_initialStatusCodeMapping = Str [], cf_isIonet = False, cf_ionetMetadata = Null, cf_modelOptions = [],
      cf_customModel = [], cf_fetchedModels = [], cf_modelModalVisible = False, cf_doubaoUnlocked = False, cf_clicks = 0, cf_section = 0,
      cf_confirm = None\<rparr>"


text \<open>A switch of the channel form lives in the form alone, so the next change of any text field takes it back:
  the effect of that change writes all inputs into the form, with the old value of the switch.\<close>

theorem switch_taken_back:
  assumes "form_ok (cf_form st)" "f \<in> set (keys (cf_inputs st))" "name \<notin> {f, js ''type'', js ''base_url'', js ''key''}"
  shows "shown (cf_form (inputs_effect (fst (handleInputChange channelModels inputs name (Str s) (form_put f v st))))) f =
    Some (own_prop (Obj (cf_inputs st)) f)"
proof -
  have "handleInputChange channelModels inputs name (Str s) (form_put f v st) = (cf_put name (Str s) (form_put name (Str s) (form_put f v st)), None)"
    using assms(3) by (intro handleInputChange_text) auto
  moreover have "form_ok (setValue k w frm)" if "form_ok frm" for k w frm
    using form_ok_do [OF that, of "Call (Set_value k w)"] by simp
  moreover have "shown (setValues m frm) f = (if f \<in> set (keys m) then Some (own_prop (Obj m) f) else shown frm f)" if "form_ok frm" for m frm
    using shown_event [OF that, of "Call (Set_values m)"] by simp
  ultimately show ?thesis using assms by (auto simp: inputs_effect_def js_store)
qed

theorem switch_taken_back_witness:
  "shown (cf_form (inputs_effect (fst (handleInputChange (\<lambda>_. Arr []) originInputs (js ''name'') (Str (js ''n''))
     (form_put (js ''auto_ban'') (Bool False) (demo_channel_form originInputs)))))) (js ''auto_ban'') = Some (num_val' 1)"
proof -
  have "own_prop (Obj originInputs) (js ''auto_ban'') = num_val' 1" "js ''auto_ban'' \<in> set (keys originInputs)"
    by (simp_all add: originInputs_def own_prop_def get_def keys_def)
  then show ?thesis
    using switch_taken_back [of "demo_channel_form originInputs" "js ''auto_ban''" "js ''name''"] by (simp add: demo_channel_form_def)
qed

text \<open>Removing duplicate keys keeps the set of keys, and doing it again changes nothing.\<close>

lemma unique_lines_set: "set (unique_lines s) = trim ` set (split_on 10 s) - {[]}"
  by (auto simp: unique_lines_def)

lemma null_mapping_shown: "load_mapping Null = Inr (Str (js ''null''))"
proof -
  have "json_ser g [] Null = js ''null''" for g by simp
  then show ?thesis using json_parse_stringify [of Null "[]"] by (simp add: load_mapping_def)
qed

end
