(* ===== verification/Channel_Roundtrip.thy ===== *)
theory Channel_Roundtrip
  imports Channel_Form
begin

text \<open>
  Opening a saved channel and saving it again: what \<open>submit\<close> writes into the texts \<open>setting\<close>, \<open>settings\<close>, \<open>models\<close> and
  \<open>group\<close>, \<open>loadChannel\<close> reads back, so that an unchanged channel is sent as it was.
\<close>

section \<open>Steps that keep the other fields\<close>

lemma codex_key_frame [channel_frame]: "codex_key t st s = Inr s' \<Longrightarrow> k \<noteq> ''key'' \<Longrightarrow> inputs_prop s' k = inputs_prop s k"
  by (auto simp: codex_key_def codex_object_def info_def and_then_Inr_iff split: if_splits option.splits jsval.splits)

lemma vertex_key_frame [channel_frame]: "vertex_key t message st s = Inr s' \<Longrightarrow> k \<noteq> ''key'' \<Longrightarrow> inputs_prop s' k = inputs_prop s k"
  by (auto simp: vertex_key_def manual_key_def uploaded_key_def info_def Let_def and_then_Inr_iff split: if_splits option.splits sum.splits)

lemma keep_old_key_frame [channel_frame]:
  "keep_old_key st s = Inr s' \<Longrightarrow> k \<notin> {''key'', ''vertex_files''} \<Longrightarrow> inputs_prop s' k = inputs_prop s k"
  by (auto simp: keep_old_key_def and_then_Inr_iff split: if_splits)

lemma put_get_same: "get m k = Some v \<Longrightarrow> put k v m = m"
  by (induction k v m rule: put.induct) (auto simp: get_def split: if_splits)

lemma inputs_put_same: "inputs_prop K k = v \<Longrightarrow> v \<noteq> Undef \<Longrightarrow> put (js k) v K = K"
  by (rule put_get_same) (auto simp: inputs_prop_def own_prop_def split: option.splits)

lemma del_absent: "get m k = None \<Longrightarrow> del k m = m"
  by (force simp: get_def del_def map_of_eq_None_iff filter_id_conv)

lemma inputs_prop_put_all:
  "distinct (map fst kvs) \<Longrightarrow> inputs_prop (put_all kvs d) k = (case map_of kvs k of None \<Rightarrow> inputs_prop d k | Some v \<Rightarrow> v)"
proof (induction kvs arbitrary: d)
  case (Cons kv kvs)
  obtain k0 v0 where kv: "kv = (k0, v0)" by (cases kv)
  have "inputs_prop (put_all (kv # kvs) d) k = (case map_of kvs k of None \<Rightarrow> inputs_prop (put (js k0) v0 d) k | Some v \<Rightarrow> v)"
    using Cons by (simp add: put_all_def kv)
  moreover have "map_of kvs k0 = None" using Cons.prems by (simp add: kv map_of_eq_None_iff)
  ultimately show ?case by (cases "map_of kvs k") (auto simp: kv)
qed (simp add: put_all_def)

section \<open>The settings are a fixed point\<close>

lemma js_or_idem: "\<not> truthy dflt \<Longrightarrow> js_or (js_or v dflt) dflt = js_or v dflt"
  by (simp add: js_or_def)

lemma js_or_truthy [simp]: "truthy w \<Longrightarrow> truthy (js_or v w)" "truthy v \<Longrightarrow> js_or v w = v"
  by (simp_all add: js_or_def)

lemma is_type_cong: "inputs_prop d ''type'' = inputs_prop s ''type'' \<Longrightarrow> is_type n d = is_type n s"
  by (simp add: is_type_def)

lemma type_settings_values:
  fixes s kvs
  defines "U \<equiv> type_settings s kvs"
  shows "is_type 20 s \<Longrightarrow> \<exists>b. inputs_prop U ''openrouter_enterprise'' = Bool b"
    and "is_type 33 s \<Longrightarrow> truthy (inputs_prop U ''aws_key_type'')"
    and "is_type 41 s \<Longrightarrow> truthy (inputs_prop U ''vertex_key_type'')"
    and "\<not> is_type 41 s \<Longrightarrow> get U (js ''vertex_key_type'') = None"
    and "is_type 1 s \<or> is_type 14 s \<Longrightarrow> \<exists>b. inputs_prop U ''allow_service_tier'' = Bool b"
    and "is_type 1 s \<Longrightarrow> k \<in> {''disable_store'', ''allow_safety_identifier'', ''allow_include_obfuscation''} \<Longrightarrow> \<exists>b. inputs_prop U k = Bool b"
    and "is_type 14 s \<Longrightarrow> k \<in> {''allow_inference_geo'', ''claude_beta_query''} \<Longrightarrow> \<exists>b. inputs_prop U k = Bool b"
proof -
  have t: "truthy (Str (js ''ak_sk''))" "truthy (Str (js ''json''))" by (simp_all add: truthy_def)
  show "is_type 20 s \<Longrightarrow> \<exists>b. inputs_prop U ''openrouter_enterprise'' = Bool b" by (simp add: U_def type_settings_def Let_def set_true_def)
  show "is_type 33 s \<Longrightarrow> truthy (inputs_prop U ''aws_key_type'')" using t by (simp add: U_def type_settings_def Let_def set_true_def)
  show "is_type 41 s \<Longrightarrow> truthy (inputs_prop U ''vertex_key_type'')" using t by (simp add: U_def type_settings_def Let_def set_true_def)
  show "\<not> is_type 41 s \<Longrightarrow> get U (js ''vertex_key_type'') = None" by (simp add: U_def type_settings_def Let_def set_true_def js_store)
  show "is_type 1 s \<or> is_type 14 s \<Longrightarrow> \<exists>b. inputs_prop U ''allow_service_tier'' = Bool b" by (simp add: U_def type_settings_def Let_def set_true_def)
  show "is_type 1 s \<Longrightarrow> k \<in> {''disable_store'', ''allow_safety_identifier'', ''allow_include_obfuscation''} \<Longrightarrow> \<exists>b. inputs_prop U k = Bool b"
    by (auto simp: U_def type_settings_def Let_def set_true_def)
  show "is_type 14 s \<Longrightarrow> k \<in> {''allow_inference_geo'', ''claude_beta_query''} \<Longrightarrow> \<exists>b. inputs_prop U k = Bool b"
    by (auto simp: U_def type_settings_def Let_def set_true_def)
qed

definition upstream_keys :: "string set" where
  "upstream_keys = {''upstream_model_update_check_enabled'', ''upstream_model_update_auto_sync_enabled'', ''upstream_model_update_ignored_models'',
     ''upstream_model_update_last_detected_models'', ''upstream_model_update_last_check_time''}"

definition is_num :: "jsval \<Rightarrow> bool" where
  "is_num v = (case v of Num _ \<Rightarrow> True | _ \<Rightarrow> False)"

lemma is_num_iff: "is_num v \<longleftrightarrow> (\<exists>x. v = Num x)" and is_array_iff: "is_array v \<longleftrightarrow> (\<exists>xs. v = Arr xs)"
  by (cases v; simp add: is_num_def is_array_def)+

lemma upstream_settings_eq:
  "upstream_settings s kvs =
    (let check = inputs_prop s ''upstream_model_update_check_enabled'' = Bool True;
         k3 = put (js ''upstream_model_update_ignored_models'') (ignored_list s)
           (put (js ''upstream_model_update_auto_sync_enabled'') (Bool (check \<and> inputs_prop s ''upstream_model_update_auto_sync_enabled'' = Bool True))
             (put (js ''upstream_model_update_check_enabled'') (Bool check) kvs));
         k4 = (if is_array (inputs_prop k3 ''upstream_model_update_last_detected_models'') \<and> check then k3
           else put (js ''upstream_model_update_last_detected_models'') (Arr []) k3)
     in if is_num (inputs_prop k4 ''upstream_model_update_last_check_time'') then k4
        else put (js ''upstream_model_update_last_check_time'') (Num (Fin False 0)) k4)"
proof -
  have 1: "(case v of Arr _ \<Rightarrow> if c then x else y | _ \<Rightarrow> y) = (if is_array v \<and> c then x else y)" for v c and x y :: inputs
    by (cases v) (simp_all add: is_array_def)
  have 2: "(case v of Num _ \<Rightarrow> x | _ \<Rightarrow> y) = (if is_num v then x else y)" for v and x y :: inputs
    by (cases v) (simp_all add: is_num_def)
  show ?thesis unfolding upstream_settings_def Let_def 1 2 ..
qed

lemma upstream_other: "k \<notin> upstream_keys \<Longrightarrow> get (upstream_settings s kvs) (js k) = get kvs (js k)"
  by (simp add: upstream_keys_def upstream_settings_eq Let_def js_store)

lemma upstream_values:
  fixes s kvs
  defines "K \<equiv> upstream_settings s kvs" and "check \<equiv> inputs_prop s ''upstream_model_update_check_enabled'' = Bool True"
  shows "inputs_prop K ''upstream_model_update_check_enabled'' = Bool check"
    and "\<exists>b. inputs_prop K ''upstream_model_update_auto_sync_enabled'' = Bool (check \<and> b)"
    and "inputs_prop K ''upstream_model_update_ignored_models'' = ignored_list s"
    and "\<exists>xs. inputs_prop K ''upstream_model_update_last_detected_models'' = Arr xs \<and> (check \<or> xs = [])"
    and "is_num (inputs_prop K ''upstream_model_update_last_check_time'')"
  unfolding K_def check_def upstream_settings_eq Let_def by (auto simp: is_array_iff is_num_iff)

lemma ignored_fixed:
  assumes "str_or_empty (inputs_prop d ''upstream_model_update_ignored_models'') = to_str (ignored_list s)"
  shows "ignored_list d = ignored_list s"
proof -
  define L where "L = nub (filter (\<lambda>m. m \<noteq> []) (map trim (split_on 44 (str_or_empty (inputs_prop s ''upstream_model_update_ignored_models'')))))"
  have L: "trim x = x" "x \<noteq> []" "44 \<notin> set x" if "x \<in> set L" for x
    using that split_on_elems [of _ 44] by (auto simp: L_def dest: set_trim_subset [THEN subsetD])
  have "map (\<lambda>v. if nullish v then [] else to_str v) (map Str L) = L" by (simp add: nullish_def map_idI)
  then have j: "to_str (str_list L) = join [44] L" by (simp add: str_list_def)
  have "filter (\<lambda>m. m \<noteq> []) (map trim (split_on 44 (join [44] L))) = L"
  proof (cases "L = []")
    case False
    then have "split_on 44 (join [44] L) = L" using L(3) by (intro split_join) auto
    then show ?thesis using L(1,2) by (simp add: map_idI filter_id_conv)
  qed simp
  moreover have "distinct L" by (simp add: L_def)
  ultimately show ?thesis using assms by (simp add: ignored_list_def j L_def [symmetric])
qed

text \<open>The fields of the form that \<open>settings_values\<close> fills give the same settings again.\<close>

lemma settings_fixed:
  assumes K: "K = upstream_settings s (type_settings s kvs)" and same: "inputs_prop d ''type'' = inputs_prop s ''type''"
    and d: "\<And>k v. map_of (settings_values (Obj K)) k = Some v \<Longrightarrow> inputs_prop d k = v"
  shows "upstream_settings d (type_settings d K) = K"
proof -
  let ?U = "type_settings s kvs"
  have ty: "is_type n d = is_type n s" for n using same by (rule is_type_cong)
  have U: "inputs_prop K k = inputs_prop ?U k" if "k \<notin> upstream_keys" for k
    using upstream_other [OF that] by (simp add: K inputs_prop_def own_prop_def)
  note u = upstream_values [of s ?U, folded K]
  have own: "own_prop (Obj K) (js k) = inputs_prop K k" for k by (simp add: inputs_prop_def)
  note v = type_settings_values [where s = s and kvs = kvs]
  note up = upstream_keys_def
  have flag: "set_true k f d K = K" if "inputs_prop d f = Bool (inputs_prop K k = Bool True)" "\<exists>b. inputs_prop K k = Bool b" for k f
    using that by (auto simp: set_true_def intro: inputs_put_same)
  have js_or_bool: "js_or (Bool b) (Bool False) = Bool b" for b by (simp add: js_or_def truthy_def)
  have stored: "set_true k k d K = K" if "inputs_prop d k = js_or (inputs_prop K k) (Bool False)" "\<exists>b. inputs_prop K k = Bool b" for k
    using that by (intro flag) (auto simp: js_or_bool)
  have filled: "put (js k) (js_or (inputs_prop d k) dflt) K = K"
    if "inputs_prop d k = js_or (inputs_prop K k) dflt" "truthy (inputs_prop K k)" for k dflt
    using that by (auto intro: inputs_put_same)
  have dv: "inputs_prop d ''is_enterprise_account'' = Bool (inputs_prop K ''openrouter_enterprise'' = Bool True)"
    "inputs_prop d ''aws_key_type'' = js_or (inputs_prop K ''aws_key_type'') (Str (js ''ak_sk''))"
    "inputs_prop d ''vertex_key_type'' = js_or (inputs_prop K ''vertex_key_type'') (Str (js ''json''))"
    by (rule d; simp add: settings_values_def Let_def own)+
  have df: "inputs_prop d k = js_or (inputs_prop K k) (Bool False)" if "k \<in> {''allow_service_tier'', ''disable_store'',
      ''allow_safety_identifier'', ''allow_include_obfuscation'', ''allow_inference_geo'', ''claude_beta_query''}" for k
    by (rule d) (use that in \<open>auto simp: settings_values_def Let_def own\<close>)
  have "type_settings d K = K"
  proof -
    have 1: "(if is_type 20 s then set_true ''openrouter_enterprise'' ''is_enterprise_account'' d K else K) = K"
      using v(1) by (auto intro!: flag simp: dv(1) U up)
    have 2: "(if is_type 33 s then put (js ''aws_key_type'') (js_or (inputs_prop d ''aws_key_type'') (Str (js ''ak_sk''))) K else K) = K"
      using v(2) filled [OF dv(2)] U [of "''aws_key_type''"] by (simp add: up)
    have 3: "(if is_type 41 s then put (js ''vertex_key_type'') (js_or (inputs_prop d ''vertex_key_type'') (Str (js ''json''))) K
        else del (js ''vertex_key_type'') K) = K"
      using v(3,4) filled [OF dv(3)] U [of "''vertex_key_type''"] upstream_other [of "''vertex_key_type''" s ?U, folded K] del_absent [of K "js ''vertex_key_type''"]
      by (simp add: up)
    have 4: "(if is_type 1 s \<or> is_type 14 s then set_true ''allow_service_tier'' ''allow_service_tier'' d K else K) = K"
      using v(5) stored [OF df [of "''allow_service_tier''"]] U [of "''allow_service_tier''"] by (simp add: up)
    have 5: "set_true ''disable_store'' ''disable_store'' d K = K" if "is_type 1 s"
      using v(6) [OF that, of "''disable_store''"] stored [OF df [of "''disable_store''"]] U [of "''disable_store''"] by (simp add: up)
    have 6: "set_true ''allow_safety_identifier'' ''allow_safety_identifier'' d K = K" if "is_type 1 s"
      using v(6) [OF that, of "''allow_safety_identifier''"] stored [OF df [of "''allow_safety_identifier''"]] U [of "''allow_safety_identifier''"] by (simp add: up)
    have a: "set_true ''allow_include_obfuscation'' ''allow_include_obfuscation'' d K = K" if "is_type 1 s"
      using v(6) [OF that, of "''allow_include_obfuscation''"] stored [OF df [of "''allow_include_obfuscation''"]] U [of "''allow_include_obfuscation''"] by (simp add: up)
    have b: "set_true ''allow_inference_geo'' ''allow_inference_geo'' d K = K" if "is_type 14 s"
      using v(7) [OF that, of "''allow_inference_geo''"] stored [OF df [of "''allow_inference_geo''"]] U [of "''allow_inference_geo''"] by (simp add: up)
    have c: "set_true ''claude_beta_query'' ''claude_beta_query'' d K = K" if "is_type 14 s"
      using v(7) [OF that, of "''claude_beta_query''"] stored [OF df [of "''claude_beta_query''"]] U [of "''claude_beta_query''"] by (simp add: up)
    have 7: "(if is_type 1 s then set_true ''allow_include_obfuscation'' ''allow_include_obfuscation'' d
        (set_true ''allow_safety_identifier'' ''allow_safety_identifier'' d (set_true ''disable_store'' ''disable_store'' d K)) else K) = K"
      using 5 6 a by simp
    have 8: "(if is_type 14 s then set_true ''claude_beta_query'' ''claude_beta_query'' d
        (set_true ''allow_inference_geo'' ''allow_inference_geo'' d K) else K) = K" using b c by simp
    show ?thesis unfolding type_settings_def ty Let_def 1 2 3 4 7 8 ..
  qed
  moreover have "upstream_settings d K = K"
  proof -
    have du: "inputs_prop d ''upstream_model_update_check_enabled'' = Bool (inputs_prop K ''upstream_model_update_check_enabled'' = Bool True)"
      "inputs_prop d ''upstream_model_update_auto_sync_enabled'' = Bool (inputs_prop K ''upstream_model_update_auto_sync_enabled'' = Bool True)"
      "inputs_prop d ''upstream_model_update_ignored_models'' = Str (to_str (inputs_prop K ''upstream_model_update_ignored_models''))"
      by (rule d; simp add: settings_values_def Let_def own u(3) ignored_list_def str_list_def is_array_def)+
    then have "ignored_list d = ignored_list s" by (intro ignored_fixed) (simp add: u(3) str_or_empty_def truthy_def)
    then have 3: "put (js ''upstream_model_update_ignored_models'') (ignored_list d) K = K"
      by (intro inputs_put_same) (simp_all add: u(3) ignored_list_def str_list_def)
    obtain b where b: "inputs_prop K ''upstream_model_update_auto_sync_enabled'' =
        Bool (inputs_prop s ''upstream_model_update_check_enabled'' = Bool True \<and> b)" using u(2) by blast
    obtain xs where xs: "inputs_prop K ''upstream_model_update_last_detected_models'' = Arr xs"
      "inputs_prop s ''upstream_model_update_check_enabled'' = Bool True \<or> xs = []" using u(4) by blast
    have 1: "put (js ''upstream_model_update_check_enabled'') (Bool (inputs_prop d ''upstream_model_update_check_enabled'' = Bool True)) K = K"
      by (intro inputs_put_same) (simp_all add: du(1) u(1))
    have 2: "put (js ''upstream_model_update_auto_sync_enabled'') (Bool (inputs_prop d ''upstream_model_update_check_enabled'' = Bool True \<and>
        inputs_prop d ''upstream_model_update_auto_sync_enabled'' = Bool True)) K = K"
      by (intro inputs_put_same) (auto simp add: du(1,2) u(1) b)
    have 4: "put (js ''upstream_model_update_last_detected_models'') (Arr []) K = K"
      if "\<not> (is_array (inputs_prop K ''upstream_model_update_last_detected_models'') \<and> inputs_prop d ''upstream_model_update_check_enabled'' = Bool True)"
      using that xs by (intro inputs_put_same) (auto simp: is_array_def du(1) u(1))
    have 5: "(if is_array (inputs_prop K ''upstream_model_update_last_detected_models'') \<and> inputs_prop d ''upstream_model_update_check_enabled'' = Bool True then K
        else put (js ''upstream_model_update_last_detected_models'') (Arr []) K) = K" using 4 by presburger
    show ?thesis unfolding upstream_settings_eq Let_def 1 2 3 5 using u(5) by simp
  qed
  ultimately show ?thesis by simp
qed

section \<open>Loading what was saved\<close>

lemma parsed_stringify:
  assumes "json_canon v" "\<not> nullish v"
  shows "truthy (stringify v)" "parsed_object (stringify v) = Some v"
proof -
  have p: "json_parse (json_ser [] [] v) = Some v" using assms(1) by (rule json_parse_stringify) simp
  have "json_parse [] = None" by code_simp
  then show "truthy (stringify v)" using p by (auto simp: stringify_def truthy_def)
  show "parsed_object (stringify v) = Some v" using p assms(2) by (simp add: parsed_object_def stringify_def)
qed

definition loaded_keys :: "string list" where
  "loaded_keys = map fst extra_fields @ map fst (settings_values Undef) @ [''base_url'', ''multi_key_mode'', ''models'', ''groups'', ''model_mapping'']"

lemma settings_values_keys: "map fst (settings_values p) = map fst (settings_values Undef)"
  by (simp add: settings_values_def Let_def)

lemma distinct_loaded_keys: "distinct loaded_keys"
  by (simp add: loaded_keys_def extra_fields_def settings_values_def Let_def)

lemma load_setting_prop:
  assumes "inputs_prop d ''setting'' = stringify E" "json_canon E" "\<not> nullish E"
  shows "inputs_prop (load_setting d) k =
    (case map_of (map (\<lambda>(k, dflt). (k, js_or (own_prop E (js k)) dflt)) extra_fields) k of None \<Rightarrow> inputs_prop d k | Some v \<Rightarrow> v)"
  using parsed_stringify [OF assms(2,3)] assms(1)
  by (simp add: load_setting_def inputs_prop_put_all extra_fields_def)

lemma load_settings_prop:
  assumes "inputs_prop d ''settings'' = stringify v" "json_canon v" "\<not> nullish v"
  shows "inputs_prop (load_settings d) k = (case map_of (settings_values v) k of None \<Rightarrow> inputs_prop d k | Some w \<Rightarrow> w)"
proof -
  have "distinct (map fst (settings_values v))" using distinct_loaded_keys unfolding settings_values_keys [of v] loaded_keys_def by simp
  then show ?thesis using parsed_stringify [OF assms(2,3)] assms(1) by (simp add: load_settings_def inputs_prop_put_all)
qed

lemma load_base_url_prop: "k \<noteq> ''base_url'' \<Longrightarrow> inputs_prop (load_base_url d) k = inputs_prop d k"
  by (simp add: load_base_url_def Let_def)

lemma loaded_dataE:
  assumes "loaded_data D = Inr d"
  obtains models groups d4 where "split_list (inputs_prop D ''models'') = Inr models" "split_list (inputs_prop D ''group'') = Inr groups"
    "d = load_base_url (load_settings (load_setting d4))" "inputs_prop d4 ''models'' = models" "inputs_prop d4 ''groups'' = groups"
    "\<forall>k. k \<notin> {''models'', ''groups'', ''model_mapping'', ''multi_key_mode''} \<longrightarrow> inputs_prop d4 k = inputs_prop D k"
proof -
  obtain models groups mapping where m: "split_list (inputs_prop D ''models'') = Inr models" "split_list (inputs_prop D ''group'') = Inr groups"
    "d = (let d3 = put (js ''model_mapping'') mapping (put (js ''groups'') groups (put (js ''models'') models D))
      in load_base_url (load_settings (load_setting (if is_multi_key d3 then put (js ''multi_key_mode'') (multi_mode d3) d3 else d3))))"
    using assms by (auto simp: loaded_data_def Let_def and_then_Inr_iff)
  define d3 where "d3 = put (js ''model_mapping'') mapping (put (js ''groups'') groups (put (js ''models'') models D))"
  show ?thesis
    by (rule that [of models groups "if is_multi_key d3 then put (js ''multi_key_mode'') (multi_mode d3) d3 else d3"])
      (use m in \<open>simp_all add: d3_def Let_def\<close>)
qed

lemma map_of_extra:
  "map_of (map (\<lambda>(k, dflt). (k, f k dflt)) extra_fields) k = (case map_of extra_fields k of None \<Rightarrow> None | Some dflt \<Rightarrow> Some (f k dflt))"
  by (simp add: extra_fields_def)

lemma map_of_settings_None: "map_of (settings_values v) k = None \<longleftrightarrow> k \<notin> set (map fst (settings_values Undef))"
  unfolding map_of_eq_None_iff settings_values_keys [of v, symmetric] set_map ..

lemma loaded_field:
  assumes "loaded_data D = Inr d" "inputs_prop D ''setting'' = stringify E" "json_canon E" "\<not> nullish E"
    and "inputs_prop D ''settings'' = stringify v" "json_canon v" "\<not> nullish v"
  obtains d4 where "split_list (inputs_prop D ''models'') = Inr (inputs_prop d4 ''models'')"
    "split_list (inputs_prop D ''group'') = Inr (inputs_prop d4 ''groups'')"
    "\<forall>k. k \<notin> {''models'', ''groups'', ''model_mapping'', ''multi_key_mode''} \<longrightarrow> inputs_prop d4 k = inputs_prop D k"
    "\<forall>k. k \<noteq> ''base_url'' \<longrightarrow> inputs_prop d k = (case map_of (settings_values v) k of Some w \<Rightarrow> w
      | None \<Rightarrow> (case map_of extra_fields k of None \<Rightarrow> inputs_prop d4 k | Some dflt \<Rightarrow> js_or (own_prop E (js k)) dflt))"
proof -
  from assms(1) obtain models groups d4 where l: "split_list (inputs_prop D ''models'') = Inr models" "split_list (inputs_prop D ''group'') = Inr groups"
    "d = load_base_url (load_settings (load_setting d4))" "inputs_prop d4 ''models'' = models" "inputs_prop d4 ''groups'' = groups"
    "\<forall>k. k \<notin> {''models'', ''groups'', ''model_mapping'', ''multi_key_mode''} \<longrightarrow> inputs_prop d4 k = inputs_prop D k"
    by (rule loaded_dataE)
  have "inputs_prop d4 ''setting'' = stringify E" using l(6) assms(2) by simp
  from load_setting_prop [OF this assms(3,4)]
  have e: "inputs_prop (load_setting d4) k = (case map_of extra_fields k of None \<Rightarrow> inputs_prop d4 k | Some dflt \<Rightarrow> js_or (own_prop E (js k)) dflt)" for k
    unfolding map_of_extra by (simp split: option.split)
  have "map_of extra_fields ''settings'' = None" by (simp add: extra_fields_def)
  then have "inputs_prop (load_setting d4) ''settings'' = stringify v" using e [of "''settings''"] l(6) assms(5) by simp
  from load_settings_prop [OF this assms(6,7)]
  have "\<forall>k. k \<noteq> ''base_url'' \<longrightarrow> inputs_prop d k = (case map_of (settings_values v) k of Some w \<Rightarrow> w
      | None \<Rightarrow> (case map_of extra_fields k of None \<Rightarrow> inputs_prop d4 k | Some dflt \<Rightarrow> js_or (own_prop E (js k)) dflt))"
    unfolding l(3) e [symmetric] by (simp add: load_base_url_prop)
  then show ?thesis using that [of d4] l(1,2,4,5,6) by simp
qed

lemma loaded_prop:
  assumes "loaded_data D = Inr d" "inputs_prop D ''setting'' = stringify E" "json_canon E" "\<not> nullish E"
    and "inputs_prop D ''settings'' = stringify v" "json_canon v" "\<not> nullish v"
  shows "\<And>k w. map_of (settings_values v) k = Some w \<Longrightarrow> inputs_prop d k = w"
    and "\<And>k dflt. map_of extra_fields k = Some dflt \<Longrightarrow> inputs_prop d k = js_or (own_prop E (js k)) dflt"
    and "inputs_prop d ''type'' = inputs_prop D ''type''" "inputs_prop d ''setting'' = stringify E" "inputs_prop d ''settings'' = stringify v"
    and "split_list (inputs_prop D ''models'') = Inr (inputs_prop d ''models'')"
    and "split_list (inputs_prop D ''group'') = Inr (inputs_prop d ''groups'')"
proof -
  from assms obtain d4 where l: "split_list (inputs_prop D ''models'') = Inr (inputs_prop d4 ''models'')"
    "split_list (inputs_prop D ''group'') = Inr (inputs_prop d4 ''groups'')"
    "\<forall>k. k \<notin> {''models'', ''groups'', ''model_mapping'', ''multi_key_mode''} \<longrightarrow> inputs_prop d4 k = inputs_prop D k"
    "\<forall>k. k \<noteq> ''base_url'' \<longrightarrow> inputs_prop d k = (case map_of (settings_values v) k of Some w \<Rightarrow> w
      | None \<Rightarrow> (case map_of extra_fields k of None \<Rightarrow> inputs_prop d4 k | Some dflt \<Rightarrow> js_or (own_prop E (js k)) dflt))"
    by (rule loaded_field)
  have keys: "set (map fst (settings_values Undef)) \<inter> set (map fst extra_fields) = {}" "''base_url'' \<notin> set (map fst (settings_values Undef))"
    "''base_url'' \<notin> set (map fst extra_fields)" using distinct_loaded_keys unfolding loaded_keys_def by auto
  have nb: "map_of (settings_values v) ''base_url'' = None" using keys(2) map_of_settings_None by blast
  have nx: "map_of extra_fields ''base_url'' = None" using keys(3) unfolding map_of_eq_None_iff set_map .
  show "inputs_prop d k = w" if "map_of (settings_values v) k = Some w" for k w
  proof -
    have "k \<noteq> ''base_url''" using nb that by (rule_tac notI) simp
    then show ?thesis using l(4) [rule_format, of k] that by simp
  qed
  show "inputs_prop d k = js_or (own_prop E (js k)) dflt" if "map_of extra_fields k = Some dflt" for k dflt
  proof -
    have "k \<noteq> ''base_url''" using nx that by (rule_tac notI) simp
    moreover have "k \<in> set (map fst extra_fields)" using that by (metis map_of_eq_None_iff option.distinct(1) set_map)
    then have "map_of (settings_values v) k = None" using keys(1) map_of_settings_None [of v k] by blast
    ultimately show ?thesis using l(4) [rule_format, of k] that by simp
  qed
  have base: "inputs_prop d k = inputs_prop d4 k" if "k \<in> set [''type'', ''setting'', ''settings'', ''models'', ''groups'']" for k
  proof -
    have "\<forall>k \<in> set [''type'', ''setting'', ''settings'', ''models'', ''groups'']. k \<notin> set (map fst (settings_values Undef)) \<and> map_of extra_fields k = None \<and> k \<noteq> ''base_url''"
      by (simp add: settings_values_def extra_fields_def Let_def)
    then have "k \<notin> set (map fst (settings_values Undef)) \<and> map_of extra_fields k = None \<and> k \<noteq> ''base_url''" using that by (rule bspec)
    then show ?thesis using l(4) [rule_format, of k] map_of_settings_None [of v k] by simp
  qed
  show "inputs_prop d ''type'' = inputs_prop D ''type''" "inputs_prop d ''setting'' = stringify E" "inputs_prop d ''settings'' = stringify v"
    using assms(2,5) by (simp_all add: base l(3))
  show "split_list (inputs_prop D ''models'') = Inr (inputs_prop d ''models'')" "split_list (inputs_prop D ''group'') = Inr (inputs_prop d ''groups'')"
    using l(1,2) by (simp_all add: base)
qed

section \<open>Saving what was loaded\<close>

lemma extra_settings_fixed:
  assumes "\<And>k dflt. map_of extra_fields k = Some dflt \<Longrightarrow> inputs_prop d k = js_or (own_prop (channelExtraSettings s) (js k)) dflt"
  shows "channelExtraSettings d = channelExtraSettings s"
proof -
  have own: "own_prop (channelExtraSettings s) (js k) = js_or (inputs_prop s k) dflt" if "map_of extra_fields k = Some dflt" for k dflt
    using that by (auto simp: extra_fields_def channelExtraSettings_def own_prop_def get_def split: if_splits)
  have "js_or (inputs_prop d k) dflt = js_or (inputs_prop s k) dflt" if "map_of extra_fields k = Some dflt" for k dflt
  proof -
    have "\<not> truthy dflt" using that by (auto simp: extra_fields_def truthy_def split: if_splits)
    then show ?thesis using assms [OF that] own [OF that] by (simp add: js_or_idem)
  qed
  then show ?thesis by (simp add: channelExtraSettings_def extra_fields_def)
qed

lemma channelExtraSettings_cong:
  "(\<And>k. k \<in> set form_only \<Longrightarrow> inputs_prop d k = inputs_prop s k) \<Longrightarrow> channelExtraSettings d = channelExtraSettings s"
  by (simp add: channelExtraSettings_def form_only_def)

lemma new_settings_cong:
  assumes "\<And>k. k \<in> set form_only \<union> {''settings'', ''type''} \<Longrightarrow> inputs_prop d k = inputs_prop s k"
  shows "new_settings d = new_settings s"
proof -
  have "\<forall>k \<in> set form_only \<union> {''settings'', ''type''}. inputs_prop d k = inputs_prop s k" using assms by blast
  then have e: "\<forall>k \<in> set form_only. inputs_prop d k = inputs_prop s k" "inputs_prop d ''settings'' = inputs_prop s ''settings''"
    "inputs_prop d ''type'' = inputs_prop s ''type''" by simp_all
  have ty: "is_type n d = is_type n s" for n using e(3) by (rule is_type_cong)
  have flag: "set_true k f d = set_true k f s" if "f \<in> set form_only" for k f using e(1) that by (simp add: set_true_def fun_eq_iff)
  have mem: "''is_enterprise_account'' \<in> set form_only" "''allow_service_tier'' \<in> set form_only" "''disable_store'' \<in> set form_only"
    "''allow_safety_identifier'' \<in> set form_only" "''allow_include_obfuscation'' \<in> set form_only" "''allow_inference_geo'' \<in> set form_only"
    "''claude_beta_query'' \<in> set form_only" "''aws_key_type'' \<in> set form_only" "''vertex_key_type'' \<in> set form_only"
    "''upstream_model_update_check_enabled'' \<in> set form_only" "''upstream_model_update_auto_sync_enabled'' \<in> set form_only"
    "''upstream_model_update_ignored_models'' \<in> set form_only" by (simp_all add: form_only_def)
  note eq = e(1) [THEN bspec]
  have t: "type_settings d kvs = type_settings s kvs" for kvs
    unfolding type_settings_def ty mem(1-7) [THEN flag] mem(8,9) [THEN eq] ..
  have u: "upstream_settings d kvs = upstream_settings s kvs" for kvs
    unfolding upstream_settings_def ignored_list_def mem(10-12) [THEN eq] ..
  show ?thesis unfolding new_settings_def e(2) t u ..
qed

lemma new_settings_fixed:
  assumes "new_settings s = Inr v" "json_canon v" "inputs_prop d ''type'' = inputs_prop s ''type''" "inputs_prop d ''settings'' = stringify v"
    and "\<And>k w. map_of (settings_values v) k = Some w \<Longrightarrow> inputs_prop d k = w"
  shows "new_settings d = Inr v" "\<not> nullish v"
proof -
  have shape: "(\<exists>xs. v = Arr xs) \<or> (\<exists>kvs. v = Obj (upstream_settings s (type_settings s kvs)))"
  proof -
    obtain settings where "new_settings s =
        (case settings of Obj kvs \<Rightarrow> Inr (Obj (upstream_settings s (type_settings s kvs))) | Arr xs \<Rightarrow> Inr (Arr xs) | _ \<Rightarrow> Inl (Threw TypeError))"
      by (simp add: new_settings_def Let_def)
    then show ?thesis using assms(1) by (cases settings) auto
  qed
  then show n: "\<not> nullish v" by (auto simp: nullish_def)
  have "json_parse (to_str (stringify v)) = Some v" using assms(2) by (simp add: stringify_def json_parse_stringify)
  moreover have "truthy (stringify v)" using assms(2) n by (rule parsed_stringify)
  ultimately have "new_settings d = (case v of Obj kvs \<Rightarrow> Inr (Obj (upstream_settings d (type_settings d kvs))) | Arr xs \<Rightarrow> Inr (Arr xs) | _ \<Rightarrow> Inl (Threw TypeError))"
    using assms(4) by (simp add: new_settings_def)
  then show "new_settings d = Inr v"
  proof (cases v)
    case (Obj K)
    then obtain kvs where "K = upstream_settings s (type_settings s kvs)" using shape by auto
    from settings_fixed [OF this assms(3)] have "upstream_settings d (type_settings d K) = K" using assms(5) Obj by blast
    then show ?thesis using Obj \<open>new_settings d = _\<close> by simp
  qed (use shape \<open>new_settings d = _\<close> in auto)
qed

lemma finish_texts:
  assumes "finish_inputs s = Inr s'" "new_settings s = Inr v"
  shows "inputs_prop s' ''setting'' = stringify (channelExtraSettings s)" "inputs_prop s' ''settings'' = stringify v"
proof -
  have nf: "''setting'' \<notin> set form_only" "''settings'' \<notin> set form_only" by (simp_all add: form_only_def)
  from assms(1) show "inputs_prop s' ''setting'' = stringify (channelExtraSettings s)" "inputs_prop s' ''settings'' = stringify v"
    by (rule finish_inputsE; use assms(2) nf in \<open>simp add: inputs_prop_fold_del\<close>)+
qed

lemma finish_group:
  assumes "finish_inputs s = Inr s'" "split_list (Str g) = Inr (inputs_prop s ''groups'')"
  shows "inputs_prop s' ''group'' = Str g"
proof -
  define gs where "gs = (if g = [] then [] else split_on 44 g)"
  have "inputs_prop s ''groups'' = str_list gs" using assms(2) by (auto simp: split_list_def gs_def str_list_def split: if_splits)
  moreover have "map (\<lambda>v. if nullish v then [] else to_str v) (map Str gs) = gs" by (simp add: nullish_def map_idI)
  moreover have "join [44] gs = g" by (simp add: gs_def)
  ultimately have j: "join_val (js_or (inputs_prop s ''groups'') (Arr [])) = Inr (Str g)"
    by (simp add: str_list_def join_val_def js_or_def truthy_def)
  have nf: "''groups'' \<notin> set form_only" by (simp add: form_only_def)
  from assms(1) show ?thesis by (rule finish_inputsE) (use j nf in \<open>simp add: inputs_prop_fold_del\<close>)
qed

lemma new_settings_shape: "new_settings s = Inr v \<Longrightarrow> \<not> nullish v"
  by (auto simp: new_settings_def Let_def nullish_def split: jsval.splits)

section \<open>Both ways\<close>

lemma submit_steps:
  assumes "submit_inputs t message confirmMissing confirmRisk st F = Inr (s, added)"
  obtains s3 models mapping s4 s6 where "required_fields t st s3 = Inr models"
    "list_models st confirmMissing mapping models s3 = Inr (s4, added)" "finish_inputs s6 = Inr s"
    "inputs_prop s6 ''models'' = inputs_prop s4 ''models''"
    "\<forall>k. k \<notin> {''key'', ''vertex_files'', ''param_override''} \<longrightarrow> inputs_prop s3 k = inputs_prop F k"
    "\<forall>k. k \<notin> {''key'', ''vertex_files'', ''param_override'', ''models'', ''base_url'', ''other''} \<longrightarrow> inputs_prop s6 k = inputs_prop F k"
proof -
  from assms obtain s1 s2 s3 models mapping s4 s6 where
    s: "codex_key t st (put (js ''param_override'') (s_param_override st) F) = Inr s1" "vertex_key t message st s1 = Inr s2" "keep_old_key st s2 = Inr s3"
    and m: "required_fields t st s3 = Inr models" "list_models st confirmMissing mapping models s3 = Inr (s4, added)"
    and t: "tidy_address s4 = Inr s6" "finish_inputs s6 = Inr s"
    by (rule submit_inputsE)
  have f3: "inputs_prop s3 k = inputs_prop F k" if "k \<notin> {''key'', ''vertex_files'', ''param_override''}" for k
    using that codex_key_frame [OF s(1), of k] vertex_key_frame [OF s(2), of k] keep_old_key_frame [OF s(3), of k] by simp
  have f6: "inputs_prop s6 k = inputs_prop F k"
    if "k \<notin> {''key'', ''vertex_files'', ''param_override'', ''models'', ''base_url'', ''other''}" for k
    using that f3 [of k] list_models_frame [OF m(2), of k] tidy_address_frame [OF t(1), of k] by simp
  have m6: "inputs_prop s6 ''models'' = inputs_prop s4 ''models''" using tidy_address_frame [OF t(1)] by simp
  show ?thesis by (rule that [OF m t(2) m6]; intro allI impI; erule f3 f6)
qed

lemma form_only_kept:
  "k \<in> set form_only \<union> {''settings'', ''type'', ''groups''} \<Longrightarrow> k \<notin> {''key'', ''vertex_files'', ''param_override'', ''models'', ''base_url'', ''other''}"
  by (simp add: form_only_def) (elim disjE; simp)

lemma sent_texts:
  assumes "submit_inputs t message confirmMissing confirmRisk st F = Inr (s, added)" "new_settings F = Inr v"
  shows "inputs_prop s ''setting'' = stringify (channelExtraSettings F)" "inputs_prop s ''settings'' = stringify v"
    "inputs_prop s ''type'' = inputs_prop F ''type''"
proof -
  from assms(1) obtain s6 where f: "finish_inputs s6 = Inr s" "\<forall>k. k \<notin> {''key'', ''vertex_files'', ''param_override'', ''models'', ''base_url'', ''other''} \<longrightarrow> inputs_prop s6 k = inputs_prop F k"
    by (rule submit_steps)
  have keep: "inputs_prop s6 k = inputs_prop F k" if "k \<in> set form_only \<union> {''settings'', ''type'', ''groups''}" for k
    by (rule f(2) [rule_format]) (rule form_only_kept [OF that])
  have "new_settings s6 = new_settings F" by (rule new_settings_cong) (rule keep, blast)
  then have n: "new_settings s6 = Inr v" using assms(2) by simp
  have "channelExtraSettings s6 = channelExtraSettings F" by (rule channelExtraSettings_cong) (rule keep, blast)
  then show "inputs_prop s ''setting'' = stringify (channelExtraSettings F)" "inputs_prop s ''settings'' = stringify v"
    using finish_texts [OF f(1) n] by simp_all
  have "''type'' \<notin> set form_only" by (simp add: form_only_def)
  then show "inputs_prop s ''type'' = inputs_prop F ''type''" using finish_inputs_frame [OF f(1), of "''type''"] keep [of "''type''"] by simp
qed

lemma normalized_clean: "\<forall>p \<in> set ps. trim p = p \<and> p \<noteq> [] \<Longrightarrow> normalized_models (map Str ps) = Inr ps"
  by (induction ps) (auto simp: trim_or_empty_def trim_val_def truthy_def)

lemma list_models_same:
  assumes "list_models st confirmMissing mapping (map Str ps) s = Inr (s', added)" "\<forall>p \<in> set ps. trim p = p \<and> p \<noteq> []"
    and "s_isEdit st" "s_initialModels st = ps" "Str (s_initialModelMapping st) = inputs_prop s ''model_mapping''"
  shows "inputs_prop s' ''models'' = str_list ps" "added = None"
proof -
  have "trim_or_empty (Str m) = Inr (trim m)" for m by (auto simp: trim_or_empty_def trim_val_def truthy_def)
  then have "hasModelConfigChanged st ps (inputs_prop s ''model_mapping'') = Inr False"
    using assms(3,4) unfolding assms(5) [symmetric] by (simp add: hasModelConfigChanged_def)
  then show "inputs_prop s' ''models'' = str_list ps" "added = None"
    using assms(1) normalized_clean [OF assms(2)] by (auto simp: list_models_def Let_def split: if_splits)
qed

lemma sent_models_group:
  assumes "submit_inputs t message confirmMissing confirmRisk st F = Inr (s, added)"
    and "split_list (Str mt) = Inr (inputs_prop F ''models'')" "split_list (Str g) = Inr (inputs_prop F ''groups'')"
    and "\<forall>p \<in> set (split_on 44 mt). trim p = p \<and> p \<noteq> []"
    and "s_isEdit st" "s_initialModels st = split_on 44 mt" "Str (s_initialModelMapping st) = inputs_prop F ''model_mapping''"
  shows "inputs_prop s ''models'' = Str mt" "inputs_prop s ''group'' = Str g" "added = None"
proof -
  from assms(1) obtain s3 models mapping s4 s6 where
    m: "required_fields t st s3 = Inr models" "list_models st confirmMissing mapping models s3 = Inr (s4, added)" "finish_inputs s6 = Inr s"
      "inputs_prop s6 ''models'' = inputs_prop s4 ''models''"
    and f: "\<forall>k. k \<notin> {''key'', ''vertex_files'', ''param_override''} \<longrightarrow> inputs_prop s3 k = inputs_prop F k"
      "\<forall>k. k \<notin> {''key'', ''vertex_files'', ''param_override'', ''models'', ''base_url'', ''other''} \<longrightarrow> inputs_prop s6 k = inputs_prop F k"
    by (rule submit_steps)
  have "inputs_prop s3 ''models'' = Arr models" using m(1)
    by (auto simp: required_fields_def info_def and_then_Inr_iff split: if_splits jsval.splits list.splits)
  moreover have "models \<noteq> []" using m(1) by (auto simp: required_fields_def info_def and_then_Inr_iff split: if_splits jsval.splits list.splits)
  ultimately have "models = map Str (split_on 44 mt)"
    using assms(2) f(1) by (auto simp: split_list_def str_list_def split: if_splits)
  moreover have "Str (s_initialModelMapping st) = inputs_prop s3 ''model_mapping''" using f(1) assms(7) by simp
  ultimately have l: "inputs_prop s4 ''models'' = str_list (split_on 44 mt)" "added = None"
    using list_models_same [of st confirmMissing mapping "split_on 44 mt" s3 s4 added] m(2) assms(4-6) by simp_all
  show "added = None" by (rule l)
  show "inputs_prop s ''models'' = Str mt" using finish_models [OF m(3), of "split_on 44 mt"] m(4) l(1) by simp
  show "inputs_prop s ''group'' = Str g" using finish_group [OF m(3), of g] f(2) assms(3) by simp
qed

text \<open>C29: Opening a channel that was just saved and saving it again without a change sends the same type, models, groups and
  settings, and asks nothing about missing models: \<open>loadChannel\<close> reads back what \<open>submit\<close> wrote, for every channel
  type.\<close>

theorem save_load_save:
  assumes first: "submit t message confirmMissing confirmRisk st F = Inr req" "new_settings F = Inr v"
    and canon: "json_canon (channelExtraSettings F)" "json_canon v"
    and stored: "\<forall>k \<in> {''type'', ''models'', ''group'', ''setting'', ''settings''}. inputs_prop D k = own_prop (sent_channel req) (js k)"
    and models: "own_prop (sent_channel req) (js ''models'') = Str mt" "\<forall>p \<in> set (split_on 44 mt). trim p = p \<and> p \<noteq> []"
    and opened: "loaded_data D = Inr d" "s_isEdit st'" "s_initialModels st' = split_on 44 mt"
      "Str (s_initialModelMapping st') = inputs_prop d ''model_mapping''"
    and again: "submit_inputs t message confirmMissing confirmRisk st' d = Inr (s', added)"
  shows "(\<forall>k \<in> {''type'', ''models'', ''group'', ''setting'', ''settings''}. inputs_prop s' k = own_prop (sent_channel req) (js k)) \<and> added = None"
proof -
  obtain s a where s: "submit_inputs t message confirmMissing confirmRisk st F = Inr (s, a)" "req = channel_request st s"
    using submit_sent [OF first(1)] .
  have sent: "own_prop (sent_channel req) (js k) = inputs_prop s k" if "k \<in> {''type'', ''models'', ''group'', ''setting'', ''settings''}" for k
    unfolding s(2) by (rule sent_prop) (use that in auto)
  note texts = sent_texts [OF s(1) first(2)]
  have D: "inputs_prop D ''setting'' = stringify (channelExtraSettings F)" "inputs_prop D ''settings'' = stringify v"
    "inputs_prop D ''type'' = inputs_prop F ''type''" "inputs_prop D ''models'' = Str mt" "inputs_prop D ''group'' = inputs_prop s ''group''"
    using stored texts models(1) by (simp_all add: sent)
  have nn: "\<not> nullish v" using new_settings_shape [OF first(2)] .
  have ne: "\<not> nullish (channelExtraSettings F)" by (simp add: channelExtraSettings_def nullish_def Let_def)
  note l = loaded_prop [OF opened(1) D(1) canon(1) ne D(2) canon(2) nn]
  from s(1) obtain s6 where f6: "finish_inputs s6 = Inr s" by (rule submit_steps)
  obtain g where g: "inputs_prop s ''group'' = Str g" using finish_shape(2) [OF f6, of "''group''"] by auto
  have n: "new_settings d = Inr v"
    using new_settings_fixed [OF first(2) canon(2), of d] l(1,3,5) D(3) by simp
  have x: "channelExtraSettings d = channelExtraSettings F" using l(2) by (rule extra_settings_fixed)
  have "inputs_prop s' ''setting'' = stringify (channelExtraSettings F)" "inputs_prop s' ''settings'' = stringify v" "inputs_prop s' ''type'' = inputs_prop F ''type''"
    using sent_texts [OF again n] x l(3) D(3) by simp_all
  moreover have "inputs_prop s' ''models'' = Str mt" "inputs_prop s' ''group'' = Str g" "added = None"
    using sent_models_group [OF again _ _ models(2) opened(2-4), of g] l(6,7) D(4,5) g by simp_all
  ultimately show ?thesis using texts models(1) g by (simp add: sent)
qed


text \<open>The channel of the form above, saved, and the answer that opens it again.\<close>

definition demo_settings :: inputs where
  "demo_settings = [(js ''upstream_model_update_check_enabled'', Bool False), (js ''upstream_model_update_auto_sync_enabled'', Bool False),
     (js ''upstream_model_update_ignored_models'', Arr []), (js ''upstream_model_update_last_detected_models'', Arr []),
     (js ''upstream_model_update_last_check_time'', Num (Fin False 0))]"

definition demo_saved :: inputs where
  "demo_saved = [(js ''models'', Str (js ''m'')), (js ''group'', Str (js ''g'')), (js ''model_mapping'', Str []),
     (js ''setting'', stringify (channelExtraSettings (demo_form [32] [] []))), (js ''settings'', stringify (Obj demo_settings))]"

definition demo_reopened :: submit_state where
  "demo_reopened = (demo_submit True)\<lparr>s_initialModels := [js ''m'']\<rparr>"

lemma canon_fields:
  assumes "distinct (map fst kvs)" "\<forall>kv \<in> set kvs. \<not> is_index (js (fst kv)) \<and> json_canon (snd kv)"
  shows "json_canon (Obj (map (\<lambda>(k, v). (js k, v)) kvs))"
proof -
  have "map fst (map (\<lambda>(k, v). (js k, v)) kvs) = map js (map fst kvs)" by auto
  moreover have "distinct (map js (map fst kvs))" using assms(1) by (simp add: distinct_map inj_on_def)
  moreover have "own_order (map (\<lambda>(k, v). (js k, v)) kvs) = map (\<lambda>(k, v). (js k, v)) kvs" by (rule own_order_id) (use assms(2) in auto)
  ultimately show ?thesis unfolding json_canon.simps using assms(2) by (simp only:) auto
qed

lemma demo_settings_canon: "json_canon (Obj demo_settings)"
proof -
  have eq: "demo_settings = map (\<lambda>(k, v). (js k, v)) [(''upstream_model_update_check_enabled'', Bool False), (''upstream_model_update_auto_sync_enabled'', Bool False),
     (''upstream_model_update_ignored_models'', Arr []), (''upstream_model_update_last_detected_models'', Arr []),
     (''upstream_model_update_last_check_time'', Num (Fin False 0))]" by (simp add: demo_settings_def)
  show ?thesis unfolding eq by (rule canon_fields; simp add: js_def json_num_def double_mag_def)
qed

lemma demo_extra_canon: "json_canon (channelExtraSettings (demo_form [32] [] []))"
proof -
  have eq: "channelExtraSettings (demo_form [32] [] []) = Obj (map (\<lambda>(k, v). (js k, v)) extra_fields)"
    by (simp add: channelExtraSettings_def extra_fields_def js_or_def truthy_def)
  show ?thesis unfolding eq by (rule canon_fields; simp add: extra_fields_def js_def)
qed

lemma demo_new_settings: "new_settings (demo_form [32] [] []) = Inr (Obj demo_settings)"
proof -
  have p: "inputs_prop ((js k, v) # kvs) k' = (if k' = k then v else inputs_prop kvs k')" "inputs_prop [] k' = Undef"
    "del (js k) ([] :: inputs) = []" for k k' v kvs by (simp_all add: inputs_prop_def own_prop_def get_def del_def)
  then show ?thesis
    by (simp add: new_settings_def truthy_def type_settings_def is_type_def upstream_settings_def ignored_list_def str_or_empty_def
      demo_settings_def str_list_def Let_def)
qed

lemma demo_saved_prop:
  "inputs_prop demo_saved k = (if k = ''models'' then Str (js ''m'') else if k = ''group'' then Str (js ''g'') else if k = ''model_mapping'' then Str []
     else if k = ''setting'' then stringify (channelExtraSettings (demo_form [32] [] [])) else if k = ''settings'' then stringify (Obj demo_settings) else Undef)"
  by (simp add: inputs_prop_def own_prop_def get_def demo_saved_def)

lemma demo_first:
  obtains req where "submit (\<lambda>s _. s) (\<lambda>s. s) (\<lambda>_. Add_missing) (\<lambda>_. True) (demo_submit True) (demo_form [32] [] []) = Inr req"
    "\<forall>k \<in> {''type'', ''models'', ''group'', ''setting'', ''settings''}. inputs_prop demo_saved k = own_prop (sent_channel req) (js k)"
proof -
  have "is_sent (submit (\<lambda>s _. s) (\<lambda>s. s) (\<lambda>_. Add_missing) (\<lambda>_. True) (demo_submit True) (demo_form [32] [] []))"
    by (simp add: submit_defs status_defs)
  then obtain req where r: "submit (\<lambda>s _. s) (\<lambda>s. s) (\<lambda>_. Add_missing) (\<lambda>_. True) (demo_submit True) (demo_form [32] [] []) = Inr req"
    by (rule is_sentE)
  then obtain s a where s: "submit_inputs (\<lambda>s _. s) (\<lambda>s. s) (\<lambda>_. Add_missing) (\<lambda>_. True) (demo_submit True) (demo_form [32] [] []) = Inr (s, a)"
    "req = channel_request (demo_submit True) s" by (rule submit_sent)
  have "inputs_prop s ''models'' = Str (js ''m'')" "inputs_prop s ''group'' = Str (js ''g'')"
    using s(1) by (auto simp: submit_defs status_defs nullish_def)
  then have "\<forall>k \<in> {''type'', ''models'', ''group'', ''setting'', ''settings''}. inputs_prop demo_saved k = inputs_prop s k"
    using sent_texts [OF s(1) demo_new_settings] by (simp add: demo_saved_prop)
  then show ?thesis using that [OF r] by (simp add: s(2) sent_prop)
qed

lemma demo_opens:
  obtains d where "loaded_data demo_saved = Inr d" "inputs_prop d ''model_mapping'' = Str []"
    "is_sent (submit (\<lambda>s _. s) (\<lambda>s. s) (\<lambda>_. Add_missing) (\<lambda>_. True) demo_reopened d)"
proof -
  let ?E = "channelExtraSettings (demo_form [32] [] [])" and ?v = "Obj demo_settings"
  define d4 where "d4 = put (js ''model_mapping'') (Str []) (put (js ''groups'') (str_list [js ''g'']) (put (js ''models'') (str_list [js ''m'']) demo_saved))"
  have p4: "inputs_prop d4 k = (if k = ''model_mapping'' then Str [] else if k = ''groups'' then str_list [js ''g'']
      else if k = ''models'' then str_list [js ''m''] else inputs_prop demo_saved k)" for k by (simp add: d4_def)
  have one: "js [c] \<noteq> []" "split_on 44 (js ''m'') = [js ''m'']" "split_on 44 (js ''g'') = [js ''g'']" for c by (simp_all add: js_def)
  have "\<not> is_multi_key d4" by (simp add: is_multi_key_def p4 demo_saved_prop js_or_def truthy_def own_prop_def get_def)
  then have l: "loaded_data demo_saved = Inr (load_base_url (load_settings (load_setting d4)))"
    by (simp add: loaded_data_def demo_saved_prop split_list_def load_mapping_def d4_def Let_def one)
  have "inputs_prop d4 ''setting'' = stringify ?E" by (simp add: p4 demo_saved_prop)
  moreover have "\<not> nullish ?E" by (simp add: channelExtraSettings_def nullish_def Let_def)
  ultimately have e: "inputs_prop (load_setting d4) k = (case map_of extra_fields k of None \<Rightarrow> inputs_prop d4 k | Some dflt \<Rightarrow> js_or (own_prop ?E (js k)) dflt)" for k
    using load_setting_prop [OF _ demo_extra_canon] unfolding map_of_extra by (simp split: option.split)
  have "inputs_prop (load_setting d4) ''settings'' = stringify ?v" by (simp add: e extra_fields_def p4 demo_saved_prop)
  then have s: "inputs_prop (load_settings (load_setting d4)) k = (case map_of (settings_values ?v) k of None \<Rightarrow> inputs_prop (load_setting d4) k | Some w \<Rightarrow> w)" for k
    by (rule load_settings_prop) (rule demo_settings_canon, simp add: nullish_def)
  have k: "map_of (settings_values ?v) k = None \<and> map_of extra_fields k = None"
    if "k \<in> set [''key'', ''type'', ''models'', ''model_mapping'', ''status_code_mapping'', ''base_url'', ''other'', ''groups'', ''settings'', ''name'', ''vertex_files'']" for k
  proof -
    have "\<forall>k \<in> set [''key'', ''type'', ''models'', ''model_mapping'', ''status_code_mapping'', ''base_url'', ''other'', ''groups'', ''settings'', ''name'', ''vertex_files''].
      k \<notin> set (map fst (settings_values Undef)) \<and> map_of extra_fields k = None" by (simp add: settings_values_def extra_fields_def Let_def)
    then show ?thesis using that map_of_settings_None by blast
  qed
  have f: "inputs_prop (load_settings (load_setting d4)) k = inputs_prop d4 k"
    if "k \<in> set [''key'', ''type'', ''models'', ''model_mapping'', ''status_code_mapping'', ''base_url'', ''other'', ''groups'', ''settings'', ''name'', ''vertex_files'']" for k
    using k [OF that] by (simp add: s e)
  have b: "load_base_url (load_settings (load_setting d4)) = load_settings (load_setting d4)"
    by (simp add: load_base_url_def is_type_def f p4 demo_saved_prop)
  have po: "parsed_object (stringify ?v) = Some ?v" "truthy (stringify ?v)" using parsed_stringify [OF demo_settings_canon] by (simp_all add: nullish_def)
  then have js: "json_parse (to_str (stringify ?v)) = Some ?v" by (simp only: parsed_object_def option.distinct split: option.splits if_splits)
  have "is_sent (submit (\<lambda>s _. s) (\<lambda>s. s) (\<lambda>_. Add_missing) (\<lambda>_. True) demo_reopened (load_settings (load_setting d4)))"
    using js po(2) by (simp add: demo_reopened_def submit_defs status_defs f p4 demo_saved_prop)
  then show ?thesis using that [OF l] by (simp add: b f p4)
qed

theorem save_load_save_witness:
  "\<exists>req d s'. submit (\<lambda>s _. s) (\<lambda>s. s) (\<lambda>_. Add_missing) (\<lambda>_. True) (demo_submit True) (demo_form [32] [] []) = Inr req \<and>
    loaded_data demo_saved = Inr d \<and> submit_inputs (\<lambda>s _. s) (\<lambda>s. s) (\<lambda>_. Add_missing) (\<lambda>_. True) demo_reopened d = Inr (s', None) \<and>
    (\<forall>k \<in> {''type'', ''models'', ''group'', ''setting'', ''settings''}. inputs_prop s' k = own_prop (sent_channel req) (js k))"
proof -
  obtain req where r: "submit (\<lambda>s _. s) (\<lambda>s. s) (\<lambda>_. Add_missing) (\<lambda>_. True) (demo_submit True) (demo_form [32] [] []) = Inr req"
    "\<forall>k \<in> {''type'', ''models'', ''group'', ''setting'', ''settings''}. inputs_prop demo_saved k = own_prop (sent_channel req) (js k)"
    by (rule demo_first)
  obtain d where d: "loaded_data demo_saved = Inr d" "inputs_prop d ''model_mapping'' = Str []"
    "is_sent (submit (\<lambda>s _. s) (\<lambda>s. s) (\<lambda>_. Add_missing) (\<lambda>_. True) demo_reopened d)" by (rule demo_opens)
  then obtain s' added where s: "submit_inputs (\<lambda>s _. s) (\<lambda>s. s) (\<lambda>_. Add_missing) (\<lambda>_. True) demo_reopened d = Inr (s', added)"
    by (elim is_sentE submit_sent)
  have m: "own_prop (sent_channel req) (js ''models'') = Str (js ''m'')" using r(2) by (simp add: demo_saved_prop)
  have one: "split_on 44 (js ''m'') = [js ''m'']" "js ''m'' \<noteq> []" by (simp_all add: js_def)
  have st: "s_isEdit demo_reopened" "s_initialModels demo_reopened = split_on 44 (js ''m'')"
    "Str (s_initialModelMapping demo_reopened) = inputs_prop d ''model_mapping''"
    by (simp_all add: demo_reopened_def demo_submit_def d(2) one)
  have "\<forall>p \<in> set (split_on 44 (js ''m'')). trim p = p \<and> p \<noteq> []" by (simp add: one trim_m)
  from save_load_save [OF r(1) demo_new_settings demo_extra_canon demo_settings_canon r(2) m this d(1) st s]
  show ?thesis using r(1) d(1) s by blast
qed

end
