(* ===== verification/Quota.thy ===== *)
theory Quota
  imports Model_Price
begin

text \<open>
  Quotas and amounts of money: the quota functions of \<open>helpers/render.jsx\<close> and \<open>helpers/quota.js\<close>.  What they read
  from the local storage is a record of its three items.
\<close>

section \<open>The settings in the local storage\<close>

record storage =
  ls_quota_display_type :: "jsstr option"
  ls_status :: "jsstr option"
  ls_quota_per_unit :: "jsstr option"

text \<open>\<open>localStorage.getItem('quota_display_type') || 'USD'\<close>, and the parsed status, if there is one.\<close>

definition getQuotaDisplayType :: "storage \<Rightarrow> jsstr" where
  "getQuotaDisplayType ls =
     (case ls_quota_display_type ls of None \<Rightarrow> js ''USD'' | Some s \<Rightarrow> if s = [] then js ''USD'' else s)"

definition read_status :: "storage \<Rightarrow> jsval option" where
  "read_status ls = (case ls_status ls of None \<Rightarrow> None | Some s \<Rightarrow> if s = [] then None else json_parse s)"

definition status_or :: "storage \<Rightarrow> string \<Rightarrow> jsval \<Rightarrow> jsval \<Rightarrow> jsval" where
  "status_or ls k fallback absent = (case read_status ls of None \<Rightarrow> absent | Some s \<Rightarrow> js_or (own_prop s (js k)) fallback)"

definition custom_symbol :: "storage \<Rightarrow> jsval" where
  "custom_symbol ls = status_or ls ''custom_currency_symbol'' (Str [164]) (Str [164])"

definition getQuotaPerUnit :: "storage \<Rightarrow> jsnum" where
  "getQuotaPerUnit ls = parse_float (case ls_quota_per_unit ls of None \<Rightarrow> js ''null'' | Some s \<Rightarrow> s)"

text \<open>\<open>v + w\<close>: texts, arrays and objects concatenate, everything else adds.\<close>

definition is_text :: "jsval \<Rightarrow> bool" where
  "is_text v = (case v of Str _ \<Rightarrow> True | Arr _ \<Rightarrow> True | Obj _ \<Rightarrow> True | _ \<Rightarrow> False)"

definition js_plus :: "jsval \<Rightarrow> jsval \<Rightarrow> jsval" where
  "js_plus v w = (if is_text v \<or> is_text w then Str (to_str v @ to_str w) else Num (num_add (to_num v) (to_num w)))"

section \<open>Showing numbers\<close>

abbreviation nat_num :: "nat \<Rightarrow> jsnum" where "nat_num n \<equiv> Fin False (of_nat n)"

definition renderNumber :: "jsval \<Rightarrow> jsval" where
  "renderNumber num =
     (let x = to_num num; short = (\<lambda>d c. Str (to_fixed 1 (num_div x (Fin False d)) @ [c])) in
      if num_le (Fin False 1000000000) x then short 1000000000 66
      else if num_le (Fin False 1000000) x then short 1000000 77
      else if num_le (Fin False 10000) x then short 1000 107
      else num)"

definition renderQuotaNumberWithDigit :: "storage \<Rightarrow> jsval \<Rightarrow> nat \<Rightarrow> jsval" where
  "renderQuotaNumberWithDigit ls num digits =
     (case num of
        Num x \<Rightarrow>
          if x = NaN then Num (Fin False 0)
          else (let type' = getQuotaDisplayType ls; s = to_fixed digits x in
            if type' = js ''CNY'' then Str ([165] @ s)
            else if type' = js ''USD'' then Str ([36] @ s)
            else if type' = js ''CUSTOM'' then js_plus (custom_symbol ls) (Str s)
            else Str s)
      | _ \<Rightarrow> Num (Fin False 0))"

definition renderNumberWithPoint :: "jsval \<Rightarrow> js_error + jsstr" where
  "renderNumberWithPoint num =
     (case num of
        Undef \<Rightarrow> Inr []
      | Num x \<Rightarrow>
          (let s = to_fixed 2 x in
           if num_le (Fin False 100000) (to_number s) then
             (let wholePart = takeWhile (\<lambda>c. c \<noteq> 46) s; decimalPart = dropWhile (\<lambda>c. c \<noteq> 46) s
              in Inr (take 2 wholePart @ js ''..'' @ drop (length wholePart - 2) wholePart @ decimalPart))
           else Inr s)
      | _ \<Rightarrow> Inl TypeError)"

definition renderUnitWithQuota :: "storage \<Rightarrow> jsval \<Rightarrow> jsnum" where
  "renderUnitWithQuota ls quota = num_mul (getQuotaPerUnit ls) (parse_float (to_str quota))"

definition getQuotaWithUnit :: "storage \<Rightarrow> jsval \<Rightarrow> nat \<Rightarrow> jsstr" where
  "getQuotaWithUnit ls quota digits = to_fixed digits (num_div (to_num quota) (getQuotaPerUnit ls))"

definition renderQuotaWithAmount :: "storage \<Rightarrow> jsval \<Rightarrow> jsval" where
  "renderQuotaWithAmount ls amount =
     (let type' = getQuotaDisplayType ls in
      if type' = js ''TOKENS'' then renderNumber (Num (renderUnitWithQuota ls amount))
      else if type' = js ''CNY'' then Str ([165] @ to_str amount)
      else if type' = js ''CUSTOM'' then js_plus (custom_symbol ls) amount
      else Str ([36] @ to_str amount))"

section \<open>Currencies\<close>

record currency =
  c_symbol :: jsval
  c_rate :: jsval
  c_type :: jsstr

definition getCurrencyConfig :: "storage \<Rightarrow> currency" where
  "getCurrencyConfig ls =
     (let type' = getQuotaDisplayType ls; one' = Num (Fin False 1) in
      if type' = js ''CNY'' then
        \<lparr>c_symbol = Str [165], c_rate = status_or ls ''usd_exchange_rate'' (Num (Fin False 7)) one', c_type = type'\<rparr>
      else if type' = js ''CUSTOM'' then
        \<lparr>c_symbol = status_or ls ''custom_currency_symbol'' (Str [164]) (Str [36]),
         c_rate = status_or ls ''custom_currency_exchange_rate'' one' one', c_type = type'\<rparr>
      else \<lparr>c_symbol = Str [36], c_rate = one', c_type = type'\<rparr>)"

definition convertUSDToCurrency :: "storage \<Rightarrow> jsval \<Rightarrow> nat \<Rightarrow> jsval" where
  "convertUSDToCurrency ls usdAmount digits =
     (let cur = getCurrencyConfig ls in js_plus (c_symbol cur) (Str (to_fixed digits (num_mul (to_num usdAmount) (to_num (c_rate cur))))))"

text \<open>The symbol and the value of a quota in the currency shown.\<close>

definition quota_value :: "storage \<Rightarrow> jsval \<Rightarrow> jsval \<times> jsnum" where
  "quota_value ls quota =
     (let type' = getQuotaDisplayType ls; resultUSD = num_div (to_num quota) (getQuotaPerUnit ls); one' = Num (Fin False 1) in
      if type' = js ''CNY'' then (Str [165], num_mul resultUSD (to_num (status_or ls ''usd_exchange_rate'' one' one')))
      else if type' = js ''CUSTOM'' then
        (custom_symbol ls, num_mul resultUSD (to_num (status_or ls ''custom_currency_exchange_rate'' one' one')))
      else (Str [36], resultUSD))"

definition renderQuota :: "storage \<Rightarrow> jsval \<Rightarrow> nat \<Rightarrow> jsval" where
  "renderQuota ls quota digits =
     (if getQuotaDisplayType ls = js ''TOKENS'' then renderNumber quota
      else (let (symbol, v) = quota_value ls quota; fixedResult = to_fixed digits v; zero = Fin False 0 in
        if num_eq (parse_float fixedResult) zero \<and> num_less zero (to_num quota) \<and> num_less zero v
        then js_plus symbol (Str (to_fixed digits (mk_num False (1 / 10 ^ digits))))
        else js_plus symbol (Str fixedResult)))"

definition txt_equivalent :: jsstr where "txt_equivalent = [31561, 20215, 37329, 39069, 65306]"

definition renderQuotaWithPrompt :: "translate \<Rightarrow> storage \<Rightarrow> jsval \<Rightarrow> nat \<Rightarrow> jsval" where
  "renderQuotaWithPrompt t ls quota digits =
     (if getQuotaDisplayType ls \<noteq> js ''TOKENS'' then js_plus (Str (t txt_equivalent [])) (renderQuota ls quota digits) else Str [])"

section \<open>Editing a quota as an amount\<close>

definition quota_unit :: "storage \<Rightarrow> jsnum" where
  "quota_unit ls =
     (let raw = parse_float (case ls_quota_per_unit ls of None \<Rightarrow> js ''1'' | Some s \<Rightarrow> if s = [] then js ''1'' else s)
      in if is_finite raw \<and> num_less (Fin False 0) raw then raw else Fin False 1)"

definition rate_or_1 :: "currency \<Rightarrow> jsnum" where
  "rate_or_1 cur = to_num (js_or (c_rate cur) (Num (Fin False 1)))"

definition quotaToDisplayAmount :: "storage \<Rightarrow> jsval \<Rightarrow> jsnum" where
  "quotaToDisplayAmount ls quota =
     (let q = to_num (js_or quota (Num (Fin False 0))); cur = getCurrencyConfig ls in
      if \<not> is_finite q \<or> num_le q (Fin False 0) then Fin False 0
      else if c_type cur = js ''TOKENS'' then q
      else let usd = num_div q (quota_unit ls) in
        if c_type cur = js ''USD'' then usd else num_mul usd (rate_or_1 cur))"

definition displayAmountToQuota :: "storage \<Rightarrow> jsval \<Rightarrow> jsnum" where
  "displayAmountToQuota ls amount =
     (let v = to_num (js_or amount (Num (Fin False 0))); cur = getCurrencyConfig ls in
      if \<not> is_finite v \<or> num_le v (Fin False 0) then Fin False 0
      else if c_type cur = js ''TOKENS'' then num_round v
      else let usd = (if c_type cur = js ''USD'' then v else num_div v (rate_or_1 cur))
        in num_round (num_mul usd (quota_unit ls)))"

section \<open>A small positive quota is not shown as zero\<close>

lemma to_fixed_unit:
  assumes "d \<le> 100"
  obtains m where "mk_num False (1 / 10 ^ d) = Fin False m" "0 < m" "m < 10 ^ 17" "\<lfloor>m * 10 ^ d + 1 / 2\<rfloor> = 1"
proof -
  let ?q = "1 / 10 ^ d :: rat"
  have "(10 :: rat) ^ d \<le> 10 ^ 100" using assms by (intro power_increasing) simp_all
  then have "(1 :: rat) / 10 ^ 100 \<le> ?q" by (intro divide_left_mono) simp_all
  moreover have "(2 :: rat) powi (- 1022) \<le> 1 / 10 ^ 100" by (simp add: power_int_minus divide_simps)
  ultimately have "2 powi (- 1022) \<le> ?q" by (rule order_trans [rotated])
  then have e: "\<bar>rnd_mag ?q - ?q\<bar> \<le> ulp * ?q" by (rule rnd_mag_rel)
  moreover have "0 < ?q" "?q \<le> 1" by simp_all
  moreover have "ulp * ?q < 1 / 2 * ?q" by (rule mult_strict_right_mono) simp_all
  ultimately have m: "0 < rnd_mag ?q" "rnd_mag ?q < 10 ^ 17" "\<bar>rnd_mag ?q - of_int 1 / 10 ^ d\<bar> < 1 / 2 / 10 ^ d"
    by (linarith | simp)+
  then show ?thesis using that double_mag_rnd [of ?q False] round_fixed [OF m(3)] by simp
qed

lemma parse_fixed_pos:
  assumes "0 < m" "m < 10 ^ 21" "\<not> num_eq (parse_float (to_fixed d (Fin False m))) (Fin False 0)"
  shows "num_less (Fin False 0) (parse_float (to_fixed d (Fin False m)))"
proof -
  have "parse_float (to_fixed d (Fin False m)) = mk_num False (of_int \<lfloor>m * 10 ^ d + 1 / 2\<rfloor> / 10 ^ d)"
    using parse_to_fixed [of m d False] assms(1,2) by simp
  moreover have "0 \<le> rnd_mag (of_int \<lfloor>m * 10 ^ d + 1 / 2\<rfloor> / 10 ^ d)" using assms(1) by (intro rnd_mag_nonneg) simp
  ultimately show ?thesis using assms(3) by (auto simp: mk_num_def Let_def split: if_splits)
qed

text \<open>C32: A positive quota is never shown as zero: in every currency the amount shown reads back as a positive number, one
  unit of the last decimal if the value is smaller than that.\<close>

theorem positive_quota_shown:
  assumes "getQuotaDisplayType ls \<noteq> js ''TOKENS''" "num_less (Fin False 0) (to_num quota)"
    and "quota_value ls quota = (symbol, Fin False m)" "0 < m" "m < 10 ^ 21" "digits \<le> 100"
  shows "\<exists>text'. renderQuota ls quota digits = js_plus symbol (Str text') \<and> num_less (Fin False 0) (parse_float text')"
proof (cases "num_eq (parse_float (to_fixed digits (Fin False m))) (Fin False 0)")
  case True
  obtain n where n: "mk_num False (1 / 10 ^ digits) = Fin False n" "0 < n" "n < 10 ^ 17" "\<lfloor>n * 10 ^ digits + 1 / 2\<rfloor> = 1"
    using assms(6) by (rule to_fixed_unit)
  then have "parse_float (to_fixed digits (Fin False n)) = Fin False n"
    using parse_to_fixed [of n digits False] by simp
  then show ?thesis using True assms(1-4) n by (auto simp: renderQuota_def)
next
  case False
  then show ?thesis using assms(1,3) parse_fixed_pos [OF assms(4,5) False] by (auto simp: renderQuota_def)
qed

theorem positive_quota_shown_witness:
  "\<exists>text'. renderQuota \<lparr>ls_quota_display_type = None, ls_status = None, ls_quota_per_unit = Some (js ''500000'')\<rparr> (Num (Fin False 1)) 2
     = js_plus (Str [36]) (Str text') \<and> num_less (Fin False 0) (parse_float text')"
proof -
  let ?ls = "\<lparr>ls_quota_display_type = None, ls_status = None, ls_quota_per_unit = Some (js ''500000'')\<rparr>"
  have u: "parse_float (js ''500000'') = Fin False 500000" by code_simp
  have r: "mk_num False (1 / 500000) = Fin False (rnd_mag (1 / 500000))" "0 < rnd_mag (1 / 500000)" "rnd_mag (1 / 500000) < 10 ^ 21"
    by code_simp+
  then have "quota_value ?ls (Num (Fin False 1)) = (Str [36], Fin False (rnd_mag (1 / 500000)))"
    by (simp add: quota_value_def getQuotaDisplayType_def getQuotaPerUnit_def u)
  then show ?thesis using positive_quota_shown [of ?ls "Num (Fin False 1)" "Str [36]" _ 2] r by (simp add: getQuotaDisplayType_def)
qed

section \<open>Editing a quota\<close>

lemma mk_num_rel:
  assumes "1 / 10 ^ 30 \<le> q" "q \<le> 10 ^ 30"
  obtains d where "mk_num s q = Fin s (q * (1 + d))" "\<bar>d\<bar> \<le> ulp"
proof -
  have q: "0 < q" using assms(1) by (rule less_le_trans [rotated]) simp
  have "(2 :: rat) powi (- 1022) \<le> 1 / 10 ^ 30" by (rule powi2_small) simp
  then have e: "\<bar>rnd_mag q - q\<bar> \<le> ulp * q" using assms(1) by (intro rnd_mag_rel) (rule order_trans)
  then have "\<bar>rnd_mag q - q\<bar> / q \<le> ulp" using q by (simp add: divide_le_eq)
  moreover have "rnd_mag q = q * (1 + (rnd_mag q - q) / q)" using q by (simp add: distrib_left)
  moreover have "ulp * q \<le> 1 * q" using q by (intro mult_right_mono) simp_all
  then have "rnd_mag q \<le> 2 * 10 ^ 30" using e assms(2) by linarith
  then have "rnd_mag q < 2 ^ 1024" by (rule le_less_trans) simp
  ultimately show ?thesis using q that [of "(rnd_mag q - q) / q"] by (simp add: mk_num_def abs_divide)
qed

lemma mult_err:
  fixes a b x y :: rat
  assumes "\<bar>a\<bar> \<le> x" "\<bar>b\<bar> \<le> y"
  obtains e where "(1 + a) * (1 + b) = 1 + e" "\<bar>e\<bar> \<le> x + y + x * y"
proof -
  have "\<bar>a * b\<bar> \<le> x * y" unfolding abs_mult using assms by (intro mult_mono) auto
  then have "\<bar>a + b + a * b\<bar> \<le> x + y + x * y" using assms by linarith
  moreover have "(1 + a) * (1 + b) = 1 + (a + b + a * b)" by (simp add: algebra_simps)
  ultimately show ?thesis using that by blast
qed

lemma round_near:
  assumes "n \<le> 900000000000000" "0 < n" "\<bar>e\<bar> \<le> 5 * ulp"
  shows "num_round (Fin False (of_int n * (1 + e))) = Fin False (of_int n)"
proof -
  have n: "(0 :: rat) < of_int n" "(of_int n :: rat) \<le> 900000000000000" using assms(1,2) by linarith+
  then have "\<bar>of_int n * e\<bar> \<le> 900000000000000 * (5 * ulp)" unfolding abs_mult using assms(3) by (intro mult_mono) auto
  then have "\<bar>of_int n * e\<bar> < 1 / 2" by simp
  then have "\<lfloor>of_int n * (1 + e) + 1 / 2\<rfloor> = n" by (simp add: distrib_left) linarith
  moreover have "num_of_rat (of_int n) = Fin False (of_int n)"
    using double_mag_int [of n] assms(1,2) n by (simp add: num_of_rat_def mk_num_double)
  ultimately show ?thesis using assms(2) by simp
qed

text \<open>\<open>near q k x\<close>: the number \<open>x\<close> is \<open>q\<close> up to \<open>k\<close> roundings.\<close>

definition near :: "rat \<Rightarrow> nat \<Rightarrow> jsnum \<Rightarrow> bool" where
  "near q k x \<longleftrightarrow> (\<exists>e. x = Fin False (q * (1 + e)) \<and> \<bar>e\<bar> \<le> (1 + ulp) ^ k - 1)"

lemma few_roundings: "k \<le> 4 \<Longrightarrow> (1 + ulp) ^ k - 1 \<le> 5 * ulp"
proof -
  assume "k \<le> 4"
  then have "(1 + ulp) ^ k \<le> (1 + ulp) ^ 4" by (intro power_increasing) simp_all
  then show ?thesis by (simp add: power4_eq_xxxx)
qed

lemma nearE:
  assumes "near q k x" "k \<le> 4"
  obtains e where "x = Fin False (q * (1 + e))" "\<bar>e\<bar> \<le> 5 * ulp"
proof -
  obtain e where e: "x = Fin False (q * (1 + e))" "\<bar>e\<bar> \<le> (1 + ulp) ^ k - 1" using assms(1) unfolding near_def by blast
  show ?thesis by (rule that [OF e(1) order_trans [OF e(2) few_roundings [OF assms(2)]]])
qed

lemma near_bounds:
  assumes "near q k x" "k \<le> 4" "0 < q"
  obtains v where "x = Fin False v" "q / 2 \<le> v" "v \<le> 2 * q"
proof -
  obtain e where e: "x = Fin False (q * (1 + e))" "\<bar>e\<bar> \<le> 5 * ulp" using assms(1,2) by (rule nearE)
  then have "1 / 2 \<le> 1 + e" "1 + e \<le> 2" by (simp_all add: abs_le_iff)
  then show ?thesis using that [OF e(1)] mult_left_mono [of "1 / 2" "1 + e" q] mult_left_mono [of "1 + e" 2 q] assms(3) by simp
qed

lemma near_step:
  assumes "near q k (Fin False v)" "k \<le> 3" "0 < s" "1 / 10 ^ 29 \<le> q * s" "q * s \<le> 10 ^ 29"
  shows "near (q * s) (Suc k) (mk_num False (v * s))"
proof -
  obtain e where e: "v = q * (1 + e)" "\<bar>e\<bar> \<le> (1 + ulp) ^ k - 1" using assms(1) by (auto simp: near_def)
  have "0 < q * s" using assms(4) by (rule less_le_trans [rotated]) simp
  then have "0 < q" using assms(3) by (simp add: zero_less_mult_iff)
  then have v: "q / 2 * s \<le> v * s" "v * s \<le> 2 * q * s"
    using near_bounds [OF assms(1), of thesis for thesis] assms(2,3) by (auto intro: mult_right_mono elim!: near_bounds [OF assms(1)])
  have "1 / 10 ^ 30 \<le> v * s" "v * s \<le> 10 ^ 30" using v assms(4,5) by simp_all
  then obtain d where d: "mk_num False (v * s) = Fin False (v * s * (1 + d))" "\<bar>d\<bar> \<le> ulp" by (rule mk_num_rel)
  obtain f where f: "(1 + e) * (1 + d) = 1 + f" "\<bar>f\<bar> \<le> ((1 + ulp) ^ k - 1) + ulp + ((1 + ulp) ^ k - 1) * ulp" using e(2) d(2) by (rule mult_err)
  have "v * s * (1 + d) = q * s * (1 + f)" using e(1) f(1) [symmetric] by (simp add: mult.assoc mult.left_commute)
  then have x: "mk_num False (v * s) = Fin False (q * s * (1 + f))" by (simp only: d(1))
  have "((1 + ulp) ^ k - 1) + ulp + ((1 + ulp) ^ k - 1) * ulp = (1 + ulp) ^ Suc k - 1" by (simp add: algebra_simps)
  then have "\<bar>f\<bar> \<le> (1 + ulp) ^ Suc k - 1" using f(2) by (simp only:)
  then show ?thesis unfolding near_def by (intro exI [of _ f] conjI x)
qed

lemma near_exact: "near q 0 (Fin False q)"
  by (auto simp: near_def)

lemma near_mul:
  assumes "near q k x" "k \<le> 3" "0 < s" "1 / 10 ^ 29 \<le> q * s" "q * s \<le> 10 ^ 29"
  shows "near (q * s) (Suc k) (num_mul x (Fin False s))"
proof -
  obtain v where "x = Fin False v" using assms(1) unfolding near_def by blast
  then show ?thesis using near_step [of q k v s] assms by simp
qed

lemma near_div:
  assumes "near q k x" "k \<le> 3" "0 < s" "1 / 10 ^ 29 \<le> q / s" "q / s \<le> 10 ^ 29"
  shows "near (q / s) (Suc k) (num_div x (Fin False s))"
proof -
  obtain v where "x = Fin False v" using assms(1) unfolding near_def by blast
  then show ?thesis using near_step [of q k v "1 / s"] assms by simp
qed

lemma near_round:
  assumes "near (of_int n) k x" "k \<le> 4" "n \<le> 900000000000000" "0 < n"
  shows "num_round x = Fin False (of_int n)"
  using assms(1,2) by (rule nearE) (use round_near [OF assms(3,4)] in blast)

lemma scale_back:
  fixes u r :: rat
  assumes "0 < n" "n \<le> 900000000000000" "1 \<le> u" "u \<le> 10 ^ 12" "1 / 10 ^ 6 \<le> r" "r \<le> 10 ^ 6"
  defines "usd \<equiv> num_div (Fin False (of_int n)) (Fin False u)"
  shows "near (of_int n / u) 1 usd" "near (of_int n / u * r) 2 (num_mul usd (Fin False r))"
    and "num_round (num_mul usd (Fin False u)) = Fin False (of_int n)"
    and "num_round (num_mul (num_div (num_mul usd (Fin False r)) (Fin False r)) (Fin False u)) = Fin False (of_int n)"
proof -
  define q where "q = of_int n / u"
  have n: "(1 :: rat) \<le> of_int n" "(of_int n :: rat) \<le> 900000000000000" using assms(1,2) by linarith+
  have pos: "0 < u" "0 < r" using assms(3,5) by (auto intro: less_le_trans [rotated])
  have q: "1 / 10 ^ 12 \<le> q" "q \<le> 10 ^ 15" using n assms(3,4) pos unfolding q_def by (simp_all add: divide_simps)
  have qr: "1 / 10 ^ 12 * (1 / 10 ^ 6) \<le> q * r" "q * r \<le> 10 ^ 15 * 10 ^ 6"
    by (rule mult_mono [OF q(1) assms(5)] mult_mono [OF q(2) assms(6)]; use q pos in \<open>simp add: order_trans [OF _ q(1)]\<close>)+
  have b: "1 / 10 ^ 29 \<le> q" "q \<le> 10 ^ 29" "1 / 10 ^ 29 \<le> q * r" "q * r \<le> 10 ^ 29" "1 / 10 ^ 29 \<le> (of_int n :: rat)" "(of_int n :: rat) \<le> 10 ^ 29"
    using q qr n by (auto intro: order_trans)
  have un: "q * u = of_int n" "q * r / r = q" using pos by (simp_all add: q_def)
  show n1: "near (of_int n / u) 1 usd"
    unfolding usd_def One_nat_def using near_exact pos(1) b(1,2) by (intro near_div) (simp_all add: q_def)
  then show n2: "near (of_int n / u * r) 2 (num_mul usd (Fin False r))"
    unfolding numeral_2_eq_2 using near_mul [of q 1 usd r] pos b by (simp add: q_def)
  have "near (q * u) (Suc 1) (num_mul usd (Fin False u))"
    using n1 pos b by (intro near_mul) (simp_all add: q_def [symmetric] un)
  then show "num_round (num_mul usd (Fin False u)) = Fin False (of_int n)"
    unfolding un by (rule near_round) (use assms(1,2) in simp_all)
  have "near (q * r / r) (Suc 2) (num_div (num_mul usd (Fin False r)) (Fin False r))"
    using n2 pos b by (intro near_div) (simp_all add: q_def [symmetric])
  then have "near (q * u) (Suc (Suc 2)) (num_mul (num_div (num_mul usd (Fin False r)) (Fin False r)) (Fin False u))"
    unfolding un(2) using pos b by (intro near_mul) (simp_all add: un)
  then show "num_round (num_mul (num_div (num_mul usd (Fin False r)) (Fin False r)) (Fin False u)) = Fin False (of_int n)"
    unfolding un by (rule near_round) (use assms(1,2) in simp_all)
qed

lemma near_positive:
  assumes "near q k x" "k \<le> 4" "0 < q"
  shows "is_finite x" "\<not> num_le x (Fin False 0)" "js_or (Num x) (Num (Fin False 0)) = Num x"
proof -
  obtain v where v: "x = Fin False v" "q / 2 \<le> v" using assms by (rule near_bounds)
  have "0 < v" using v(2) assms(3) by simp
  then show "is_finite x" "\<not> num_le x (Fin False 0)" "js_or (Num x) (Num (Fin False 0)) = Num x"
    by (simp_all add: v(1) num_le_def js_or_def truthy_def num_zero_def)
qed


text \<open>A quota shown in yuan at the rate 7.\<close>

definition demo_storage :: storage where
  "demo_storage = \<lparr>ls_quota_display_type = Some (js ''CNY''), ls_status = Some (js ''{\"usd_exchange_rate\":7}''),
     ls_quota_per_unit = Some (js ''500000'')\<rparr>"


text \<open>The two readers of the exchange rate disagree when the status has none: a dollar of quota is 1 yuan, a dollar of price 7.\<close>

lemma missing_rate_differs:
  assumes "getQuotaDisplayType ls = js ''CNY''" "read_status ls = Some (Obj [])"
  shows "convertUSDToCurrency ls (Num x) 2 = Str ([165] @ to_fixed 2 (num_mul x (Fin False 7)))"
    and "quota_value ls (Num y) = (Str [165], num_mul (num_div y (getQuotaPerUnit ls)) (Fin False 1))"
  using assms by (simp_all add: convertUSDToCurrency_def getCurrencyConfig_def quota_value_def status_or_def js_or_def truthy_def js_plus_def is_text_def)

end
