(* ===== verification/Channel_Rows.thy ===== *)
theory Channel_Rows
  imports Upstream_Updates Quota
begin

text \<open>
  The rows of the table of channels, \<open>hooks/channels/useChannelsData.jsx\<close>: the channels of an answer, grouped by tag on
  demand, and the changes of rows.  The channels of an answer are JSON objects.
\<close>

section \<open>Rows\<close>

text \<open>What every object inherits: reading these names of an empty object does not give \<open>undefined\<close>.\<close>

definition inherited :: "jsstr list" where
  "inherited = map js [''constructor'', ''__defineGetter__'', ''__defineSetter__'', ''hasOwnProperty'', ''__lookupGetter__'',
     ''__lookupSetter__'', ''isPrototypeOf'', ''propertyIsEnumerable'', ''toString'', ''valueOf'', ''__proto__'', ''toLocaleString'']"

definition fld :: "string \<Rightarrow> jsval \<Rightarrow> jsval" where
  "fld k v = own_prop v (js k)"

definition with_field :: "string \<Rightarrow> jsval \<Rightarrow> jsval \<Rightarrow> jsval" where
  "with_field k w v = (case v of Obj kvs \<Rightarrow> Obj (put (js k) w kvs) | _ \<Rightarrow> v)"

definition meta_val :: "update_meta \<Rightarrow> jsval" where
  "meta_val m = Obj [(js ''enabled'', Bool (m_enabled m)), (js ''pendingAddModels'', Arr (map Str (m_pendingAdd m))),
     (js ''pendingRemoveModels'', Arr (map Str (m_pendingRemove m)))]"

text \<open>The fields every channel gets; assigning to a value that is no object throws.\<close>

definition prepared :: "jsval \<Rightarrow> js_error + jsval" where
  "prepared ch =
     (case ch of
        Obj kvs \<Rightarrow> and_then (parseUpstreamUpdateMeta (fld ''settings'' ch))
          (\<lambda>m. Inr (with_field ''key'' (Str (to_str (fld ''id'' ch))) (with_field ''upstreamUpdateMeta'' (meta_val m) ch)))
      | _ \<Rightarrow> Inl TypeError)"

definition tag_of :: "jsval \<Rightarrow> jsval" where
  "tag_of ch = js_or (fld ''tag'' ch) (Str [])"

definition txt_tag :: jsstr where "txt_tag = [26631, 31614, 65306]"

definition new_row :: "jsval \<Rightarrow> jsval" where
  "new_row tag = Obj [(js ''key'', tag), (js ''id'', tag), (js ''tag'', tag), (js ''name'', js_plus (Str txt_tag) tag), (js ''group'', Str []),
     (js ''used_quota'', Num (Fin False 0)), (js ''response_time'', Num (Fin False 0)), (js ''priority'', Num (Fin True 1)),
     (js ''weight'', Num (Fin True 1)), (js ''children'', Arr [])]"

text \<open>A field all channels of a tag agree on, or the empty text; \<open>-1\<close> stands for no channel yet.\<close>

definition common_field :: "string \<Rightarrow> jsval \<Rightarrow> jsval \<Rightarrow> jsval" where
  "common_field k ch row =
     (if strict_eq (fld k row) (Num (Fin True 1)) then with_field k (fld k ch) row
      else if \<not> strict_eq (fld k row) (fld k ch) then with_field k (Str []) row else row)"

text \<open>The groups of a tag: every group of the channel that \<open>indexOf\<close> does not find in those of the tag is appended.
  In a text \<open>indexOf\<close> looks for a part, in an array for an element; other values have no such method.\<close>

fun merge_groups :: "jsstr list \<Rightarrow> jsval \<Rightarrow> js_error + jsval" where
  "merge_groups [] g = Inr g"
| "merge_groups (h # hs) g =
     (case g of
        Str s \<Rightarrow> merge_groups hs (if str_includes s h then g else Str (s @ [44] @ h))
      | Arr vs \<Rightarrow> merge_groups hs (if list_ex (\<lambda>v. strict_eq v (Str h)) vs then g else Str (to_str g @ [44] @ h))
      | _ \<Rightarrow> Inl TypeError)"

definition group_field :: "jsval \<Rightarrow> jsval \<Rightarrow> js_error + jsval" where
  "group_field ch row =
     (if fld ''group'' row = Str [] then Inr (with_field ''group'' (fld ''group'' ch) row)
      else (case fld ''group'' ch of
          Str h \<Rightarrow> and_then (merge_groups (split_on 44 h) (fld ''group'' row)) (\<lambda>g. Inr (with_field ''group'' g row))
        | _ \<Rightarrow> Inl TypeError))"

definition children :: "jsval \<Rightarrow> jsval list" where
  "children row = (case fld ''children'' row of Arr cs \<Rightarrow> cs | _ \<Rightarrow> [])"

definition add_child :: "jsval \<Rightarrow> jsval \<Rightarrow> js_error + jsval" where
  "add_child ch row =
     and_then (group_field ch (common_field ''weight'' ch (common_field ''priority'' ch row))) (\<lambda>r1.
       let r2 = with_field ''children'' (Arr (children r1 @ [ch])) r1;
           r3 = (if strict_eq (fld ''status'' ch) (Num (Fin False 1)) then with_field ''status'' (Num (Fin False 1)) r2 else r2);
           r4 = with_field ''used_quota'' (js_plus (fld ''used_quota'' r3) (fld ''used_quota'' ch)) r3;
           r5 = with_field ''response_time'' (js_plus (fld ''response_time'' r4) (fld ''response_time'' ch)) r4
       in Inr (with_field ''response_time'' (Num (num_div (to_num (fld ''response_time'' r5)) (Fin False 2))) r5))"

text \<open>Changing the first row with a key; there is none only if the key was taken for a known one.\<close>

fun change_row :: "jsval \<Rightarrow> (jsval \<Rightarrow> js_error + jsval) \<Rightarrow> jsval list \<Rightarrow> js_error + jsval list" where
  "change_row key f [] = Inl TypeError"
| "change_row key f (r # rs) =
     (if strict_eq (fld ''key'' r) key then and_then (f r) (\<lambda>r'. Inr (r' # rs))
      else and_then (change_row key f rs) (\<lambda>rs'. Inr (r # rs')))"

fun format_loop :: "bool \<Rightarrow> jsval list \<Rightarrow> jsval list \<Rightarrow> jsstr list \<Rightarrow> js_error + jsval list" where
  "format_loop tagMode [] rows seen = Inr rows"
| "format_loop tagMode (c # cs) rows seen =
     and_then (prepared c) (\<lambda>ch.
       if \<not> tagMode then format_loop tagMode cs (rows @ [ch]) seen
       else let tag = tag_of ch; name = to_str tag;
                (rows1, seen1) = (if name \<notin> set inherited \<and> name \<notin> set seen then (rows @ [new_row tag], name # seen) else (rows, seen))
            in and_then (change_row tag (add_child ch) rows1) (\<lambda>rows2. format_loop tagMode cs rows2 seen1))"

definition setChannelFormat :: "jsval list \<Rightarrow> bool \<Rightarrow> js_error + jsval list" where
  "setChannelFormat channels enableTagMode = format_loop enableTagMode channels [] []"


section \<open>Changes of rows\<close>

text \<open>\<open>updateChannelProperty\<close>: every channel with the id, below a row or as a row, and whether there was one.\<close>

definition update_row :: "jsval \<Rightarrow> (jsval \<Rightarrow> jsval) \<Rightarrow> jsval \<Rightarrow> jsval" where
  "update_row i f row =
     (if fld ''children'' row \<noteq> Undef
      then with_field ''children'' (Arr (map (\<lambda>c. if strict_eq (fld ''id'' c) i then f c else c) (children row))) row
      else if strict_eq (fld ''id'' row) i then f row else row)"

definition has_channel :: "jsval \<Rightarrow> jsval \<Rightarrow> bool" where
  "has_channel i row =
     (if fld ''children'' row \<noteq> Undef then list_ex (\<lambda>c. strict_eq (fld ''id'' c) i) (children row)
      else strict_eq (fld ''id'' row) i)"

definition updateChannelProperty :: "jsval \<Rightarrow> (jsval \<Rightarrow> jsval) \<Rightarrow> jsval list \<Rightarrow> jsval list \<times> bool" where
  "updateChannelProperty channelId updateFn rows = (map (update_row channelId updateFn) rows, list_ex (has_channel channelId) rows)"

text \<open>The loop of \<open>manageTag\<close>: the rows with the tag, and the channels below them.\<close>

definition set_status :: "nat \<Rightarrow> jsval \<Rightarrow> jsval" where
  "set_status n = with_field ''status'' (Num (nat_num n))"

definition tag_status :: "jsval \<Rightarrow> nat \<Rightarrow> jsval \<Rightarrow> jsval" where
  "tag_status tag n row =
     (if strict_eq (fld ''tag'' row) tag
      then set_status n (if nullish (fld ''children'' row) then row else with_field ''children'' (Arr (map (set_status n) (children row))) row)
      else row)"

text \<open>A record of the table: a row, or a channel below a row.\<close>

type_synonym path = "nat \<times> nat option"

definition record_at :: "path \<Rightarrow> jsval list \<Rightarrow> jsval" where
  "record_at p rows = (case p of (i, None) \<Rightarrow> rows ! i | (i, Some k) \<Rightarrow> children (rows ! i) ! k)"

definition valid_path :: "path \<Rightarrow> jsval list \<Rightarrow> bool" where
  "valid_path p rows \<longleftrightarrow> fst p < length rows \<and> (case snd p of None \<Rightarrow> True | Some k \<Rightarrow> k < length (children (rows ! fst p)))"

definition change_record :: "path \<Rightarrow> (jsval \<Rightarrow> jsval) \<Rightarrow> jsval list \<Rightarrow> jsval list" where
  "change_record p f rows =
     (case p of (i, None) \<Rightarrow> rows[i := f (rows ! i)]
      | (i, Some k) \<Rightarrow> rows[i := with_field ''children'' (Arr ((children (rows ! i))[k := f (children (rows ! i) ! k)])) (rows ! i)])"
section \<open>Grouping\<close>

lemma fld_with_field [simp]: "fld k (with_field k' w v) = (if plain_object v \<and> k = k' then w else fld k v)"
  by (cases v) (auto simp: fld_def with_field_def plain_object_def)

lemma plain_with_field [simp]: "plain_object (with_field k w v) = plain_object v"
  by (cases v) (auto simp: with_field_def plain_object_def)

lemma prepared_plain: "prepared ch = Inr c \<Longrightarrow> plain_object c \<and> fld ''tag'' c = fld ''tag'' ch \<and> fld ''group'' c = fld ''group'' ch"
  by (auto simp: prepared_def and_then_Inr_iff split: jsval.splits) (auto simp: plain_object_def)

lemma common_field_keeps [simp]:
  "plain_object (common_field k ch row) = plain_object row" "k' \<noteq> k \<Longrightarrow> fld k' (common_field k ch row) = fld k' row"
  by (simp_all add: common_field_def)

lemma group_field_keeps:
  assumes "group_field ch row = Inr r" "plain_object row"
  shows "plain_object r" "k \<noteq> ''group'' \<Longrightarrow> fld k r = fld k row"
  using assms by (auto simp: group_field_def and_then_Inr_iff split: if_splits jsval.splits)

lemma add_child_children:
  assumes "add_child ch row = Inr r" "plain_object row"
  shows "plain_object r" "children r = children row @ [ch]" "fld ''key'' r = fld ''key'' row" "fld ''tag'' r = fld ''tag'' row"
    "fld ''children'' r = Arr (children r)"
proof -
  from assms obtain r1 where g: "group_field ch (common_field ''weight'' ch (common_field ''priority'' ch row)) = Inr r1"
    by (auto simp: add_child_def and_then_Inr_iff)
  have p: "plain_object (common_field ''weight'' ch (common_field ''priority'' ch row))" using assms(2) by simp
  have k: "plain_object r1" "fld ''children'' r1 = fld ''children'' row" "fld ''key'' r1 = fld ''key'' row" "fld ''tag'' r1 = fld ''tag'' row"
    using group_field_keeps [OF g p] by simp_all
  have "children r1 = children row" by (simp add: children_def k(2))
  then show "plain_object r" "children r = children row @ [ch]" "fld ''key'' r = fld ''key'' row" "fld ''tag'' r = fld ''tag'' row"
      "fld ''children'' r = Arr (children r)"
    using assms(1) g k by (auto simp: add_child_def Let_def children_def split: if_splits)
qed

text \<open>The rows of a tagged list: one row for each tag, in the order of the first channels, with exactly its channels.\<close>

definition tag_row :: "jsval list \<Rightarrow> jsval \<Rightarrow> bool" where
  "tag_row cs r \<longleftrightarrow> plain_object r \<and> fld ''tag'' r = fld ''key'' r \<and> fld ''children'' r = Arr (children r) \<and>
     children r = filter (\<lambda>c. tag_of c = fld ''key'' r) cs"

definition tag_rows :: "jsval list \<Rightarrow> jsval list \<Rightarrow> bool" where
  "tag_rows cs rows \<longleftrightarrow> map (fld ''key'') rows = nub (map tag_of cs) \<and> (\<forall>r \<in> set rows. tag_row cs r)"

definition text_tag :: "jsval \<Rightarrow> bool" where
  "text_tag c \<longleftrightarrow> (\<exists>s. tag_of c = Str s)"

lemma nub_acc_snoc: "nub_acc seen (xs @ [x]) = (if x \<in> set xs \<union> set seen then nub_acc seen xs else nub_acc seen xs @ [x])"
  by (induction seen xs rule: nub_acc.induct) auto

lemma nub_snoc: "nub (xs @ [x]) = (if x \<in> set xs then nub xs else nub xs @ [x])"
  by (simp add: nub_def nub_acc_snoc)

lemma change_row_rows:
  assumes "change_row (Str s) f rows = Inr rows'" "distinct (map (fld ''key'') rows)"
    and "\<And>r r'. f r = Inr r' \<Longrightarrow> r \<in> set rows \<Longrightarrow> fld ''key'' r' = fld ''key'' r"
  shows "list_all2 (\<lambda>r r'. (fld ''key'' r = Str s \<longrightarrow> f r = Inr r') \<and> (fld ''key'' r \<noteq> Str s \<longrightarrow> r' = r)) rows rows'"
  using assms
proof (induction rows arbitrary: rows')
  case (Cons r rows)
  have eq: "strict_eq (fld ''key'' r) (Str s) \<longleftrightarrow> fld ''key'' r = Str s" by (cases "fld ''key'' r") auto
  show ?case
  proof (cases "fld ''key'' r = Str s")
    case True
    then have "\<forall>q \<in> set rows. fld ''key'' q \<noteq> Str s" using Cons.prems(2) by force
    then have "list_all2 (\<lambda>r r'. (fld ''key'' r = Str s \<longrightarrow> f r = Inr r') \<and> (fld ''key'' r \<noteq> Str s \<longrightarrow> r' = r)) rows rows"
      by (simp add: list_all2_same)
    then show ?thesis using Cons.prems(1) True eq by (auto simp: and_then_Inr_iff)
  next
    case False
    then show ?thesis using Cons.prems Cons.IH eq by (auto simp: and_then_Inr_iff)
  qed
qed simp

lemma tag_rows_add:
  assumes "tag_rows cs rows" "tag_of c = Str s" "change_row (Str s) (add_child c) (if Str s \<in> tag_of ` set cs then rows else rows @ [new_row (Str s)]) = Inr rows'"
  shows "tag_rows (cs @ [c]) rows'"
proof -
  define rs where "rs = (if Str s \<in> tag_of ` set cs then rows else rows @ [new_row (Str s)])"
  have new: "plain_object (new_row (Str s))" "fld ''key'' (new_row (Str s)) = Str s" "fld ''tag'' (new_row (Str s)) = Str s"
      "fld ''children'' (new_row (Str s)) = Arr []" "children (new_row (Str s)) = []"
    by (simp_all add: new_row_def plain_object_def fld_def own_prop_def get_def children_def)
  have k: "map (fld ''key'') rs = nub (map tag_of (cs @ [c]))"
    using assms(1,2) new by (auto simp: rs_def tag_rows_def nub_snoc)
  have r: "tag_row cs r" if "r \<in> set rs" for r
  proof (cases "r \<in> set rows")
    case True
    then show ?thesis using assms(1) by (simp add: tag_rows_def)
  next
    case False
    then have "r = new_row (Str s)" "Str s \<notin> tag_of ` set cs" using that by (auto simp: rs_def split: if_splits)
    moreover from this(2) have "filter (\<lambda>x. tag_of x = Str s) cs = []" by (force simp: filter_empty_conv)
    ultimately show ?thesis using new by (simp add: tag_row_def)
  qed
  have d: "distinct (map (fld ''key'') rs)" unfolding k by simp
  have l: "list_all2 (\<lambda>r r'. (fld ''key'' r = Str s \<longrightarrow> add_child c r = Inr r') \<and> (fld ''key'' r \<noteq> Str s \<longrightarrow> r' = r)) rs rows'"
  proof (rule change_row_rows [OF assms(3) [folded rs_def] d])
    fix x y assume "add_child c x = Inr y" "x \<in> set rs"
    then show "fld ''key'' y = fld ''key'' x" using add_child_children(3) [of c x y] r [of x] by (simp add: tag_row_def)
  qed
  have len: "length rows' = length rs" using l by (simp add: list_all2_lengthD)
  have row: "fld ''key'' (rows' ! i) = fld ''key'' (rs ! i) \<and> tag_row (cs @ [c]) (rows' ! i)" if "i < length rs" for i
  proof -
    have ri: "tag_row cs (rs ! i)" by (rule r) (simp add: that)
    show ?thesis
    proof (cases "fld ''key'' (rs ! i) = Str s")
      case True
      then have "add_child c (rs ! i) = Inr (rows' ! i)" using list_all2_nthD [OF l that] by simp
      then show ?thesis using add_child_children [of c "rs ! i" "rows' ! i"] ri True assms(2) by (simp add: tag_row_def)
    next
      case False
      then have "rows' ! i = rs ! i" using list_all2_nthD [OF l that] by simp
      then show ?thesis using ri False assms(2) by (simp add: tag_row_def)
    qed
  qed
  have m: "map (fld ''key'') rows' = map (fld ''key'') rs" by (rule nth_equalityI) (simp_all add: len row)
  have "tag_row (cs @ [c]) q" if q: "q \<in> set rows'" for q
  proof -
    obtain i where "i < length rows'" "rows' ! i = q" using q by (auto simp: in_set_conv_nth)
    then show ?thesis using row [of i] by (simp add: len)
  qed
  then show ?thesis unfolding tag_rows_def m k by blast
qed

lemma format_loop_tags:
  assumes "format_loop True cs rows seen = Inr rows'" "tag_rows done' rows" "\<forall>c \<in> set cs. text_tag c"
    and "\<And>s. s \<in> set seen \<longleftrightarrow> Str s \<in> tag_of ` set done'" "\<forall>c \<in> set done'. to_str (tag_of c) \<notin> set inherited"
  shows "\<exists>ps. map prepared cs = map Inr ps \<and> tag_rows (done' @ ps) rows' \<and> (\<forall>p \<in> set ps. to_str (tag_of p) \<notin> set inherited)"
  using assms
proof (induction cs arbitrary: rows seen done')
  case (Cons c cs)
  from Cons.prems(1) obtain ch where ch: "prepared c = Inr ch" by (auto simp: and_then_Inr_iff)
  then have tag: "tag_of ch = tag_of c" by (simp add: tag_of_def prepared_plain)
  obtain s where s: "tag_of ch = Str s" using Cons.prems(3) tag by (auto simp: text_tag_def)
  show ?case
  proof (cases "s \<in> set inherited")
    case True
    have "s \<notin> set seen"
    proof
      assume "s \<in> set seen"
      then obtain x where "x \<in> set done'" "tag_of x = Str s" using Cons.prems(4) [of s] by force
      then show False using Cons.prems(5) True by force
    qed
    then have "Str s \<notin> set (map (fld ''key'') rows)" using Cons.prems(2,4) by (auto simp: tag_rows_def)
    then have "change_row (Str s) f rows = Inl TypeError" for f
    proof (induction rows)
      case (Cons r rows)
      then show ?case by (cases "fld ''key'' r") auto
    qed simp
    then show ?thesis using Cons.prems(1) ch s True by simp
  next
    case False
    define seen1 where "seen1 = (if s \<in> set seen then seen else s # seen)"
    from Cons.prems(1) ch s False obtain rows1 where
      c1: "change_row (Str s) (add_child ch) (if s \<in> set seen then rows else rows @ [new_row (Str s)]) = Inr rows1"
      and f1: "format_loop True cs rows1 seen1 = Inr rows'"
      by (cases "s \<in> set seen") (auto simp: and_then_Inr_iff seen1_def Let_def)
    have "tag_rows (done' @ [ch]) rows1" using Cons.prems(2) s c1 Cons.prems(4) [of s] by (intro tag_rows_add) simp_all
    moreover have "x \<in> set seen1 \<longleftrightarrow> Str x \<in> tag_of ` set (done' @ [ch])" for x using Cons.prems(4) [of x] s by (auto simp: seen1_def)
    ultimately obtain ps where "map prepared cs = map Inr ps" "tag_rows ((done' @ [ch]) @ ps) rows'"
        "\<forall>p \<in> set ps. to_str (tag_of p) \<notin> set inherited"
      using Cons.IH [OF f1, of "done' @ [ch]"] Cons.prems(3,5) s False by auto
    then show ?thesis using ch s False by (intro exI [of _ "ch # ps"]) simp
  qed
qed simp

lemma setChannelFormat_tags:
  assumes "setChannelFormat cs True = Inr rows" "\<forall>c \<in> set cs. text_tag c"
  shows "\<exists>ps. map prepared cs = map Inr ps \<and> tag_rows ps rows \<and> (\<forall>p \<in> set ps. to_str (tag_of p) \<notin> set inherited)"
proof -
  have "tag_rows [] []" by (simp add: tag_rows_def nub_def)
  then show ?thesis using format_loop_tags [of cs "[]" "[]" rows "[]"] assms by (simp add: setChannelFormat_def)
qed

text \<open>Channels that can be grouped: objects with a text for their groups, a tag that no object inherits, and settings whose
  lists of models are arrays.\<close>

definition good_channel :: "jsval \<Rightarrow> bool" where
  "good_channel c \<longleftrightarrow> plain_object c \<and> (case tag_of c of Str s \<Rightarrow> s \<notin> set inherited | _ \<Rightarrow> False) \<and>
     (case fld ''group'' c of Str _ \<Rightarrow> True | _ \<Rightarrow> False) \<and>
     (case parseUpstreamUpdateMeta (fld ''settings'' c) of Inl _ \<Rightarrow> False | Inr _ \<Rightarrow> True)"

definition group_text :: "jsval \<Rightarrow> bool" where
  "group_text r \<longleftrightarrow> plain_object r \<and> (\<exists>g. fld ''group'' r = Str g)"

lemma good_channel_prepared:
  assumes "good_channel c"
  obtains ch s where "prepared c = Inr ch" "group_text ch" "tag_of ch = Str s" "s \<notin> set inherited" "tag_of c = Str s"
proof -
  obtain kvs where "c = Obj kvs" using assms by (cases c) (simp_all add: good_channel_def plain_object_def)
  moreover from assms obtain m where "parseUpstreamUpdateMeta (fld ''settings'' c) = Inr m"
    by (auto simp: good_channel_def split: sum.splits)
  ultimately obtain ch where ch: "prepared c = Inr ch" by (simp add: prepared_def)
  from assms obtain s where s: "tag_of c = Str s" "s \<notin> set inherited" by (auto simp: good_channel_def split: jsval.splits)
  from assms obtain g where "fld ''group'' c = Str g" by (auto simp: good_channel_def split: jsval.splits)
  then show ?thesis using that [OF ch] prepared_plain [OF ch] s by (simp add: group_text_def tag_of_def)
qed

lemma merge_groups_text: "\<exists>g'. merge_groups hs (Str g) = Inr (Str g')"
  by (induction hs arbitrary: g) auto

lemma add_child_text:
  assumes "group_text ch" "group_text r"
  shows "\<exists>r'. add_child ch r = Inr r' \<and> group_text r' \<and> fld ''key'' r' = fld ''key'' r"
proof -
  obtain h where h: "fld ''group'' ch = Str h" using assms(1) by (auto simp: group_text_def)
  define q where "q = common_field ''weight'' ch (common_field ''priority'' ch r)"
  have "group_text q" using assms(2) by (simp add: q_def group_text_def)
  then obtain g where g: "plain_object q" "fld ''group'' q = Str g" by (auto simp: group_text_def)
  obtain g' where "merge_groups (split_on 44 h) (Str g) = Inr (Str g')" using merge_groups_text by blast
  then have "\<exists>r1. group_field ch q = Inr r1 \<and> group_text r1" using g h by (cases "g = []") (simp_all add: group_field_def group_text_def)
  then obtain r1 where r1: "group_field ch q = Inr r1" "group_text r1" by blast
  then obtain r' where r': "add_child ch r = Inr r'" by (simp add: add_child_def q_def [symmetric] Let_def)
  then have "group_text r'" using r1 by (auto simp: add_child_def q_def [symmetric] Let_def group_text_def split: if_splits)
  then show ?thesis using r' add_child_children(3) [OF r'] assms(2) by (auto simp: group_text_def)
qed

lemma change_row_text:
  assumes "Str s \<in> fld ''key'' ` set rows" "\<forall>r \<in> set rows. group_text r" "group_text ch"
  shows "\<exists>rows'. change_row (Str s) (add_child ch) rows = Inr rows' \<and> map (fld ''key'') rows' = map (fld ''key'') rows \<and>
    (\<forall>r \<in> set rows'. group_text r)"
  using assms
proof (induction rows)
  case (Cons r rows)
  have eq: "strict_eq (fld ''key'' r) (Str s) \<longleftrightarrow> fld ''key'' r = Str s" by (cases "fld ''key'' r") auto
  show ?case
  proof (cases "fld ''key'' r = Str s")
    case True
    have "group_text r" using Cons.prems(2) by simp
    then obtain r' where "add_child ch r = Inr r'" "group_text r'" "fld ''key'' r' = fld ''key'' r"
      using add_child_text [OF Cons.prems(3)] by blast
    then show ?thesis using True eq Cons.prems(2) by (intro exI [of _ "r' # rows"]) simp
  next
    case False
    then have "Str s \<in> fld ''key'' ` set rows" using Cons.prems(1) by force
    then obtain rows' where "change_row (Str s) (add_child ch) rows = Inr rows'" "map (fld ''key'') rows' = map (fld ''key'') rows"
        "\<forall>r \<in> set rows'. group_text r"
      using Cons.IH Cons.prems(2,3) by auto
    then show ?thesis using False eq Cons.prems(2) by (intro exI [of _ "r # rows'"]) simp
  qed
qed simp

lemma format_loop_total:
  assumes "\<forall>c \<in> set cs. good_channel c" "\<forall>r \<in> set rows. group_text r" "Str ` set seen \<subseteq> fld ''key'' ` set rows"
  shows "\<exists>rows'. format_loop True cs rows seen = Inr rows'"
  using assms
proof (induction cs arbitrary: rows seen)
  case (Cons c cs)
  from Cons.prems(1) have "good_channel c" by simp
  then obtain ch s where ch: "prepared c = Inr ch" "group_text ch" "tag_of ch = Str s" "s \<notin> set inherited"
    by (rule good_channel_prepared)
  define rows1 where "rows1 = (if s \<in> set seen then rows else rows @ [new_row (Str s)])"
  define seen1 where "seen1 = (if s \<in> set seen then seen else s # seen)"
  have new: "group_text (new_row (Str s))" "fld ''key'' (new_row (Str s)) = Str s"
    by (simp_all add: new_row_def group_text_def plain_object_def fld_def own_prop_def get_def)
  have k: "Str s \<in> fld ''key'' ` set rows1" "Str ` set seen1 \<subseteq> fld ''key'' ` set rows1" "\<forall>r \<in> set rows1. group_text r"
    using Cons.prems(2,3) new by (auto simp: rows1_def seen1_def image_iff subset_iff)
  from change_row_text [OF k(1,3) ch(2)] obtain rows2 where rows2: "change_row (Str s) (add_child ch) rows1 = Inr rows2"
    "map (fld ''key'') rows2 = map (fld ''key'') rows1" "\<forall>r \<in> set rows2. group_text r" by blast
  have "fld ''key'' ` set rows2 = fld ''key'' ` set rows1" using rows2(2) by (metis list.set_map)
  then have "\<exists>rows'. format_loop True cs rows2 seen1 = Inr rows'" using Cons.prems(1) rows2(3) k(2) by (intro Cons.IH) simp_all
  then show ?case using ch rows2(1) by (auto simp: rows1_def seen1_def Let_def split: if_splits)
qed simp

lemma setChannelFormat_good:
  assumes "\<forall>c \<in> set cs. good_channel c"
  obtains rows ps where "setChannelFormat cs True = Inr rows" "map prepared cs = map Inr ps" "tag_rows ps rows"
proof -
  obtain rows where rows: "setChannelFormat cs True = Inr rows"
    using format_loop_total [OF assms, of "[]" "[]"] by (auto simp: setChannelFormat_def)
  have "\<forall>c \<in> set cs. text_tag c" using assms by (auto simp: text_tag_def elim: good_channel_prepared)
  from setChannelFormat_tags [OF rows this] show ?thesis using that [OF rows] by blast
qed

text \<open>C36: In tag mode the table has exactly one row for each tag, in the order in which the tags appear, and below it exactly the
  channels with that tag, in their order: no channel is lost or shown twice.\<close>

theorem tag_mode_groups:
  assumes "\<forall>c \<in> set cs. good_channel c"
  shows "\<exists>rows ps. setChannelFormat cs True = Inr rows \<and> map prepared cs = map Inr ps \<and>
    map (fld ''key'') rows = nub (map tag_of ps) \<and> (\<forall>r \<in> set rows. children r = filter (\<lambda>c. tag_of c = fld ''key'' r) ps)"
proof -
  from setChannelFormat_good [OF assms] obtain rows ps
    where "setChannelFormat cs True = Inr rows" "map prepared cs = map Inr ps" "tag_rows ps rows" .
  then show ?thesis unfolding tag_rows_def tag_row_def by blast
qed

definition demo_channel :: "nat \<Rightarrow> string \<Rightarrow> jsval" where
  "demo_channel n tag = Obj [(js ''id'', Num (nat_num n)), (js ''tag'', Str (js tag)), (js ''group'', Str (js ''default'')),
     (js ''status'', Num (nat_num 1)), (js ''priority'', Num (nat_num 0)), (js ''weight'', Num (nat_num 0)),
     (js ''used_quota'', Num (nat_num 0)), (js ''response_time'', Num (nat_num 0))]"

lemma demo_tag: "tag_of (demo_channel n tag) = Str (js tag)"
  by (simp add: tag_of_def demo_channel_def fld_def own_prop_def get_def js_or_def truthy_def)

lemma demo_good: "js tag \<notin> set inherited \<Longrightarrow> good_channel (demo_channel n tag)"
  by (simp add: good_channel_def demo_tag)
    (simp add: demo_channel_def plain_object_def fld_def own_prop_def get_def parseUpstreamUpdateMeta_def parse_settings_def
      truthy_def is_object_type_def)

theorem tag_mode_groups_witness:
  "\<exists>rows ps. setChannelFormat [demo_channel 1 ''a'', demo_channel 2 ''b'', demo_channel 3 ''a''] True = Inr rows \<and>
     map prepared [demo_channel 1 ''a'', demo_channel 2 ''b'', demo_channel 3 ''a''] = map Inr ps \<and>
     map (fld ''key'') rows = nub (map tag_of ps) \<and> (\<forall>r \<in> set rows. children r = filter (\<lambda>c. tag_of c = fld ''key'' r) ps)"
proof (rule tag_mode_groups)
  show "\<forall>c \<in> set [demo_channel 1 ''a'', demo_channel 2 ''b'', demo_channel 3 ''a'']. good_channel c"
    by (simp add: demo_good inherited_def)
qed

text \<open>C38: A tag with the name of a property that every object inherits, such as \<open>constructor\<close>, makes the grouping throw, so the
  table in tag mode shows nothing new.\<close>

theorem inherited_tag_throws:
  assumes "\<forall>c \<in> set cs. text_tag c" "c \<in> set cs" "tag_of c = Str s" "s \<in> set inherited"
  shows "\<exists>err. setChannelFormat cs True = Inl err"
proof (cases "setChannelFormat cs True")
  case (Inr rows)
  from setChannelFormat_tags [OF Inr assms(1)] obtain ps where
    ps: "map prepared cs = map Inr ps" "\<forall>p \<in> set ps. to_str (tag_of p) \<notin> set inherited" by blast
  have "prepared c \<in> Inr ` set ps" using assms(2) ps(1) by (metis image_eqI list.set_map)
  then obtain p where p: "p \<in> set ps" "prepared c = Inr p" by auto
  then have "tag_of p = tag_of c" by (simp add: tag_of_def prepared_plain)
  then show ?thesis using ps(2) p(1) assms(3,4) by fastforce
qed simp

theorem inherited_tag_throws_witness: "\<exists>err. setChannelFormat [demo_channel 1 ''constructor''] True = Inl err"
  by (rule inherited_tag_throws [of _ "demo_channel 1 ''constructor''" "js ''constructor''"])
    (simp_all add: text_tag_def demo_tag inherited_def)

section \<open>Channels of the table\<close>

definition row_channels :: "jsval \<Rightarrow> jsval list" where
  "row_channels row = (if fld ''children'' row \<noteq> Undef then children row else [row])"

definition all_channels :: "jsval list \<Rightarrow> jsval list" where
  "all_channels rows = concat (map row_channels rows)"

lemma row_channels_with:
  "plain_object row \<Longrightarrow> row_channels (with_field ''children'' (Arr cs) row) = cs"
  by (simp add: row_channels_def children_def)

text \<open>An update of a channel changes exactly the channels with its id, in tag mode and without, and keeps all others and
  the order; it reports whether there is such a channel.\<close>

theorem update_exact:
  assumes "\<And>c. fld ''children'' (f c) = fld ''children'' c" "\<forall>r \<in> set rows. plain_object r"
  shows "all_channels (fst (updateChannelProperty i f rows)) =
      map (\<lambda>c. if strict_eq (fld ''id'' c) i then f c else c) (all_channels rows) \<and>
    (snd (updateChannelProperty i f rows) \<longleftrightarrow> (\<exists>c \<in> set (all_channels rows). strict_eq (fld ''id'' c) i))"
proof
  have "row_channels (update_row i f r) = map (\<lambda>c. if strict_eq (fld ''id'' c) i then f c else c) (row_channels r)"
    if "r \<in> set rows" for r
  proof (cases "fld ''children'' r = Undef")
    case True
    then show ?thesis by (simp add: update_row_def row_channels_def assms(1))
  next
    case False
    have "plain_object r" using assms(2) that by blast
    then show ?thesis using False by (simp add: update_row_def row_channels_with) (simp add: row_channels_def)
  qed
  then show "all_channels (fst (updateChannelProperty i f rows)) =
      map (\<lambda>c. if strict_eq (fld ''id'' c) i then f c else c) (all_channels rows)"
    by (simp add: all_channels_def updateChannelProperty_def map_concat o_def cong: map_cong)
  have "has_channel i r \<longleftrightarrow> (\<exists>c \<in> set (row_channels r). strict_eq (fld ''id'' c) i)" for r
    by (simp add: has_channel_def row_channels_def list_ex_iff)
  then show "snd (updateChannelProperty i f rows) \<longleftrightarrow> (\<exists>c \<in> set (all_channels rows). strict_eq (fld ''id'' c) i)"
    by (simp add: updateChannelProperty_def all_channels_def list_ex_iff)
qed

theorem update_exact_witness:
  "all_channels (fst (updateChannelProperty (Num (nat_num 2)) (with_field ''balance'' (Num (nat_num 7))) [demo_channel 1 ''a'', demo_channel 2 ''b''])) =
     [demo_channel 1 ''a'', with_field ''balance'' (Num (nat_num 7)) (demo_channel 2 ''b'')]"
proof -
  let ?rows = "[demo_channel 1 ''a'', demo_channel 2 ''b'']" and ?f = "with_field ''balance'' (Num (nat_num 7))"
  have "\<And>c. fld ''children'' (?f c) = fld ''children'' c" "\<forall>r \<in> set ?rows. plain_object r"
    by (simp_all add: demo_channel_def plain_object_def)
  from update_exact [OF this, of "Num (nat_num 2)"] show ?thesis
    by (simp add: all_channels_def row_channels_def demo_channel_def fld_def own_prop_def get_def)
qed

text \<open>C37: Enabling or disabling a tag in tag mode gives the new status to exactly the channels with the tag, and to no other.\<close>

theorem manage_tag_exact:
  assumes "\<forall>c \<in> set cs. good_channel c"
  shows "\<exists>rows. setChannelFormat cs True = Inr rows \<and> all_channels (map (tag_status (Str s) n) rows) =
    map (\<lambda>c. if tag_of c = Str s then set_status n c else c) (all_channels rows)"
proof -
  from setChannelFormat_good [OF assms] obtain rows ps where rows: "setChannelFormat cs True = Inr rows" and ps: "tag_rows ps rows" .
  have "row_channels (tag_status (Str s) n r) = map (\<lambda>c. if tag_of c = Str s then set_status n c else c) (row_channels r)"
    if "r \<in> set rows" for r
  proof -
    have r: "tag_row ps r" using ps that by (simp add: tag_rows_def)
    then have t: "tag_of c = fld ''tag'' r" if "c \<in> set (children r)" for c
    proof -
      have "c \<in> set (filter (\<lambda>c. tag_of c = fld ''key'' r) ps)" "fld ''tag'' r = fld ''key'' r"
        using that r unfolding tag_row_def by simp_all
      then show ?thesis by simp
    qed
    have e: "strict_eq (fld ''tag'' r) (Str s) \<longleftrightarrow> fld ''tag'' r = Str s" by (cases "fld ''tag'' r") auto
    have ch: "fld ''children'' r = Arr (children r)" "row_channels r = children r" "plain_object r"
      using r by (simp_all add: tag_row_def row_channels_def)
    show ?thesis
    proof (cases "fld ''tag'' r = Str s")
      case True
      have "row_channels (tag_status (Str s) n r) = map (set_status n) (children r)"
        using True e ch(1,3) by (auto simp: tag_status_def set_status_def row_channels_def children_def nullish_def)
      moreover have "map (set_status n) (children r) = map (\<lambda>c. if tag_of c = Str s then set_status n c else c) (children r)"
        using t True by simp
      ultimately show ?thesis unfolding ch(2) by simp
    next
      case False
      then have "map (\<lambda>c. if tag_of c = Str s then set_status n c else c) (children r) = children r" using t by (simp add: map_idI)
      then show ?thesis using False e ch(2) by (simp add: tag_status_def)
    qed
  qed
  then show ?thesis using rows by (simp add: all_channels_def map_concat o_def cong: map_cong)
qed

theorem manage_tag_exact_witness:
  "\<exists>rows. setChannelFormat [demo_channel 1 ''a'', demo_channel 2 ''b''] True = Inr rows \<and>
     all_channels (map (tag_status (Str (js ''a'')) 2) rows) =
       map (\<lambda>c. if tag_of c = Str (js ''a'') then set_status 2 c else c) (all_channels rows)"
  by (rule manage_tag_exact) (simp add: demo_good inherited_def)
end
