(* ===== verification/Channel_Table.thy ===== *)
theory Channel_Table
  imports Channel_Rows Api_Client
begin

text \<open>
  The table of channels as a state machine, \<open>hooks/channels/useChannelsData.jsx\<close>: loading, searching, paging and the operations
  on channels and tags, with any number of requests in flight, answered in any order.  A handler is split at each
  \<open>await\<close>: what it does before, and what it does with the answer.
\<close>

section \<open>Texts\<close>

text \<open>\<open>s.replace(pattern, r)\<close> with a text for the pattern: the first occurrence is replaced, and in \<open>r\<close> the pairs \<open>$$\<close>, \<open>$&\<close>,
  \<open>$`\<close> and \<open>$'\<close> stand for a dollar, the pattern, the text before and the text behind it.\<close>

fun expand :: "jsstr \<Rightarrow> jsstr \<Rightarrow> jsstr \<Rightarrow> jsstr \<Rightarrow> jsstr" where
  "expand pat before behind [] = []"
| "expand pat before behind [c] = [c]"
| "expand pat before behind (c # d # r) =
     (if c = 36 \<and> d = 36 then 36 # expand pat before behind r
      else if c = 36 \<and> d = 38 then pat @ expand pat before behind r
      else if c = 36 \<and> d = 96 then before @ expand pat before behind r
      else if c = 36 \<and> d = 39 then behind @ expand pat before behind r
      else c # expand pat before behind (d # r))"

fun replace_from :: "jsstr \<Rightarrow> jsstr \<Rightarrow> jsstr \<Rightarrow> jsstr \<Rightarrow> jsstr" where
  "replace_from pat r before [] = before"
| "replace_from pat r before (c # s) =
     (if starts_with (c # s) pat then before @ expand pat before (drop (length pat) (c # s)) r @ drop (length pat) (c # s)
      else replace_from pat r (before @ [c]) s)"

definition replace_text :: "jsstr \<Rightarrow> string \<Rightarrow> jsval \<Rightarrow> jsstr" where
  "replace_text s pat r = replace_from (js pat) (to_str r) [] s"

definition txt_done :: jsstr where "txt_done = [25805, 20316, 25104, 21151, 23436, 25104, 65281]"
definition txt_copied :: jsstr where "txt_copied = [28192, 36947, 22797, 21046, 25104, 21151]"
definition txt_copy_failed :: jsstr where "txt_copy_failed = [28192, 36947, 22797, 21046, 22833, 36133]"
definition txt_copy_failed_with :: jsstr where "txt_copy_failed_with = [28192, 36947, 22797, 21046, 22833, 36133, 58, 32]"
definition txt_priority_integer :: jsstr where "txt_priority_integer = [20248, 20808, 32423, 24517, 39035, 26159, 25972, 25968, 65281]"
definition txt_weight_integer :: jsstr where "txt_weight_integer = [26435, 37325, 24517, 39035, 26159, 38750, 36127, 25972, 25968, 65281]"
definition txt_updated :: jsstr where "txt_updated = [26356, 26032, 25104, 21151, 65281]"
definition txt_select_for_tag :: jsstr where "txt_select_for_tag = [35831, 20808, 36873, 25321, 35201, 35774, 32622, 26631, 31614, 30340, 28192, 36947,
     65281]"
definition txt_tag_empty :: jsstr where "txt_tag_empty = [26631, 31614, 19981, 33021, 20026, 31354, 65281]"
definition txt_tags_set :: jsstr where "txt_tags_set = [24050, 20026, 32, 36, 123, 99, 111, 117, 110, 116, 125, 32, 20010, 28192, 36947, 35774,
     32622, 26631, 31614, 65281]"
definition txt_select_for_delete :: jsstr where "txt_select_for_delete = [35831, 20808, 36873, 25321, 35201, 21024, 38500, 30340, 36890, 36947, 65281]"
definition txt_deleted :: jsstr where "txt_deleted = [24050, 21024, 38500, 32, 36, 123, 100, 97, 116, 97, 125, 32, 20010, 36890, 36947, 65281]"
definition txt_testing_all :: jsstr where "txt_testing_all = [24050, 25104, 21151, 24320, 22987, 27979, 35797, 25152, 26377, 24050, 21551, 29992,
     36890, 36947, 65292, 35831, 21047, 26032, 39029, 38754, 26597, 30475, 32467,
     26524, 12290]"
definition txt_disabled_deleted :: jsstr where "txt_disabled_deleted = [24050, 21024, 38500, 25152, 26377, 31105, 29992, 28192, 36947, 65292, 20849, 35745, 32,
     36, 123, 100, 97, 116, 97, 125, 32, 20010]"
definition txt_balances :: jsstr where "txt_balances = [24050, 26356, 26032, 23436, 27605, 25152, 26377, 24050, 21551, 29992, 36890, 36947,
     20313, 39069, 65281]"
definition txt_balance :: jsstr where "txt_balance = [36890, 36947, 32, 36, 123, 110, 97, 109, 101, 125, 32, 20313, 39069, 26356, 26032,
     25104, 21151, 65281]"
definition txt_fixed :: jsstr where "txt_fixed = [24050, 20462, 22797, 32, 36, 123, 115, 117, 99, 99, 101, 115, 115, 125, 32, 20010,
     36890, 36947, 65292, 22833, 36133, 32, 36, 123, 102, 97, 105, 108, 115, 125, 32,
     20010, 36890, 36947, 12290]"

section \<open>State\<close>

text \<open>What a handler captures when it is created, and the arguments of a request for rows.\<close>

record table_view =
  v_page :: nat
  v_size :: jsval
  v_sort :: bool
  v_tag :: bool
  v_type :: jsstr
  v_status :: jsstr

text \<open>What is still to be done when an awaited call returns or throws: the rest of the callers.  \<open>Searching_off\<close> is a
  \<open>finally\<close>, \<open>Catch_error\<close> and \<open>Catch_copy\<close> are handlers, the others are skipped by an error.\<close>

datatype after = Loading_off | Searching_off | Hide_set_tag | Page_timer nat table_view | Catch_error | Catch_copy

datatype action = Delete_channel | Enable_channel | Disable_channel | Set_priority jsval | Set_weight jsval | Enable_all

text \<open>The requests: for rows, with the number of the request or the page; for an operation, with the list of rows (its
  number in \<open>tb_lists\<close>) the handler captured.\<close>

datatype waiting =
    Load nat bool
  | Search nat bool
  | Manage action path nat
  | Manage_tag jsstr bool nat
  | Copy table_view
  | Tag_edit table_view
  | Batch_tag table_view
  | Batch_delete nat table_view
  | Test_all
  | Delete_disabled table_view
  | Balance_all
  | Balance path nat
  | Fix_abilities table_view

text \<open>\<open>setChannelFormat\<close> makes new rows, all other changes are changes of the objects of a list: the lists made so far are
  kept in \<open>tb_lists\<close>, and \<open>tb_shown\<close> is the one in the state \<open>channels\<close>.  The form is \<open>undefined\<close> as long as there is none.\<close>

record table =
  tb_lists :: "jsval list list"
  tb_shown :: nat
  tb_loading :: bool
  tb_searching :: bool
  tb_view :: table_view
  tb_count :: jsval
  tb_typeCounts :: jsval
  tb_form :: jsval
  tb_counter :: nat
  tb_selected :: "jsval list"
  tb_tagValue :: jsstr
  tb_showSetTag :: bool
  tb_storage :: "(jsstr, jsstr) store"
  tb_flights :: "(waiting \<times> after list) list"
  tb_timers :: "(nat \<times> table_view) list"
  tb_sent :: "request list"
  tb_ui :: "ui list"

definition table_rows :: "table \<Rightarrow> jsval list" where
  "table_rows st = tb_lists st ! tb_shown st"

definition ITEMS_PER_PAGE :: jsval where "ITEMS_PER_PAGE = Num (nat_num 10)"

definition init_table :: "(jsstr, jsstr) store \<Rightarrow> table" where
  "init_table storage =
     \<lparr>tb_lists = [[]], tb_shown = 0, tb_loading = True, tb_searching = False,
      tb_view = \<lparr>v_page = 1, v_size = ITEMS_PER_PAGE, v_sort = False, v_tag = False, v_type = js ''all'',
        v_status = (case get storage (js ''channel-status-filter'') of Some (c # s) \<Rightarrow> c # s | _ \<Rightarrow> js ''all'')\<rparr>,
      tb_count = Num (nat_num 0), tb_typeCounts = Obj [], tb_form = Undef, tb_counter = 0, tb_selected = [], tb_tagValue = [],
      tb_showSetTag = False, tb_storage = storage, tb_flights = [], tb_timers = [], tb_sent = [], tb_ui = []\<rparr>"

definition show_ui :: "ui list \<Rightarrow> table \<Rightarrow> table" where
  "show_ui evs st = st\<lparr>tb_ui := tb_ui st @ evs\<rparr>"

definition show_toast :: "toast \<Rightarrow> table \<Rightarrow> table" where
  "show_toast m = show_ui [Ui_toast m]"

definition await :: "request \<Rightarrow> waiting \<Rightarrow> after list \<Rightarrow> table \<Rightarrow> table" where
  "await req w ks st = st\<lparr>tb_sent := tb_sent st @ [req], tb_flights := tb_flights st @ [(w, ks)]\<rparr>"

text \<open>The callers when a call returns (\<open>None\<close>) or throws.  An error that no caller handles is dropped.\<close>

fun unwind :: "translate \<Rightarrow> jsval option \<Rightarrow> after list \<Rightarrow> table \<Rightarrow> table" where
  "unwind t err [] st = st"
| "unwind t err (Searching_off # ks) st = unwind t err ks (st\<lparr>tb_searching := False\<rparr>)"
| "unwind t None (Loading_off # ks) st = unwind t None ks (st\<lparr>tb_loading := False\<rparr>)"
| "unwind t None (Hide_set_tag # ks) st = unwind t None ks (st\<lparr>tb_showSetTag := False\<rparr>)"
| "unwind t None (Page_timer n w # ks) st = unwind t None ks (st\<lparr>tb_timers := tb_timers st @ [(n, w)]\<rparr>)"
| "unwind t None (Catch_error # ks) st = unwind t None ks st"
| "unwind t None (Catch_copy # ks) st = unwind t None ks st"
| "unwind t (Some err) (Catch_error # ks) st =
     (case showError err of Inl _ \<Rightarrow> unwind t (Some type_error) ks st | Inr evs \<Rightarrow> unwind t None ks (show_ui evs st))"
| "unwind t (Some err) (Catch_copy # ks) st =
     (case showError (js_plus (Str (t txt_copy_failed_with []))
        (js_or (own_prop (own_prop (own_prop err (js ''response'')) (js ''data'')) (js ''message'')) (js_or (own_prop err (js ''message'')) err))) of
        Inl _ \<Rightarrow> unwind t (Some type_error) ks st | Inr evs \<Rightarrow> unwind t None ks (show_ui evs st))"
| "unwind t (Some err) (_ # ks) st = unwind t (Some err) ks st"

text \<open>\<open>showError(message)\<close> as the last step of a handler.\<close>

definition report :: "translate \<Rightarrow> jsval \<Rightarrow> after list \<Rightarrow> table \<Rightarrow> table" where
  "report t message ks st =
     (case showError message of Inl _ \<Rightarrow> unwind t (Some type_error) ks st | Inr evs \<Rightarrow> unwind t None ks (show_ui evs st))"

section \<open>Loading and searching\<close>

definition getFormValues :: "table \<Rightarrow> string \<Rightarrow> jsval" where
  "getFormValues st k = js_or (fld k (tb_form st)) (Str [])"

definition no_search :: "table \<Rightarrow> bool" where
  "no_search st \<longleftrightarrow> getFormValues st ''searchKeyword'' = Str [] \<and> getFormValues st ''searchGroup'' = Str [] \<and>
     getFormValues st ''searchModel'' = Str []"

definition filter_params :: "table_view \<Rightarrow> jsstr" where
  "filter_params a = (if v_type a \<noteq> js ''all'' then js ''&type='' @ v_type a else []) @
     (if v_status a \<noteq> js ''all'' then js ''&status='' @ v_status a else [])"

definition load_url :: "table_view \<Rightarrow> jsstr" where
  "load_url a = js ''/api/channel/?p='' @ nat_str (v_page a) @ js ''&page_size='' @ to_str (v_size a) @ js ''&id_sort='' @ to_str (Bool (v_sort a)) @
     js ''&tag_mode='' @ to_str (Bool (v_tag a)) @ filter_params a"

definition search_url :: "table_view \<Rightarrow> table \<Rightarrow> jsstr" where
  "search_url a st = js ''/api/channel/search?keyword='' @ to_str (getFormValues st ''searchKeyword'') @
     js ''&group='' @ to_str (getFormValues st ''searchGroup'') @ js ''&model='' @ to_str (getFormValues st ''searchModel'') @
     js ''&id_sort='' @ to_str (Bool (v_sort a)) @ js ''&tag_mode='' @ to_str (Bool (v_tag a)) @ js ''&p='' @ nat_str (v_page a) @
     js ''&page_size='' @ to_str (v_size a) @ filter_params a"

text \<open>The two handlers call each other, each only where the form decides for the other one.\<close>

definition load_rows :: "table_view \<Rightarrow> after list \<Rightarrow> table \<Rightarrow> table" where
  "load_rows a ks st =
     await (Get_req (load_url a) Undef) (Load (Suc (tb_counter st)) (v_tag a)) ks
       (st\<lparr>tb_counter := Suc (tb_counter st), tb_loading := True\<rparr>)"

definition search_rows :: "table_view \<Rightarrow> after list \<Rightarrow> table \<Rightarrow> table" where
  "search_rows a ks st = await (Get_req (search_url a st) Undef) (Search (v_page a) (v_tag a)) (Searching_off # ks) (st\<lparr>tb_searching := True\<rparr>)"

definition loadChannels :: "table_view \<Rightarrow> after list \<Rightarrow> table \<Rightarrow> table" where
  "loadChannels a ks st =
     (if no_search st then load_rows a ks st else search_rows a (Loading_off # ks) (st\<lparr>tb_loading := True\<rparr>))"

definition searchChannels :: "table_view \<Rightarrow> after list \<Rightarrow> table \<Rightarrow> table" where
  "searchChannels a ks st =
     (if no_search st then load_rows a (Searching_off # ks) (st\<lparr>tb_searching := True\<rparr>) else search_rows a ks st)"

definition all_counts :: "jsval \<Rightarrow> jsval" where
  "all_counts type_counts =
     Obj (put (js ''all'') (fold (\<lambda>(_, v) acc. js_plus acc v) (entries type_counts) (Num (nat_num 0))) (spread_over [] type_counts))"

text \<open>\<open>setChannelFormat(items, enableTagMode)\<close> on what the answer has as \<open>items\<close>; a value without elements gives no rows.\<close>

definition format_items :: "jsval \<Rightarrow> bool \<Rightarrow> js_error + jsval list" where
  "format_items items tag =
     (case items of Arr cs \<Rightarrow> setChannelFormat cs tag | Undef \<Rightarrow> Inl TypeError | Null \<Rightarrow> Inl TypeError
      | Str (_ # _) \<Rightarrow> Inl TypeError | _ \<Rightarrow> Inr [])"

definition show_rows :: "jsval list \<Rightarrow> table \<Rightarrow> table" where
  "show_rows rows st = st\<lparr>tb_lists := tb_lists st @ [rows], tb_shown := length (tb_lists st)\<rparr>"

definition answer_load :: "translate \<Rightarrow> nat \<Rightarrow> bool \<Rightarrow> jsval + jsval \<Rightarrow> after list \<Rightarrow> table \<Rightarrow> table" where
  "answer_load t reqId tag response ks st =
     (case response of
        Inl err \<Rightarrow> unwind t (Some err) ks st
      | Inr res \<Rightarrow>
          let body = body_of res; data = fld ''data'' body in
          if res = Undef \<or> reqId \<noteq> tb_counter st then unwind t None ks st
          else if nullish body then unwind t (Some type_error) ks st
          else if \<not> truthy (fld ''success'' body) then report t (fld ''message'' body) (Loading_off # ks) st
          else if nullish data then unwind t (Some type_error) ks st
          else
            let st1 = (if truthy (fld ''type_counts'' data) then st\<lparr>tb_typeCounts := all_counts (fld ''type_counts'' data)\<rparr> else st) in
            case format_items (fld ''items'' data) tag of
              Inl _ \<Rightarrow> unwind t (Some type_error) ks st1
            | Inr rows \<Rightarrow> unwind t None (Loading_off # ks) ((show_rows rows st1)\<lparr>tb_count := fld ''total'' data\<rparr>))"

definition or_default :: "jsval \<Rightarrow> jsval \<Rightarrow> jsval" where
  "or_default v d = (if v = Undef then d else v)"

definition answer_search :: "translate \<Rightarrow> nat \<Rightarrow> bool \<Rightarrow> jsval + jsval \<Rightarrow> after list \<Rightarrow> table \<Rightarrow> table" where
  "answer_search t page tag response ks st =
     (case response of
        Inl err \<Rightarrow> unwind t (Some err) ks st
      | Inr res \<Rightarrow>
          let body = body_of res; data = fld ''data'' body; type_counts = or_default (fld ''type_counts'' data) (Obj []) in
          if nullish body then unwind t (Some type_error) ks st
          else if \<not> truthy (fld ''success'' body) then report t (fld ''message'' body) ks st
          else if nullish data \<or> nullish type_counts then unwind t (Some type_error) ks st
          else
            let st1 = st\<lparr>tb_typeCounts := all_counts type_counts\<rparr> in
            case format_items (or_default (fld ''items'' data) (Arr [])) tag of
              Inl _ \<Rightarrow> unwind t (Some type_error) ks st1
            | Inr rows \<Rightarrow> unwind t None ks ((show_rows rows st1)
                \<lparr>tb_count := or_default (fld ''total'' data) (Num (nat_num 0)), tb_view := (tb_view st)\<lparr>v_page := page\<rparr>\<rparr>))"

text \<open>\<open>refresh(page)\<close>: the form decides again; and the handlers of the pager and of the start.\<close>

definition refresh :: "table_view \<Rightarrow> after list \<Rightarrow> table \<Rightarrow> table" where
  "refresh w ks st = (if no_search st then loadChannels w ks st else searchChannels w ks st)"

definition handlePageChange :: "nat \<Rightarrow> table \<Rightarrow> table" where
  "handlePageChange page st =
     (let w = (tb_view st)\<lparr>v_page := page\<rparr>; st1 = st\<lparr>tb_view := w\<rparr> in
      if no_search st then loadChannels w [] st1 else searchChannels w [] st1)"

definition handlePageSizeChange :: "jsval \<Rightarrow> table \<Rightarrow> table" where
  "handlePageSizeChange size' st =
     (let w = (tb_view st)\<lparr>v_page := 1, v_size := size'\<rparr>;
          st1 = st\<lparr>tb_view := w, tb_storage := put (js ''page-size'') (to_str size') (tb_storage st)\<rparr> in
      if no_search st then loadChannels w [Catch_error] st1 else searchChannels w [] st1)"

definition stored_true :: "table \<Rightarrow> string \<Rightarrow> bool" where
  "stored_true st k \<longleftrightarrow> get (tb_storage st) (js k) = Some (js ''true'')"

definition mount_table :: "table \<Rightarrow> table" where
  "mount_table st =
     (let w = (tb_view st)\<lparr>v_sort := stored_true st ''id-sort'', v_tag := stored_true st ''enable-tag-mode'',
            v_size := js_or (Num (case get (tb_storage st) (js ''page-size'') of None \<Rightarrow> NaN | Some s \<Rightarrow> parse_int True s)) ITEMS_PER_PAGE\<rparr> in
      loadChannels (w\<lparr>v_page := 1\<rparr>) [Catch_error] (st\<lparr>tb_view := w\<rparr>))"

section \<open>Operations\<close>

text \<open>Up to the request.  \<open>parseInt\<close> of the typed value; a negative weight counts as 0; \<open>enable_all\<close> empties the list of
  disabled keys in the row itself, before the server has answered.\<close>

definition parsed :: "jsval \<Rightarrow> jsval" where
  "parsed v = Num (parse_int True (to_str v))"

definition put_channel :: "jsval \<Rightarrow> string \<Rightarrow> jsval \<Rightarrow> request" where
  "put_channel i k v = Put_req (js ''/api/channel/'') (Obj [(js ''id'', i), (js k, v)])"

definition nonneg :: "jsval \<Rightarrow> jsval" where
  "nonneg v = (case v of Num x \<Rightarrow> if num_less x (nat_num 0) then Num (nat_num 0) else v | _ \<Rightarrow> v)"

definition change_list :: "nat \<Rightarrow> (jsval list \<Rightarrow> jsval list) \<Rightarrow> table \<Rightarrow> table" where
  "change_list g f st = st\<lparr>tb_lists := (tb_lists st)[g := f (tb_lists st ! g)]\<rparr>"

definition cleared_keys :: "jsval \<Rightarrow> jsval" where
  "cleared_keys r = with_field ''channel_info'' (with_field ''multi_key_status_list'' (Obj []) (fld ''channel_info'' r)) r"

definition manageChannel :: "action \<Rightarrow> path \<Rightarrow> table \<Rightarrow> table" where
  "manageChannel act p st =
     (let r = record_at p (table_rows st); i = fld ''id'' r; w = Manage act p (tb_shown st) in
      case act of
        Delete_channel \<Rightarrow> await (Delete_req (js ''/api/channel/'' @ to_str i @ js ''/'') Undef) w [] st
      | Enable_channel \<Rightarrow> await (put_channel i ''status'' (Num (nat_num 1))) w [] st
      | Disable_channel \<Rightarrow> await (put_channel i ''status'' (Num (nat_num 2))) w [] st
      | Set_priority v \<Rightarrow> if v = Str [] then st else await (put_channel i ''priority'' (parsed v)) w [] st
      | Set_weight v \<Rightarrow> if v = Str [] then st else await (put_channel i ''weight'' (nonneg (parsed v))) w [] st
      | Enable_all \<Rightarrow>
          if \<not> plain_object (fld ''channel_info'' r) then st
          else await (put_channel i ''channel_info'' (fld ''channel_info'' (cleared_keys r))) w [] (change_list (tb_shown st) (change_record p cleared_keys) st))"

definition manageTag :: "jsstr \<Rightarrow> bool \<Rightarrow> table \<Rightarrow> table" where
  "manageTag tag enable st =
     await (Post_req (if enable then js ''/api/channel/tag/enabled'' else js ''/api/channel/tag/disabled'') (Obj [(js ''tag'', Str tag)]))
       (Manage_tag tag enable (tb_shown st)) [] st"

definition copySelectedChannel :: "path \<Rightarrow> table \<Rightarrow> table" where
  "copySelectedChannel p st =
     await (Post_req (js ''/api/channel/copy/'' @ to_str (fld ''id'' (record_at p (table_rows st)))) Undef) (Copy (tb_view st)) [Catch_copy] st"

text \<open>\<open>submitTagEdit(type, data)\<close>: what is sent, or what is missing.\<close>

definition tag_edit_data :: "jsstr \<Rightarrow> jsval \<Rightarrow> jsstr + jsval" where
  "tag_edit_data kind data =
     (if kind = js ''priority'' then
        (let v = fld ''priority'' data in if v = Undef \<or> v = Str [] then Inl txt_priority_integer else Inr (with_field ''priority'' (parsed v) data))
      else if kind = js ''weight'' then
        (let v = fld ''weight'' data in
         if v = Undef \<or> num_less (to_num v) (nat_num 0) \<or> v = Str [] then Inl txt_weight_integer else Inr (with_field ''weight'' (parsed v) data))
      else Inr data)"

definition submitTagEdit :: "jsstr \<Rightarrow> jsval \<Rightarrow> table \<Rightarrow> table" where
  "submitTagEdit kind data st =
     (case tag_edit_data kind data of
        Inl m \<Rightarrow> show_toast (ShowInfo m) st
      | Inr d \<Rightarrow> await (Put_req (js ''/api/channel/tag'') d) (Tag_edit (tb_view st)) [Catch_error] st)"

definition selected_ids :: "table \<Rightarrow> jsval" where
  "selected_ids st = Arr (map (fld ''id'') (tb_selected st))"

definition batchSetChannelTag :: "translate \<Rightarrow> table \<Rightarrow> table" where
  "batchSetChannelTag t st =
     (if tb_selected st = [] then report t (Str (t txt_select_for_tag [])) [] st
      else if tb_tagValue st = [] then report t (Str (t txt_tag_empty [])) [] st
      else await (Post_req (js ''/api/channel/batch/tag'') (Obj [(js ''ids'', selected_ids st), (js ''tag'', Str (tb_tagValue st))]))
        (Batch_tag (tb_view st)) [] st)"

definition batchDeleteChannels :: "translate \<Rightarrow> table \<Rightarrow> table" where
  "batchDeleteChannels t st =
     (if tb_selected st = [] then report t (Str (t txt_select_for_delete [])) [] st
      else await (Post_req (js ''/api/channel/batch'') (Obj [(js ''ids'', selected_ids st)]))
        (Batch_delete (length (table_rows st)) (tb_view st)) [] (st\<lparr>tb_loading := True\<rparr>))"

definition testAllChannels :: "table \<Rightarrow> table" where
  "testAllChannels = await (Get_req (js ''/api/channel/test'') Undef) Test_all []"

definition deleteAllDisabledChannels :: "table \<Rightarrow> table" where
  "deleteAllDisabledChannels st = await (Delete_req (js ''/api/channel/disabled'') Undef) (Delete_disabled (tb_view st)) [] st"

definition updateAllChannelsBalance :: "table \<Rightarrow> table" where
  "updateAllChannelsBalance = await (Get_req (js ''/api/channel/update_balance'') Undef) Balance_all []"

text \<open>For a channel of type 57 another window is opened instead.\<close>

definition updateChannelBalance :: "path \<Rightarrow> table \<Rightarrow> table" where
  "updateChannelBalance p st =
     (let r = record_at p (table_rows st) in
      if strict_eq (fld ''type'' r) (Num (nat_num 57)) then st
      else await (Get_req (js ''/api/channel/update_balance/'' @ to_str (fld ''id'' r) @ js ''/'') Undef) (Balance p (tb_shown st)) [] st)"

definition fixChannelsAbilities :: "table \<Rightarrow> table" where
  "fixChannelsAbilities st = await (Post_req (js ''/api/channel/fix'') Undef) (Fix_abilities (tb_view st)) [] st"

text \<open>From the answer on.  \<open>const { success, message } = res.data\<close> throws if there is no answer or no body; the others read
  \<open>res?.data?.success\<close>.\<close>

definition answered :: "translate \<Rightarrow> jsval + jsval \<Rightarrow> after list \<Rightarrow> (jsval \<Rightarrow> table \<Rightarrow> table) \<Rightarrow> table \<Rightarrow> table" where
  "answered t response ks ok st =
     (case response of
        Inl err \<Rightarrow> unwind t (Some err) ks st
      | Inr res \<Rightarrow>
          let body = body_of res in
          if nullish body then unwind t (Some type_error) ks st
          else if truthy (fld ''success'' body) then ok body st
          else report t (fld ''message'' body) ks st)"

definition answer_manage :: "translate \<Rightarrow> action \<Rightarrow> path \<Rightarrow> nat \<Rightarrow> jsval \<Rightarrow> after list \<Rightarrow> table \<Rightarrow> table" where
  "answer_manage t act p g body ks st =
     (let st1 = show_toast (ShowSuccess (t txt_done [])) st; channel = fld ''data'' body in
      if act = Delete_channel then unwind t None ks (st1\<lparr>tb_shown := g\<rparr>)
      else if nullish channel then unwind t (Some type_error) ks st1
      else unwind t None ks ((change_list g (change_record p (with_field ''status'' (fld ''status'' channel))) st1)\<lparr>tb_shown := g\<rparr>))"

definition answer_manage_tag :: "translate \<Rightarrow> jsstr \<Rightarrow> bool \<Rightarrow> nat \<Rightarrow> after list \<Rightarrow> table \<Rightarrow> table" where
  "answer_manage_tag t tag enable g ks st =
     unwind t None ks ((change_list g (map (tag_status (Str tag) (if enable then 1 else 2)))
       (show_toast (ShowSuccess (t txt_done [])) st))\<lparr>tb_shown := g\<rparr>)"

definition answer_copy :: "translate \<Rightarrow> table_view \<Rightarrow> jsval + jsval \<Rightarrow> after list \<Rightarrow> table \<Rightarrow> table" where
  "answer_copy t w response ks st =
     (case response of
        Inl err \<Rightarrow> unwind t (Some err) ks st
      | Inr res \<Rightarrow>
          if succeeded res then refresh w ks (show_toast (ShowSuccess (t txt_copied [])) st)
          else report t (js_or (fld ''message'' (body_of res)) (Str (t txt_copy_failed []))) ks st)"

definition answer_tag_edit :: "translate \<Rightarrow> table_view \<Rightarrow> jsval + jsval \<Rightarrow> after list \<Rightarrow> table \<Rightarrow> table" where
  "answer_tag_edit t w response ks st =
     (case response of
        Inl err \<Rightarrow> unwind t (Some err) ks st
      | Inr res \<Rightarrow> if succeeded res then refresh w ks (show_toast (ShowSuccess txt_updated) st) else unwind t None ks st)"

text \<open>\<open>updateChannelProperty\<close> on the captured rows: the state is set only if a channel was changed.  \<open>now\<close> is
  \<open>Date.now() / 1000\<close>.\<close>

definition update_list :: "nat \<Rightarrow> jsval \<Rightarrow> (jsval \<Rightarrow> jsval) \<Rightarrow> table \<Rightarrow> table" where
  "update_list g i f st =
     (let (rows, updated) = updateChannelProperty i f (tb_lists st ! g);
          st1 = change_list g (\<lambda>_. rows) st in
      if updated then st1\<lparr>tb_shown := g\<rparr> else st1)"

definition answer_balance :: "translate \<Rightarrow> jsval \<Rightarrow> path \<Rightarrow> nat \<Rightarrow> jsval \<Rightarrow> after list \<Rightarrow> table \<Rightarrow> table" where
  "answer_balance t now p g body ks st =
     (let r = record_at p (tb_lists st ! g);
          st1 = update_list g (fld ''id'' r) (\<lambda>c. with_field ''balance_updated_time'' now (with_field ''balance'' (fld ''balance'' body) c)) st in
      unwind t None ks (show_toast (ShowInfo (replace_text (t txt_balance []) ''${name}'' (fld ''name'' r))) st1))"

text \<open>\<open>data.success\<close> of an answer without data throws.\<close>

definition answer_fix :: "translate \<Rightarrow> table_view \<Rightarrow> jsval \<Rightarrow> after list \<Rightarrow> table \<Rightarrow> table" where
  "answer_fix t w body ks st =
     (let data = fld ''data'' body in
      if nullish data then unwind t (Some type_error) ks st
      else refresh w ks (show_toast (ShowSuccess (replace_text (replace_text (t txt_fixed []) ''${success}'' (fld ''success'' data))
        ''${fails}'' (fld ''fails'' data))) st))"

definition answer_flight :: "translate \<Rightarrow> jsval \<Rightarrow> waiting \<Rightarrow> jsval + jsval \<Rightarrow> after list \<Rightarrow> table \<Rightarrow> table" where
  "answer_flight t now w response ks =
     (case w of
        Load reqId tag \<Rightarrow> answer_load t reqId tag response ks
      | Search page tag \<Rightarrow> answer_search t page tag response ks
      | Manage act p g \<Rightarrow> answered t response ks (\<lambda>body. answer_manage t act p g body ks)
      | Manage_tag tag enable g \<Rightarrow> answered t response ks (\<lambda>_. answer_manage_tag t tag enable g ks)
      | Copy v \<Rightarrow> answer_copy t v response ks
      | Tag_edit v \<Rightarrow> answer_tag_edit t v response ks
      | Batch_tag v \<Rightarrow> answered t response ks (\<lambda>body st.
          refresh v (Hide_set_tag # ks) (show_toast (ShowSuccess (replace_text (t txt_tags_set []) ''${count}'' (fld ''data'' body))) st))
      | Batch_delete n v \<Rightarrow> answered t response (Loading_off # ks) (\<lambda>body st. refresh v (Page_timer n v # Loading_off # ks)
          (show_toast (ShowSuccess (replace_text (t txt_deleted []) ''${data}'' (fld ''data'' body))) st))
      | Test_all \<Rightarrow> answered t response ks (\<lambda>_ st. unwind t None ks (show_toast (ShowInfo (t txt_testing_all [])) st))
      | Delete_disabled v \<Rightarrow> answered t response ks (\<lambda>body st.
          refresh v ks (show_toast (ShowSuccess (replace_text (t txt_disabled_deleted []) ''${data}'' (fld ''data'' body))) st))
      | Balance_all \<Rightarrow> answered t response ks (\<lambda>_ st. unwind t None ks (show_toast (ShowInfo (t txt_balances [])) st))
      | Balance p g \<Rightarrow> answered t response ks (\<lambda>body. answer_balance t now p g body ks)
      | Fix_abilities v \<Rightarrow> answered t response ks (\<lambda>body. answer_fix t v body ks))"

text \<open>The \<open>n\<close>th request in flight gets its answer; the timer that \<open>batchDeleteChannels\<close> sets goes off, with the number of rows
  and the page that the handler captured.\<close>

definition answer_nth :: "translate \<Rightarrow> jsval \<Rightarrow> nat \<Rightarrow> jsval + jsval \<Rightarrow> table \<Rightarrow> table" where
  "answer_nth t now n response st =
     (let (w, ks) = tb_flights st ! n in
      answer_flight t now w response ks (st\<lparr>tb_flights := take n (tb_flights st) @ drop (Suc n) (tb_flights st)\<rparr>))"

definition timer_nth :: "nat \<Rightarrow> table \<Rightarrow> table" where
  "timer_nth n st =
     (let (rows, w) = tb_timers st ! n; st1 = st\<lparr>tb_timers := take n (tb_timers st) @ drop (Suc n) (tb_timers st)\<rparr> in
      if rows = 0 \<and> 1 < v_page w then refresh (w\<lparr>v_page := v_page w - 1\<rparr>) [] st1 else st1)"

section \<open>The table as a state machine\<close>

text \<open>The settings of the view, the form, the selection and the tag to set are changed by other components.\<close>

inductive table_step :: "translate \<Rightarrow> table \<Rightarrow> table \<Rightarrow> bool" for t :: translate where
  set_view: "table_step t st (st\<lparr>tb_view := w\<rparr>)"
| fill_form: "table_step t st (st\<lparr>tb_form := form\<rparr>)"
| select: "table_step t st (st\<lparr>tb_selected := chosen\<rparr>)"
| type_tag: "table_step t st (st\<lparr>tb_tagValue := tag, tb_showSetTag := shown\<rparr>)"
| load: "table_step t st (loadChannels a ks st)"
| search: "table_step t st (searchChannels a ks st)"
| refreshing: "table_step t st (refresh w ks st)"
| page: "table_step t st (handlePageChange n st)"
| page_size: "table_step t st (handlePageSizeChange size' st)"
| manage: "table_step t st (manageChannel act p st)" if "valid_path p (table_rows st)"
| manage_tag: "table_step t st (manageTag tag enable st)"
| copy: "table_step t st (copySelectedChannel p st)" if "valid_path p (table_rows st)"
| edit_tag: "table_step t st (submitTagEdit kind data st)"
| batch_tag: "table_step t st (batchSetChannelTag t st)"
| batch_delete: "table_step t st (batchDeleteChannels t st)"
| test_all: "table_step t st (testAllChannels st)"
| delete_disabled: "table_step t st (deleteAllDisabledChannels st)"
| balance_all: "table_step t st (updateAllChannelsBalance st)"
| balance: "table_step t st (updateChannelBalance p st)" if "valid_path p (table_rows st)"
| fix_abilities: "table_step t st (fixChannelsAbilities st)"
| answer: "table_step t st (answer_nth t now n response st)" if "n < length (tb_flights st)"
| timer: "table_step t st (timer_nth n st)" if "n < length (tb_timers st)"

text \<open>The list that is shown exists, and so does every list and record that a waiting handler captured; loads in flight have
  different numbers, none beyond the counter.\<close>

definition waiting_ok :: "jsval list list \<Rightarrow> nat \<Rightarrow> waiting \<Rightarrow> bool" where
  "waiting_ok ls counter w =
     (case w of
        Load i _ \<Rightarrow> i \<le> counter
      | Manage _ p g \<Rightarrow> g < length ls \<and> valid_path p (ls ! g)
      | Manage_tag _ _ g \<Rightarrow> g < length ls
      | Balance p g \<Rightarrow> g < length ls \<and> valid_path p (ls ! g)
      | _ \<Rightarrow> True)"

fun load_ids :: "(waiting \<times> after list) list \<Rightarrow> nat list" where
  "load_ids [] = []"
| "load_ids ((Load i _, _) # fs) = i # load_ids fs"
| "load_ids (_ # fs) = load_ids fs"

definition table_ok :: "table \<Rightarrow> bool" where
  "table_ok st \<longleftrightarrow> tb_shown st < length (tb_lists st) \<and>
     (\<forall>f \<in> set (tb_flights st). waiting_ok (tb_lists st) (tb_counter st) (fst f)) \<and> distinct (load_ids (tb_flights st))"

lemma load_ids_append [simp]: "load_ids (fs @ gs) = load_ids fs @ load_ids gs"
  by (induction fs rule: load_ids.induct) simp_all

lemma load_ids_mem: "i \<in> set (load_ids fs) \<longleftrightarrow> (\<exists>tag ks. (Load i tag, ks) \<in> set fs)"
  by (induction fs rule: load_ids.induct) auto

lemma fields_show [simp]:
  "tb_lists (show_ui evs st) = tb_lists st" "tb_shown (show_ui evs st) = tb_shown st"
  "tb_counter (show_ui evs st) = tb_counter st" "tb_flights (show_ui evs st) = tb_flights st" "tb_loading (show_ui evs st) = tb_loading st"
  "tb_lists (show_toast m st) = tb_lists st" "tb_shown (show_toast m st) = tb_shown st"
  "tb_counter (show_toast m st) = tb_counter st" "tb_flights (show_toast m st) = tb_flights st" "tb_loading (show_toast m st) = tb_loading st"
  by (simp_all add: show_ui_def show_toast_def)

lemma fields_unwind [simp]:
  "tb_lists (unwind t err ks st) = tb_lists st" "tb_shown (unwind t err ks st) = tb_shown st"
  "tb_counter (unwind t err ks st) = tb_counter st" "tb_flights (unwind t err ks st) = tb_flights st"
  by (induction t err ks st rule: unwind.induct) (auto split: sum.splits)

lemma fields_report [simp]:
  "tb_lists (report t m ks st) = tb_lists st" "tb_shown (report t m ks st) = tb_shown st"
  "tb_counter (report t m ks st) = tb_counter st" "tb_flights (report t m ks st) = tb_flights st"
  by (simp_all add: report_def split: sum.splits)

text \<open>The invariant is about four fields only.\<close>

lemma ok_fields4:
  assumes "table_ok st" "tb_lists st' = tb_lists st" "tb_shown st' = tb_shown st" "tb_counter st' = tb_counter st" "tb_flights st' = tb_flights st"
  shows "table_ok st'"
  using assms by (simp add: table_ok_def)

lemma ok_simps [simp]:
  "table_ok (unwind t err ks st) = table_ok st" "table_ok (report t m ks st) = table_ok st"
  "table_ok (show_toast toast' st) = table_ok st" "table_ok (st\<lparr>tb_loading := b\<rparr>) = table_ok st"
  "table_ok (st\<lparr>tb_searching := b\<rparr>) = table_ok st" "table_ok (st\<lparr>tb_view := w\<rparr>) = table_ok st"
  "table_ok (st\<lparr>tb_count := v\<rparr>) = table_ok st" "table_ok (st\<lparr>tb_typeCounts := v\<rparr>) = table_ok st"
  "table_ok (st\<lparr>tb_form := v\<rparr>) = table_ok st" "table_ok (st\<lparr>tb_selected := vs\<rparr>) = table_ok st"
  "table_ok (st\<lparr>tb_tagValue := tag\<rparr>) = table_ok st" "table_ok (st\<lparr>tb_showSetTag := b\<rparr>) = table_ok st"
  "table_ok (st\<lparr>tb_timers := timers\<rparr>) = table_ok st" "table_ok (st\<lparr>tb_storage := store'\<rparr>) = table_ok st"
  by (simp_all add: table_ok_def)

lemma ok_await:
  assumes "table_ok st" "waiting_ok (tb_lists st) (tb_counter st) w" "\<And>i tag. w \<noteq> Load i tag"
  shows "table_ok (await req w ks st)"
  using assms by (cases w) (auto simp: table_ok_def await_def)

lemma ok_search_rows: "table_ok st \<Longrightarrow> table_ok (search_rows a ks st)"
  unfolding search_rows_def by (rule ok_await) (simp_all add: waiting_ok_def)

lemma ok_load_rows:
  assumes "table_ok st"
  shows "table_ok (load_rows a ks st)"
proof -
  have old: "i \<le> tb_counter st" if "i \<in> set (load_ids (tb_flights st))" for i
    using that assms by (fastforce simp: load_ids_mem table_ok_def waiting_ok_def)
  then have "Suc (tb_counter st) \<notin> set (load_ids (tb_flights st))" using not_less_eq_eq by blast
  moreover have "waiting_ok (tb_lists st) (Suc (tb_counter st)) (fst f)" if "f \<in> set (tb_flights st)" for f
  proof -
    have "waiting_ok (tb_lists st) (tb_counter st) (fst f)" using assms that by (simp add: table_ok_def)
    then show ?thesis by (auto simp: waiting_ok_def split: waiting.splits)
  qed
  ultimately show ?thesis using assms by (auto simp: table_ok_def load_rows_def await_def waiting_ok_def)
qed

lemma ok_refresh:
  assumes "table_ok st"
  shows "table_ok (loadChannels a ks st)" "table_ok (searchChannels a ks st)" "table_ok (refresh a ks st)"
  using assms by (simp_all add: refresh_def loadChannels_def searchChannels_def ok_load_rows ok_search_rows)

lemma ok_pages:
  assumes "table_ok st"
  shows "table_ok (handlePageChange n st)" "table_ok (handlePageSizeChange size' st)"
  using assms by (simp_all add: handlePageChange_def handlePageSizeChange_def Let_def ok_refresh)

text \<open>Changes of the objects of a list keep its shape: the number of rows, and of the channels below each.\<close>

definition shape :: "jsval list \<Rightarrow> nat list" where
  "shape rows = map (\<lambda>r. length (children r)) rows"

lemma valid_path_shape: "shape rows = shape rows' \<Longrightarrow> valid_path p rows = valid_path p rows'"
proof -
  assume s: "shape rows = shape rows'"
  then have l: "length rows = length rows'" by (metis length_map shape_def)
  moreover have "length (children (rows ! i)) = length (children (rows' ! i))" if "i < length rows" for i
    using arg_cong [OF s, of "\<lambda>xs. xs ! i"] that l by (simp add: shape_def)
  ultimately show ?thesis by (auto simp: valid_path_def split: option.splits)
qed

lemma children_with [simp]: "k \<noteq> ''children'' \<Longrightarrow> children (with_field k w r) = children r"
  by (simp add: children_def)

lemma length_children_with: "length cs = length (children r) \<Longrightarrow> length (children (with_field ''children'' (Arr cs) r)) = length (children r)"
  by (cases "plain_object r") (simp_all add: children_def)

lemma shape_tag_status: "shape (map (tag_status tag n) rows) = shape rows"
  by (auto simp: shape_def tag_status_def set_status_def length_children_with)

lemma shape_change_record:
  assumes "\<And>r. length (children (f r)) = length (children r)"
  shows "shape (change_record p f rows) = shape rows"
proof -
  have "map g (rows[i := x]) = map g rows" if "i < length rows \<Longrightarrow> g x = g (rows ! i)" for g :: "jsval \<Rightarrow> nat" and i x
    using that by (cases "i < length rows") (simp_all add: map_update list_update_same_conv list_update_beyond)
  then show ?thesis
    by (auto simp: shape_def change_record_def assms length_children_with split: prod.splits option.splits)
qed

lemma shape_update:
  assumes "\<And>r. length (children (f r)) = length (children r)"
  shows "shape (fst (updateChannelProperty i f rows)) = shape rows"
  by (auto simp: shape_def updateChannelProperty_def update_row_def length_children_with assms)

lemma ok_change_list:
  assumes "table_ok st" "shape (f (tb_lists st ! g)) = shape (tb_lists st ! g)"
  shows "table_ok (change_list g f st)"
proof -
  have v: "valid_path p ((tb_lists st)[g := f (tb_lists st ! g)] ! h) = valid_path p (tb_lists st ! h)" for p h
    using valid_path_shape [OF assms(2), of p] by (cases "g < length (tb_lists st)") (auto simp: nth_list_update list_update_beyond)
  have "waiting_ok ((tb_lists st)[g := f (tb_lists st ! g)]) c w = waiting_ok (tb_lists st) c w" for c w
    by (cases w) (simp_all add: waiting_ok_def v)
  then show ?thesis using assms(1) by (simp add: table_ok_def change_list_def)
qed

lemma ok_shown: "table_ok st \<Longrightarrow> g < length (tb_lists st) \<Longrightarrow> table_ok (st\<lparr>tb_shown := g\<rparr>)"
  by (simp add: table_ok_def)

lemma lists_change_list [simp]: "length (tb_lists (change_list g f st)) = length (tb_lists st)"
  by (simp add: change_list_def)

lemma ok_show_rows:
  assumes "table_ok st"
  shows "table_ok (show_rows rows st)"
proof -
  have "waiting_ok (tb_lists st @ [rows]) c w" if "waiting_ok (tb_lists st) c w" for c w
    using that by (cases w) (auto simp: waiting_ok_def nth_append)
  then show ?thesis using assms by (simp add: table_ok_def show_rows_def)
qed

lemma ok_has_shown: "table_ok st \<Longrightarrow> tb_shown st < length (tb_lists st)"
  by (simp add: table_ok_def)

lemma ok_operations:
  assumes "table_ok st"
  shows "valid_path p (table_rows st) \<Longrightarrow> table_ok (manageChannel act p st)" "table_ok (manageTag tag enable st)"
    "table_ok (copySelectedChannel p st)" "table_ok (submitTagEdit kind data st)" "table_ok (batchSetChannelTag t st)"
    "table_ok (batchDeleteChannels t st)" "table_ok (testAllChannels st)" "table_ok (deleteAllDisabledChannels st)"
    "table_ok (updateAllChannelsBalance st)" "valid_path p (table_rows st) \<Longrightarrow> table_ok (updateChannelBalance p st)"
    "table_ok (fixChannelsAbilities st)"
proof -
  note shown = ok_has_shown [OF assms]
  have keys: "shape (change_record p cleared_keys rows) = shape rows" for rows
    by (rule shape_change_record) (simp add: cleared_keys_def)
  show "table_ok (manageChannel act p st)" if p: "valid_path p (table_rows st)"
  proof -
    have w: "waiting_ok (tb_lists st) c (Manage act p (tb_shown st))" for c act
      using p shown by (simp add: waiting_ok_def table_rows_def)
    have "table_ok (change_list (tb_shown st) (change_record p cleared_keys) st)" by (rule ok_change_list [OF assms]) (rule keys)
    moreover have "waiting_ok (tb_lists (change_list (tb_shown st) (change_record p cleared_keys) st)) c (Manage act p (tb_shown st))" for c act
      using w [of c act] valid_path_shape [OF keys] shown by (simp add: waiting_ok_def change_list_def)
    ultimately show ?thesis
      using assms w by (cases act) (auto simp: manageChannel_def Let_def intro!: ok_await)
  qed
  show "table_ok (updateChannelBalance p st)" if "valid_path p (table_rows st)"
    using that assms shown by (auto simp: updateChannelBalance_def Let_def waiting_ok_def table_rows_def intro!: ok_await)
qed (use assms ok_has_shown [OF assms] in \<open>auto simp: manageTag_def copySelectedChannel_def submitTagEdit_def batchSetChannelTag_def batchDeleteChannels_def
  testAllChannels_def deleteAllDisabledChannels_def updateAllChannelsBalance_def fixChannelsAbilities_def waiting_ok_def
  split: sum.splits intro!: ok_await\<close>)

lemma ok_answer_load: "table_ok st \<Longrightarrow> table_ok (answer_load t reqId tag response ks st)"
  by (auto simp: answer_load_def Let_def ok_show_rows split: sum.splits)

lemma ok_answer_search: "table_ok st \<Longrightarrow> table_ok (answer_search t page tag response ks st)"
  by (auto simp: answer_search_def Let_def ok_show_rows split: sum.splits)

lemma ok_answered:
  assumes "table_ok st" "\<And>body. table_ok (f body st)"
  shows "table_ok (answered t response ks f st)"
  using assms by (auto simp: answered_def Let_def split: sum.splits)

lemma ok_answer_manage:
  assumes "table_ok st" "g < length (tb_lists st)"
  shows "table_ok (answer_manage t act p g body ks st)" "table_ok (answer_manage_tag t tag enable g ks st)"
    "table_ok (answer_balance t now p g body ks st)"
proof -
  have r: "shape (change_record p (with_field ''status'' v) rows) = shape rows" for v rows by (rule shape_change_record) simp
  show "table_ok (answer_manage t act p g body ks st)"
    using assms by (auto simp: answer_manage_def Let_def intro!: ok_shown ok_change_list r)
  show "table_ok (answer_manage_tag t tag enable g ks st)"
    using assms by (auto simp: answer_manage_tag_def intro!: ok_shown ok_change_list shape_tag_status)
  have "table_ok (update_list g i f st)" if "\<And>r. length (children (f r)) = length (children r)" for i f
    using assms shape_update [OF that, of i "tb_lists st ! g"]
    by (auto simp: update_list_def Let_def split: prod.splits intro!: ok_shown ok_change_list)
  then show "table_ok (answer_balance t now p g body ks st)" by (simp add: answer_balance_def Let_def)
qed

lemma ok_answer_flight:
  assumes "table_ok st" "waiting_ok (tb_lists st) (tb_counter st) w"
  shows "table_ok (answer_flight t now w response ks st)"
proof (cases w)
  case (Copy v)
  then show ?thesis using assms by (auto simp: answer_flight_def answer_copy_def ok_refresh split: sum.splits)
next
  case (Tag_edit v)
  then show ?thesis using assms by (auto simp: answer_flight_def answer_tag_edit_def ok_refresh split: sum.splits)
qed (use assms in \<open>auto simp: answer_flight_def waiting_ok_def answer_fix_def Let_def ok_answer_load ok_answer_search ok_answer_manage ok_refresh
  intro!: ok_answered\<close>)

lemma ok_remove:
  assumes "table_ok st" "n < length (tb_flights st)"
  shows "table_ok (st\<lparr>tb_flights := take n (tb_flights st) @ drop (Suc n) (tb_flights st)\<rparr>)"
    "waiting_ok (tb_lists st) (tb_counter st) (fst (tb_flights st ! n))"
proof -
  have f: "tb_flights st = take n (tb_flights st) @ (tb_flights st ! n) # drop (Suc n) (tb_flights st)" by (rule id_take_nth_drop [OF assms(2)])
  have "distinct (load_ids (take n (tb_flights st) @ (tb_flights st ! n) # drop (Suc n) (tb_flights st)))"
    using assms(1) f by (simp add: table_ok_def)
  moreover have "load_ids (x # fs) = load_ids [x] @ load_ids fs" for x fs using load_ids_append [of "[x]" fs] by simp
  ultimately have "distinct (load_ids (take n (tb_flights st)) @ load_ids [tb_flights st ! n] @ load_ids (drop (Suc n) (tb_flights st)))"
    by (metis load_ids_append)
  then have "distinct (load_ids (take n (tb_flights st) @ drop (Suc n) (tb_flights st)))" by (simp add: Int_Un_distrib)
  moreover have "set (take n (tb_flights st) @ drop (Suc n) (tb_flights st)) \<subseteq> set (tb_flights st)"
    using set_take_subset set_drop_subset by fastforce
  ultimately show "table_ok (st\<lparr>tb_flights := take n (tb_flights st) @ drop (Suc n) (tb_flights st)\<rparr>)"
    using assms(1) by (auto simp: table_ok_def)
  show "waiting_ok (tb_lists st) (tb_counter st) (fst (tb_flights st ! n))" using assms by (simp add: table_ok_def)
qed

lemma ok_answer_nth: "table_ok st \<Longrightarrow> n < length (tb_flights st) \<Longrightarrow> table_ok (answer_nth t now n response st)"
  using ok_answer_flight [OF ok_remove(1)] ok_remove(2) [of st n] by (auto simp: answer_nth_def Let_def split: prod.splits)

lemma ok_timer_nth: "table_ok st \<Longrightarrow> table_ok (timer_nth n st)"
  by (auto simp: timer_nth_def Let_def ok_refresh split: prod.splits)

lemma ok_init: "table_ok (mount_table (init_table storage))"
  unfolding mount_table_def Let_def by (rule ok_refresh) (simp add: table_ok_def init_table_def)

interpretation tables: invariant_machine "\<lambda>st. \<exists>storage. st = mount_table (init_table storage)" "table_step t" table_ok for t
proof
  fix st st' assume ok: "table_ok st" and "table_step t st st'"
  from this(2) show "table_ok st'"
  proof cases
    case (answer n now response)
    then show ?thesis using ok ok_answer_nth by blast
  qed (use ok ok_refresh ok_pages ok_operations ok_timer_nth in simp_all)
qed (auto simp: ok_init)

section \<open>Answers in any order\<close>

text \<open>The rows that an answer to a load, and to a search, brings.\<close>

definition loaded_rows :: "bool \<Rightarrow> jsval \<Rightarrow> jsval list option" where
  "loaded_rows tag res =
     (let body = body_of res; data = fld ''data'' body in
      if nullish body \<or> \<not> truthy (fld ''success'' body) \<or> nullish data then None
      else (case format_items (fld ''items'' data) tag of Inl _ \<Rightarrow> None | Inr rows \<Rightarrow> Some rows))"

definition searched_rows :: "bool \<Rightarrow> jsval \<Rightarrow> jsval list option" where
  "searched_rows tag res =
     (let body = body_of res; data = fld ''data'' body in
      if nullish body \<or> \<not> truthy (fld ''success'' body) \<or> nullish data \<or> fld ''type_counts'' data = Null then None
      else (case format_items (or_default (fld ''items'' data) (Arr [])) tag of Inl _ \<Rightarrow> None | Inr rows \<Rightarrow> Some rows))"

lemma unwind_loading: "\<not> tb_loading st \<Longrightarrow> \<not> tb_loading (unwind t err ks st)"
  by (induction t err ks st rule: unwind.induct) (auto split: sum.splits)

lemma table_rows_same [simp]:
  "table_rows (unwind t err ks st) = table_rows st" "table_rows (report t m ks st) = table_rows st"
  "table_rows (st\<lparr>tb_count := v\<rparr>) = table_rows st" "table_rows (st\<lparr>tb_view := w\<rparr>) = table_rows st"
  "table_rows (st\<lparr>tb_loading := b\<rparr>) = table_rows st" "table_rows (st\<lparr>tb_searching := b\<rparr>) = table_rows st" "table_rows (st\<lparr>tb_flights := fs\<rparr>) = table_rows st"
  by (simp_all add: table_rows_def)

lemma table_rows_show [simp]: "table_rows (show_rows rows st) = rows"
  by (simp add: table_rows_def show_rows_def)

lemma fields_show_rows [simp]:
  "tb_flights (show_rows rows st) = tb_flights st" "tb_counter (show_rows rows st) = tb_counter st"
  "tb_loading (show_rows rows st) = tb_loading st" "tb_view (show_rows rows st) = tb_view st"
  by (simp_all add: show_rows_def)

lemma answer_load_keeps [simp]:
  "tb_flights (answer_load t i tag response ks st) = tb_flights st" "tb_counter (answer_load t i tag response ks st) = tb_counter st"
  by (simp_all add: answer_load_def Let_def split: sum.splits)

lemma unwind_form: "tb_form (unwind t err ks st) = tb_form st"
  by (induction t err ks st rule: unwind.induct) (auto simp: show_ui_def split: sum.splits)

lemma answer_load_form: "tb_form (answer_load t i tag response ks st) = tb_form st"
  by (simp add: answer_load_def report_def show_rows_def show_ui_def Let_def unwind_form split: sum.splits)

lemma answer_load_newest:
  assumes "loaded_rows tag res = Some rows" "i = tb_counter st"
  shows "table_rows (answer_load t i tag (Inr res) ks st) = rows" "\<not> tb_loading (answer_load t i tag (Inr res) ks st)"
proof -
  have "res \<noteq> Undef" using assms(1) by (auto simp: loaded_rows_def body_of_def own_prop_def nullish_def)
  then show "table_rows (answer_load t i tag (Inr res) ks st) = rows" "\<not> tb_loading (answer_load t i tag (Inr res) ks st)"
    using assms by (auto simp: answer_load_def loaded_rows_def Let_def intro!: unwind_loading split: if_splits sum.splits)
qed

lemma answer_load_stale:
  assumes "i \<noteq> tb_counter st"
  shows "table_rows (answer_load t i tag response ks st) = table_rows st"
    "\<not> tb_loading st \<Longrightarrow> \<not> tb_loading (answer_load t i tag response ks st)"
  using assms by (simp_all add: answer_load_def Let_def unwind_loading split: sum.splits)

text \<open>One of the loads in flight gets its answer; \<open>reply\<close> gives the answer for each number.\<close>

inductive load_answered :: "translate \<Rightarrow> jsval \<Rightarrow> (nat \<Rightarrow> jsval + jsval) \<Rightarrow> table \<Rightarrow> table \<Rightarrow> bool" for t now reply where
  "load_answered t now reply st (answer_nth t now n (reply i) st)"
    if "n < length (tb_flights st)" "fst (tb_flights st ! n) = Load i tag"

definition loads_only :: "table \<Rightarrow> bool" where
  "loads_only st \<longleftrightarrow> list_all (\<lambda>f. case fst f of Load _ _ \<Rightarrow> True | _ \<Rightarrow> False) (tb_flights st)"

text \<open>The newest load is in flight, or its rows are shown.\<close>

definition newest_wins :: "nat \<Rightarrow> bool \<Rightarrow> jsval list \<Rightarrow> table \<Rightarrow> bool" where
  "newest_wins i tag rows st \<longleftrightarrow> table_ok st \<and> loads_only st \<and> tb_counter st = i \<and>
     (\<forall>tag' ks. (Load i tag', ks) \<in> set (tb_flights st) \<longrightarrow> tag' = tag) \<and>
     (i \<in> set (load_ids (tb_flights st)) \<or> table_rows st = rows \<and> \<not> tb_loading st)"

lemma load_ids_remove:
  assumes "n < length fs"
  shows "set (load_ids fs) \<subseteq> set (load_ids [fs ! n]) \<union> set (load_ids (take n fs @ drop (Suc n) fs))"
proof -
  have "fs = take n fs @ [fs ! n] @ drop (Suc n) fs" using id_take_nth_drop [OF assms] by simp
  then have "load_ids fs = load_ids (take n fs) @ load_ids [fs ! n] @ load_ids (drop (Suc n) fs)" by (metis load_ids_append)
  then show ?thesis by auto
qed

lemma load_answered_step:
  assumes "newest_wins i tag rows st" "load_answered t now reply st st'" "reply i = Inr res" "loaded_rows tag res = Some rows"
  shows "newest_wins i tag rows st' \<and> length (tb_flights st') = length (tb_flights st) - 1"
  using assms(2)
proof cases
  case (1 n j tag')
  obtain ks where f: "tb_flights st ! n = (Load j tag', ks)" using 1(3) by (cases "tb_flights st ! n") auto
  define st0 where "st0 = st\<lparr>tb_flights := take n (tb_flights st) @ drop (Suc n) (tb_flights st)\<rparr>"
  have st': "st' = answer_load t j tag' (reply j) ks st0" using 1(1) f by (simp add: answer_nth_def answer_flight_def st0_def)
  have fl: "tb_flights st' = take n (tb_flights st) @ drop (Suc n) (tb_flights st)" by (simp add: st' st0_def)
  have sub: "set (tb_flights st') \<subseteq> set (tb_flights st)" unfolding fl using set_take_subset set_drop_subset by fastforce
  have ok: "table_ok st'" using assms(1) 1(1,2) ok_answer_nth by (simp add: newest_wins_def)
  have c: "tb_counter st0 = i" "tb_counter st' = i" using assms(1) by (simp_all add: st' st0_def newest_wins_def)
  have "i \<in> set (load_ids (tb_flights st')) \<or> table_rows st' = rows \<and> \<not> tb_loading st'"
  proof (cases "j = i")
    case True
    have "(Load i tag', ks) \<in> set (tb_flights st)" using f 1(2) True nth_mem by metis
    then have "tag' = tag" using assms(1) unfolding newest_wins_def by blast
    then show ?thesis using answer_load_newest [OF assms(4) c(1) [symmetric]] assms(3) True by (simp add: st')
  next
    case False
    then have "i \<in> set (load_ids (tb_flights st)) \<Longrightarrow> i \<in> set (load_ids (tb_flights st'))"
      using load_ids_remove [OF 1(2)] f unfolding fl by auto
    moreover have "table_rows st0 = table_rows st" "tb_loading st0 = tb_loading st" by (simp_all add: st0_def)
    ultimately show ?thesis using assms(1) answer_load_stale [of j st0] False c(1) by (auto simp: st' newest_wins_def)
  qed
  moreover have "loads_only st'" using assms(1) sub by (auto simp: newest_wins_def loads_only_def list_all_iff)
  moreover have "\<forall>tag' ks. (Load i tag', ks) \<in> set (tb_flights st') \<longrightarrow> tag' = tag" using assms(1) sub by (auto simp: newest_wins_def)
  ultimately show ?thesis using ok c(2) 1(2) by (simp add: newest_wins_def fl)
qed

lemma load_answered_enabled:
  assumes "loads_only st" "tb_flights st \<noteq> []"
  shows "\<exists>st'. load_answered t now reply st st'"
proof -
  obtain i tag where "fst (tb_flights st ! 0) = Load i tag"
    using assms by (cases "tb_flights st") (auto simp: loads_only_def split: waiting.splits)
  then show ?thesis using assms(2) load_answered.intros [of 0 st] by blast
qed

lemma load_answered_run:
  assumes "newest_wins i tag rows st" "reply i = Inr res" "loaded_rows tag res = Some rows" "length (tb_flights st) = k"
  shows "(\<exists>st'. (load_answered t now reply ^^ k) st st') \<and>
    (\<forall>st'. (load_answered t now reply ^^ k) st st' \<longrightarrow> newest_wins i tag rows st' \<and> tb_flights st' = [])"
  using assms(1,4)
proof (induction k arbitrary: st)
  case (Suc k)
  have next': "newest_wins i tag rows st1 \<and> length (tb_flights st1) = k" if "load_answered t now reply st st1" for st1
    using load_answered_step [OF Suc.prems(1) that assms(2,3)] Suc.prems(2) by simp
  obtain st1 where st1: "load_answered t now reply st st1"
    using load_answered_enabled [of st t now reply] Suc.prems by (force simp: newest_wins_def)
  obtain st2 where "(load_answered t now reply ^^ k) st1 st2" using Suc.IH next' [OF st1] by blast
  then have "(load_answered t now reply ^^ Suc k) st st2" using st1 by (blast intro: relpowp_Suc_I2)
  moreover have "newest_wins i tag rows st' \<and> tb_flights st' = []" if "(load_answered t now reply ^^ Suc k) st st'" for st'
    using relpowp_Suc_D2 [OF that] Suc.IH next' by blast
  ultimately show ?case by blast
qed simp

lemma newest_wins_start:
  assumes "table_ok st" "no_search st" "loads_only st"
  shows "newest_wins (Suc (tb_counter st)) (v_tag a) rows (loadChannels a ks st)"
proof -
  have "j \<le> tb_counter st" if "(Load j tag', ks') \<in> set (tb_flights st)" for j tag' ks'
    using assms(1) that by (fastforce simp: table_ok_def waiting_ok_def)
  then show ?thesis using ok_refresh(1) [OF assms(1)] assms(2,3)
    by (fastforce simp: newest_wins_def loadChannels_def load_rows_def await_def loads_only_def)
qed

text \<open>C35: Loads may be answered in any order: once all are answered, the table shows the rows of the load that was started
  last and is no longer loading, whatever the other answers were.  There is always such a run of answers.\<close>

theorem last_load_wins:
  assumes "reach (\<lambda>st. \<exists>storage. st = mount_table (init_table storage)) (table_step t) st" "no_search st" "loads_only st"
    and "reply (Suc (tb_counter st)) = Inr res" "loaded_rows (v_tag a) res = Some rows"
  shows "(\<exists>st'. (load_answered t now reply ^^ Suc (length (tb_flights st))) (loadChannels a ks st) st') \<and>
    (\<forall>st'. (load_answered t now reply ^^ Suc (length (tb_flights st))) (loadChannels a ks st) st' \<longrightarrow>
      table_rows st' = rows \<and> \<not> tb_loading st' \<and> tb_flights st' = [])"
proof -
  have ok: "table_ok st" by (rule tables.reach_inv [OF assms(1)])
  have "length (tb_flights (loadChannels a ks st)) = Suc (length (tb_flights st))"
    using assms(2) by (simp add: loadChannels_def load_rows_def await_def)
  from load_answered_run [OF newest_wins_start [OF ok assms(2,3), of a rows ks] _ _ this, of reply res] assms(4,5)
  show ?thesis by (fastforce simp: newest_wins_def)
qed

definition demo_answer :: jsval where
  "demo_answer = Obj [(js ''data'', Obj [(js ''success'', Bool True),
     (js ''data'', Obj [(js ''items'', Arr [demo_channel 1 ''a'']), (js ''total'', Num (nat_num 1))])])]"

lemma demo_rows: "\<exists>rows. loaded_rows False demo_answer = Some rows \<and> searched_rows False demo_answer = Some rows \<and> length rows = 1"
proof -
  obtain ch where "prepared (demo_channel 1 ''a'') = Inr ch"
    by (rule good_channel_prepared [OF demo_good [of "''a''" 1]]) (simp_all add: inherited_def)
  then show ?thesis
    by (simp add: loaded_rows_def searched_rows_def demo_answer_def body_of_def fld_def own_prop_def get_def nullish_def truthy_def
      format_items_def setChannelFormat_def or_default_def)
qed

theorem last_load_wins_witness:
  "\<exists>st' rows. (load_answered (\<lambda>s _. s) Undef (\<lambda>_. Inr demo_answer) ^^ 2)
     (loadChannels (tb_view (init_table [])) [] (mount_table (init_table []))) st' \<and> length rows = 1 \<and> table_rows st' = rows \<and> \<not> tb_loading st'"
proof -
  let ?st = "mount_table (init_table [])" and ?a = "tb_view (init_table [])"
  have st: "no_search ?st" "loads_only ?st" "length (tb_flights ?st) = 1" "\<not> v_tag ?a"
    by (simp_all add: mount_table_def init_table_def loadChannels_def load_rows_def await_def no_search_def getFormValues_def fld_def own_prop_def
      js_or_def truthy_def loads_only_def Let_def)
  obtain rows where rows: "loaded_rows False demo_answer = Some rows" "length rows = 1" using demo_rows by blast
  have "reach (\<lambda>st. \<exists>storage. st = mount_table (init_table storage)) (table_step (\<lambda>s _. s)) ?st" by (rule reach_start) blast
  from last_load_wins [OF this st(1,2), of "\<lambda>_. Inr demo_answer" demo_answer ?a rows Undef "[]"] rows st(3,4)
  show ?thesis by (auto simp: numeral_2_eq_2)
qed

text \<open>C39: The answer of a search is shown even when a load was started after it and has already been answered: the table then
  shows the rows and the page of the search, although the form is empty.\<close>

theorem stale_search_shown:
  assumes "\<not> no_search st" "no_search (st\<lparr>tb_form := form\<rparr>)" "searched_rows (v_tag a) res = Some rows"
    and "n = length (tb_flights st)"
    and "st2 = loadChannels b [] ((searchChannels a [] st)\<lparr>tb_form := form\<rparr>)" "st3 = answer_nth t now (Suc n) response st2"
  shows "table_rows (answer_nth t now n (Inr res) st3) = rows \<and> v_page (tb_view (answer_nth t now n (Inr res) st3)) = v_page a"
proof -
  have "no_search (s\<lparr>tb_form := form\<rparr>)" for s using assms(2) by (simp add: no_search_def getFormValues_def)
  then have "tb_flights st2 = tb_flights st @ [(Search (v_page a) (v_tag a), [Searching_off]), (Load (Suc (tb_counter st)) (v_tag b), [])]"
    using assms(1,5) by (simp add: loadChannels_def load_rows_def searchChannels_def search_rows_def await_def)
  then have f: "tb_flights st3 = tb_flights st @ [(Search (v_page a) (v_tag a), [Searching_off])]"
    using assms(4,6) by (simp add: answer_nth_def answer_flight_def nth_append)
  have "answer_nth t now n (Inr res) st3 = answer_search t (v_page a) (v_tag a) (Inr res) [Searching_off] (st3\<lparr>tb_flights := tb_flights st\<rparr>)"
    using f assms(4) by (simp add: answer_nth_def answer_flight_def)
  moreover have "table_rows (answer_search t p tag (Inr res) [Searching_off] s) = rows \<and> v_page (tb_view (answer_search t p tag (Inr res) [Searching_off] s)) = p"
    if "tag = v_tag a" for p tag s
    using assms(3) that by (auto simp: answer_search_def searched_rows_def Let_def or_default_def nullish_def split: if_splits sum.splits)
  ultimately show ?thesis by simp
qed

definition demo_searching :: table where
  "demo_searching = (init_table [])\<lparr>tb_form := Obj [(js ''searchKeyword'', Str (js ''x''))]\<rparr>"

theorem stale_search_shown_witness:
  "\<exists>rows. length rows = 1 \<and> table_rows (answer_nth (\<lambda>s _. s) Undef 0 (Inr demo_answer) (answer_nth (\<lambda>s _. s) Undef 1 (Inr Undef)
     (loadChannels (tb_view demo_searching) [] ((searchChannels (tb_view demo_searching) [] demo_searching)\<lparr>tb_form := Obj []\<rparr>)))) = rows"
proof -
  obtain rows where rows: "searched_rows False demo_answer = Some rows" "length rows = 1" using demo_rows by fastforce
  have "\<not> no_search demo_searching" "no_search (demo_searching\<lparr>tb_form := Obj []\<rparr>)" "length (tb_flights demo_searching) = 0"
      "v_tag (tb_view demo_searching) = False"
    by (simp_all add: demo_searching_def init_table_def no_search_def getFormValues_def fld_def own_prop_def get_def js_or_def truthy_def)
  from stale_search_shown [OF this(1,2), of "tb_view demo_searching" demo_answer rows 0 _ "tb_view demo_searching" _ "\<lambda>s _. s" Undef "Inr Undef"]
    rows this(3,4) show ?thesis by simp
qed


definition demo_status :: jsval where
  "demo_status = Obj [(js ''data'', Obj [(js ''success'', Bool True), (js ''data'', Obj [(js ''status'', Num (nat_num 1))])])]"

end
