(* ===== verification/Settings_Page.thy ===== *)
theory Settings_Page
  imports Compat_Form Http
begin

text \<open>
  The settings pages under \<open>pages/Setting\<close>: their initial values, how the options of the server are loaded, the
  controls with their handlers, which changes are sent, and what follows the answers.  The pages share their
  handlers almost word for word; what they share is defined once and every page names it with its own values.  The loading indicator is
  not modelled.
\<close>

section \<open>Shared handlers\<close>

text \<open>\<open>compareObjects\<close> of \<open>helpers/utils.jsx\<close>: the keys of both objects whose values differ.\<close>

definition compareObjects :: "vals \<Rightarrow> vals \<Rightarrow> (jsstr \<times> jsval \<times> jsval) list" where
  "compareObjects oldObject newObject =
     map (\<lambda>k. (k, own_prop (Obj oldObject) k, own_prop (Obj newObject) k))
       (filter (\<lambda>k. k \<in> set (keys newObject) \<and> \<not> strict_eq (own_prop (Obj oldObject) k) (own_prop (Obj newObject) k))
         (obj_keys (Obj oldObject)))"

record settings =
  sp_inputs :: vals
  sp_row :: vals
  sp_form :: form

definition new_settings_page :: "vals \<Rightarrow> settings" where
  "new_settings_page inputs = \<lparr>sp_inputs = inputs, sp_row = inputs, sp_form = new_form None\<rparr>"

subsection \<open>Fields\<close>

datatype control = Input | TextArea | InputNumber | Switch | Select "select_option list"

datatype user_edit = Typed jsstr | Clicked

fun control_calls :: "control \<Rightarrow> jsstr \<Rightarrow> vals \<Rightarrow> user_edit \<Rightarrow> field_call list" where
  "control_calls Input f vs (Typed s) = FormInput_change f s"
| "control_calls TextArea f vs (Typed s) = FormTextArea_change f s"
| "control_calls InputNumber f vs (Typed s) = FormInputNumber_change f s"
| "control_calls (Select opts) f vs (Typed s) = select_one opts f s"
| "control_calls Switch f vs Clicked = FormSwitch_click f vs"
| "control_calls _ f vs _ = []"

text \<open>A field of a page: its control, its name, when it is disabled, and what its \<open>onChange\<close> handler makes of the
  value before it stores it under that name.\<close>

record page_field =
  pf_control :: control
  pf_name :: jsstr
  pf_disabled :: "vals \<Rightarrow> bool"
  pf_convert :: "jsval \<Rightarrow> jsval"

definition plain_field :: "control \<Rightarrow> string \<Rightarrow> page_field" where
  "plain_field c k = \<lparr>pf_control = c, pf_name = js k, pf_disabled = (\<lambda>_. False), pf_convert = (\<lambda>v. v)\<rparr>"

definition string_field :: "control \<Rightarrow> string \<Rightarrow> page_field" where
  "string_field c k = (plain_field c k)\<lparr>pf_convert := (\<lambda>v. Str (to_str v))\<rparr>"

definition field_unless :: "string \<Rightarrow> page_field \<Rightarrow> page_field" where
  "field_unless k fld = fld\<lparr>pf_disabled := (\<lambda>inputs. \<not> truthy (own_prop (Obj inputs) (js k)))\<rparr>"

fun do_field_call :: "page_field \<Rightarrow> field_call \<Rightarrow> settings \<Rightarrow> settings" where
  "do_field_call fld (Form_set f v) st = st\<lparr>sp_form := setValue f v (sp_form st)\<rparr>"
| "do_field_call fld (Given_onChange v) st = st\<lparr>sp_inputs := put (pf_name fld) (pf_convert fld v) (sp_inputs st)\<rparr>"

definition page_edit :: "page_field \<times> user_edit \<Rightarrow> settings \<Rightarrow> settings" where
  "page_edit = (\<lambda>(fld, e) st.
     if pf_disabled fld (sp_inputs st) then st
     else fold (do_field_call fld) (control_calls (pf_control fld) (pf_name fld) (f_objects (sp_form st) ! f_values (sp_form st)) e) st)"

subsection \<open>Loading the options\<close>

definition load_known :: "vals \<Rightarrow> jsstr list \<Rightarrow> jsval \<Rightarrow> vals" where
  "load_known base known options =
     fold (\<lambda>k cur. if k \<in> set known then put k (own_prop options k) cur else cur) (obj_keys options) base"

definition show_loaded :: "vals \<Rightarrow> settings \<Rightarrow> settings" where
  "show_loaded currentInputs st =
     st\<lparr>sp_inputs := currentInputs, sp_row := currentInputs, sp_form := setValues currentInputs (sp_form st)\<rparr>"

text \<open>Starting from the present values, or from nothing.\<close>

definition load_over :: "jsval \<Rightarrow> settings \<Rightarrow> settings" where
  "load_over options st = show_loaded (load_known (sp_inputs st) (keys (sp_inputs st)) options) st"

definition load_only :: "jsval \<Rightarrow> settings \<Rightarrow> settings" where
  "load_only options st = show_loaded (load_known [] (keys (sp_inputs st)) options) st"

subsection \<open>Saving\<close>

definition txt_unchanged :: jsstr where "txt_unchanged = [20320, 20284, 20046, 24182, 27809, 26377, 20462, 25913, 20160, 20040]"
definition txt_partly_failed :: jsstr where "txt_partly_failed = [37096, 20998, 20445, 23384, 22833, 36133, 65292, 35831, 37325, 35797]"
definition txt_saved :: jsstr where "txt_saved = [20445, 23384, 25104, 21151]"
definition txt_save_failed :: jsstr where "txt_save_failed = [20445, 23384, 22833, 36133, 65292, 35831, 37325, 35797]"

definition bool_text :: "jsval \<Rightarrow> jsval" where
  "bool_text v = (case v of Bool b \<Rightarrow> Str (to_str v) | _ \<Rightarrow> v)"

definition text_value :: "jsval \<Rightarrow> jsval" where
  "text_value v = Str (to_str v)"

definition option_request :: "jsstr \<Rightarrow> jsval \<Rightarrow> request" where
  "option_request k v = Put_req (js ''/api/option/'') (Obj [(js ''key'', Str k), (js ''value'', v)])"

definition page_onSubmit :: "(jsval \<Rightarrow> jsval) \<Rightarrow> translate \<Rightarrow> settings \<Rightarrow> toast + request list" where
  "page_onSubmit sent t st =
     (let updateArray = compareObjects (sp_inputs st) (sp_row st) in
      if updateArray = [] then Inl (ShowWarning (t txt_unchanged []))
      else Inr (map (\<lambda>(k, _). option_request k (sent (own_prop (Obj (sp_inputs st)) k))) updateArray))"

text \<open>What follows the answers: \<open>None\<close> when a request was rejected.  The flag tells whether the options are
  loaded again.\<close>

definition page_answer :: "translate \<Rightarrow> jsval list option \<Rightarrow> toast list \<times> bool" where
  "page_answer t results =
     (case results of
        None \<Rightarrow> ([ShowError (t txt_save_failed [])], False)
      | Some res \<Rightarrow>
          if Undef \<in> set res then (if length res > 1 then [ShowError (t txt_partly_failed [])] else [], False)
          else ([ShowSuccess (t txt_saved [])], True))"

section \<open>The pages\<close>

abbreviation num :: "rat \<Rightarrow> jsval" where "num q \<equiv> Num (mk_num False q)"

subsection \<open>\<open>SettingsDrawing\<close>\<close>

definition SettingsDrawing_inputs :: vals where
  "SettingsDrawing_inputs =
    [(js ''DrawingEnabled'', Bool False), (js ''MjNotifyEnabled'', Bool False),
     (js ''MjAccountFilterEnabled'', Bool False), (js ''MjForwardUrlEnabled'', Bool False),
     (js ''MjModeClearEnabled'', Bool False), (js ''MjActionCheckSuccessEnabled'', Bool False)]"

definition SettingsDrawing_onSubmit :: "translate \<Rightarrow> settings \<Rightarrow> toast + request list" where
  "SettingsDrawing_onSubmit = page_onSubmit bool_text"

text \<open>The effect also writes one value to \<open>localStorage\<close>: the one before the loading.\<close>

definition SettingsDrawing_load :: "jsval \<Rightarrow> settings \<Rightarrow> settings \<times> jsstr \<times> jsstr" where
  "SettingsDrawing_load options st =
     (load_only options st, js ''mj_notify_enabled'', to_str (own_prop (Obj (sp_inputs st)) (js ''MjNotifyEnabled'')))"

definition SettingsDrawing_fields :: "page_field list" where
  "SettingsDrawing_fields =
    [plain_field Switch ''DrawingEnabled'', plain_field Switch ''MjNotifyEnabled'',
     plain_field Switch ''MjAccountFilterEnabled'', plain_field Switch ''MjForwardUrlEnabled'',
     plain_field Switch ''MjModeClearEnabled'', plain_field Switch ''MjActionCheckSuccessEnabled'']"

subsection \<open>\<open>SettingsCreditLimit\<close>\<close>

definition SettingsCreditLimit_inputs :: vals where
  "SettingsCreditLimit_inputs =
    [(js ''QuotaForNewUser'', Str []), (js ''PreConsumedQuota'', Str []), (js ''QuotaForInviter'', Str []),
     (js ''QuotaForInvitee'', Str []), (js ''quota_setting.enable_free_model_pre_consume'', Bool True)]"

definition SettingsCreditLimit_onSubmit :: "translate \<Rightarrow> settings \<Rightarrow> toast + request list" where
  "SettingsCreditLimit_onSubmit = page_onSubmit bool_text"

definition SettingsCreditLimit_load :: "jsval \<Rightarrow> settings \<Rightarrow> settings" where
  "SettingsCreditLimit_load = load_over"

definition SettingsCreditLimit_fields :: "page_field list" where
  "SettingsCreditLimit_fields =
    [string_field InputNumber ''QuotaForNewUser'', string_field InputNumber ''PreConsumedQuota'',
     string_field InputNumber ''QuotaForInviter'', string_field InputNumber ''QuotaForInvitee'',
     plain_field Switch ''quota_setting.enable_free_model_pre_consume'']"

subsection \<open>\<open>SettingsSensitiveWords\<close>\<close>

definition SettingsSensitiveWords_inputs :: vals where
  "SettingsSensitiveWords_inputs =
    [(js ''CheckSensitiveEnabled'', Bool False), (js ''CheckSensitiveOnPromptEnabled'', Bool False),
     (js ''SensitiveWords'', Str [])]"

definition SettingsSensitiveWords_onSubmit :: "translate \<Rightarrow> settings \<Rightarrow> toast + request list" where
  "SettingsSensitiveWords_onSubmit = page_onSubmit bool_text"

definition SettingsSensitiveWords_load :: "jsval \<Rightarrow> settings \<Rightarrow> settings" where
  "SettingsSensitiveWords_load = load_over"

definition SettingsSensitiveWords_fields :: "page_field list" where
  "SettingsSensitiveWords_fields =
    [plain_field Switch ''CheckSensitiveEnabled'', plain_field Switch ''CheckSensitiveOnPromptEnabled'',
     plain_field TextArea ''SensitiveWords'']"

subsection \<open>\<open>SettingsCheckin\<close>\<close>

definition SettingsCheckin_inputs :: vals where
  "SettingsCheckin_inputs =
    [(js ''checkin_setting.enabled'', Bool False), (js ''checkin_setting.min_quota'', num 1000),
     (js ''checkin_setting.max_quota'', num 10000)]"

definition SettingsCheckin_onSubmit :: "translate \<Rightarrow> settings \<Rightarrow> toast + request list" where
  "SettingsCheckin_onSubmit = page_onSubmit text_value"

definition SettingsCheckin_load :: "jsval \<Rightarrow> settings \<Rightarrow> settings" where
  "SettingsCheckin_load = load_over"

definition SettingsCheckin_fields :: "page_field list" where
  "SettingsCheckin_fields =
    [plain_field Switch ''checkin_setting.enabled'',
     field_unless ''checkin_setting.enabled'' (plain_field InputNumber ''checkin_setting.min_quota''),
     field_unless ''checkin_setting.enabled'' (plain_field InputNumber ''checkin_setting.max_quota'')]"

subsection \<open>\<open>RequestRateLimit\<close>\<close>

definition RequestRateLimit_inputs :: vals where
  "RequestRateLimit_inputs =
    [(js ''ModelRequestRateLimitEnabled'', Bool False), (js ''ModelRequestRateLimitCount'', Num (mk_num True 1)),
     (js ''ModelRequestRateLimitSuccessCount'', num 1000), (js ''ModelRequestRateLimitDurationMinutes'', num 1),
     (js ''ModelRequestRateLimitGroup'', Str [])]"

definition RequestRateLimit_onSubmit :: "translate \<Rightarrow> settings \<Rightarrow> toast + request list" where
  "RequestRateLimit_onSubmit = page_onSubmit bool_text"

definition RequestRateLimit_load :: "jsval \<Rightarrow> settings \<Rightarrow> settings" where
  "RequestRateLimit_load = load_only"

definition RequestRateLimit_fields :: "page_field list" where
  "RequestRateLimit_fields =
    [plain_field Switch ''ModelRequestRateLimitEnabled'',
     string_field InputNumber ''ModelRequestRateLimitDurationMinutes'',
     string_field InputNumber ''ModelRequestRateLimitCount'',
     string_field InputNumber ''ModelRequestRateLimitSuccessCount'', plain_field TextArea ''ModelRequestRateLimitGroup'']"

text \<open>This page also looks at the answers of the server.\<close>

fun first_refusal :: "jsval list \<Rightarrow> js_error + jsval option" where
  "first_refusal [] = Inr None"
| "first_refusal (r # rs) =
     (if nullish (body_of r) then Inl TypeError
      else if \<not> succeeded r then Inr (Some (own_prop (body_of r) (js ''message''))) else first_refusal rs)"

definition RequestRateLimit_answer :: "translate \<Rightarrow> jsval list option \<Rightarrow> toast list \<times> bool" where
  "RequestRateLimit_answer t results =
     (case results of
        None \<Rightarrow> page_answer t None
      | Some res \<Rightarrow>
          if Undef \<in> set res then page_answer t results
          else (case first_refusal res of
              Inl _ \<Rightarrow> page_answer t None
            | Inr (Some message) \<Rightarrow> ([ShowError (to_str message)], False)
            | Inr None \<Rightarrow> page_answer t results))"

subsection \<open>\<open>DataDashboard\<close>\<close>

definition DataDashboard_inputs :: vals where
  "DataDashboard_inputs =
    [(js ''DataExportEnabled'', Bool False), (js ''DataExportInterval'', Str []), (js ''DataExportDefaultTime'', Str [])]"

definition DataDashboard_onSubmit :: "translate \<Rightarrow> settings \<Rightarrow> toast + request list" where
  "DataDashboard_onSubmit = page_onSubmit bool_text"

text \<open>The effect also writes one value to \<open>localStorage\<close>: the one before the loading.\<close>

definition DataDashboard_load :: "jsval \<Rightarrow> settings \<Rightarrow> settings \<times> jsstr \<times> jsstr" where
  "DataDashboard_load options st =
     (load_only options st, js ''data_export_default_time'', to_str (own_prop (Obj (sp_inputs st)) (js ''DataExportDefaultTime'')))"

definition optionsDataExportDefaultTime :: "translate \<Rightarrow> select_option list" where
  "optionsDataExportDefaultTime t =
     [\<lparr>so_value = Str (js ''hour''), so_label = Str (t [23567, 26102] [])\<rparr>, \<lparr>so_value = Str (js ''day''), so_label = Str (t [22825] [])\<rparr>,
      \<lparr>so_value = Str (js ''week''), so_label = Str (t [21608] [])\<rparr>]"

definition DataDashboard_fields :: "translate \<Rightarrow> page_field list" where
  "DataDashboard_fields t = [plain_field Switch ''DataExportEnabled'', string_field InputNumber ''DataExportInterval'',
     string_field (Select (optionsDataExportDefaultTime t)) ''DataExportDefaultTime'']"

subsection \<open>\<open>SettingGrokModel\<close>\<close>

definition DEFAULT_GROK_INPUTS :: vals where
  "DEFAULT_GROK_INPUTS =
    [(js ''grok.violation_deduction_enabled'', Bool True), (js ''grok.violation_deduction_amount'', num (5 / 100))]"

definition SettingGrokModel_onSubmit :: "translate \<Rightarrow> settings \<Rightarrow> toast + request list" where
  "SettingGrokModel_onSubmit = page_onSubmit text_value"

definition SettingGrokModel_load :: "jsval \<Rightarrow> settings \<Rightarrow> settings" where
  "SettingGrokModel_load options st =
     show_loaded (fold (\<lambda>k cur. if own_prop options k \<noteq> Undef then put k (own_prop options k) cur else cur)
       (keys DEFAULT_GROK_INPUTS) DEFAULT_GROK_INPUTS) st"

definition SettingGrokModel_fields :: "page_field list" where
  "SettingGrokModel_fields =
    [plain_field Switch ''grok.violation_deduction_enabled'',
     field_unless ''grok.violation_deduction_enabled'' (plain_field InputNumber ''grok.violation_deduction_amount'')]"

subsection \<open>\<open>SettingClaudeModel\<close>\<close>

definition SettingClaudeModel_inputs :: vals where
  "SettingClaudeModel_inputs =
    [(js ''claude.model_headers_settings'', Str []), (js ''claude.thinking_adapter_enabled'', Bool True),
     (js ''claude.default_max_tokens'', Str []), (js ''claude.thinking_adapter_budget_tokens_percentage'', num (8 / 10))]"

definition SettingClaudeModel_onSubmit :: "translate \<Rightarrow> settings \<Rightarrow> toast + request list" where
  "SettingClaudeModel_onSubmit = page_onSubmit text_value"

definition SettingClaudeModel_load :: "jsval \<Rightarrow> settings \<Rightarrow> settings" where
  "SettingClaudeModel_load = load_only"

definition SettingClaudeModel_fields :: "page_field list" where
  "SettingClaudeModel_fields =
    [plain_field TextArea ''claude.model_headers_settings'', plain_field TextArea ''claude.default_max_tokens'',
     plain_field Switch ''claude.thinking_adapter_enabled'',
     plain_field InputNumber ''claude.thinking_adapter_budget_tokens_percentage'']"

subsection \<open>\<open>SettingGeminiModel\<close>\<close>

definition DEFAULT_GEMINI_INPUTS :: vals where
  "DEFAULT_GEMINI_INPUTS =
    [(js ''gemini.safety_settings'', Str []), (js ''gemini.version_settings'', Str []),
     (js ''gemini.supported_imagine_models'', Str []), (js ''gemini.thinking_adapter_enabled'', Bool False),
     (js ''gemini.thinking_adapter_budget_tokens_percentage'', num (6 / 10)),
     (js ''gemini.function_call_thought_signature_enabled'', Bool True),
     (js ''gemini.remove_function_response_id_enabled'', Bool True)]"

definition SettingGeminiModel_onSubmit :: "translate \<Rightarrow> settings \<Rightarrow> toast + request list" where
  "SettingGeminiModel_onSubmit = page_onSubmit text_value"

definition SettingGeminiModel_load :: "jsval \<Rightarrow> settings \<Rightarrow> settings" where
  "SettingGeminiModel_load options st =
     show_loaded (load_known DEFAULT_GEMINI_INPUTS (keys DEFAULT_GEMINI_INPUTS) options) st"

definition SettingGeminiModel_fields :: "page_field list" where
  "SettingGeminiModel_fields =
    [plain_field TextArea ''gemini.safety_settings'', plain_field TextArea ''gemini.version_settings'',
     plain_field Switch ''gemini.function_call_thought_signature_enabled'',
     plain_field Switch ''gemini.remove_function_response_id_enabled'',
     plain_field TextArea ''gemini.supported_imagine_models'', plain_field Switch ''gemini.thinking_adapter_enabled'',
     plain_field InputNumber ''gemini.thinking_adapter_budget_tokens_percentage'']"

subsection \<open>\<open>GeneralSettings\<close>\<close>

definition GeneralSettings_inputs :: vals where
  "GeneralSettings_inputs =
    [(js ''TopUpLink'', Str []), (js ''general_setting.docs_link'', Str []),
     (js ''general_setting.quota_display_type'', Str (js ''USD'')),
     (js ''general_setting.custom_currency_symbol'', Str [164]),
     (js ''general_setting.custom_currency_exchange_rate'', Str []), (js ''QuotaPerUnit'', Str []),
     (js ''RetryTimes'', Str []), (js ''USDExchangeRate'', Str []), (js ''DisplayTokenStatEnabled'', Bool False),
     (js ''DefaultCollapseSidebar'', Bool False), (js ''DemoSiteEnabled'', Bool False),
     (js ''SelfUseModeEnabled'', Bool False), (js ''PlaygroundEnabled'', Bool True),
     (js ''token_setting.max_user_tokens'', num 1000)]"

definition GeneralSettings_onSubmit :: "translate \<Rightarrow> settings \<Rightarrow> toast + request list" where
  "GeneralSettings_onSubmit = page_onSubmit bool_text"

definition GeneralSettings_load :: "jsval \<Rightarrow> settings \<Rightarrow> settings" where
  "GeneralSettings_load options st =
     (let cur1 = load_known (sp_inputs st) (keys (sp_inputs st)) options;
          shows = own_prop options (js ''DisplayInCurrencyEnabled'');
          cur2 = (if own_prop (Obj cur1) (js ''general_setting.quota_display_type'') = Undef \<and> shows \<noteq> Undef
            then put (js ''general_setting.quota_display_type'') (Str (if truthy shows then js ''USD'' else js ''TOKENS'')) cur1 else cur1);
          refill = (\<lambda>k cur. if own_prop options k \<noteq> Undef then put k (own_prop options k) cur else cur)
      in show_loaded (refill (js ''general_setting.custom_currency_exchange_rate'')
           (refill (js ''general_setting.custom_currency_symbol'') cur2)) st)"

definition GeneralSettings_fields :: "page_field list" where
  "GeneralSettings_fields =
    [plain_field Input ''TopUpLink'', plain_field Input ''general_setting.docs_link'', plain_field Input ''RetryTimes'',
     (plain_field Input ''general_setting.custom_currency_symbol'')
       \<lparr>pf_disabled := (\<lambda>inputs. own_prop (Obj inputs) (js ''general_setting.quota_display_type'') \<noteq> Str (js ''CUSTOM''))\<rparr>,
     plain_field Switch ''DisplayTokenStatEnabled'', plain_field Switch ''DefaultCollapseSidebar'',
     plain_field Switch ''DemoSiteEnabled'', plain_field Switch ''SelfUseModeEnabled'',
     plain_field Switch ''PlaygroundEnabled'', plain_field InputNumber ''token_setting.max_user_tokens'']"

definition GeneralSettings_handleFieldChange :: "jsstr \<Rightarrow> jsval \<Rightarrow> settings \<Rightarrow> settings" where
  "GeneralSettings_handleFieldChange fieldName v st = st\<lparr>sp_inputs := put fieldName v (sp_inputs st)\<rparr>"

definition rate_field :: "settings \<Rightarrow> jsstr option" where
  "rate_field st =
     (let typ' = own_prop (Obj (sp_inputs st)) (js ''general_setting.quota_display_type'') in
      if typ' = Str (js ''CNY'') then Some (js ''USDExchangeRate'')
      else if typ' = Str (js ''TOKENS'') then Some (js ''QuotaPerUnit'')
      else if typ' = Str (js ''CUSTOM'') then Some (js ''general_setting.custom_currency_exchange_rate'')
      else None)"

definition combinedRate :: "settings \<Rightarrow> jsstr" where
  "combinedRate st =
     (if own_prop (Obj (sp_inputs st)) (js ''general_setting.quota_display_type'') = Str (js ''USD'') then js ''1''
      else (case rate_field st of None \<Rightarrow> [] | Some k \<Rightarrow> str_or_empty (own_prop (Obj (sp_inputs st)) k)))"

definition onCombinedRateChange :: "jsval \<Rightarrow> settings \<Rightarrow> settings" where
  "onCombinedRateChange v st =
     (case rate_field st of None \<Rightarrow> st | Some k \<Rightarrow> GeneralSettings_handleFieldChange k v st)"

section \<open>What is saved\<close>

lemma strict_eq_refl: "strict_eq v v \<longleftrightarrow> v \<noteq> Num NaN"
proof (cases v)
  case (Num x)
  then show ?thesis by (cases x) simp_all
qed simp_all

lemma compareObjects_same: "\<forall>k. own_prop (Obj m) k \<noteq> Num NaN \<Longrightarrow> compareObjects m m = []"
  by (simp add: compareObjects_def filter_empty_conv strict_eq_refl)

lemma row_kept: "sp_row (fold (do_field_call fld) cs st) = sp_row st"
proof (induction cs arbitrary: st)
  case (Cons c cs)
  then show ?case by (cases c) simp_all
qed simp

lemma inputs_kept: "\<forall>v. Given_onChange v \<notin> set cs \<Longrightarrow> sp_inputs (fold (do_field_call fld) cs st) = sp_inputs st"
proof (induction cs arbitrary: st)
  case (Cons c cs)
  then show ?case by (cases c) auto
qed simp

lemma silent_edit:
  assumes "pf_control fld \<in> {Switch, InputNumber}"
  shows "sp_inputs (page_edit (fld, e) st) = sp_inputs st" "sp_row (page_edit (fld, e) st) = sp_row st"
proof -
  have "\<forall>v. Given_onChange v \<notin> set (control_calls (pf_control fld) f vs e)" for f vs
    using assms by (cases e) (auto simp: silent_controls)
  then show "sp_inputs (page_edit (fld, e) st) = sp_inputs st" by (simp add: page_edit_def inputs_kept)
qed (simp add: page_edit_def row_kept)

lemma silent_edits:
  assumes "\<forall>(fld, e) \<in> set edits. pf_control fld \<in> {Switch, InputNumber}"
  shows "sp_inputs (fold page_edit edits st) = sp_inputs st" "sp_row (fold page_edit edits st) = sp_row st"
  using assms by (induction edits arbitrary: st) (auto simp: silent_edit)

lemma silent_edits_not_saved:
  assumes "\<forall>(fld, e) \<in> set edits. pf_control fld \<in> {Switch, InputNumber}"
    and "sp_row st = sp_inputs st" "\<forall>k. own_prop (Obj (sp_inputs st)) k \<noteq> Num NaN"
  shows "page_onSubmit sent t (fold page_edit edits st) = Inl (ShowWarning (t txt_unchanged []))"
  using assms by (simp add: page_onSubmit_def silent_edits compareObjects_same)

definition silent_pages :: "(page_field list \<times> (translate \<Rightarrow> settings \<Rightarrow> toast + request list)) set" where
  "silent_pages = {(SettingsDrawing_fields, SettingsDrawing_onSubmit), (SettingsCreditLimit_fields, SettingsCreditLimit_onSubmit),
     (SettingsCheckin_fields, SettingsCheckin_onSubmit), (SettingGrokModel_fields, SettingGrokModel_onSubmit)}"

lemma silent_pages_controls:
  "(fields', onSubmit) \<in> silent_pages \<Longrightarrow> fld \<in> set fields' \<Longrightarrow> pf_control fld \<in> {Switch, InputNumber}"
  by (auto simp: silent_pages_def SettingsDrawing_fields_def SettingsCreditLimit_fields_def SettingsCheckin_fields_def
      SettingGrokModel_fields_def plain_field_def string_field_def field_unless_def)

lemma silent_pages_submit: "(fields', onSubmit) \<in> silent_pages \<Longrightarrow> \<exists>sent. onSubmit = page_onSubmit sent"
  by (auto simp: silent_pages_def SettingsDrawing_onSubmit_def SettingsCreditLimit_onSubmit_def SettingsCheckin_onSubmit_def
      SettingGrokModel_onSubmit_def)

text \<open>The pages for drawing, credit limits, check-in and Grok consist of switches and number inputs only, which never
  call the handlers that record a change: whatever the user does on them after the options are loaded, saving
  reports that nothing was modified and sends nothing.\<close>

theorem silent_pages_never_save:
  assumes "(fields', onSubmit) \<in> silent_pages" "\<forall>(fld, e) \<in> set edits. fld \<in> set fields'"
    and "sp_row st = sp_inputs st" "\<forall>k. own_prop (Obj (sp_inputs st)) k \<noteq> Num NaN"
  shows "onSubmit t (fold page_edit edits st) = Inl (ShowWarning (t txt_unchanged []))"
proof -
  have "\<forall>(fld, e) \<in> set edits. pf_control fld \<in> {Switch, InputNumber}"
    using assms(2) silent_pages_controls [OF assms(1)] by blast
  then show ?thesis using silent_pages_submit [OF assms(1)] silent_edits_not_saved assms(3,4) by blast
qed

theorem silent_pages_never_save_witness:
  "SettingsDrawing_onSubmit (\<lambda>s _. s) (page_edit (plain_field Switch ''DrawingEnabled'', Clicked)
     (new_settings_page SettingsDrawing_inputs)) = Inl (ShowWarning txt_unchanged)"
proof -
  have "\<forall>k. own_prop (Obj SettingsDrawing_inputs) k \<noteq> Num NaN"
    by (simp add: SettingsDrawing_inputs_def own_prop_def get_def)
  then show ?thesis
    using silent_pages_never_save [of SettingsDrawing_fields SettingsDrawing_onSubmit "[(plain_field Switch ''DrawingEnabled'', Clicked)]"
        "new_settings_page SettingsDrawing_inputs" "\<lambda>s _. s"]
    by (simp add: silent_pages_def SettingsDrawing_fields_def new_settings_page_def)
qed

lemma filter_single:
  assumes "distinct xs" "x \<in> set xs" "\<And>y. y \<in> set xs \<Longrightarrow> P y \<longleftrightarrow> y = x"
  shows "filter P xs = [x]"
proof -
  obtain ys zs where "xs = ys @ x # zs" using assms(2) by (auto simp: in_set_conv_decomp)
  moreover from this have "filter P ys = []" "filter P zs = []" using assms(1,3) by (auto simp: filter_empty_conv)
  ultimately show ?thesis using assms(2,3) by simp
qed

lemma compareObjects_put:
  assumes "wf_store m" "k \<in> set (keys m)" "\<forall>k. own_prop (Obj m) k \<noteq> Num NaN" "\<not> strict_eq v (own_prop (Obj m) k)"
  shows "compareObjects (put k v m) m = [(k, v, own_prop (Obj m) k)]"
proof -
  have "distinct (obj_keys (Obj (put k v m)))"
    using wf_store_put [OF assms(1)] by (simp add: obj_keys_def distinct_own_order wf_store_def keys_def)
  then have "filter (\<lambda>k'. k' \<in> set (keys m) \<and> \<not> strict_eq (own_prop (Obj (put k v m)) k') (own_prop (Obj m) k'))
      (obj_keys (Obj (put k v m))) = [k]"
    by (rule filter_single) (use assms in \<open>auto simp: js_store strict_eq_refl split: if_splits\<close>)
  then show ?thesis by (simp add: compareObjects_def)
qed

lemma text_edit:
  assumes "pf_control fld \<in> {Input, TextArea}" "\<not> pf_disabled fld (sp_inputs st)"
  shows "sp_inputs (page_edit (fld, Typed text') st) = put (pf_name fld) (pf_convert fld (Str text')) (sp_inputs st)"
    and "sp_row (page_edit (fld, Typed text') st) = sp_row st"
  using assms by (auto simp: page_edit_def FormInput_change_def FormTextArea_change_def set_call_def)

lemma load_known_eq:
  "load_known base known options = fold (\<lambda>k. put k (own_prop options k)) (filter (\<lambda>k. k \<in> set known) (obj_keys options)) base"
  by (simp add: load_known_def fold_if)

lemma wf_load_known: "wf_store base \<Longrightarrow> wf_store (load_known base known options)"
proof -
  have "wf_store base \<Longrightarrow> wf_store (fold (\<lambda>k. put k (own_prop options k)) ks base)" for ks
    by (induction ks arbitrary: base) (simp_all add: wf_store_put)
  then show "wf_store base \<Longrightarrow> ?thesis" by (simp add: load_known_eq)
qed

lemma keys_load_known: "set (keys base) \<subseteq> set (keys (load_known base known options))"
proof -
  have "set (keys (fold (\<lambda>k. put k (own_prop options k)) ks base)) = set (keys base) \<union> set ks" for ks
    by (induction ks arbitrary: base) (auto simp: js_store)
  then show ?thesis by (simp add: load_known_eq)
qed

lemma own_prop_load_known:
  "own_prop (Obj (load_known base known options)) k =
     (if k \<in> set known \<and> k \<in> set (obj_keys options) then own_prop options k else own_prop (Obj base) k)"
  by (auto simp: load_known_eq own_prop_fold_put)

lemma text_edit_saved:
  assumes "wf_store (sp_inputs st)" "sp_row st = sp_inputs st" "\<forall>k. own_prop (Obj (sp_inputs st)) k \<noteq> Num NaN"
    and "pf_control fld \<in> {Input, TextArea}" "\<not> pf_disabled fld (sp_inputs st)" "pf_name fld \<in> set (keys (sp_inputs st))"
    and "pf_convert fld (Str text') = Str text'" "own_prop (Obj (sp_inputs st)) (pf_name fld) \<noteq> Str text'"
  shows "page_onSubmit sent t (page_edit (fld, Typed text') st) = Inr [option_request (pf_name fld) (sent (Str text'))]"
proof -
  have "compareObjects (put (pf_name fld) (Str text') (sp_inputs st)) (sp_inputs st) =
      [(pf_name fld, Str text', own_prop (Obj (sp_inputs st)) (pf_name fld))]"
    by (rule compareObjects_put) (use assms in auto)
  then show ?thesis using assms(2,4,5,7) by (simp add: page_onSubmit_def text_edit)
qed

text \<open>A changed word list is saved: exactly one request is sent, with the text as the user typed it.\<close>

theorem sensitive_words_saved:
  assumes "\<forall>k. own_prop options k \<noteq> Num NaN"
  defines "st \<equiv> SettingsSensitiveWords_load options (new_settings_page SettingsSensitiveWords_inputs)"
  assumes "own_prop (Obj (sp_inputs st)) (js ''SensitiveWords'') \<noteq> Str text'"
  shows "SettingsSensitiveWords_onSubmit t (page_edit (plain_field TextArea ''SensitiveWords'', Typed text') st) =
    Inr [option_request (js ''SensitiveWords'') (Str text')]"
proof -
  let ?I = SettingsSensitiveWords_inputs
  have st: "sp_inputs st = load_known ?I (keys ?I) options" "sp_row st = load_known ?I (keys ?I) options"
    by (simp_all add: st_def SettingsSensitiveWords_load_def load_over_def show_loaded_def new_settings_page_def)
  have "wf_store ?I" "js ''SensitiveWords'' \<in> set (keys ?I)" "\<forall>k. own_prop (Obj ?I) k \<noteq> Num NaN"
    by (simp_all add: SettingsSensitiveWords_inputs_def wf_store_def keys_def own_prop_def get_def js_def)
  then have "page_onSubmit bool_text t (page_edit (plain_field TextArea ''SensitiveWords'', Typed text') st) =
      Inr [option_request (pf_name (plain_field TextArea ''SensitiveWords'')) (bool_text (Str text'))]"
    using assms(1,3) keys_load_known [of ?I "keys ?I" options]
    by (intro text_edit_saved) (auto simp: st wf_load_known own_prop_load_known plain_field_def)
  then show ?thesis by (simp add: SettingsSensitiveWords_onSubmit_def plain_field_def bool_text_def)
qed

theorem sensitive_words_saved_witness:
  "SettingsSensitiveWords_onSubmit (\<lambda>s _. s) (page_edit (plain_field TextArea ''SensitiveWords'', Typed (js ''bad''))
     (SettingsSensitiveWords_load (Obj []) (new_settings_page SettingsSensitiveWords_inputs))) =
    Inr [option_request (js ''SensitiveWords'') (Str (js ''bad''))]"
  by (rule sensitive_words_saved)
    (simp_all add: SettingsSensitiveWords_load_def load_over_def show_loaded_def new_settings_page_def load_known_def obj_keys_def
      own_order_def SettingsSensitiveWords_inputs_def own_prop_def get_def js_def)

text \<open>The pages other than the rate limits report success without looking at what the server answered.\<close>

lemma refusal_shown_as_saved: "page_answer t (Some [Obj [(js ''data'', Obj [(js ''success'', Bool False)])]]) = ([ShowSuccess (t txt_saved [])], True)"
  by (simp add: page_answer_def)

lemma first_refusal_None: "first_refusal res = Inr None \<longleftrightarrow> (\<forall>r \<in> set res. \<not> nullish (body_of r) \<and> succeeded r)"
  by (induction res) simp_all

text \<open>The page of the rate limits reports success and reloads exactly when every request was answered and every
  answer reports success.\<close>

theorem rate_limit_success:
  "RequestRateLimit_answer t (Some res) = ([ShowSuccess (t txt_saved [])], True) \<longleftrightarrow>
     (\<forall>r \<in> set res. r \<noteq> Undef \<and> \<not> nullish (body_of r) \<and> succeeded r)"
proof (cases "Undef \<in> set res")
  case False
  then show ?thesis using first_refusal_None [of res]
    by (auto simp: RequestRateLimit_answer_def page_answer_def split: sum.splits option.splits)
qed (auto simp: RequestRateLimit_answer_def page_answer_def)

theorem rate_limit_success_witness:
  "RequestRateLimit_answer (\<lambda>s _. s) (Some [Obj [(js ''data'', Obj [(js ''success'', Bool True)])]]) = ([ShowSuccess txt_saved], True)"
  using rate_limit_success [of "\<lambda>s _. s" "[Obj [(js ''data'', Obj [(js ''success'', Bool True)])]]"]
  by (simp add: body_of_def succeeded_def own_prop_def get_def nullish_def truthy_def)

text \<open>What the drawing and dashboard pages write to the local storage is the value before the loading.\<close>

lemma stale_value_stored:
  "snd (SettingsDrawing_load options (new_settings_page SettingsDrawing_inputs)) = (js ''mj_notify_enabled'', js ''false'')"
  "snd (DataDashboard_load options (new_settings_page DataDashboard_inputs)) = (js ''data_export_default_time'', [])"
  by (simp_all add: SettingsDrawing_load_def DataDashboard_load_def new_settings_page_def SettingsDrawing_inputs_def
      DataDashboard_inputs_def own_prop_def get_def js_def)

lemma combined_rate_roundtrip:
  assumes "rate_field st \<noteq> None"
  shows "combinedRate (onCombinedRateChange (Str text') st) = text'"
  using assms
  by (auto simp: rate_field_def combinedRate_def onCombinedRateChange_def GeneralSettings_handleFieldChange_def Let_def
      str_or_empty_def truthy_def js_def split: if_splits)

end

