(* ===== verification/Settings_Monitoring.thy ===== *)
theory Settings_Monitoring
  imports Settings_Page Status_Code_Rules
begin

text \<open>
  The monitoring settings, \<open>pages/Setting/Operation/SettingsMonitoring.jsx\<close>.  Unlike the other pages this one takes
  the values from the form itself, and sends the status code rules in their normal form.
\<close>

section \<open>State and handlers\<close>

definition MONITORING_DEFAULTS :: vals where
  "MONITORING_DEFAULTS =
    [(js ''ChannelDisableThreshold'', Str []), (js ''QuotaRemindThreshold'', Str []), (js ''AutomaticDisableChannelEnabled'', Bool False),
     (js ''AutomaticEnableChannelEnabled'', Bool False), (js ''AutomaticDisableKeywords'', Str []),
     (js ''AutomaticDisableStatusCodes'', Str (js ''401'')),
     (js ''AutomaticRetryStatusCodes'', Str (js ''100-199,300-399,401-407,409-499,500-503,505-523,525-599'')),
     (js ''monitor_setting.auto_test_channel_enabled'', Bool False), (js ''monitor_setting.auto_test_channel_minutes'', num 10)]"

abbreviation "k_disable \<equiv> js ''AutomaticDisableStatusCodes''"
abbreviation "k_retry \<equiv> js ''AutomaticRetryStatusCodes''"

record monitoring =
  mo_form :: form
  mo_saved :: vals
  mo_disable :: jsval
  mo_retry :: jsval

definition init_monitoring :: monitoring where
  "init_monitoring = \<lparr>mo_form = new_form (Some MONITORING_DEFAULTS), mo_saved = MONITORING_DEFAULTS,
     mo_disable = own_prop (Obj MONITORING_DEFAULTS) k_disable, mo_retry = own_prop (Obj MONITORING_DEFAULTS) k_retry\<rparr>"

definition parsed_codes :: "jsval \<Rightarrow> parse_result" where
  "parsed_codes v = parseHttpStatusCodeRules (Some (to_str (js_or v (Str []))))"

definition SettingsMonitoring_load :: "jsval \<Rightarrow> monitoring \<Rightarrow> monitoring" where
  "SettingsMonitoring_load options st =
     (let merged = load_known MONITORING_DEFAULTS (keys MONITORING_DEFAULTS) options in
      st\<lparr>mo_saved := merged, mo_disable := own_prop (Obj merged) k_disable, mo_retry := own_prop (Obj merged) k_retry,
         mo_form := setValues merged (mo_form st)\<rparr>)"

definition SettingsMonitoring_fields :: "(control \<times> jsstr) list" where
  "SettingsMonitoring_fields =
    [(Switch, js ''monitor_setting.auto_test_channel_enabled''), (InputNumber, js ''monitor_setting.auto_test_channel_minutes''),
     (InputNumber, js ''ChannelDisableThreshold''), (InputNumber, js ''QuotaRemindThreshold''),
     (Switch, js ''AutomaticDisableChannelEnabled''), (Switch, js ''AutomaticEnableChannelEnabled''),
     (Input, k_disable), (Input, k_retry), (TextArea, js ''AutomaticDisableKeywords'')]"

text \<open>Only the two inputs for status codes are given a handler.\<close>

fun monitoring_call :: "jsstr \<Rightarrow> field_call \<Rightarrow> monitoring \<Rightarrow> monitoring" where
  "monitoring_call f (Form_set k v) st = st\<lparr>mo_form := setValue k v (mo_form st)\<rparr>"
| "monitoring_call f (Given_onChange v) st =
     (if f = k_disable then st\<lparr>mo_disable := v\<rparr> else if f = k_retry then st\<lparr>mo_retry := v\<rparr> else st)"

definition monitoring_edit :: "control \<times> jsstr \<Rightarrow> user_edit \<Rightarrow> monitoring \<Rightarrow> monitoring" where
  "monitoring_edit = (\<lambda>(c, f) e st.
     fold (monitoring_call f) (control_calls c f (f_objects (mo_form st) ! f_values (mo_form st)) e) st)"

definition monitoring_changes :: "monitoring \<Rightarrow> jsstr list" where
  "monitoring_changes st =
     filter (\<lambda>k. \<not> strict_eq (own_prop (Obj (getValues (mo_form st))) k) (own_prop (Obj (mo_saved st)) k)) (keys MONITORING_DEFAULTS)"

definition txt_bad_disable :: jsstr where "txt_bad_disable = [33258, 21160, 31105, 29992, 29366, 24577, 30721, 26684, 24335, 19981, 27491, 30830]"
definition txt_bad_retry :: jsstr where "txt_bad_retry = [33258, 21160, 37325, 35797, 29366, 24577, 30721, 26684, 24335, 19981, 27491, 30830]"

definition bad_codes :: "translate \<Rightarrow> jsstr \<Rightarrow> parse_result \<Rightarrow> toast" where
  "bad_codes t text' parsed =
     ShowError (t text' [] @ (if invalidTokens parsed = [] then [] else js '': '' @ join (js '', '') (invalidTokens parsed)))"

definition sent_value :: "monitoring \<Rightarrow> jsstr \<Rightarrow> jsval" where
  "sent_value st k =
     (let v = own_prop (Obj (getValues (mo_form st))) k in
      case v of
        Bool b \<Rightarrow> Str (to_str v)
      | _ \<Rightarrow> Str (if k = k_disable then normalized (parsed_codes (mo_disable st))
            else if k = k_retry then normalized (parsed_codes (mo_retry st)) else to_str v))"

definition SettingsMonitoring_onSubmit :: "translate \<Rightarrow> monitoring \<Rightarrow> toast + request list" where
  "SettingsMonitoring_onSubmit t st =
     (let changes = monitoring_changes st in
      if changes = [] then Inl (ShowWarning (t txt_unchanged []))
      else if \<not> ok (parsed_codes (mo_disable st)) then Inl (bad_codes t txt_bad_disable (parsed_codes (mo_disable st)))
      else if \<not> ok (parsed_codes (mo_retry st)) then Inl (bad_codes t txt_bad_retry (parsed_codes (mo_retry st)))
      else Inr (map (\<lambda>k. option_request k (sent_value st k)) changes))"

text \<open>After the answers; \<open>currentValues\<close> are those of the submission.\<close>

definition SettingsMonitoring_answer :: "translate \<Rightarrow> vals \<Rightarrow> jsval list option \<Rightarrow> monitoring \<Rightarrow> toast \<times> bool \<times> monitoring" where
  "SettingsMonitoring_answer t currentValues results st =
     (case results of
        None \<Rightarrow> (ShowError (t txt_save_failed []), False, st)
      | Some res \<Rightarrow>
          if Undef \<in> set res then (ShowError (t txt_partly_failed []), False, st)
          else (ShowSuccess (t txt_saved []), True, st\<lparr>mo_saved := currentValues\<rparr>))"

inductive monitoring_step :: "monitoring \<Rightarrow> monitoring \<Rightarrow> bool" where
  "monitoring_step st (SettingsMonitoring_load options st)"
| "cf \<in> set SettingsMonitoring_fields \<Longrightarrow> monitoring_step st (monitoring_edit cf e st)"
| "monitoring_step st (st\<lparr>mo_form := render (mo_form st)\<rparr>)"
| "monitoring_step st (st\<lparr>mo_form := sync_ref (mo_form st)\<rparr>)"
| "monitoring_step st (snd (snd (SettingsMonitoring_answer t current results st)))"

section \<open>The rules shown are the rules sent\<close>

definition monitoring_ok :: "monitoring \<Rightarrow> bool" where
  "monitoring_ok st \<longleftrightarrow> form_ok (mo_form st) \<and> shown (mo_form st) k_disable = Some (mo_disable st) \<and>
     shown (mo_form st) k_retry = Some (mo_retry st)"

lemma k_distinct [simp]: "k_disable \<noteq> k_retry" "k_retry \<noteq> k_disable"
  by (simp_all add: js_def)

lemma form_ok_ops [simp]: "form_ok f \<Longrightarrow> form_ok (setValue k v f)" "form_ok f \<Longrightarrow> form_ok (setValues m f)"
    "form_ok f \<Longrightarrow> form_ok (render f)" "form_ok f \<Longrightarrow> form_ok (sync_ref f)"
  using form_ok_do [of f "Call (Set_value k v)"] form_ok_do [of f "Call (Set_values m)"] form_ok_do [of f Render] form_ok_do [of f Effect]
  by simp_all

lemma shown_ops [simp]:
  "form_ok f \<Longrightarrow> shown (setValue k v f) = (shown f)(k \<mapsto> v)"
  "form_ok f \<Longrightarrow> shown (setValues m f) = (\<lambda>k. if k \<in> set (keys m) then Some (own_prop (Obj m) k) else shown f k)"
  "form_ok f \<Longrightarrow> shown (render f) = shown f" "form_ok f \<Longrightarrow> shown (sync_ref f) = shown f"
  using shown_event [of f "Call (Set_value k v)"] shown_event [of f "Call (Set_values m)"] shown_event [of f Render] shown_event [of f Effect]
  by simp_all

lemma defaults_keys: "k_disable \<in> set (keys MONITORING_DEFAULTS)" "k_retry \<in> set (keys MONITORING_DEFAULTS)"
  by (simp_all add: MONITORING_DEFAULTS_def keys_def)

lemma monitoring_ok_load: "monitoring_ok st \<Longrightarrow> monitoring_ok (SettingsMonitoring_load options st)"
  using keys_load_known [of MONITORING_DEFAULTS "keys MONITORING_DEFAULTS" options] defaults_keys
  by (auto simp: monitoring_ok_def SettingsMonitoring_load_def Let_def)

lemma monitoring_ok_input: "monitoring_ok st \<Longrightarrow> f \<in> {k_disable, k_retry} \<Longrightarrow> monitoring_ok (monitoring_edit (Input, f) e st)"
  by (cases e) (auto simp: monitoring_edit_def monitoring_ok_def FormInput_change_def set_call_def)

lemma monitoring_ok_other:
  assumes "monitoring_ok st" "f \<notin> {k_disable, k_retry}" "c \<in> {Switch, InputNumber, TextArea}"
  shows "monitoring_ok (monitoring_edit (c, f) e st)"
  using assms by (cases e) (auto simp: monitoring_edit_def monitoring_ok_def FormSwitch_click_def FormInputNumber_change_def
      FormTextArea_change_def set_call_def)

lemma monitoring_ok_edit:
  assumes "cf \<in> set SettingsMonitoring_fields" "monitoring_ok st"
  shows "monitoring_ok (monitoring_edit cf e st)"
proof (cases "snd cf \<in> {k_disable, k_retry}")
  case True
  then have "cf = (Input, snd cf)" using assms(1) by (auto simp: SettingsMonitoring_fields_def js_def)
  then show ?thesis using monitoring_ok_input [OF assms(2)] True by metis
next
  case False
  then have "fst cf \<in> {Switch, InputNumber, TextArea}" using assms(1) by (auto simp: SettingsMonitoring_fields_def)
  then show ?thesis using monitoring_ok_other [OF assms(2) False] by (metis prod.collapse)
qed

lemma monitoring_ok_init: "monitoring_ok init_monitoring"
  by (simp add: monitoring_ok_def init_monitoring_def shown_new MONITORING_DEFAULTS_def own_prop_def get_def js_def)

interpretation monitors: invariant_machine "\<lambda>st. st = init_monitoring" monitoring_step monitoring_ok
proof
  fix st st' assume "monitoring_ok st" "monitoring_step st st'"
  from this(2,1) show "monitoring_ok st'"
  proof cases
    case (5 t current results)
    then show "monitoring_ok st \<Longrightarrow> ?thesis"
      by (simp add: SettingsMonitoring_answer_def monitoring_ok_def split: option.splits)
  qed (simp_all add: monitoring_ok_load monitoring_ok_edit, simp_all add: monitoring_ok_def)
qed (simp add: monitoring_ok_init)

definition settled :: "form \<Rightarrow> bool" where
  "settled f \<longleftrightarrow> f_queue f = [] \<and> \<not> f_effect f"

lemma settled_getValue: "form_ok f \<Longrightarrow> settled f \<Longrightarrow> get (getValues f) = shown f"
  by (simp add: form_ok_def settled_def getValues_def shown_def)

lemma requests_of:
  assumes "SettingsMonitoring_onSubmit t st = Inr reqs"
  shows "ok (parsed_codes (mo_disable st))" "ok (parsed_codes (mo_retry st))"
    "reqs = map (\<lambda>k. option_request k (sent_value st k)) (monitoring_changes st)"
  using assms by (simp_all add: SettingsMonitoring_onSubmit_def Let_def split: if_splits)


definition settle :: "monitoring \<Rightarrow> monitoring" where
  "settle st = st\<lparr>mo_form := sync_ref (render (mo_form st))\<rparr>"

lemma settled_settle: "settled (mo_form (settle st))"
  by (simp add: settled_def settle_def sync_ref_def render_def)

lemma reach_settle:
  "reach (\<lambda>st. st = init_monitoring) monitoring_step st \<Longrightarrow> reach (\<lambda>st. st = init_monitoring) monitoring_step (settle st)"
proof -
  assume "reach (\<lambda>st. st = init_monitoring) monitoring_step st"
  then have "reach (\<lambda>st. st = init_monitoring) monitoring_step (st\<lparr>mo_form := render (mo_form st)\<rparr>)"
    by (rule reach_step) (rule monitoring_step.intros)
  then have "reach (\<lambda>st. st = init_monitoring) monitoring_step
      ((st\<lparr>mo_form := render (mo_form st)\<rparr>)\<lparr>mo_form := sync_ref (mo_form (st\<lparr>mo_form := render (mo_form st)\<rparr>))\<rparr>)"
    by (rule reach_step) (rule monitoring_step.intros)
  then show ?thesis by (simp add: settle_def)
qed

lemma submit_change:
  assumes "k \<in> set (keys MONITORING_DEFAULTS)" "\<not> strict_eq (getValue (mo_form st) k) (own_prop (Obj (mo_saved st)) k)"
    and "ok (parsed_codes (mo_disable st))" "ok (parsed_codes (mo_retry st))"
  shows "\<exists>reqs. SettingsMonitoring_onSubmit t st = Inr reqs \<and> option_request k (sent_value st k) \<in> set reqs"
proof -
  have "k \<in> set (monitoring_changes st)" using assms(1,2) by (simp add: monitoring_changes_def getValue_def)
  then show ?thesis using assms(3,4) by (auto simp: SettingsMonitoring_onSubmit_def Let_def)
qed

definition demo_monitoring :: monitoring where
  "demo_monitoring = settle (monitoring_edit (Input, k_disable) (Typed (js ''404'')) init_monitoring)"

lemma demo_monitoring_values:
  "getValue (mo_form demo_monitoring) k_disable = Str (js ''404'')" "mo_saved demo_monitoring = MONITORING_DEFAULTS"
  "mo_disable demo_monitoring = Str (js ''404'')" "mo_retry demo_monitoring = own_prop (Obj MONITORING_DEFAULTS) k_retry"
proof -
  have ne: "k_disable \<noteq> []" by (simp add: js_def)
  have "get (getValues (mo_form demo_monitoring)) k_disable = Some (Str (js ''404''))"
    by (simp add: demo_monitoring_def settle_def monitoring_edit_def FormInput_change_def set_call_def ne settled_reads init_monitoring_def)
  then show "getValue (mo_form demo_monitoring) k_disable = Str (js ''404'')" by (simp add: getValue_def own_prop_def)
  show "mo_saved demo_monitoring = MONITORING_DEFAULTS"
    by (simp add: demo_monitoring_def settle_def monitoring_edit_def FormInput_change_def set_call_def ne init_monitoring_def)
  show "mo_disable demo_monitoring = Str (js ''404'')" "mo_retry demo_monitoring = own_prop (Obj MONITORING_DEFAULTS) k_retry"
    by (simp_all add: demo_monitoring_def settle_def monitoring_edit_def FormInput_change_def set_call_def ne init_monitoring_def)
qed

lemma demo_codes_ok: "ok (parsed_codes (Str (js ''404'')))" "ok (parsed_codes (own_prop (Obj MONITORING_DEFAULTS) k_retry))"
  by (simp_all add: parsed_codes_def MONITORING_DEFAULTS_def own_prop_def get_def js_or_def truthy_def rules_eval js_def)


text \<open>Clicking a switch of the monitoring page and saving sends its new value.\<close>

theorem monitoring_switch_saved:
  assumes "reach (\<lambda>st. st = init_monitoring) monitoring_step st" "settled (mo_form st)" "(Switch, k) \<in> set SettingsMonitoring_fields"
    and "getValue (mo_form st) k = Bool b" "own_prop (Obj (mo_saved st)) k = Bool b"
    and "ok (parsed_codes (mo_disable st))" "ok (parsed_codes (mo_retry st))"
  shows "\<exists>reqs. SettingsMonitoring_onSubmit t (settle (monitoring_edit (Switch, k) Clicked st)) = Inr reqs \<and>
    option_request k (Str (to_str (Bool (\<not> b)))) \<in> set reqs"
proof -
  let ?st = "settle (monitoring_edit (Switch, k) Clicked st)"
  have inv: "monitoring_ok st" using assms(1) by (rule monitors.reach_inv)
  have k: "k \<noteq> []" "k \<in> set (keys MONITORING_DEFAULTS)"
    using assms(3) by (auto simp: SettingsMonitoring_fields_def MONITORING_DEFAULTS_def keys_def js_def)
  have "f_objects (mo_form st) ! f_values (mo_form st) = getValues (mo_form st)"
    using inv assms(2) by (simp add: monitoring_ok_def form_ok_def settled_def getValues_def)
  then have e: "monitoring_edit (Switch, k) Clicked st = st\<lparr>mo_form := setValue k (Bool (\<not> b)) (mo_form st)\<rparr>"
    using assms(4) k(1) by (simp add: monitoring_edit_def FormSwitch_click_def set_call_def getValue_def nullish_else_def nullish_def truthy_def)
  have "get (getValues (mo_form ?st)) k = Some (Bool (\<not> b))"
    using inv by (simp add: e settle_def settled_reads monitoring_ok_def)
  then have v: "getValue (mo_form ?st) k = Bool (\<not> b)" by (simp add: getValue_def own_prop_def)
  then have "\<exists>reqs. SettingsMonitoring_onSubmit t ?st = Inr reqs \<and> option_request k (sent_value ?st k) \<in> set reqs"
    by (intro submit_change) (use assms(5-7) k(2) in \<open>simp_all add: e settle_def\<close>)
  moreover have "sent_value ?st k = Str (to_str (Bool (\<not> b)))" using v by (simp add: sent_value_def getValue_def)
  ultimately show ?thesis by simp
qed

theorem monitoring_switch_saved_witness:
  "\<exists>reqs. SettingsMonitoring_onSubmit (\<lambda>s _. s) (settle (monitoring_edit (Switch, js ''AutomaticDisableChannelEnabled'') Clicked
      (settle init_monitoring))) = Inr reqs \<and>
    option_request (js ''AutomaticDisableChannelEnabled'') (Str (to_str (Bool (\<not> False)))) \<in> set reqs"
proof (rule monitoring_switch_saved)
  show "reach (\<lambda>st. st = init_monitoring) monitoring_step (settle init_monitoring)"
    by (rule reach_settle, rule reach_start, rule refl)
  have "get (getValues (mo_form (settle init_monitoring))) = get MONITORING_DEFAULTS"
    by (simp add: settle_def settled_reads init_monitoring_def shown_new)
  then show "getValue (mo_form (settle init_monitoring)) (js ''AutomaticDisableChannelEnabled'') = Bool False"
    by (simp add: getValue_def own_prop_def) (simp add: MONITORING_DEFAULTS_def get_def js_def)
  show "own_prop (Obj (mo_saved (settle init_monitoring))) (js ''AutomaticDisableChannelEnabled'') = Bool False"
    by (simp add: settle_def init_monitoring_def MONITORING_DEFAULTS_def own_prop_def get_def js_def)
  have "ok (parsed_codes (own_prop (Obj MONITORING_DEFAULTS) k_disable))"
    by (simp add: parsed_codes_def MONITORING_DEFAULTS_def own_prop_def get_def js_or_def truthy_def rules_eval js_def)
  then show "ok (parsed_codes (mo_disable (settle init_monitoring)))" "ok (parsed_codes (mo_retry (settle init_monitoring)))"
    using demo_codes_ok(2) by (simp_all add: settle_def init_monitoring_def)
qed (simp_all add: settled_settle SettingsMonitoring_fields_def)

text \<open>A number field that was emptied is sent as the text \<open>undefined\<close>.\<close>

lemma emptied_number_sent:
  "getValue (mo_form st) k = Undef \<Longrightarrow> k \<notin> {k_disable, k_retry} \<Longrightarrow> sent_value st k = Str (js ''undefined'')"
  by (simp add: sent_value_def getValue_def)

end
