(* ===== verification/Bill.thy ===== *)
theory Bill
  imports Quota
begin

text \<open>
  How the usage log explains a price: the functions for prices of \<open>helpers/render.jsx\<close>.  They build texts with the translation
  function of i18next, which is a parameter; a fragment with an \<open>article\<close> is the list of its paragraphs.  The flags are the
  truth values of the arguments, which all callers pass as \<open>value || false\<close>.
\<close>

section \<open>Helpers\<close>

definition dflt :: "jsval \<Rightarrow> jsval \<Rightarrow> jsval" where
  "dflt v d = (if v = Undef then d else v)"

abbreviation num0 :: jsval where "num0 \<equiv> Num (Fin False 0)"
abbreviation num1 :: jsval where "num1 \<equiv> Num (Fin False 1)"
abbreviation minus1 :: jsval where "minus1 \<equiv> Num (Fin True 1)"
abbreviation two :: jsnum where "two \<equiv> Fin False 2"

definition is_fixed :: "jsval \<Rightarrow> bool" where
  "is_fixed modelPrice \<longleftrightarrow> \<not> strict_eq modelPrice minus1"

definition pos :: "jsval \<Rightarrow> bool" where
  "pos v \<longleftrightarrow> num_less (Fin False 0) (to_num v)"

text \<open>Products and sums from left to right, \<open>v / 1000000\<close> and \<open>v / 1000\<close>.\<close>

definition nprod :: "jsnum \<Rightarrow> jsnum list \<Rightarrow> jsnum" where
  "nprod = foldl num_mul"

definition nsum :: "jsnum \<Rightarrow> jsnum list \<Rightarrow> jsnum" where
  "nsum = foldl num_add"

definition per_million :: "jsnum \<Rightarrow> jsnum" where
  "per_million x = num_div x (Fin False 1000000)"

definition per_thousand :: "jsnum \<Rightarrow> jsnum" where
  "per_thousand x = num_div x (Fin False 1000)"

definition tv :: "translate \<Rightarrow> jsstr \<Rightarrow> (string \<times> jsval) list \<Rightarrow> jsstr" where
  "tv t key kvs = t key (map (\<lambda>(k, v). (js k, v)) kvs)"

definition shown_if :: "bool \<Rightarrow> 'a \<Rightarrow> 'a list" where
  "shown_if b x = (if b then [x] else [])"

definition isValidGroupRatio :: "jsval \<Rightarrow> bool" where
  "isValidGroupRatio ratio = (case ratio of Num x \<Rightarrow> is_finite x \<and> \<not> num_eq x (Fin True 1) | _ \<Rightarrow> False)"

record effective =
  e_ratio :: jsval
  e_label :: jsval
  e_useUserGroupRatio :: bool

definition getEffectiveRatio :: "translate \<Rightarrow> jsval \<Rightarrow> jsval \<Rightarrow> effective" where
  "getEffectiveRatio t groupRatio user_group_ratio =
     (let useUserGroupRatio = isValidGroupRatio user_group_ratio in
      \<lparr>e_ratio = if useUserGroupRatio then user_group_ratio else groupRatio,
       e_label = Str (if useUserGroupRatio then t [19987, 23646, 20493, 29575] [] else t [20998, 32452, 20493, 29575] []),
       e_useUserGroupRatio = useUserGroupRatio\<rparr>)"

definition resolveBillingDisplayMode :: "storage \<Rightarrow> jsval \<Rightarrow> jsval \<Rightarrow> jsstr" where
  "resolveBillingDisplayMode ls displayMode modelPrice =
     (if is_fixed modelPrice then js ''price''
      else if getQuotaDisplayType ls = js ''TOKENS'' then js ''ratio''
      else if displayMode = Str (js ''ratio'') then js ''ratio'' else js ''price'')"

definition isPriceDisplayMode :: "storage \<Rightarrow> jsval \<Rightarrow> jsval \<Rightarrow> bool" where
  "isPriceDisplayMode ls displayMode modelPrice \<longleftrightarrow> resolveBillingDisplayMode ls displayMode modelPrice = js ''price''"

definition shouldUseRatioBillingProcess :: "storage \<Rightarrow> jsval \<Rightarrow> bool" where
  "shouldUseRatioBillingProcess ls modelPrice \<longleftrightarrow> strict_eq modelPrice minus1 \<and> getQuotaDisplayType ls = js ''TOKENS''"

definition symbol_of :: "storage \<Rightarrow> jsval" where
  "symbol_of ls = c_symbol (getCurrencyConfig ls)"

definition rate_of :: "storage \<Rightarrow> jsnum" where
  "rate_of ls = to_num (c_rate (getCurrencyConfig ls))"

text \<open>\<open>(x * rate).toFixed(6)\<close>\<close>

definition price6 :: "storage \<Rightarrow> jsnum \<Rightarrow> jsval" where
  "price6 ls x = Str (to_fixed 6 (num_mul x (rate_of ls)))"

definition formatCompactDisplayPrice :: "storage \<Rightarrow> jsnum \<Rightarrow> jsval" where
  "formatCompactDisplayPrice ls usdAmount =
     Str (to_str (symbol_of ls) @ num_str (to_number (to_fixed 6 (num_mul usdAmount (rate_of ls)))))"

definition joinBillingSummary :: "jsstr list \<Rightarrow> jsstr" where
  "joinBillingSummary parts = join [65292] (filter (\<lambda>s. s \<noteq> []) parts)"

definition getGroupRatioText :: "translate \<Rightarrow> jsval \<Rightarrow> jsval \<Rightarrow> jsstr" where
  "getGroupRatioText t groupRatio user_group_ratio =
     (let e = getEffectiveRatio t groupRatio user_group_ratio
      in tv t [123, 123, 114, 97, 116, 105, 111, 84, 121, 112, 101, 125, 125, 32, 123, 123, 114, 97,
     116, 105, 111, 125, 125] [(''ratioType'', e_label e), (''ratio'', e_ratio e)])"

definition formatRatioValue :: "jsval \<Rightarrow> jsnum" where
  "formatRatioValue v = (let num = to_num v in if is_finite num then to_number (to_fixed 6 num) else Fin False 0)"

definition renderDisplayAmountFromUsd :: "storage \<Rightarrow> jsval \<Rightarrow> jsval" where
  "renderDisplayAmountFromUsd ls usdAmount = renderQuotaWithAmount ls (Num (to_number (to_fixed 6 (to_num (js_or usdAmount num0)))))"

text \<open>\<open>Math.max(x, 0)\<close>\<close>

definition max0 :: "jsnum \<Rightarrow> jsnum" where
  "max0 x = (if x = NaN then NaN else if num_less (Fin False 0) x then x else Fin False 0)"

section \<open>The short summary\<close>

record simple_args =
  m_modelRatio :: jsval
  m_modelPrice :: jsval
  m_groupRatio :: jsval
  m_user_group_ratio :: jsval
  m_cacheTokens :: jsval
  m_cacheRatio :: jsval
  m_cacheCreationTokens :: jsval
  m_cacheCreationRatio :: jsval
  m_cacheCreationTokens5m :: jsval
  m_cacheCreationRatio5m :: jsval
  m_cacheCreationTokens1h :: jsval
  m_cacheCreationRatio1h :: jsval
  m_image :: bool
  m_imageRatio :: jsval
  m_isSystemPromptOverride :: bool
  m_displayMode :: jsval

definition simple_defaults :: "simple_args \<Rightarrow> simple_args" where
  "simple_defaults a = a\<lparr>m_modelPrice := dflt (m_modelPrice a) minus1, m_cacheTokens := dflt (m_cacheTokens a) num0,
     m_cacheRatio := dflt (m_cacheRatio a) num1, m_cacheCreationTokens := dflt (m_cacheCreationTokens a) num0,
     m_cacheCreationRatio := dflt (m_cacheCreationRatio a) num1, m_cacheCreationTokens5m := dflt (m_cacheCreationTokens5m a) num0,
     m_cacheCreationRatio5m := dflt (m_cacheCreationRatio5m a) num1, m_cacheCreationTokens1h := dflt (m_cacheCreationTokens1h a) num0,
     m_cacheCreationRatio1h := dflt (m_cacheCreationRatio1h a) num1, m_imageRatio := dflt (m_imageRatio a) num1,
     m_displayMode := dflt (m_displayMode a) (Str (js ''price''))\<rparr>"

definition non_zero :: "jsval \<Rightarrow> bool" where
  "non_zero v \<longleftrightarrow> \<not> strict_eq v num0"

definition has_split :: "jsval \<Rightarrow> jsval \<Rightarrow> bool" where
  "has_split tokens5m tokens1h \<longleftrightarrow> pos tokens5m \<or> pos tokens1h"

text \<open>The parts in prices, and the template of the ratios.\<close>

definition simple_price_parts :: "translate \<Rightarrow> storage \<Rightarrow> simple_args \<Rightarrow> jsstr list" where
  "simple_price_parts t ls a =
     (let base = num_mul (to_num (m_modelRatio a)) two; split' = has_split (m_cacheCreationTokens5m a) (m_cacheCreationTokens1h a);
          part = (\<lambda>key ratio. tv t key [(''price'', formatCompactDisplayPrice ls (num_mul base (to_num ratio)))])
      in [tv t [36755, 20837, 32, 123, 123, 112, 114, 105, 99, 101, 125, 125, 32, 47, 32, 49, 77, 32,
     116, 111, 107, 101, 110, 115] [(''price'', formatCompactDisplayPrice ls base)]]
         @ shown_if (non_zero (m_cacheTokens a)) (part [32531, 23384, 35835, 21462, 32, 123, 123, 112, 114, 105, 99, 101, 125, 125] (m_cacheRatio a))
         @ shown_if (split' \<and> pos (m_cacheCreationTokens5m a)) (part [53, 109, 32531, 23384, 21019, 24314, 32, 123, 123, 112, 114, 105, 99, 101, 125, 125] (m_cacheCreationRatio5m a))
         @ shown_if (split' \<and> pos (m_cacheCreationTokens1h a)) (part [49, 104, 32531, 23384, 21019, 24314, 32, 123, 123, 112, 114, 105, 99, 101, 125, 125] (m_cacheCreationRatio1h a))
         @ shown_if (\<not> split' \<and> non_zero (m_cacheCreationTokens a)) (part [32531, 23384, 21019, 24314, 32, 123, 123, 112, 114, 105, 99, 101, 125, 125] (m_cacheCreationRatio a))
         @ shown_if (m_image a) (part [22270, 29255, 36755, 20837, 32, 123, 123, 112, 114, 105, 99, 101, 125, 125] (m_imageRatio a))
         @ [getGroupRatioText t (m_groupRatio a) (m_user_group_ratio a)])"

definition simple_ratio_parts :: "translate \<Rightarrow> simple_args \<Rightarrow> jsstr list" where
  "simple_ratio_parts t a =
     (let split' = has_split (m_cacheCreationTokens5m a) (m_cacheCreationTokens1h a);
          five = split' \<and> pos (m_cacheCreationTokens5m a); hour = split' \<and> pos (m_cacheCreationTokens1h a)
      in [t [27169, 22411, 58, 32, 123, 123, 114, 97, 116, 105, 111, 125, 125] []]
         @ shown_if (non_zero (m_cacheTokens a)) (t [32531, 23384, 58, 32, 123, 123, 99, 97, 99, 104, 101, 82, 97, 116, 105, 111, 125, 125] [])
         @ (if split' then
              (if five \<and> hour then [t [32531, 23384, 21019, 24314, 58, 32, 53, 109, 32, 123, 123, 99, 97, 99, 104, 101, 67,
     114, 101, 97, 116, 105, 111, 110, 82, 97, 116, 105, 111, 53, 109, 125, 125, 32,
     47, 32, 49, 104, 32, 123, 123, 99, 97, 99, 104, 101, 67, 114, 101, 97, 116, 105,
     111, 110, 82, 97, 116, 105, 111, 49, 104, 125, 125] []]
               else if five then [t [32531, 23384, 21019, 24314, 58, 32, 53, 109, 32, 123, 123, 99, 97, 99, 104, 101, 67,
     114, 101, 97, 116, 105, 111, 110, 82, 97, 116, 105, 111, 53, 109, 125, 125] []]
               else shown_if hour (t [32531, 23384, 21019, 24314, 58, 32, 49, 104, 32, 123, 123, 99, 97, 99, 104, 101, 67,
     114, 101, 97, 116, 105, 111, 110, 82, 97, 116, 105, 111, 49, 104, 125, 125] []))
            else shown_if (non_zero (m_cacheCreationTokens a)) (t [32531, 23384, 21019, 24314, 58, 32, 123, 123, 99, 97, 99, 104, 101, 67, 114, 101, 97,
     116, 105, 111, 110, 82, 97, 116, 105, 111, 125, 125] []))
         @ shown_if (m_image a) (t [22270, 29255, 36755, 20837, 58, 32, 123, 123, 105, 109, 97, 103, 101, 82, 97, 116, 105,
     111, 125, 125] [])
         @ [[123, 123, 114, 97, 116, 105, 111, 84, 121, 112, 101, 125, 125, 58, 32, 123, 123, 103,
     114, 111, 117, 112, 82, 97, 116, 105, 111, 125, 125]])"

definition renderPriceSimpleCore :: "translate \<Rightarrow> storage \<Rightarrow> simple_args \<Rightarrow> jsstr" where
  "renderPriceSimpleCore t ls args =
     (let a = simple_defaults args; e = getEffectiveRatio t (m_groupRatio a) (m_user_group_ratio a);
          finish = (\<lambda>s. if m_isSystemPromptOverride a then s @ [10, 13] @ t [31995, 32479, 25552, 31034, 35206, 30422] [] else s)
      in if is_fixed (m_modelPrice a) then
           (if isPriceDisplayMode ls (m_displayMode a) (m_modelPrice a) then
              joinBillingSummary
                [tv t [27169, 22411, 20215, 26684, 65306, 123, 123, 115, 121, 109, 98, 111, 108, 125, 125,
     123, 123, 112, 114, 105, 99, 101, 125, 125, 32, 47, 32, 27425]
                   [(''symbol'', symbol_of ls), (''price'', price6 ls (to_num (m_modelPrice a)))],
                 getGroupRatioText t (m_groupRatio a) (m_user_group_ratio a)]
            else tv t [20215, 26684, 65306, 123, 123, 115, 121, 109, 98, 111, 108, 125, 125, 123, 123, 112,
     114, 105, 99, 101, 125, 125, 32, 42, 32, 123, 123, 114, 97, 116, 105, 111, 84,
     121, 112, 101, 125, 125, 65306, 123, 123, 114, 97, 116, 105, 111, 125, 125]
              [(''symbol'', symbol_of ls), (''price'', price6 ls (to_num (m_modelPrice a))), (''ratioType'', e_label e), (''ratio'', e_ratio e)])
         else if isPriceDisplayMode ls (m_displayMode a) (m_modelPrice a) then finish (joinBillingSummary (simple_price_parts t ls a))
         else finish (tv t (join (js '' * '') (simple_ratio_parts t a))
           [(''ratio'', m_modelRatio a), (''ratioType'', e_label e), (''groupRatio'', e_ratio e), (''cacheRatio'', m_cacheRatio a),
            (''cacheCreationRatio'', m_cacheCreationRatio a), (''cacheCreationRatio5m'', m_cacheCreationRatio5m a),
            (''cacheCreationRatio1h'', m_cacheCreationRatio1h a), (''imageRatio'', m_imageRatio a)]))"

text \<open>\<open>provider\<close> is not used.\<close>

definition renderModelPriceSimple :: "translate \<Rightarrow> storage \<Rightarrow> simple_args \<Rightarrow> jsval \<Rightarrow> jsstr" where
  "renderModelPriceSimple t ls a provider = renderPriceSimpleCore t ls (simple_defaults a)"

section \<open>The price of a request\<close>

datatype view = Article "jsstr list" | Plain jsstr

record model_args =
  b_inputTokens :: jsval
  b_completionTokens :: jsval
  b_modelRatio :: jsval
  b_modelPrice :: jsval
  b_completionRatio :: jsval
  b_groupRatio :: jsval
  b_user_group_ratio :: jsval
  b_cacheTokens :: jsval
  b_cacheRatio :: jsval
  b_image :: bool
  b_imageRatio :: jsval
  b_imageOutputTokens :: jsval
  b_webSearch :: bool
  b_webSearchCallCount :: jsval
  b_webSearchPrice :: jsval
  b_fileSearch :: bool
  b_fileSearchCallCount :: jsval
  b_fileSearchPrice :: jsval
  b_audioInputSeperatePrice :: bool
  b_audioInputTokens :: jsval
  b_audioInputPrice :: jsval
  b_imageGenerationCall :: bool
  b_imageGenerationCallPrice :: jsval

text \<open>The default values, and the completion ratio 0 for a missing one.\<close>

definition model_defaults :: "model_args \<Rightarrow> model_args" where
  "model_defaults a = a\<lparr>b_modelPrice := dflt (b_modelPrice a) minus1, b_completionRatio := dflt (b_completionRatio a) num0,
     b_cacheTokens := dflt (b_cacheTokens a) num0, b_cacheRatio := dflt (b_cacheRatio a) num1, b_imageRatio := dflt (b_imageRatio a) num1,
     b_imageOutputTokens := dflt (b_imageOutputTokens a) num0, b_webSearchCallCount := dflt (b_webSearchCallCount a) num0,
     b_webSearchPrice := dflt (b_webSearchPrice a) num0, b_fileSearchCallCount := dflt (b_fileSearchCallCount a) num0,
     b_fileSearchPrice := dflt (b_fileSearchPrice a) num0, b_audioInputTokens := dflt (b_audioInputTokens a) num0,
     b_audioInputPrice := dflt (b_audioInputPrice a) num0, b_imageGenerationCallPrice := dflt (b_imageGenerationCallPrice a) num0\<rparr>"

definition txt_reference :: jsstr where "txt_reference = [20165, 20379, 21442, 32771, 65292, 20197, 23454, 38469, 25187, 36153, 20026, 20934]"

text \<open>A price per call: the article, and the line for the ratio process.\<close>

definition fixed_article :: "translate \<Rightarrow> storage \<Rightarrow> jsval \<Rightarrow> effective \<Rightarrow> view" where
  "fixed_article t ls modelPrice e =
     (let price = price6 ls (to_num modelPrice) in
      Article [tv t [27169, 22411, 20215, 26684, 65306, 123, 123, 115, 121, 109, 98, 111, 108, 125, 125,
     123, 123, 112, 114, 105, 99, 101, 125, 125, 32, 47, 32, 27425] [(''symbol'', symbol_of ls), (''price'', price)],
        tv t [27169, 22411, 20215, 26684, 32, 123, 123, 115, 121, 109, 98, 111, 108, 125, 125, 123,
     123, 112, 114, 105, 99, 101, 125, 125, 32, 47, 32, 27425, 32, 42, 32, 123, 123,
     114, 97, 116, 105, 111, 84, 121, 112, 101, 125, 125, 32, 123, 123, 114, 97, 116,
     105, 111, 125, 125, 32, 61, 32, 123, 123, 115, 121, 109, 98, 111, 108, 125, 125,
     123, 123, 116, 111, 116, 97, 108, 125, 125]
          [(''symbol'', symbol_of ls), (''price'', price), (''ratioType'', e_label e), (''ratio'', e_ratio e),
           (''total'', price6 ls (num_mul (to_num modelPrice) (to_num (e_ratio e))))],
        t txt_reference []])"

definition fixed_line :: "translate \<Rightarrow> storage \<Rightarrow> jsval \<Rightarrow> effective \<Rightarrow> view" where
  "fixed_line t ls modelPrice e =
     Plain (tv t [27169, 22411, 20215, 26684, 65306, 123, 123, 115, 121, 109, 98, 111, 108, 125, 125,
     123, 123, 112, 114, 105, 99, 101, 125, 125, 32, 42, 32, 123, 123, 114, 97, 116,
     105, 111, 84, 121, 112, 101, 125, 125, 65306, 123, 123, 114, 97, 116, 105, 111,
     125, 125, 32, 61, 32, 123, 123, 115, 121, 109, 98, 111, 108, 125, 125, 123, 123,
     116, 111, 116, 97, 108, 125, 125]
       [(''symbol'', symbol_of ls), (''price'', price6 ls (to_num modelPrice)), (''ratio'', e_ratio e),
        (''total'', price6 ls (num_mul (to_num modelPrice) (to_num (e_ratio e)))), (''ratioType'', e_label e)])"

definition input_price :: "jsval \<Rightarrow> jsnum" where
  "input_price modelRatio = num_mul (to_num modelRatio) two"

definition has_image :: "model_args \<Rightarrow> bool" where
  "has_image a \<longleftrightarrow> b_image a \<and> pos (b_imageOutputTokens a)"

definition effective_input :: "model_args \<Rightarrow> jsnum" where
  "effective_input a =
     (let input = to_num (b_inputTokens a); cache = to_num (b_cacheTokens a); img = to_num (b_imageOutputTokens a);
          tokens = (if has_image a then num_add (num_sub input img) (num_mul img (to_num (b_imageRatio a)))
                    else num_add (num_sub input cache) (num_mul cache (to_num (b_cacheRatio a))))
      in if pos (b_audioInputTokens a) then num_sub tokens (to_num (b_audioInputTokens a)) else tokens)"

definition model_price :: "model_args \<Rightarrow> jsnum \<Rightarrow> jsnum" where
  "model_price a g =
     nsum (nprod (per_million (effective_input a)) [input_price (b_modelRatio a), g])
       [nprod (per_million (to_num (b_audioInputTokens a))) [to_num (b_audioInputPrice a), g],
        nprod (per_million (to_num (b_completionTokens a))) [num_mul (input_price (b_modelRatio a)) (to_num (b_completionRatio a)), g],
        nprod (per_thousand (to_num (b_webSearchCallCount a))) [to_num (b_webSearchPrice a), g],
        nprod (per_thousand (to_num (b_fileSearchCallCount a))) [to_num (b_fileSearchPrice a), g],
        num_mul (to_num (b_imageGenerationCallPrice a)) g]"

definition web_shown :: "model_args \<Rightarrow> bool" where
  "web_shown a \<longleftrightarrow> b_webSearch a \<and> pos (b_webSearchCallCount a)"

definition file_shown :: "model_args \<Rightarrow> bool" where
  "file_shown a \<longleftrightarrow> b_fileSearch a \<and> pos (b_fileSearchCallCount a)"

definition generation_shown :: "model_args \<Rightarrow> bool" where
  "generation_shown a \<longleftrightarrow> b_imageGenerationCall a \<and> pos (b_imageGenerationCallPrice a)"

text \<open>The unit prices.\<close>

definition unit_prices :: "translate \<Rightarrow> storage \<Rightarrow> model_args \<Rightarrow> jsstr list" where
  "unit_prices t ls a =
     (let symbol = (''symbol'', symbol_of ls); irp = input_price (b_modelRatio a);
          audio = (if b_audioInputSeperatePrice a
            then [65292] @ t [38899, 39057, 36755, 20837, 20215, 26684] [] @ [32] @ to_str (symbol_of ls) @ to_str (price6 ls (to_num (b_audioInputPrice a))) @ js '' / 1M tokens''
            else [])
      in [tv t [36755, 20837, 20215, 26684, 65306, 123, 123, 115, 121, 109, 98, 111, 108, 125, 125,
     123, 123, 112, 114, 105, 99, 101, 125, 125, 32, 47, 32, 49, 77, 32, 116, 111, 107,
     101, 110, 115, 123, 123, 97, 117, 100, 105, 111, 80, 114, 105, 99, 101, 125, 125] [symbol, (''price'', price6 ls irp), (''audioPrice'', Str audio)],
          tv t [34917, 20840, 20215, 26684, 65306, 123, 123, 115, 121, 109, 98, 111, 108, 125, 125,
     123, 123, 116, 111, 116, 97, 108, 125, 125, 32, 47, 32, 49, 77, 32, 116, 111, 107,
     101, 110, 115] [symbol, (''total'', price6 ls (num_mul irp (to_num (b_completionRatio a))))]]
         @ shown_if (pos (b_cacheTokens a)) (tv t [32531, 23384, 35835, 21462, 20215, 26684, 65306, 123, 123, 115, 121, 109, 98, 111, 108,
     125, 125, 123, 123, 116, 111, 116, 97, 108, 125, 125, 32, 47, 32, 49, 77, 32, 116,
     111, 107, 101, 110, 115]
             [symbol, (''total'', price6 ls (num_mul irp (to_num (b_cacheRatio a))))])
         @ shown_if (has_image a) (tv t [22270, 29255, 36755, 20837, 20215, 26684, 65306, 123, 123, 115, 121, 109, 98, 111, 108,
     125, 125, 123, 123, 116, 111, 116, 97, 108, 125, 125, 32, 47, 32, 49, 77, 32, 116,
     111, 107, 101, 110, 115]
             [symbol, (''total'', price6 ls (num_mul irp (to_num (b_imageRatio a))))])
         @ shown_if (web_shown a) (tv t [87, 101, 98, 25628, 32034, 20215, 26684, 65306, 123, 123, 115, 121, 109, 98, 111, 108,
     125, 125, 123, 123, 112, 114, 105, 99, 101, 125, 125, 32, 47, 32, 49, 75, 32, 27425]
             [symbol, (''price'', price6 ls (to_num (b_webSearchPrice a)))])
         @ shown_if (file_shown a) (tv t [25991, 20214, 25628, 32034, 20215, 26684, 65306, 123, 123, 115, 121, 109, 98, 111, 108,
     125, 125, 123, 123, 112, 114, 105, 99, 101, 125, 125, 32, 47, 32, 49, 75, 32, 27425]
             [symbol, (''price'', price6 ls (to_num (b_fileSearchPrice a)))])
         @ shown_if (generation_shown a) (tv t [22270, 29255, 29983, 25104, 35843, 29992, 65306, 123, 123, 115, 121, 109, 98, 111, 108,
     125, 125, 123, 123, 112, 114, 105, 99, 101, 125, 125, 32, 47, 32, 49, 27425]
             [symbol, (''price'', price6 ls (to_num (b_imageGenerationCallPrice a)))]))"

definition inputDesc :: "translate \<Rightarrow> storage \<Rightarrow> model_args \<Rightarrow> jsstr" where
  "inputDesc t ls a =
     (let symbol = (''symbol'', symbol_of ls); irp = input_price (b_modelRatio a); price = (''price'', price6 ls irp);
          less = (\<lambda>v. Num (num_sub (to_num (b_inputTokens a)) (to_num v)))
      in if has_image a then
           tv t [40, 36755, 20837, 32, 123, 123, 110, 111, 110, 73, 109, 97, 103, 101, 73, 110, 112,
     117, 116, 125, 125, 32, 116, 111, 107, 101, 110, 115, 32, 43, 32, 22270, 29255,
     36755, 20837, 32, 123, 123, 105, 109, 97, 103, 101, 73, 110, 112, 117, 116, 125,
     125, 32, 116, 111, 107, 101, 110, 115, 32, 47, 32, 49, 77, 32, 116, 111, 107, 101,
     110, 115, 32, 42, 32, 123, 123, 115, 121, 109, 98, 111, 108, 125, 125, 123, 123,
     112, 114, 105, 99, 101, 125, 125]
             [(''nonImageInput'', less (b_imageOutputTokens a)), (''imageInput'', b_imageOutputTokens a), symbol, price]
         else if pos (b_cacheTokens a) then
           tv t [40, 36755, 20837, 32, 123, 123, 110, 111, 110, 67, 97, 99, 104, 101, 73, 110, 112, 117,
     116, 125, 125, 32, 116, 111, 107, 101, 110, 115, 32, 47, 32, 49, 77, 32, 116, 111,
     107, 101, 110, 115, 32, 42, 32, 123, 123, 115, 121, 109, 98, 111, 108, 125, 125,
     123, 123, 112, 114, 105, 99, 101, 125, 125, 32, 43, 32, 32531, 23384, 32, 123,
     123, 99, 97, 99, 104, 101, 73, 110, 112, 117, 116, 125, 125, 32, 116, 111, 107,
     101, 110, 115, 32, 47, 32, 49, 77, 32, 116, 111, 107, 101, 110, 115, 32, 42, 32,
     123, 123, 115, 121, 109, 98, 111, 108, 125, 125, 123, 123, 99, 97, 99, 104, 101,
     80, 114, 105, 99, 101, 125, 125]
             [(''nonCacheInput'', less (b_cacheTokens a)), (''cacheInput'', b_cacheTokens a), symbol, price,
              (''cachePrice'', price6 ls (num_mul irp (to_num (b_cacheRatio a))))]
         else if b_audioInputSeperatePrice a \<and> pos (b_audioInputTokens a) then
           tv t [40, 36755, 20837, 32, 123, 123, 110, 111, 110, 65, 117, 100, 105, 111, 73, 110, 112,
     117, 116, 125, 125, 32, 116, 111, 107, 101, 110, 115, 32, 47, 32, 49, 77, 32, 116,
     111, 107, 101, 110, 115, 32, 42, 32, 123, 123, 115, 121, 109, 98, 111, 108, 125,
     125, 123, 123, 112, 114, 105, 99, 101, 125, 125, 32, 43, 32, 38899, 39057, 36755,
     20837, 32, 123, 123, 97, 117, 100, 105, 111, 73, 110, 112, 117, 116, 125, 125, 32,
     116, 111, 107, 101, 110, 115, 32, 47, 32, 49, 77, 32, 116, 111, 107, 101, 110,
     115, 32, 42, 32, 123, 123, 115, 121, 109, 98, 111, 108, 125, 125, 123, 123, 97,
     117, 100, 105, 111, 80, 114, 105, 99, 101, 125, 125]
             [(''nonAudioInput'', less (b_audioInputTokens a)), (''audioInput'', b_audioInputTokens a), symbol, price,
              (''audioPrice'', price6 ls (to_num (b_audioInputPrice a)))]
         else tv t [40, 36755, 20837, 32, 123, 123, 105, 110, 112, 117, 116, 125, 125, 32, 116, 111, 107,
     101, 110, 115, 32, 47, 32, 49, 77, 32, 116, 111, 107, 101, 110, 115, 32, 42, 32,
     123, 123, 115, 121, 109, 98, 111, 108, 125, 125, 123, 123, 112, 114, 105, 99, 101,
     125, 125] [(''input'', b_inputTokens a), symbol, price])"

definition outputDesc :: "translate \<Rightarrow> storage \<Rightarrow> model_args \<Rightarrow> effective \<Rightarrow> jsstr" where
  "outputDesc t ls a e =
     tv t [36755, 20986, 32, 123, 123, 99, 111, 109, 112, 108, 101, 116, 105, 111, 110, 125, 125,
     32, 116, 111, 107, 101, 110, 115, 32, 47, 32, 49, 77, 32, 116, 111, 107, 101, 110,
     115, 32, 42, 32, 123, 123, 115, 121, 109, 98, 111, 108, 125, 125, 123, 123, 99,
     111, 109, 112, 80, 114, 105, 99, 101, 125, 125, 41, 32, 42, 32, 123, 123, 114, 97,
     116, 105, 111, 84, 121, 112, 101, 125, 125, 32, 123, 123, 114, 97, 116, 105, 111,
     125, 125]
       [(''completion'', b_completionTokens a), (''symbol'', symbol_of ls),
        (''compPrice'', price6 ls (num_mul (input_price (b_modelRatio a)) (to_num (b_completionRatio a)))),
        (''ratio'', e_ratio e), (''ratioType'', e_label e)]"

definition extraServices :: "translate \<Rightarrow> storage \<Rightarrow> model_args \<Rightarrow> effective \<Rightarrow> jsstr" where
  "extraServices t ls a e =
     (let symbol = (''symbol'', symbol_of ls); ratio = [(''ratio'', e_ratio e), (''ratioType'', e_label e)]
      in (if web_shown a then tv t [32, 43, 32, 87, 101, 98, 25628, 32034, 32, 123, 123, 99, 111, 117, 110, 116, 125, 125,
     27425, 32, 47, 32, 49, 75, 32, 27425, 32, 42, 32, 123, 123, 115, 121, 109, 98,
     111, 108, 125, 125, 123, 123, 112, 114, 105, 99, 101, 125, 125, 32, 42, 32, 123,
     123, 114, 97, 116, 105, 111, 84, 121, 112, 101, 125, 125, 32, 123, 123, 114, 97,
     116, 105, 111, 125, 125]
            ([(''count'', b_webSearchCallCount a), symbol, (''price'', price6 ls (to_num (b_webSearchPrice a)))] @ ratio) else [])
         @ (if file_shown a then tv t [32, 43, 32, 25991, 20214, 25628, 32034, 32, 123, 123, 99, 111, 117, 110, 116, 125, 125,
     27425, 32, 47, 32, 49, 75, 32, 27425, 32, 42, 32, 123, 123, 115, 121, 109, 98,
     111, 108, 125, 125, 123, 123, 112, 114, 105, 99, 101, 125, 125, 32, 42, 32, 123,
     123, 114, 97, 116, 105, 111, 84, 121, 112, 101, 125, 125, 32, 123, 123, 114, 97,
     116, 105, 111, 125, 125]
            ([(''count'', b_fileSearchCallCount a), symbol, (''price'', price6 ls (to_num (b_fileSearchPrice a)))] @ ratio) else [])
         @ (if generation_shown a then tv t [32, 43, 32, 22270, 29255, 29983, 25104, 35843, 29992, 32, 123, 123, 115, 121, 109, 98,
     111, 108, 125, 125, 123, 123, 112, 114, 105, 99, 101, 125, 125, 32, 47, 32, 49,
     27425, 32, 42, 32, 123, 123, 114, 97, 116, 105, 111, 84, 121, 112, 101, 125, 125,
     32, 123, 123, 114, 97, 116, 105, 111, 125, 125]
            ([symbol, (''price'', price6 ls (to_num (b_imageGenerationCallPrice a)))] @ ratio) else []))"

definition price_article :: "translate \<Rightarrow> storage \<Rightarrow> model_args \<Rightarrow> effective \<Rightarrow> view" where
  "price_article t ls a e =
     Article (unit_prices t ls a
       @ [tv t [123, 123, 105, 110, 112, 117, 116, 68, 101, 115, 99, 125, 125, 32, 43, 32, 123, 123,
     111, 117, 116, 112, 117, 116, 68, 101, 115, 99, 125, 125, 123, 123, 101, 120, 116,
     114, 97, 83, 101, 114, 118, 105, 99, 101, 115, 125, 125, 32, 61, 32, 123, 123,
     115, 121, 109, 98, 111, 108, 125, 125, 123, 123, 116, 111, 116, 97, 108, 125, 125]
            [(''inputDesc'', Str (inputDesc t ls a)), (''outputDesc'', Str (outputDesc t ls a e)),
             (''extraServices'', Str (extraServices t ls a e)), (''symbol'', symbol_of ls),
             (''total'', price6 ls (model_price a (to_num (e_ratio e))))],
          t txt_reference []])"

text \<open>The ratio process: the amounts and the lines.\<close>

record amounts =
  n_text :: jsnum
  n_cache :: jsnum
  n_image :: jsnum
  n_audio :: jsnum
  n_completion :: jsnum
  n_web :: jsnum
  n_file :: jsnum
  n_generation :: jsnum

definition textInputTokens :: "model_args \<Rightarrow> jsnum" where
  "textInputTokens a = max0 (num_sub (num_sub (to_num (b_inputTokens a)) (to_num (b_cacheTokens a))) (to_num (b_audioInputTokens a)))"

definition imageInputTokens :: "model_args \<Rightarrow> jsval" where
  "imageInputTokens a = (if has_image a then b_imageOutputTokens a else num0)"

definition ratio_amounts :: "model_args \<Rightarrow> jsnum \<Rightarrow> amounts" where
  "ratio_amounts a g =
     (let irp = input_price (b_modelRatio a)
      in \<lparr>n_text = nprod (per_million (textInputTokens a)) [irp, g],
          n_cache = nprod (per_million (to_num (b_cacheTokens a))) [irp, formatRatioValue (b_cacheRatio a), g],
          n_image = nprod (per_million (to_num (imageInputTokens a))) [irp, formatRatioValue (b_imageRatio a), g],
          n_audio = nprod (per_million (to_num (b_audioInputTokens a))) [to_num (b_audioInputPrice a), g],
          n_completion = nprod (per_million (to_num (b_completionTokens a))) [num_mul irp (formatRatioValue (b_completionRatio a)), g],
          n_web = nprod (per_thousand (to_num (b_webSearchCallCount a))) [to_num (b_webSearchPrice a), g],
          n_file = nprod (per_thousand (to_num (b_fileSearchCallCount a))) [to_num (b_fileSearchPrice a), g],
          n_generation = num_mul (to_num (b_imageGenerationCallPrice a)) g\<rparr>)"

definition total_amount :: "amounts \<Rightarrow> jsnum" where
  "total_amount n = nsum (n_text n) [n_cache n, n_image n, n_audio n, n_completion n, n_web n, n_file n, n_generation n]"

definition audioRatioValue :: "model_args \<Rightarrow> jsnum option" where
  "audioRatioValue a =
     (if b_audioInputSeperatePrice a \<and> pos (b_audioInputPrice a)
      then Some (formatRatioValue (Num (num_div (to_num (b_audioInputPrice a)) (input_price (b_modelRatio a))))) else None)"

definition ratio_head :: "translate \<Rightarrow> model_args \<Rightarrow> effective \<Rightarrow> jsstr" where
  "ratio_head t a e =
     joinBillingSummary ([tv t [27169, 22411, 20493, 29575, 32, 123, 123, 109, 111, 100, 101, 108, 82, 97, 116, 105,
     111, 125, 125] [(''modelRatio'', Num (formatRatioValue (b_modelRatio a)))],
        tv t [34917, 20840, 20493, 29575, 32, 123, 123, 99, 111, 109, 112, 108, 101, 116, 105, 111,
     110, 82, 97, 116, 105, 111, 125, 125] [(''completionRatio'', Num (formatRatioValue (b_completionRatio a)))]]
       @ shown_if (pos (b_cacheTokens a)) (tv t [32531, 23384, 20493, 29575, 32, 123, 123, 99, 97, 99, 104, 101, 82, 97, 116, 105, 111,
     125, 125] [(''cacheRatio'', Num (formatRatioValue (b_cacheRatio a)))])
       @ shown_if (pos (imageInputTokens a)) (tv t [22270, 29255, 20493, 29575, 32, 123, 123, 105, 109, 97, 103, 101, 82, 97, 116, 105,
     111, 125, 125] [(''imageRatio'', Num (formatRatioValue (b_imageRatio a)))])
       @ (case audioRatioValue a of None \<Rightarrow> [] | Some r \<Rightarrow> [tv t [38899, 39057, 20493, 29575, 32, 123, 123, 97, 117, 100, 105, 111, 82, 97, 116, 105,
     111, 125, 125] [(''audioRatio'', Num r)]])
       @ [tv t [123, 123, 114, 97, 116, 105, 111, 84, 121, 112, 101, 125, 125, 32, 123, 123, 114, 97,
     116, 105, 111, 125, 125] [(''ratioType'', e_label e), (''ratio'', e_ratio e)]])"

definition token_lines :: "translate \<Rightarrow> storage \<Rightarrow> model_args \<Rightarrow> effective \<Rightarrow> jsstr list" where
  "token_lines t ls a e =
     (let n = ratio_amounts a (to_num (e_ratio e)); amount = (\<lambda>x. [(''amount'', renderDisplayAmountFromUsd ls (Num x))]);
          ratio = [(''ratioType'', e_label e), (''ratio'', e_ratio e)]; model = [(''modelRatio'', Num (formatRatioValue (b_modelRatio a)))]
      in shown_if (pos (Num (textInputTokens a)))
           (tv t [26222, 36890, 36755, 20837, 65306, 123, 123, 116, 111, 107, 101, 110, 115, 125, 125,
     32, 47, 32, 49, 77, 32, 42, 32, 27169, 22411, 20493, 29575, 32, 123, 123, 109,
     111, 100, 101, 108, 82, 97, 116, 105, 111, 125, 125, 32, 42, 32, 123, 123, 114,
     97, 116, 105, 111, 84, 121, 112, 101, 125, 125, 32, 123, 123, 114, 97, 116, 105,
     111, 125, 125, 32, 61, 32, 123, 123, 97, 109, 111, 117, 110, 116, 125, 125]
              ([(''tokens'', Num (textInputTokens a))] @ model @ ratio @ amount (n_text n)))
         @ shown_if (pos (b_cacheTokens a))
           (tv t [32531, 23384, 36755, 20837, 65306, 123, 123, 116, 111, 107, 101, 110, 115, 125, 125,
     32, 47, 32, 49, 77, 32, 42, 32, 27169, 22411, 20493, 29575, 32, 123, 123, 109,
     111, 100, 101, 108, 82, 97, 116, 105, 111, 125, 125, 32, 42, 32, 32531, 23384,
     20493, 29575, 32, 123, 123, 99, 97, 99, 104, 101, 82, 97, 116, 105, 111, 125, 125,
     32, 42, 32, 123, 123, 114, 97, 116, 105, 111, 84, 121, 112, 101, 125, 125, 32,
     123, 123, 114, 97, 116, 105, 111, 125, 125, 32, 61, 32, 123, 123, 97, 109, 111,
     117, 110, 116, 125, 125]
              ([(''tokens'', b_cacheTokens a)] @ model @ [(''cacheRatio'', Num (formatRatioValue (b_cacheRatio a)))] @ ratio @ amount (n_cache n)))
         @ shown_if (pos (imageInputTokens a))
           (tv t [22270, 29255, 36755, 20837, 65306, 123, 123, 116, 111, 107, 101, 110, 115, 125, 125,
     32, 47, 32, 49, 77, 32, 42, 32, 27169, 22411, 20493, 29575, 32, 123, 123, 109,
     111, 100, 101, 108, 82, 97, 116, 105, 111, 125, 125, 32, 42, 32, 22270, 29255,
     20493, 29575, 32, 123, 123, 105, 109, 97, 103, 101, 82, 97, 116, 105, 111, 125,
     125, 32, 42, 32, 123, 123, 114, 97, 116, 105, 111, 84, 121, 112, 101, 125, 125,
     32, 123, 123, 114, 97, 116, 105, 111, 125, 125, 32, 61, 32, 123, 123, 97, 109,
     111, 117, 110, 116, 125, 125]
              ([(''tokens'', imageInputTokens a)] @ model @ [(''imageRatio'', Num (formatRatioValue (b_imageRatio a)))] @ ratio @ amount (n_image n)))
         @ (case audioRatioValue a of
              None \<Rightarrow> []
            | Some r \<Rightarrow> shown_if (pos (b_audioInputTokens a))
                (tv t [38899, 39057, 36755, 20837, 65306, 123, 123, 116, 111, 107, 101, 110, 115, 125, 125,
     32, 47, 32, 49, 77, 32, 42, 32, 27169, 22411, 20493, 29575, 32, 123, 123, 109,
     111, 100, 101, 108, 82, 97, 116, 105, 111, 125, 125, 32, 42, 32, 38899, 39057,
     20493, 29575, 32, 123, 123, 97, 117, 100, 105, 111, 82, 97, 116, 105, 111, 125,
     125, 32, 42, 32, 123, 123, 114, 97, 116, 105, 111, 84, 121, 112, 101, 125, 125,
     32, 123, 123, 114, 97, 116, 105, 111, 125, 125, 32, 61, 32, 123, 123, 97, 109,
     111, 117, 110, 116, 125, 125]
                   ([(''tokens'', b_audioInputTokens a)] @ model @ [(''audioRatio'', Num r)] @ ratio @ amount (n_audio n))))
         @ [tv t [36755, 20986, 65306, 123, 123, 116, 111, 107, 101, 110, 115, 125, 125, 32, 47, 32, 49,
     77, 32, 42, 32, 27169, 22411, 20493, 29575, 32, 123, 123, 109, 111, 100, 101, 108,
     82, 97, 116, 105, 111, 125, 125, 32, 42, 32, 34917, 20840, 20493, 29575, 32, 123,
     123, 99, 111, 109, 112, 108, 101, 116, 105, 111, 110, 82, 97, 116, 105, 111, 125,
     125, 32, 42, 32, 123, 123, 114, 97, 116, 105, 111, 84, 121, 112, 101, 125, 125,
     32, 123, 123, 114, 97, 116, 105, 111, 125, 125, 32, 61, 32, 123, 123, 97, 109,
     111, 117, 110, 116, 125, 125]
              ([(''tokens'', b_completionTokens a)] @ model @ [(''completionRatio'', Num (formatRatioValue (b_completionRatio a)))] @ ratio
               @ amount (n_completion n))])"

definition service_lines :: "translate \<Rightarrow> storage \<Rightarrow> model_args \<Rightarrow> effective \<Rightarrow> jsstr list" where
  "service_lines t ls a e =
     (let n = ratio_amounts a (to_num (e_ratio e)); usd = renderDisplayAmountFromUsd ls; ratio = [(''ratioType'', e_label e), (''ratio'', e_ratio e)]
      in shown_if (web_shown a) (tv t [87, 101, 98, 32, 25628, 32034, 65306, 123, 123, 99, 111, 117, 110, 116, 125, 125, 32,
     47, 32, 49, 75, 32, 42, 32, 21333, 20215, 32, 123, 123, 112, 114, 105, 99, 101,
     125, 125, 32, 42, 32, 123, 123, 114, 97, 116, 105, 111, 84, 121, 112, 101, 125,
     125, 32, 123, 123, 114, 97, 116, 105, 111, 125, 125, 32, 61, 32, 123, 123, 97,
     109, 111, 117, 110, 116, 125, 125]
           ([(''count'', b_webSearchCallCount a), (''price'', usd (b_webSearchPrice a))] @ ratio @ [(''amount'', usd (Num (n_web n)))]))
         @ shown_if (file_shown a) (tv t [25991, 20214, 25628, 32034, 65306, 123, 123, 99, 111, 117, 110, 116, 125, 125, 32, 47,
     32, 49, 75, 32, 42, 32, 21333, 20215, 32, 123, 123, 112, 114, 105, 99, 101, 125,
     125, 32, 42, 32, 123, 123, 114, 97, 116, 105, 111, 84, 121, 112, 101, 125, 125,
     32, 123, 123, 114, 97, 116, 105, 111, 125, 125, 32, 61, 32, 123, 123, 97, 109,
     111, 117, 110, 116, 125, 125]
           ([(''count'', b_fileSearchCallCount a), (''price'', usd (b_fileSearchPrice a))] @ ratio @ [(''amount'', usd (Num (n_file n)))]))
         @ shown_if (generation_shown a) (tv t [22270, 29255, 29983, 25104, 65306, 49, 32, 27425, 32, 42, 32, 21333, 20215, 32, 123,
     123, 112, 114, 105, 99, 101, 125, 125, 32, 42, 32, 123, 123, 114, 97, 116, 105,
     111, 84, 121, 112, 101, 125, 125, 32, 123, 123, 114, 97, 116, 105, 111, 125, 125,
     32, 61, 32, 123, 123, 97, 109, 111, 117, 110, 116, 125, 125]
           ([(''price'', usd (b_imageGenerationCallPrice a))] @ ratio @ [(''amount'', usd (Num (n_generation n)))])))"

definition ratio_article :: "translate \<Rightarrow> storage \<Rightarrow> model_args \<Rightarrow> effective \<Rightarrow> view" where
  "ratio_article t ls a e =
     Article ([ratio_head t a e] @ token_lines t ls a e @ service_lines t ls a e
       @ [tv t [21512, 35745, 65306, 123, 123, 116, 111, 116, 97, 108, 125, 125]
            [(''total'', renderDisplayAmountFromUsd ls (Num (total_amount (ratio_amounts a (to_num (e_ratio e))))))],
          t txt_reference []])"

definition renderModelPrice :: "translate \<Rightarrow> storage \<Rightarrow> model_args \<Rightarrow> view" where
  "renderModelPrice t ls args =
     (let a = model_defaults args; e = getEffectiveRatio t (b_groupRatio a) (b_user_group_ratio a) in
      if \<not> shouldUseRatioBillingProcess ls (b_modelPrice a) then
        (if is_fixed (b_modelPrice a) then fixed_article t ls (b_modelPrice a) e else price_article t ls a e)
      else if is_fixed (b_modelPrice a) then fixed_line t ls (b_modelPrice a) e
      else ratio_article t ls a e)"

section \<open>The line of the log\<close>

record log_args =
  l_modelRatio :: jsval
  l_completionRatio :: jsval
  l_modelPrice :: jsval
  l_groupRatio :: jsval
  l_user_group_ratio :: jsval
  l_cacheRatio :: jsval
  l_image :: bool
  l_imageRatio :: jsval
  l_webSearch :: bool
  l_webSearchCallCount :: jsval
  l_fileSearch :: bool
  l_fileSearchCallCount :: jsval
  l_displayMode :: jsval

definition log_defaults :: "log_args \<Rightarrow> log_args" where
  "log_defaults a = a\<lparr>l_modelPrice := dflt (l_modelPrice a) minus1, l_cacheRatio := dflt (l_cacheRatio a) num1,
     l_imageRatio := dflt (l_imageRatio a) num1, l_webSearchCallCount := dflt (l_webSearchCallCount a) num0,
     l_fileSearchCallCount := dflt (l_fileSearchCallCount a) num0, l_displayMode := dflt (l_displayMode a) (Str (js ''price''))\<rparr>"

definition per_call_text :: "translate \<Rightarrow> storage \<Rightarrow> jsval \<Rightarrow> jsstr" where
  "per_call_text t ls modelPrice = tv t [27169, 22411, 20215, 26684, 32, 123, 123, 115, 121, 109, 98, 111, 108, 125, 125, 123,
     123, 112, 114, 105, 99, 101, 125, 125, 32, 47, 32, 27425] [(''symbol'', symbol_of ls), (''price'', price6 ls (to_num modelPrice))]"

definition million_text :: "translate \<Rightarrow> storage \<Rightarrow> jsstr \<Rightarrow> jsnum \<Rightarrow> jsstr" where
  "million_text t ls key x = tv t key [(''symbol'', symbol_of ls), (''price'', price6 ls x)]"

definition log_price_parts :: "translate \<Rightarrow> storage \<Rightarrow> log_args \<Rightarrow> jsstr list" where
  "log_price_parts t ls a =
     (let irp = input_price (l_modelRatio a); with_ratio = (\<lambda>key r. million_text t ls key (num_mul irp (to_num r)))
      in [million_text t ls [36755, 20837, 20215, 26684, 32, 123, 123, 115, 121, 109, 98, 111, 108, 125, 125, 123,
     123, 112, 114, 105, 99, 101, 125, 125, 32, 47, 32, 49, 77, 32, 116, 111, 107, 101,
     110, 115] irp, with_ratio [34917, 20840, 20215, 26684, 32, 123, 123, 115, 121, 109, 98, 111, 108, 125, 125, 123,
     123, 112, 114, 105, 99, 101, 125, 125, 32, 47, 32, 49, 77, 32, 116, 111, 107, 101,
     110, 115] (l_completionRatio a)]
         @ shown_if (\<not> strict_eq (l_cacheRatio a) num1) (with_ratio [32531, 23384, 35835, 21462, 20215, 26684, 32, 123, 123, 115, 121, 109, 98, 111, 108,
     125, 125, 123, 123, 112, 114, 105, 99, 101, 125, 125, 32, 47, 32, 49, 77, 32, 116,
     111, 107, 101, 110, 115] (l_cacheRatio a))
         @ shown_if (l_image a) (with_ratio [22270, 29255, 36755, 20837, 20215, 26684, 32, 123, 123, 115, 121, 109, 98, 111, 108,
     125, 125, 123, 123, 112, 114, 105, 99, 101, 125, 125, 32, 47, 32, 49, 77, 32, 116,
     111, 107, 101, 110, 115] (l_imageRatio a))
         @ shown_if (l_webSearch a) (tv t [87, 101, 98, 32, 25628, 32034, 35843, 29992, 32, 123, 123, 119, 101, 98, 83, 101, 97,
     114, 99, 104, 67, 97, 108, 108, 67, 111, 117, 110, 116, 125, 125, 32, 27425] [(''webSearchCallCount'', l_webSearchCallCount a)])
         @ shown_if (l_fileSearch a) (tv t [25991, 20214, 25628, 32034, 35843, 29992, 32, 123, 123, 102, 105, 108, 101, 83, 101,
     97, 114, 99, 104, 67, 97, 108, 108, 67, 111, 117, 110, 116, 125, 125, 32, 27425] [(''fileSearchCallCount'', l_fileSearchCallCount a)])
         @ [getGroupRatioText t (l_groupRatio a) (l_user_group_ratio a)])"

definition renderLogContent :: "translate \<Rightarrow> storage \<Rightarrow> log_args \<Rightarrow> jsstr" where
  "renderLogContent t ls args =
     (let a = log_defaults args; e = getEffectiveRatio t (l_groupRatio a) (l_user_group_ratio a);
          ratios = [(''modelRatio'', l_modelRatio a), (''cacheRatio'', l_cacheRatio a), (''completionRatio'', l_completionRatio a)];
          ratio = [(''ratioType'', e_label e), (''ratio'', e_ratio e)]
      in if isPriceDisplayMode ls (l_displayMode a) (l_modelPrice a) then
           joinBillingSummary (if is_fixed (l_modelPrice a)
             then [per_call_text t ls (l_modelPrice a), getGroupRatioText t (l_groupRatio a) (l_user_group_ratio a)] else log_price_parts t ls a)
         else if is_fixed (l_modelPrice a) then
           tv t [27169, 22411, 20215, 26684, 32, 123, 123, 115, 121, 109, 98, 111, 108, 125, 125, 123,
     123, 112, 114, 105, 99, 101, 125, 125, 65292, 123, 123, 114, 97, 116, 105, 111,
     84, 121, 112, 101, 125, 125, 32, 123, 123, 114, 97, 116, 105, 111, 125, 125]
             ([(''symbol'', symbol_of ls), (''price'', price6 ls (to_num (l_modelPrice a)))] @ ratio)
         else if l_image a then
           tv t [27169, 22411, 20493, 29575, 32, 123, 123, 109, 111, 100, 101, 108, 82, 97, 116, 105,
     111, 125, 125, 65292, 32531, 23384, 20493, 29575, 32, 123, 123, 99, 97, 99, 104,
     101, 82, 97, 116, 105, 111, 125, 125, 65292, 36755, 20986, 20493, 29575, 32, 123,
     123, 99, 111, 109, 112, 108, 101, 116, 105, 111, 110, 82, 97, 116, 105, 111, 125,
     125, 65292, 22270, 29255, 36755, 20837, 20493, 29575, 32, 123, 123, 105, 109, 97,
     103, 101, 82, 97, 116, 105, 111, 125, 125, 65292, 123, 123, 114, 97, 116, 105,
     111, 84, 121, 112, 101, 125, 125, 32, 123, 123, 114, 97, 116, 105, 111, 125, 125]
             (ratios @ [(''imageRatio'', l_imageRatio a)] @ ratio)
         else if l_webSearch a then
           tv t [27169, 22411, 20493, 29575, 32, 123, 123, 109, 111, 100, 101, 108, 82, 97, 116, 105,
     111, 125, 125, 65292, 32531, 23384, 20493, 29575, 32, 123, 123, 99, 97, 99, 104,
     101, 82, 97, 116, 105, 111, 125, 125, 65292, 36755, 20986, 20493, 29575, 32, 123,
     123, 99, 111, 109, 112, 108, 101, 116, 105, 111, 110, 82, 97, 116, 105, 111, 125,
     125, 65292, 123, 123, 114, 97, 116, 105, 111, 84, 121, 112, 101, 125, 125, 32,
     123, 123, 114, 97, 116, 105, 111, 125, 125, 65292, 87, 101, 98, 32, 25628, 32034,
     35843, 29992, 32, 123, 123, 119, 101, 98, 83, 101, 97, 114, 99, 104, 67, 97, 108,
     108, 67, 111, 117, 110, 116, 125, 125, 32, 27425]
             (ratios @ ratio @ [(''webSearchCallCount'', l_webSearchCallCount a)])
         else tv t [27169, 22411, 20493, 29575, 32, 123, 123, 109, 111, 100, 101, 108, 82, 97, 116, 105,
     111, 125, 125, 65292, 32531, 23384, 20493, 29575, 32, 123, 123, 99, 97, 99, 104,
     101, 82, 97, 116, 105, 111, 125, 125, 65292, 36755, 20986, 20493, 29575, 32, 123,
     123, 99, 111, 109, 112, 108, 101, 116, 105, 111, 110, 82, 97, 116, 105, 111, 125,
     125, 65292, 123, 123, 114, 97, 116, 105, 111, 84, 121, 112, 101, 125, 125, 32,
     123, 123, 114, 97, 116, 105, 111, 125, 125] (ratios @ ratio))"

section \<open>Audio models\<close>

record audio_args =
  d_inputTokens :: jsval
  d_completionTokens :: jsval
  d_modelRatio :: jsval
  d_modelPrice :: jsval
  d_completionRatio :: jsval
  d_audioInputTokens :: jsval
  d_audioCompletionTokens :: jsval
  d_audioRatio :: jsval
  d_audioCompletionRatio :: jsval
  d_groupRatio :: jsval
  d_user_group_ratio :: jsval
  d_cacheTokens :: jsval
  d_cacheRatio :: jsval

definition audio_defaults :: "audio_args \<Rightarrow> audio_args" where
  "audio_defaults a = a\<lparr>d_modelPrice := dflt (d_modelPrice a) minus1, d_completionRatio := dflt (d_completionRatio a) num0,
     d_cacheTokens := dflt (d_cacheTokens a) num0, d_cacheRatio := dflt (d_cacheRatio a) num1\<rparr>"

text \<open>The text and the audio part of the price, from the ratios in use (completion, cache, audio, audio completion).\<close>

definition audio_text_price :: "audio_args \<Rightarrow> jsnum \<Rightarrow> jsnum \<Rightarrow> jsnum \<Rightarrow> jsnum" where
  "audio_text_price a completion cache g =
     (let irp = input_price (d_modelRatio a); cached = to_num (d_cacheTokens a);
          tokens = num_add (num_sub (to_num (d_inputTokens a)) cached) (num_mul cached cache)
      in num_add (nprod (per_million tokens) [irp, g])
           (nprod (per_million (to_num (d_completionTokens a))) [num_mul irp completion, g]))"

definition audio_audio_price :: "audio_args \<Rightarrow> jsnum \<Rightarrow> jsnum \<Rightarrow> jsnum \<Rightarrow> jsnum" where
  "audio_audio_price a audio audioCompletion g =
     (let irp = input_price (d_modelRatio a)
      in num_add (nprod (per_million (to_num (d_audioInputTokens a))) [irp, audio, g])
           (nprod (per_million (to_num (d_audioCompletionTokens a))) [irp, audio, audioCompletion, g]))"

text \<open>In prices; the audio ratio is rounded to six decimals first.\<close>

definition audio_price_article :: "translate \<Rightarrow> storage \<Rightarrow> audio_args \<Rightarrow> effective \<Rightarrow> view" where
  "audio_price_article t ls a e =
     (let audioRatio = to_number (to_fixed 6 (parse_float (to_str (d_audioRatio a)))); acr = to_num (d_audioCompletionRatio a);
          irp = input_price (d_modelRatio a); crp = num_mul irp (to_num (d_completionRatio a)); g = to_num (e_ratio e);
          total = num_add (audio_text_price a (to_num (d_completionRatio a)) (to_num (d_cacheRatio a)) g) (audio_audio_price a audioRatio acr g);
          symbol = (''symbol'', symbol_of ls)
      in Article ([million_text t ls [36755, 20837, 20215, 26684, 65306, 123, 123, 115, 121, 109, 98, 111, 108, 125, 125,
     123, 123, 112, 114, 105, 99, 101, 125, 125, 32, 47, 32, 49, 77, 32, 116, 111, 107,
     101, 110, 115] irp, million_text t ls [34917, 20840, 20215, 26684, 65306, 123, 123, 115, 121, 109, 98, 111, 108, 125, 125,
     123, 123, 112, 114, 105, 99, 101, 125, 125, 32, 47, 32, 49, 77, 32, 116, 111, 107,
     101, 110, 115] crp]
        @ shown_if (pos (d_cacheTokens a)) (million_text t ls [32531, 23384, 35835, 21462, 20215, 26684, 65306, 123, 123, 115, 121, 109, 98, 111, 108,
     125, 125, 123, 123, 112, 114, 105, 99, 101, 125, 125, 32, 47, 32, 49, 77, 32, 116,
     111, 107, 101, 110, 115] (num_mul irp (to_num (d_cacheRatio a))))
        @ [million_text t ls [38899, 39057, 36755, 20837, 20215, 26684, 65306, 123, 123, 115, 121, 109, 98, 111, 108,
     125, 125, 123, 123, 112, 114, 105, 99, 101, 125, 125, 32, 47, 32, 49, 77, 32, 116,
     111, 107, 101, 110, 115] (num_mul irp audioRatio),
           million_text t ls [38899, 39057, 34917, 20840, 20215, 26684, 65306, 123, 123, 115, 121, 109, 98, 111, 108,
     125, 125, 123, 123, 112, 114, 105, 99, 101, 125, 125, 32, 47, 32, 49, 77, 32, 116,
     111, 107, 101, 110, 115] (nprod irp [audioRatio, acr]),
           tv t [25991, 23383, 25552, 31034, 32, 123, 123, 105, 110, 112, 117, 116, 125, 125, 32, 116,
     111, 107, 101, 110, 115, 32, 47, 32, 49, 77, 32, 116, 111, 107, 101, 110, 115, 32,
     42, 32, 123, 123, 115, 121, 109, 98, 111, 108, 125, 125, 123, 123, 116, 101, 120,
     116, 73, 110, 112, 117, 116, 80, 114, 105, 99, 101, 125, 125, 32, 43, 32, 25991,
     23383, 34917, 20840, 32, 123, 123, 99, 111, 109, 112, 108, 101, 116, 105, 111,
     110, 125, 125, 32, 116, 111, 107, 101, 110, 115, 32, 47, 32, 49, 77, 32, 116, 111,
     107, 101, 110, 115, 32, 42, 32, 123, 123, 115, 121, 109, 98, 111, 108, 125, 125,
     123, 123, 116, 101, 120, 116, 67, 111, 109, 112, 80, 114, 105, 99, 101, 125, 125,
     32, 43, 32, 38899, 39057, 25552, 31034, 32, 123, 123, 97, 117, 100, 105, 111, 73,
     110, 112, 117, 116, 125, 125, 32, 116, 111, 107, 101, 110, 115, 32, 47, 32, 49,
     77, 32, 116, 111, 107, 101, 110, 115, 32, 42, 32, 123, 123, 115, 121, 109, 98,
     111, 108, 125, 125, 123, 123, 97, 117, 100, 105, 111, 73, 110, 112, 117, 116, 80,
     114, 105, 99, 101, 125, 125, 32, 43, 32, 38899, 39057, 34917, 20840, 32, 123, 123,
     97, 117, 100, 105, 111, 67, 111, 109, 112, 108, 101, 116, 105, 111, 110, 125, 125,
     32, 116, 111, 107, 101, 110, 115, 32, 47, 32, 49, 77, 32, 116, 111, 107, 101, 110,
     115, 32, 42, 32, 123, 123, 115, 121, 109, 98, 111, 108, 125, 125, 123, 123, 97,
     117, 100, 105, 111, 67, 111, 109, 112, 80, 114, 105, 99, 101, 125, 125, 32, 42,
     32, 123, 123, 114, 97, 116, 105, 111, 84, 121, 112, 101, 125, 125, 32, 123, 123,
     114, 97, 116, 105, 111, 125, 125, 32, 61, 32, 123, 123, 115, 121, 109, 98, 111,
     108, 125, 125, 123, 123, 116, 111, 116, 97, 108, 125, 125]
             [(''input'', d_inputTokens a), (''completion'', d_completionTokens a), (''audioInput'', d_audioInputTokens a),
              (''audioCompletion'', d_audioCompletionTokens a), (''textInputPrice'', price6 ls irp), (''textCompPrice'', price6 ls crp),
              (''audioInputPrice'', price6 ls (num_mul audioRatio irp)), (''audioCompPrice'', price6 ls (nprod audioRatio [acr, irp])),
              (''ratioType'', e_label e), (''ratio'', e_ratio e), symbol, (''total'', price6 ls total)],
           t txt_reference []]))"

definition audio_ratio_article :: "translate \<Rightarrow> storage \<Rightarrow> audio_args \<Rightarrow> effective \<Rightarrow> view" where
  "audio_ratio_article t ls a e =
     (let completion = formatRatioValue (d_completionRatio a); cache = formatRatioValue (d_cacheRatio a);
          audio = formatRatioValue (d_audioRatio a); acr = formatRatioValue (d_audioCompletionRatio a);
          irp = input_price (d_modelRatio a); g = to_num (e_ratio e);
          textPrice = audio_text_price a completion cache g; audioPrice = audio_audio_price a audio acr g;
          model = [(''modelRatio'', Num (formatRatioValue (d_modelRatio a)))]; ratio = [(''ratioType'', e_label e), (''ratio'', e_ratio e)];
          amount = (\<lambda>tokens factors. [(''amount'', renderDisplayAmountFromUsd ls (Num (nprod (per_million tokens) (irp # factors @ [g]))))]);
          text_tokens = max0 (num_sub (to_num (d_inputTokens a)) (to_num (d_cacheTokens a)));
          cachePart = (if pos (d_cacheTokens a) then t [32531, 23384, 20493, 29575] [] @ [32] @ num_str cache @ [65292] else [])
      in Article ([tv t [27169, 22411, 20493, 29575, 32, 123, 123, 109, 111, 100, 101, 108, 82, 97, 116, 105,
     111, 125, 125, 65292, 34917, 20840, 20493, 29575, 32, 123, 123, 99, 111, 109, 112,
     108, 101, 116, 105, 111, 110, 82, 97, 116, 105, 111, 125, 125, 65292, 38899,
     39057, 20493, 29575, 32, 123, 123, 97, 117, 100, 105, 111, 82, 97, 116, 105, 111,
     125, 125, 65292, 38899, 39057, 34917, 20840, 20493, 29575, 32, 123, 123, 97, 117,
     100, 105, 111, 67, 111, 109, 112, 108, 101, 116, 105, 111, 110, 82, 97, 116, 105,
     111, 125, 125, 65292, 123, 123, 99, 97, 99, 104, 101, 80, 97, 114, 116, 125, 125,
     123, 123, 114, 97, 116, 105, 111, 84, 121, 112, 101, 125, 125, 32, 123, 123, 114,
     97, 116, 105, 111, 125, 125]
            (model @ [(''completionRatio'', Num completion), (''audioRatio'', Num audio), (''audioCompletionRatio'', Num acr), (''cachePart'', Str cachePart)] @ ratio),
          tv t [26222, 36890, 36755, 20837, 65306, 123, 123, 116, 111, 107, 101, 110, 115, 125, 125,
     32, 47, 32, 49, 77, 32, 42, 32, 27169, 22411, 20493, 29575, 32, 123, 123, 109,
     111, 100, 101, 108, 82, 97, 116, 105, 111, 125, 125, 32, 42, 32, 123, 123, 114,
     97, 116, 105, 111, 84, 121, 112, 101, 125, 125, 32, 123, 123, 114, 97, 116, 105,
     111, 125, 125, 32, 61, 32, 123, 123, 97, 109, 111, 117, 110, 116, 125, 125]
            ([(''tokens'', Num text_tokens)] @ model @ ratio @ amount text_tokens [])]
        @ shown_if (pos (d_cacheTokens a))
            (tv t [32531, 23384, 36755, 20837, 65306, 123, 123, 116, 111, 107, 101, 110, 115, 125, 125,
     32, 47, 32, 49, 77, 32, 42, 32, 27169, 22411, 20493, 29575, 32, 123, 123, 109,
     111, 100, 101, 108, 82, 97, 116, 105, 111, 125, 125, 32, 42, 32, 32531, 23384,
     20493, 29575, 32, 123, 123, 99, 97, 99, 104, 101, 82, 97, 116, 105, 111, 125, 125,
     32, 42, 32, 123, 123, 114, 97, 116, 105, 111, 84, 121, 112, 101, 125, 125, 32,
     123, 123, 114, 97, 116, 105, 111, 125, 125, 32, 61, 32, 123, 123, 97, 109, 111,
     117, 110, 116, 125, 125]
              ([(''tokens'', d_cacheTokens a)] @ model @ [(''cacheRatio'', Num cache)] @ ratio @ amount (to_num (d_cacheTokens a)) [cache]))
        @ [tv t [25991, 23383, 36755, 20986, 65306, 123, 123, 116, 111, 107, 101, 110, 115, 125, 125,
     32, 47, 32, 49, 77, 32, 42, 32, 27169, 22411, 20493, 29575, 32, 123, 123, 109,
     111, 100, 101, 108, 82, 97, 116, 105, 111, 125, 125, 32, 42, 32, 34917, 20840,
     20493, 29575, 32, 123, 123, 99, 111, 109, 112, 108, 101, 116, 105, 111, 110, 82,
     97, 116, 105, 111, 125, 125, 32, 42, 32, 123, 123, 114, 97, 116, 105, 111, 84,
     121, 112, 101, 125, 125, 32, 123, 123, 114, 97, 116, 105, 111, 125, 125, 32, 61,
     32, 123, 123, 97, 109, 111, 117, 110, 116, 125, 125]
            ([(''tokens'', d_completionTokens a)] @ model @ [(''completionRatio'', Num completion)] @ ratio @ amount (to_num (d_completionTokens a)) [completion]),
          tv t [38899, 39057, 36755, 20837, 65306, 123, 123, 116, 111, 107, 101, 110, 115, 125, 125,
     32, 47, 32, 49, 77, 32, 42, 32, 27169, 22411, 20493, 29575, 32, 123, 123, 109,
     111, 100, 101, 108, 82, 97, 116, 105, 111, 125, 125, 32, 42, 32, 38899, 39057,
     20493, 29575, 32, 123, 123, 97, 117, 100, 105, 111, 82, 97, 116, 105, 111, 125,
     125, 32, 42, 32, 123, 123, 114, 97, 116, 105, 111, 84, 121, 112, 101, 125, 125,
     32, 123, 123, 114, 97, 116, 105, 111, 125, 125, 32, 61, 32, 123, 123, 97, 109,
     111, 117, 110, 116, 125, 125]
            ([(''tokens'', d_audioInputTokens a)] @ model @ [(''audioRatio'', Num audio)] @ ratio @ amount (to_num (d_audioInputTokens a)) [audio]),
          tv t [38899, 39057, 36755, 20986, 65306, 123, 123, 116, 111, 107, 101, 110, 115, 125, 125,
     32, 47, 32, 49, 77, 32, 42, 32, 27169, 22411, 20493, 29575, 32, 123, 123, 109,
     111, 100, 101, 108, 82, 97, 116, 105, 111, 125, 125, 32, 42, 32, 38899, 39057,
     20493, 29575, 32, 123, 123, 97, 117, 100, 105, 111, 82, 97, 116, 105, 111, 125,
     125, 32, 42, 32, 38899, 39057, 34917, 20840, 20493, 29575, 32, 123, 123, 97, 117,
     100, 105, 111, 67, 111, 109, 112, 108, 101, 116, 105, 111, 110, 82, 97, 116, 105,
     111, 125, 125, 32, 42, 32, 123, 123, 114, 97, 116, 105, 111, 84, 121, 112, 101,
     125, 125, 32, 123, 123, 114, 97, 116, 105, 111, 125, 125, 32, 61, 32, 123, 123,
     97, 109, 111, 117, 110, 116, 125, 125]
            ([(''tokens'', d_audioCompletionTokens a)] @ model @ [(''audioRatio'', Num audio), (''audioCompletionRatio'', Num acr)] @ ratio
             @ amount (to_num (d_audioCompletionTokens a)) [audio, acr]),
          tv t [21512, 35745, 65306, 25991, 23383, 37096, 20998, 32, 123, 123, 116, 101, 120, 116, 84,
     111, 116, 97, 108, 125, 125, 32, 43, 32, 38899, 39057, 37096, 20998, 32, 123, 123,
     97, 117, 100, 105, 111, 84, 111, 116, 97, 108, 125, 125, 32, 61, 32, 123, 123,
     116, 111, 116, 97, 108, 125, 125]
            [(''textTotal'', renderDisplayAmountFromUsd ls (Num textPrice)), (''audioTotal'', renderDisplayAmountFromUsd ls (Num audioPrice)),
             (''total'', renderDisplayAmountFromUsd ls (Num (num_add textPrice audioPrice)))],
          t txt_reference []]))"

definition renderAudioModelPrice :: "translate \<Rightarrow> storage \<Rightarrow> audio_args \<Rightarrow> view" where
  "renderAudioModelPrice t ls args =
     (let a = audio_defaults args; e = getEffectiveRatio t (d_groupRatio a) (d_user_group_ratio a) in
      if \<not> shouldUseRatioBillingProcess ls (d_modelPrice a) then
        (if is_fixed (d_modelPrice a) then fixed_article t ls (d_modelPrice a) e else audio_price_article t ls a e)
      else if is_fixed (d_modelPrice a) then fixed_line t ls (d_modelPrice a) e
      else audio_ratio_article t ls a e)"

section \<open>Claude models\<close>

record claude_args =
  k_inputTokens :: jsval
  k_completionTokens :: jsval
  k_modelRatio :: jsval
  k_modelPrice :: jsval
  k_completionRatio :: jsval
  k_groupRatio :: jsval
  k_user_group_ratio :: jsval
  k_cacheTokens :: jsval
  k_cacheRatio :: jsval
  k_cacheCreationTokens :: jsval
  k_cacheCreationRatio :: jsval
  k_cacheCreationTokens5m :: jsval
  k_cacheCreationRatio5m :: jsval
  k_cacheCreationTokens1h :: jsval
  k_cacheCreationRatio1h :: jsval

definition claude_defaults :: "claude_args \<Rightarrow> claude_args" where
  "claude_defaults a = a\<lparr>k_modelPrice := dflt (k_modelPrice a) minus1, k_completionRatio := dflt (k_completionRatio a) num0,
     k_cacheTokens := dflt (k_cacheTokens a) num0, k_cacheRatio := dflt (k_cacheRatio a) num1,
     k_cacheCreationTokens := dflt (k_cacheCreationTokens a) num0, k_cacheCreationRatio := dflt (k_cacheCreationRatio a) num1,
     k_cacheCreationTokens5m := dflt (k_cacheCreationTokens5m a) num0, k_cacheCreationRatio5m := dflt (k_cacheCreationRatio5m a) num1,
     k_cacheCreationTokens1h := dflt (k_cacheCreationTokens1h a) num0, k_cacheCreationRatio1h := dflt (k_cacheCreationRatio1h a) num1\<rparr>"

definition claude_split :: "claude_args \<Rightarrow> bool" where
  "claude_split a = has_split (k_cacheCreationTokens5m a) (k_cacheCreationTokens1h a)"

text \<open>The total for a reading \<open>f\<close> of the ratios; the sum starts with the input tokens as they are.\<close>

definition claude_total :: "(jsval \<Rightarrow> jsnum) \<Rightarrow> claude_args \<Rightarrow> jsnum \<Rightarrow> jsnum" where
  "claude_total f a g =
     (let irp = input_price (k_modelRatio a); legacy = (if claude_split a then num0 else k_cacheCreationTokens a);
          part = (\<lambda>tokens ratio. Num (num_mul (to_num tokens) (f ratio)));
          tokens = js_plus (js_plus (js_plus (js_plus (k_inputTokens a) (part (k_cacheTokens a) (k_cacheRatio a)))
            (part legacy (k_cacheCreationRatio a))) (part (k_cacheCreationTokens5m a) (k_cacheCreationRatio5m a)))
            (part (k_cacheCreationTokens1h a) (k_cacheCreationRatio1h a))
      in num_add (nprod (per_million (to_num tokens)) [irp, g])
           (nprod (per_million (to_num (k_completionTokens a))) [num_mul irp (f (k_completionRatio a)), g]))"

definition legacy_shown :: "claude_args \<Rightarrow> bool" where
  "legacy_shown a \<longleftrightarrow> \<not> claude_split a \<and> pos (k_cacheCreationTokens a)"

definition creation_shown :: "claude_args \<Rightarrow> jsval \<Rightarrow> bool" where
  "creation_shown a tokens \<longleftrightarrow> claude_split a \<and> pos tokens"

definition claude_unit :: "claude_args \<Rightarrow> jsval \<Rightarrow> jsnum" where
  "claude_unit a ratio = num_mul (input_price (k_modelRatio a)) (to_num ratio)"

definition breakdownText :: "translate \<Rightarrow> storage \<Rightarrow> claude_args \<Rightarrow> jsstr" where
  "breakdownText t ls a =
     (let segment = (\<lambda>key k tokens x. tv t key [(k, tokens), (''symbol'', symbol_of ls), (''price'', price6 ls x)])
      in join (js '' + '') ([segment [25552, 31034, 32, 123, 123, 105, 110, 112, 117, 116, 125, 125, 32, 116, 111, 107, 101,
     110, 115, 32, 47, 32, 49, 77, 32, 116, 111, 107, 101, 110, 115, 32, 42, 32, 123,
     123, 115, 121, 109, 98, 111, 108, 125, 125, 123, 123, 112, 114, 105, 99, 101, 125,
     125] ''input'' (k_inputTokens a) (input_price (k_modelRatio a))]
        @ shown_if (pos (k_cacheTokens a))
            (segment [32531, 23384, 32, 123, 123, 116, 111, 107, 101, 110, 115, 125, 125, 32, 116, 111, 107,
     101, 110, 115, 32, 47, 32, 49, 77, 32, 116, 111, 107, 101, 110, 115, 32, 42, 32,
     123, 123, 115, 121, 109, 98, 111, 108, 125, 125, 123, 123, 112, 114, 105, 99, 101,
     125, 125] ''tokens'' (k_cacheTokens a) (claude_unit a (k_cacheRatio a)))
        @ shown_if (legacy_shown a)
            (segment [32531, 23384, 21019, 24314, 32, 123, 123, 116, 111, 107, 101, 110, 115, 125, 125, 32,
     116, 111, 107, 101, 110, 115, 32, 47, 32, 49, 77, 32, 116, 111, 107, 101, 110,
     115, 32, 42, 32, 123, 123, 115, 121, 109, 98, 111, 108, 125, 125, 123, 123, 112,
     114, 105, 99, 101, 125, 125] ''tokens'' (k_cacheCreationTokens a) (claude_unit a (k_cacheCreationRatio a)))
        @ shown_if (creation_shown a (k_cacheCreationTokens5m a))
            (segment [53, 109, 32531, 23384, 21019, 24314, 32, 123, 123, 116, 111, 107, 101, 110, 115, 125,
     125, 32, 116, 111, 107, 101, 110, 115, 32, 47, 32, 49, 77, 32, 116, 111, 107, 101,
     110, 115, 32, 42, 32, 123, 123, 115, 121, 109, 98, 111, 108, 125, 125, 123, 123,
     112, 114, 105, 99, 101, 125, 125] ''tokens'' (k_cacheCreationTokens5m a) (claude_unit a (k_cacheCreationRatio5m a)))
        @ shown_if (creation_shown a (k_cacheCreationTokens1h a))
            (segment [49, 104, 32531, 23384, 21019, 24314, 32, 123, 123, 116, 111, 107, 101, 110, 115, 125,
     125, 32, 116, 111, 107, 101, 110, 115, 32, 47, 32, 49, 77, 32, 116, 111, 107, 101,
     110, 115, 32, 42, 32, 123, 123, 115, 121, 109, 98, 111, 108, 125, 125, 123, 123,
     112, 114, 105, 99, 101, 125, 125] ''tokens'' (k_cacheCreationTokens1h a) (claude_unit a (k_cacheCreationRatio1h a)))
        @ [segment [34917, 20840, 32, 123, 123, 99, 111, 109, 112, 108, 101, 116, 105, 111, 110, 125, 125,
     32, 116, 111, 107, 101, 110, 115, 32, 47, 32, 49, 77, 32, 116, 111, 107, 101, 110,
     115, 32, 42, 32, 123, 123, 115, 121, 109, 98, 111, 108, 125, 125, 123, 123, 112,
     114, 105, 99, 101, 125, 125] ''completion'' (k_completionTokens a) (claude_unit a (k_completionRatio a))]))"

definition claude_price_article :: "translate \<Rightarrow> storage \<Rightarrow> claude_args \<Rightarrow> effective \<Rightarrow> view" where
  "claude_price_article t ls a e =
     (let mt = million_text t ls
      in Article ([mt [36755, 20837, 20215, 26684, 65306, 123, 123, 115, 121, 109, 98, 111, 108, 125, 125,
     123, 123, 112, 114, 105, 99, 101, 125, 125, 32, 47, 32, 49, 77, 32, 116, 111, 107,
     101, 110, 115] (input_price (k_modelRatio a)),
          mt [34917, 20840, 20215, 26684, 65306, 123, 123, 115, 121, 109, 98, 111, 108, 125, 125,
     123, 123, 112, 114, 105, 99, 101, 125, 125, 32, 47, 32, 49, 77, 32, 116, 111, 107,
     101, 110, 115] (claude_unit a (k_completionRatio a))]
        @ shown_if (pos (k_cacheTokens a)) (mt [32531, 23384, 35835, 21462, 20215, 26684, 65306, 123, 123, 115, 121, 109, 98, 111, 108,
     125, 125, 123, 123, 112, 114, 105, 99, 101, 125, 125, 32, 47, 32, 49, 77, 32, 116,
     111, 107, 101, 110, 115] (claude_unit a (k_cacheRatio a)))
        @ shown_if (legacy_shown a) (mt [32531, 23384, 21019, 24314, 20215, 26684, 65306, 123, 123, 115, 121, 109, 98, 111, 108,
     125, 125, 123, 123, 112, 114, 105, 99, 101, 125, 125, 32, 47, 32, 49, 77, 32, 116,
     111, 107, 101, 110, 115] (claude_unit a (k_cacheCreationRatio a)))
        @ shown_if (creation_shown a (k_cacheCreationTokens5m a)) (mt [53, 109, 32531, 23384, 21019, 24314, 20215, 26684, 65306, 123, 123, 115, 121, 109, 98,
     111, 108, 125, 125, 123, 123, 112, 114, 105, 99, 101, 125, 125, 32, 47, 32, 49,
     77, 32, 116, 111, 107, 101, 110, 115] (claude_unit a (k_cacheCreationRatio5m a)))
        @ shown_if (creation_shown a (k_cacheCreationTokens1h a)) (mt [49, 104, 32531, 23384, 21019, 24314, 20215, 26684, 65306, 123, 123, 115, 121, 109, 98,
     111, 108, 125, 125, 123, 123, 112, 114, 105, 99, 101, 125, 125, 32, 47, 32, 49,
     77, 32, 116, 111, 107, 101, 110, 115] (claude_unit a (k_cacheCreationRatio1h a)))
        @ [tv t [123, 123, 98, 114, 101, 97, 107, 100, 111, 119, 110, 125, 125, 32, 42, 32, 123, 123,
     114, 97, 116, 105, 111, 84, 121, 112, 101, 125, 125, 32, 123, 123, 114, 97, 116,
     105, 111, 125, 125, 32, 61, 32, 123, 123, 115, 121, 109, 98, 111, 108, 125, 125,
     123, 123, 116, 111, 116, 97, 108, 125, 125]
             [(''breakdown'', Str (breakdownText t ls a)), (''ratioType'', e_label e), (''ratio'', e_ratio e), (''symbol'', symbol_of ls),
              (''total'', price6 ls (claude_total to_num a (to_num (e_ratio e))))],
           t txt_reference []]))"

definition claude_ratio_article :: "translate \<Rightarrow> storage \<Rightarrow> claude_args \<Rightarrow> effective \<Rightarrow> view" where
  "claude_ratio_article t ls a e =
     (let r = (\<lambda>v. Num (formatRatioValue v)); model = [(''modelRatio'', r (k_modelRatio a))]; ratio = [(''ratioType'', e_label e), (''ratio'', e_ratio e)];
          amount = (\<lambda>tokens factors. [(''amount'', renderDisplayAmountFromUsd ls
            (Num (nprod (per_million (to_num tokens)) (input_price (k_modelRatio a) # factors @ [to_num (e_ratio e)]))))]);
          line = (\<lambda>key tokens k v. tv t key ([(''tokens'', tokens)] @ model @ [(k, r v)] @ ratio @ amount tokens [formatRatioValue v]))
      in Article ([tv t [27169, 22411, 20493, 29575, 32, 123, 123, 109, 111, 100, 101, 108, 82, 97, 116, 105,
     111, 125, 125, 65292, 36755, 20986, 20493, 29575, 32, 123, 123, 99, 111, 109, 112,
     108, 101, 116, 105, 111, 110, 82, 97, 116, 105, 111, 125, 125, 65292, 32531,
     23384, 20493, 29575, 32, 123, 123, 99, 97, 99, 104, 101, 82, 97, 116, 105, 111,
     125, 125, 65292, 123, 123, 114, 97, 116, 105, 111, 84, 121, 112, 101, 125, 125,
     32, 123, 123, 114, 97, 116, 105, 111, 125, 125]
            (model @ [(''completionRatio'', r (k_completionRatio a)), (''cacheRatio'', r (k_cacheRatio a))] @ ratio),
          if claude_split a then tv t [32531, 23384, 21019, 24314, 20493, 29575, 32, 53, 109, 32, 123, 123, 99, 97, 99, 104,
     101, 67, 114, 101, 97, 116, 105, 111, 110, 82, 97, 116, 105, 111, 53, 109, 125,
     125, 32, 47, 32, 49, 104, 32, 123, 123, 99, 97, 99, 104, 101, 67, 114, 101, 97,
     116, 105, 111, 110, 82, 97, 116, 105, 111, 49, 104, 125, 125]
              [(''cacheCreationRatio5m'', r (k_cacheCreationRatio5m a)), (''cacheCreationRatio1h'', r (k_cacheCreationRatio1h a))]
            else tv t [32531, 23384, 21019, 24314, 20493, 29575, 32, 123, 123, 99, 97, 99, 104, 101, 67, 114,
     101, 97, 116, 105, 111, 110, 82, 97, 116, 105, 111, 125, 125] [(''cacheCreationRatio'', r (k_cacheCreationRatio a))],
          tv t [26222, 36890, 36755, 20837, 65306, 123, 123, 116, 111, 107, 101, 110, 115, 125, 125,
     32, 47, 32, 49, 77, 32, 42, 32, 27169, 22411, 20493, 29575, 32, 123, 123, 109,
     111, 100, 101, 108, 82, 97, 116, 105, 111, 125, 125, 32, 42, 32, 123, 123, 114,
     97, 116, 105, 111, 84, 121, 112, 101, 125, 125, 32, 123, 123, 114, 97, 116, 105,
     111, 125, 125, 32, 61, 32, 123, 123, 97, 109, 111, 117, 110, 116, 125, 125]
            ([(''tokens'', k_inputTokens a)] @ model @ ratio @ amount (k_inputTokens a) [])]
        @ shown_if (pos (k_cacheTokens a))
            (line [32531, 23384, 35835, 21462, 65306, 123, 123, 116, 111, 107, 101, 110, 115, 125, 125,
     32, 47, 32, 49, 77, 32, 42, 32, 27169, 22411, 20493, 29575, 32, 123, 123, 109,
     111, 100, 101, 108, 82, 97, 116, 105, 111, 125, 125, 32, 42, 32, 32531, 23384,
     20493, 29575, 32, 123, 123, 99, 97, 99, 104, 101, 82, 97, 116, 105, 111, 125, 125,
     32, 42, 32, 123, 123, 114, 97, 116, 105, 111, 84, 121, 112, 101, 125, 125, 32,
     123, 123, 114, 97, 116, 105, 111, 125, 125, 32, 61, 32, 123, 123, 97, 109, 111,
     117, 110, 116, 125, 125]
              (k_cacheTokens a) ''cacheRatio'' (k_cacheRatio a))
        @ shown_if (legacy_shown a)
            (line [32531, 23384, 21019, 24314, 65306, 123, 123, 116, 111, 107, 101, 110, 115, 125, 125,
     32, 47, 32, 49, 77, 32, 42, 32, 27169, 22411, 20493, 29575, 32, 123, 123, 109,
     111, 100, 101, 108, 82, 97, 116, 105, 111, 125, 125, 32, 42, 32, 32531, 23384,
     21019, 24314, 20493, 29575, 32, 123, 123, 99, 97, 99, 104, 101, 67, 114, 101, 97,
     116, 105, 111, 110, 82, 97, 116, 105, 111, 125, 125, 32, 42, 32, 123, 123, 114,
     97, 116, 105, 111, 84, 121, 112, 101, 125, 125, 32, 123, 123, 114, 97, 116, 105,
     111, 125, 125, 32, 61, 32, 123, 123, 97, 109, 111, 117, 110, 116, 125, 125]
              (k_cacheCreationTokens a) ''cacheCreationRatio'' (k_cacheCreationRatio a))
        @ shown_if (creation_shown a (k_cacheCreationTokens5m a))
            (line [53, 109, 32531, 23384, 21019, 24314, 65306, 123, 123, 116, 111, 107, 101, 110, 115,
     125, 125, 32, 47, 32, 49, 77, 32, 42, 32, 27169, 22411, 20493, 29575, 32, 123,
     123, 109, 111, 100, 101, 108, 82, 97, 116, 105, 111, 125, 125, 32, 42, 32, 53,
     109, 32531, 23384, 21019, 24314, 20493, 29575, 32, 123, 123, 99, 97, 99, 104, 101,
     67, 114, 101, 97, 116, 105, 111, 110, 82, 97, 116, 105, 111, 53, 109, 125, 125,
     32, 42, 32, 123, 123, 114, 97, 116, 105, 111, 84, 121, 112, 101, 125, 125, 32,
     123, 123, 114, 97, 116, 105, 111, 125, 125, 32, 61, 32, 123, 123, 97, 109, 111,
     117, 110, 116, 125, 125]
              (k_cacheCreationTokens5m a) ''cacheCreationRatio5m'' (k_cacheCreationRatio5m a))
        @ shown_if (creation_shown a (k_cacheCreationTokens1h a))
            (line [49, 104, 32531, 23384, 21019, 24314, 65306, 123, 123, 116, 111, 107, 101, 110, 115,
     125, 125, 32, 47, 32, 49, 77, 32, 42, 32, 27169, 22411, 20493, 29575, 32, 123,
     123, 109, 111, 100, 101, 108, 82, 97, 116, 105, 111, 125, 125, 32, 42, 32, 49,
     104, 32531, 23384, 21019, 24314, 20493, 29575, 32, 123, 123, 99, 97, 99, 104, 101,
     67, 114, 101, 97, 116, 105, 111, 110, 82, 97, 116, 105, 111, 49, 104, 125, 125,
     32, 42, 32, 123, 123, 114, 97, 116, 105, 111, 84, 121, 112, 101, 125, 125, 32,
     123, 123, 114, 97, 116, 105, 111, 125, 125, 32, 61, 32, 123, 123, 97, 109, 111,
     117, 110, 116, 125, 125]
              (k_cacheCreationTokens1h a) ''cacheCreationRatio1h'' (k_cacheCreationRatio1h a))
        @ [tv t [34917, 20840, 32, 123, 123, 99, 111, 109, 112, 108, 101, 116, 105, 111, 110, 125, 125,
     32, 116, 111, 107, 101, 110, 115, 32, 42, 32, 36755, 20986, 20493, 29575, 32, 123,
     123, 99, 111, 109, 112, 108, 101, 116, 105, 111, 110, 82, 97, 116, 105, 111, 125,
     125]
             [(''completion'', k_completionTokens a), (''completionRatio'', r (k_completionRatio a))],
           line [36755, 20986, 65306, 123, 123, 116, 111, 107, 101, 110, 115, 125, 125, 32, 47, 32, 49,
     77, 32, 42, 32, 27169, 22411, 20493, 29575, 32, 123, 123, 109, 111, 100, 101, 108,
     82, 97, 116, 105, 111, 125, 125, 32, 42, 32, 36755, 20986, 20493, 29575, 32, 123,
     123, 99, 111, 109, 112, 108, 101, 116, 105, 111, 110, 82, 97, 116, 105, 111, 125,
     125, 32, 42, 32, 123, 123, 114, 97, 116, 105, 111, 84, 121, 112, 101, 125, 125,
     32, 123, 123, 114, 97, 116, 105, 111, 125, 125, 32, 61, 32, 123, 123, 97, 109,
     111, 117, 110, 116, 125, 125]
             (k_completionTokens a) ''completionRatio'' (k_completionRatio a),
           tv t [21512, 35745, 65306, 123, 123, 116, 111, 116, 97, 108, 125, 125]
             [(''total'', renderDisplayAmountFromUsd ls (Num (claude_total formatRatioValue a (to_num (e_ratio e)))))],
           t txt_reference []]))"

definition renderClaudeModelPrice :: "translate \<Rightarrow> storage \<Rightarrow> claude_args \<Rightarrow> view" where
  "renderClaudeModelPrice t ls args =
     (let a = claude_defaults args; e = getEffectiveRatio t (k_groupRatio a) (k_user_group_ratio a) in
      if \<not> shouldUseRatioBillingProcess ls (k_modelPrice a) then
        (if is_fixed (k_modelPrice a) then fixed_article t ls (k_modelPrice a) e else claude_price_article t ls a e)
      else if is_fixed (k_modelPrice a) then fixed_line t ls (k_modelPrice a) e
      else claude_ratio_article t ls a e)"

text \<open>The group ratio is replaced by the one in use before \<open>getGroupRatioText\<close> is called.\<close>

definition claude_log_price_parts :: "translate \<Rightarrow> storage \<Rightarrow> claude_args \<Rightarrow> effective \<Rightarrow> jsstr list" where
  "claude_log_price_parts t ls a e =
     (let mt = million_text t ls
      in [mt [36755, 20837, 20215, 26684, 32, 123, 123, 115, 121, 109, 98, 111, 108, 125, 125, 123,
     123, 112, 114, 105, 99, 101, 125, 125, 32, 47, 32, 49, 77, 32, 116, 111, 107, 101,
     110, 115] (input_price (k_modelRatio a)), mt [34917, 20840, 20215, 26684, 32, 123, 123, 115, 121, 109, 98, 111, 108, 125, 125, 123,
     123, 112, 114, 105, 99, 101, 125, 125, 32, 47, 32, 49, 77, 32, 116, 111, 107, 101,
     110, 115] (claude_unit a (k_completionRatio a)),
          mt [32531, 23384, 35835, 21462, 20215, 26684, 32, 123, 123, 115, 121, 109, 98, 111, 108,
     125, 125, 123, 123, 112, 114, 105, 99, 101, 125, 125, 32, 47, 32, 49, 77, 32, 116,
     111, 107, 101, 110, 115] (claude_unit a (k_cacheRatio a))]
         @ shown_if (creation_shown a (k_cacheCreationTokens5m a)) (mt [53, 109, 32531, 23384, 21019, 24314, 20215, 26684, 32, 123, 123, 115, 121, 109, 98,
     111, 108, 125, 125, 123, 123, 112, 114, 105, 99, 101, 125, 125, 32, 47, 32, 49,
     77, 32, 116, 111, 107, 101, 110, 115] (claude_unit a (k_cacheCreationRatio5m a)))
         @ shown_if (creation_shown a (k_cacheCreationTokens1h a)) (mt [49, 104, 32531, 23384, 21019, 24314, 20215, 26684, 32, 123, 123, 115, 121, 109, 98,
     111, 108, 125, 125, 123, 123, 112, 114, 105, 99, 101, 125, 125, 32, 47, 32, 49,
     77, 32, 116, 111, 107, 101, 110, 115] (claude_unit a (k_cacheCreationRatio1h a)))
         @ shown_if (\<not> claude_split a) (mt [32531, 23384, 21019, 24314, 20215, 26684, 32, 123, 123, 115, 121, 109, 98, 111, 108,
     125, 125, 123, 123, 112, 114, 105, 99, 101, 125, 125, 32, 47, 32, 49, 77, 32, 116,
     111, 107, 101, 110, 115] (claude_unit a (k_cacheCreationRatio a)))
         @ [getGroupRatioText t (e_ratio e) (k_user_group_ratio a)])"

text \<open>A blank translation of the split ratios falls back to the single one.\<close>

definition cacheCreationPart :: "translate \<Rightarrow> claude_args \<Rightarrow> jsstr" where
  "cacheCreationPart t a =
     (let five = creation_shown a (k_cacheCreationTokens5m a); hour = creation_shown a (k_cacheCreationTokens1h a);
          r5 = (''cacheCreationRatio5m'', k_cacheCreationRatio5m a); r1 = (''cacheCreationRatio1h'', k_cacheCreationRatio1h a);
          part = (if five \<and> hour then tv t [32531, 23384, 21019, 24314, 20493, 29575, 32, 53, 109, 32, 123, 123, 99, 97, 99, 104,
     101, 67, 114, 101, 97, 116, 105, 111, 110, 82, 97, 116, 105, 111, 53, 109, 125,
     125, 32, 47, 32, 49, 104, 32, 123, 123, 99, 97, 99, 104, 101, 67, 114, 101, 97,
     116, 105, 111, 110, 82, 97, 116, 105, 111, 49, 104, 125, 125] [r5, r1]
            else if five then tv t [32531, 23384, 21019, 24314, 20493, 29575, 32, 53, 109, 32, 123, 123, 99, 97, 99, 104,
     101, 67, 114, 101, 97, 116, 105, 111, 110, 82, 97, 116, 105, 111, 53, 109, 125, 125] [r5]
            else if hour then tv t [32531, 23384, 21019, 24314, 20493, 29575, 32, 49, 104, 32, 123, 123, 99, 97, 99, 104,
     101, 67, 114, 101, 97, 116, 105, 111, 110, 82, 97, 116, 105, 111, 49, 104, 125, 125] [r1] else [])
      in if part = [] then tv t [32531, 23384, 21019, 24314, 20493, 29575, 32, 123, 123, 99, 97, 99, 104, 101, 67, 114,
     101, 97, 116, 105, 111, 110, 82, 97, 116, 105, 111, 125, 125] [(''cacheCreationRatio'', k_cacheCreationRatio a)] else part)"

definition renderClaudeLogContent :: "translate \<Rightarrow> storage \<Rightarrow> claude_args \<Rightarrow> jsval \<Rightarrow> jsstr" where
  "renderClaudeLogContent t ls args displayMode =
     (let cr = k_completionRatio args; a = (claude_defaults args)\<lparr>k_completionRatio := cr\<rparr>;
          e = getEffectiveRatio t (k_groupRatio a) (k_user_group_ratio a); ratio = [(''ratioType'', e_label e), (''ratio'', e_ratio e)]
      in if isPriceDisplayMode ls (dflt displayMode (Str (js ''price''))) (k_modelPrice a) then
           joinBillingSummary (if is_fixed (k_modelPrice a)
             then [per_call_text t ls (k_modelPrice a), getGroupRatioText t (e_ratio e) (k_user_group_ratio a)] else claude_log_price_parts t ls a e)
         else if is_fixed (k_modelPrice a) then
           tv t [27169, 22411, 20215, 26684, 32, 123, 123, 115, 121, 109, 98, 111, 108, 125, 125, 123,
     123, 112, 114, 105, 99, 101, 125, 125, 65292, 123, 123, 114, 97, 116, 105, 111,
     84, 121, 112, 101, 125, 125, 32, 123, 123, 114, 97, 116, 105, 111, 125, 125]
             ([(''symbol'', symbol_of ls), (''price'', price6 ls (to_num (k_modelPrice a)))] @ ratio)
         else join [65292] [tv t [27169, 22411, 20493, 29575, 32, 123, 123, 109, 111, 100, 101, 108, 82, 97, 116, 105,
     111, 125, 125] [(''modelRatio'', k_modelRatio a)], tv t [36755, 20986, 20493, 29575, 32, 123, 123, 99, 111, 109, 112, 108, 101, 116, 105, 111,
     110, 82, 97, 116, 105, 111, 125, 125] [(''completionRatio'', k_completionRatio a)],
           tv t [32531, 23384, 20493, 29575, 32, 123, 123, 99, 97, 99, 104, 101, 82, 97, 116, 105, 111,
     125, 125] [(''cacheRatio'', k_cacheRatio a)], cacheCreationPart t a, tv t [123, 123, 114, 97, 116, 105, 111, 84, 121, 112, 101, 125, 125, 32, 123, 123, 114, 97,
     116, 105, 111, 125, 125] ratio])"

section \<open>What the articles say\<close>

text \<open>The fixed price of the ratio process is never shown: the three functions always give an article.\<close>

lemma price_is_article:
  "\<exists>ps. renderModelPrice t ls a = Article ps" "\<exists>ps. renderAudioModelPrice t ls d = Article ps" "\<exists>ps. renderClaudeModelPrice t ls k = Article ps"
  by (simp_all add: renderModelPrice_def renderAudioModelPrice_def renderClaudeModelPrice_def Let_def shouldUseRatioBillingProcess_def
      is_fixed_def fixed_article_def price_article_def ratio_article_def audio_price_article_def audio_ratio_article_def
      claude_price_article_def claude_ratio_article_def)

text \<open>The line with the total is the last but one.\<close>

definition total_line :: "view \<Rightarrow> jsstr" where
  "total_line v = (case v of Article ps \<Rightarrow> last (butlast ps) | Plain s \<Rightarrow> s)"

lemma total_line_end [simp]: "total_line (Article (ps @ [x, y])) = x"
  by (simp add: total_line_def butlast_append)

text \<open>C33: Once a request has image tokens, the price shown forgets the discount for cached tokens: the line with the total is the
  same for every number of cached tokens and every cache ratio.\<close>

theorem image_total_ignores_cache:
  assumes "b_image a" "pos (dflt (b_imageOutputTokens a) num0)" "getQuotaDisplayType ls \<noteq> js ''TOKENS''"
  shows "total_line (renderModelPrice t ls (a\<lparr>b_cacheTokens := c, b_cacheRatio := r\<rparr>)) = total_line (renderModelPrice t ls a)"
proof -
  let ?a = "model_defaults a" and ?b = "model_defaults (a\<lparr>b_cacheTokens := c, b_cacheRatio := r\<rparr>)"
  have same:
    "b_inputTokens ?b = b_inputTokens ?a" "b_completionTokens ?b = b_completionTokens ?a" "b_modelRatio ?b = b_modelRatio ?a"
    "b_modelPrice ?b = b_modelPrice ?a" "b_completionRatio ?b = b_completionRatio ?a" "b_groupRatio ?b = b_groupRatio ?a"
    "b_user_group_ratio ?b = b_user_group_ratio ?a" "b_image ?b = b_image ?a" "b_imageRatio ?b = b_imageRatio ?a"
    "b_imageOutputTokens ?b = b_imageOutputTokens ?a" "b_webSearch ?b = b_webSearch ?a" "b_webSearchCallCount ?b = b_webSearchCallCount ?a"
    "b_webSearchPrice ?b = b_webSearchPrice ?a" "b_fileSearch ?b = b_fileSearch ?a" "b_fileSearchCallCount ?b = b_fileSearchCallCount ?a"
    "b_fileSearchPrice ?b = b_fileSearchPrice ?a" "b_audioInputSeperatePrice ?b = b_audioInputSeperatePrice ?a" "b_audioInputTokens ?b = b_audioInputTokens ?a"
    "b_audioInputPrice ?b = b_audioInputPrice ?a" "b_imageGenerationCall ?b = b_imageGenerationCall ?a" "b_imageGenerationCallPrice ?b = b_imageGenerationCallPrice ?a"
    by (simp_all add: model_defaults_def)
  have i: "has_image ?a" using assms(1,2) by (simp add: has_image_def model_defaults_def)
  have ib: "has_image ?b = has_image ?a" unfolding has_image_def same ..
  have "effective_input ?b = effective_input ?a" unfolding effective_input_def ib same Let_def using i by simp
  then have p: "model_price ?b g = model_price ?a g" for g unfolding model_price_def same by simp
  have d: "inputDesc t ls ?b = inputDesc t ls ?a" unfolding inputDesc_def ib same Let_def using i by simp
  have oe: "outputDesc t ls ?b e = outputDesc t ls ?a e" "extraServices t ls ?b e = extraServices t ls ?a e" for e
    unfolding outputDesc_def extraServices_def web_shown_def file_shown_def generation_shown_def same by (rule refl)+
  have "total_line (price_article t ls ?b e) = total_line (price_article t ls ?a e)" for e
    unfolding price_article_def total_line_end by (simp only: p d oe)
  then show ?thesis using assms(3) by (simp add: renderModelPrice_def shouldUseRatioBillingProcess_def Let_def same)
qed

text \<open>A million input tokens, all of an image, at the ratio 1.\<close>

definition demo_args :: model_args where
  "demo_args = \<lparr>b_inputTokens = Num (Fin False 1000000), b_completionTokens = num0, b_modelRatio = num1, b_modelPrice = minus1, b_completionRatio = num1,
     b_groupRatio = num1, b_user_group_ratio = Undef, b_cacheTokens = num0, b_cacheRatio = num1, b_image = True, b_imageRatio = num1,
     b_imageOutputTokens = Num (Fin False 1000000), b_webSearch = False, b_webSearchCallCount = num0, b_webSearchPrice = num0, b_fileSearch = False,
     b_fileSearchCallCount = num0, b_fileSearchPrice = num0, b_audioInputSeperatePrice = False, b_audioInputTokens = num0, b_audioInputPrice = num0,
     b_imageGenerationCall = False, b_imageGenerationCallPrice = num0\<rparr>"

theorem image_total_ignores_cache_witness:
  "total_line (renderModelPrice (\<lambda>s _. s) \<lparr>ls_quota_display_type = None, ls_status = None, ls_quota_per_unit = None\<rparr>
     (demo_args\<lparr>b_cacheTokens := Num (Fin False 500000), b_cacheRatio := num0\<rparr>)) =
   total_line (renderModelPrice (\<lambda>s _. s) \<lparr>ls_quota_display_type = None, ls_status = None, ls_quota_per_unit = None\<rparr> demo_args)"
  by (rule image_total_ignores_cache) (simp_all add: demo_args_def pos_def dflt_def getQuotaDisplayType_def)

text \<open>In the ratio process the same tokens count twice, as text and as an image.\<close>

lemma image_counted_twice:
  "model_price demo_args (Fin False 1) = Fin False 2" "total_amount (ratio_amounts demo_args (Fin False 1)) = Fin False 4"
  by code_simp+

section \<open>Both displays of a Claude request\<close>

definition six_decimals :: "jsval \<Rightarrow> int \<Rightarrow> bool" where
  "six_decimals v k \<longleftrightarrow> 0 \<le> k \<and> k \<le> 10 ^ 12 \<and> v = Num (mk_num False (of_int k / 10 ^ 6))"

lemma formatRatioValue_six:
  assumes "six_decimals v k"
  shows "formatRatioValue v = to_num v"
proof -
  define q :: rat where "q = of_int k / 10 ^ 6"
  have k: "0 \<le> k" "(of_int k :: rat) \<le> 10 ^ 12" using assms by (simp_all add: six_decimals_def)
  have q: "0 \<le> q" "q \<le> 10 ^ 6" using k by (simp_all add: q_def)
  have e: "\<bar>rnd_mag q - q\<bar> \<le> ulp * q"
  proof (cases "k = 0")
    case False
    then have "1 / 10 ^ 30 \<le> q" using k(1) by (simp add: q_def)
    moreover have "(2 :: rat) powi (- 1022) \<le> 1 / 10 ^ 30" by (rule powi2_small) simp
    ultimately show ?thesis by (intro rnd_mag_rel) (rule order_trans)
  qed (simp add: q_def)
  have "\<bar>rnd_mag q - q\<bar> < 1 / 2 / 10 ^ 6" using e q by simp
  then have f: "\<lfloor>rnd_mag q * 10 ^ 6 + 1 / 2\<rfloor> = k" unfolding q_def by (rule round_fixed)
  have "\<bar>rnd_mag q - q\<bar> \<le> q" using e q by simp
  then have m: "0 \<le> rnd_mag q" "rnd_mag q < 10 ^ 17" using q rnd_mag_nonneg [OF q(1)] by (linarith | simp add: abs_le_iff)+
  have v: "to_num v = Fin False (rnd_mag q)" using assms double_mag_rnd [OF q(1) m(2)] by (simp add: six_decimals_def q_def)
  have "to_number (to_fixed 6 (Fin False (rnd_mag q))) = mk_num False (of_int k / 10 ^ 6)"
    using read_numeral(1) [OF scan_fixed_digits(2) [OF k(1)] scan_fixed_digits(3) [OF k(1)] scan_fixed_digits(1) [OF k(1)], of False] m f by simp
  also have "\<dots> = Fin False (rnd_mag q)" using double_mag_rnd [OF q(1) m(2)] by (simp add: q_def)
  finally show ?thesis by (simp add: formatRatioValue_def v)
qed

text \<open>C34: For ratios of at most six decimals both displays of a Claude request explain the same total: the price in the currency and
  the amount of the ratio process are computed from one number.\<close>

theorem claude_modes_agree:
  assumes "six_decimals (k_completionRatio a) c" "six_decimals (k_cacheRatio a) r" "six_decimals (k_cacheCreationRatio a) n"
    and "six_decimals (k_cacheCreationRatio5m a) f" "six_decimals (k_cacheCreationRatio1h a) h"
  shows "\<exists>total. total_line (claude_price_article t ls a e) =
      tv t [123, 123, 98, 114, 101, 97, 107, 100, 111, 119, 110, 125, 125, 32, 42, 32, 123, 123,
     114, 97, 116, 105, 111, 84, 121, 112, 101, 125, 125, 32, 123, 123, 114, 97, 116,
     105, 111, 125, 125, 32, 61, 32, 123, 123, 115, 121, 109, 98, 111, 108, 125, 125,
     123, 123, 116, 111, 116, 97, 108, 125, 125] [(''breakdown'', Str (breakdownText t ls a)),
        (''ratioType'', e_label e), (''ratio'', e_ratio e), (''symbol'', symbol_of ls), (''total'', price6 ls total)] \<and>
    total_line (claude_ratio_article t ls' a e) = tv t [21512, 35745, 65306, 123, 123, 116, 111, 116, 97, 108, 125, 125] [(''total'', renderDisplayAmountFromUsd ls' (Num total))]"
proof -
  have "claude_total formatRatioValue a g = claude_total to_num a g" for g
    unfolding claude_total_def Let_def assms [THEN formatRatioValue_six] ..
  moreover have "total_line (Article (ps @ [x, y, z])) = y" "total_line (Article (ps @ qs @ [w, x, y, z])) = y" for ps qs w x y z
    using total_line_end [of "ps @ [x]" y z] total_line_end [of "ps @ qs @ [w, x]" y z] by simp_all
  ultimately show ?thesis
    by (intro exI [of _ "claude_total to_num a (to_num (e_ratio e))"])
      (simp add: claude_price_article_def claude_ratio_article_def Let_def total_line_def butlast_append)
qed

definition demo_claude_args :: claude_args where
  "demo_claude_args = \<lparr>k_inputTokens = Num (Fin False 1000), k_completionTokens = Num (Fin False 10), k_modelRatio = num1, k_modelPrice = minus1,
     k_completionRatio = Num (mk_num False (5000000 / 10 ^ 6)), k_groupRatio = num1, k_user_group_ratio = Undef, k_cacheTokens = Num (Fin False 100),
     k_cacheRatio = Num (mk_num False (100000 / 10 ^ 6)), k_cacheCreationTokens = num0, k_cacheCreationRatio = Num (mk_num False (1250000 / 10 ^ 6)),
     k_cacheCreationTokens5m = num0, k_cacheCreationRatio5m = Num (mk_num False (1250000 / 10 ^ 6)), k_cacheCreationTokens1h = Num (Fin False 7),
     k_cacheCreationRatio1h = Num (mk_num False (2000000 / 10 ^ 6))\<rparr>"

theorem claude_modes_agree_witness:
  "\<exists>total. total_line (claude_price_article (\<lambda>s _. s) demo_storage demo_claude_args \<lparr>e_ratio = num1, e_label = Str [], e_useUserGroupRatio = False\<rparr>) =
      tv (\<lambda>s _. s) [123, 123, 98, 114, 101, 97, 107, 100, 111, 119, 110, 125, 125, 32, 42, 32, 123, 123,
     114, 97, 116, 105, 111, 84, 121, 112, 101, 125, 125, 32, 123, 123, 114, 97, 116,
     105, 111, 125, 125, 32, 61, 32, 123, 123, 115, 121, 109, 98, 111, 108, 125, 125,
     123, 123, 116, 111, 116, 97, 108, 125, 125] [(''breakdown'', Str (breakdownText (\<lambda>s _. s) demo_storage demo_claude_args)),
        (''ratioType'', Str []), (''ratio'', num1), (''symbol'', symbol_of demo_storage), (''total'', price6 demo_storage total)] \<and>
    total_line (claude_ratio_article (\<lambda>s _. s) demo_storage demo_claude_args \<lparr>e_ratio = num1, e_label = Str [], e_useUserGroupRatio = False\<rparr>) =
      tv (\<lambda>s _. s) [21512, 35745, 65306, 123, 123, 116, 111, 116, 97, 108, 125, 125] [(''total'', renderDisplayAmountFromUsd demo_storage (Num total))]"
  using claude_modes_agree [of demo_claude_args 5000000 100000 1250000 1250000 2000000 "\<lambda>s _. s" demo_storage
      "\<lparr>e_ratio = num1, e_label = Str [], e_useUserGroupRatio = False\<rparr>" demo_storage]
  by (simp add: six_decimals_def demo_claude_args_def)

end
