(* ===== verification/Spec2Isabelle.thy ===== *)
theory Spec2Isabelle
  imports Js_Json Status_Code_Rules Pricing_Rules Pricing_Save Pricing_Editor Param_Editor
    Sidebar Secure_Verification Upstream_Updates Api_Client Model_Catalog Channel_Roundtrip Channel_Table
    Settings_Monitoring Bill
begin

text \<open>
  Verification of the console of \<open>nomoapi\<close>, the React application under \<open>src/web/src\<close>.  Paths below are relative to that
  directory.  The console edits the settings of an API gateway: it reads options and channels from the server, keeps them in
  forms and tables, checks and converts what the user types, and sends it back.  The theories model the code that decides
  what is sent and what is shown; what a component draws is not modelled.

  \<^bold>\<open>Conventions.\<close>  A pure function of the source is a function here.  A hook or component with state is a record, one
  definition for each handler and effect, and an \<open>inductive\<close> step relation of all events; an asynchronous handler is split at
  each \<open>await\<close>, and the waiting rest is part of the state, so that answers may come in any order.  A throw is \<open>Inl\<close> of a
  sum type.  The translation function, the clock, the answers of the server and \<open>toLowerCase\<close> are parameters.

  \<^bold>\<open>Language layer.\<close>
  \<^item> \<open>Js_Prelude\<close>: strings as lists of UTF-16 code units, \<open>trim\<close>, \<open>split\<close>, \<open>join\<close>, insertion-ordered stores for \<open>Map\<close> and
    plain objects (locale \<open>dictionary\<close>), the stable \<open>sort\<close> (locale \<open>comparator\<close>).
  \<^item> \<open>Js_Number\<close>, \<open>Js_Numeral\<close>: binary64 numbers as rounded rationals, with bounds on the rounding error; \<open>Number\<close>,
    \<open>parseFloat\<close>, \<open>parseInt\<close>, \<open>String\<close> (shortest digits that read back) and \<open>toFixed\<close>.
  \<^item> \<open>Js_Value\<close>, \<open>Js_Object\<close>, \<open>Js_Json\<close>: values, property access, spreads, \<open>JSON.parse\<close> and \<open>JSON.stringify\<close> with their round
    trip.  The parser runs on fuel \<open>2 * length s + 2\<close>; \<open>pval_fuel\<close> shows that more fuel never changes the result.
  \<^item> \<open>Http\<close>, \<open>State_Machine\<close>: requests and answers; reachability, and the locales \<open>invariant_machine\<close> and \<open>refinement\<close>, which
    every stateful component interprets on its own step relation.

  \<^bold>\<open>Settings.\<close>
  \<^item> \<open>Status_Code_Rules\<close> (\<open>helpers/statusCodeRules.js\<close>): the parser of HTTP status code rules accepts exactly the well-formed
    texts, its ranges mean the union of the tokens and are canonical, and its output reads back.
  \<^item> \<open>Pricing_Model\<close>, \<open>Pricing_Exact\<close>, \<open>Pricing_Rules\<close>, \<open>Pricing_State\<close>, \<open>Pricing_Save\<close>, \<open>Pricing_Editor\<close>
    (\<open>pages/Setting/Ratio/hooks/useModelPricingEditorState.js\<close>): the conversion between prices and ratios, when it throws and
    how the warnings announce it, the hook with its effects, and the submission.  Prices with at most twelve decimals, below
    4096 for the input price and below 1024 for those derived from it, are read back exactly; beyond these bounds the
    rounding of the division may show.
  \<^item> \<open>Settings_Page\<close>, \<open>Settings_Monitoring\<close> (\<open>pages/Setting\<close>): loading the options of the server, comparing, and saving, for
    eleven pages; the monitoring page takes its own way around the form.
  \<^item> \<open>Compat_Form\<close> (\<open>components/compat/Form.jsx\<close>): the form object is a refinement of a store of values.

  \<^bold>\<open>Channels.\<close>
  \<^item> \<open>Channel_Rows\<close>, \<open>Channel_Table\<close> (\<open>hooks/channels/useChannelsData.jsx\<close>): the rows of the table, grouped by tag, and the table
    as a state machine.  Rows are objects that handlers share: the lists made so far are kept in \<open>tb_lists\<close>, a handler captures
    the number of a list, and changes go to that list.  \<open>tables\<close> is the invariant (everything captured exists, loads have
    different numbers); on it rest what is shown when loads are answered in any order, and the two ways in which an old
    answer replaces newer rows.  Each answer brings objects of its own; that equal requests share one answer is left to
    \<open>Api_Client\<close>.
  \<^item> \<open>Status_Code_Guard\<close>, \<open>Channel_Submit\<close>, \<open>Channel_Form\<close>, \<open>Channel_Roundtrip\<close>
    (\<open>components/table/channels/modals/EditChannelModal.jsx\<close> and \<open>statusCodeRiskGuard.js\<close>): the form, its handlers, the checks
    and changes before a channel is sent, loading a channel, and that a saved channel opened and saved again sends the same.
  \<^item> \<open>Param_Operation\<close>, \<open>Param_Values\<close>, \<open>Param_Payload\<close>, \<open>Param_Rules\<close>, \<open>Param_Roundtrip\<close>, \<open>Param_Templates\<close>, \<open>Param_Modal\<close>,
    \<open>Param_Editor\<close> (\<open>components/table/channels/modals/ParamOverrideEditorModal.jsx\<close>): override operations, how they are read
    from and written to JSON, and the modal with its visual and JSON modes.
  \<^item> \<open>Upstream_Updates\<close> (\<open>hooks/channels/upstreamUpdateUtils.js\<close>, \<open>useChannelUpstreamUpdates.jsx\<close>): at most one job of each kind.

  \<^bold>\<open>Prices and quotas.\<close>
  \<^item> \<open>Model_Price\<close>, \<open>Model_Catalog\<close> (\<open>helpers/utils.jsx\<close>, \<open>hooks/model-pricing/useModelPricingData.jsx\<close>): the prices of a model,
    the group they are for, the order and the filters of the pricing page.
  \<^item> \<open>Quota\<close>, \<open>Bill\<close> (\<open>helpers/render.jsx\<close>, \<open>helpers/quota.js\<close>): amounts in the chosen currency, the round trip of an edited
    quota, and the texts with which the usage log explains a price.

  \<^bold>\<open>Access.\<close>
  \<^item> \<open>Sidebar\<close> (\<open>hooks/common/useSidebar.js\<close>, \<open>useUserPermissions.js\<close>): merging the configurations of administrator and user;
    the hook settles.
  \<^item> \<open>Base64\<close>, \<open>Passkey\<close>, \<open>Secure_Verification\<close> (\<open>helpers/base64.js\<close>, \<open>passkey.js\<close>, \<open>secureApiCall.js\<close>,
    \<open>services/secureVerification.js\<close>, \<open>hooks/common/useSecureVerification.jsx\<close>): encodings, and that a key is shown only
    after a verification.
  \<^item> \<open>Api_Client\<close> (\<open>helpers/api.js\<close>, \<open>showError\<close> of \<open>helpers/utils.jsx\<close>): equal requests in flight are shared, as a refinement of
    a client that keeps one request for each key; what errors show.

  \<^bold>\<open>Groups of lemmas.\<close>  Round trips (saving and loading prices, operations, channels, rules, quotas, Base64); exact
  conditions under which the code throws or warns; invariants of the step relations; refinements of the form and of the
  client; what is sent and what is never sent; and behaviour that contradicts what the code means to do, each stated as a
  theorem where it follows from the model.

  \<^bold>\<open>Not modelled.\<close>
  \<^item> The server (the Go packages), which is a parameter, and the Electron shell, which manages a process and a window.
  \<^item> JSX: layout, icons, translations, and the components that only draw.
  \<^item> Of \<open>useChannelsData.jsx\<close>: the visible columns, the lists of groups and models, the version query for Ollama, and testing
    models; of the channel form, the dialogs it opens.
  \<^item> The other tables (tokens, users, redemptions, logs, tasks, subscriptions), the dashboard, the playground, model
    deployments, the top-up and login pages, and the settings pages for OAuth, payment, performance and channel affinity.
    Most of them repeat the pattern of \<open>Channel_Table\<close> or \<open>Settings_Page\<close>.
\<close>

end
